(* ===== verification/Prelude.thy ===== *)
theory Prelude
  imports
    Main
    "HOL-Library.Char_ord"
    "HOL-Library.List_Lexorder"
    "HOL-Library.Finite_Map"
    "HOL-Library.Multiset"
    "HOL-Library.Product_Lexorder"
begin

section \<open>Prelude: Go values shared by every component\<close>

text \<open>
  What every component uses: the result type of a fallible Go function, Go maps with string
  keys, the first-occurrence scan of a slice keyed by a string, a selection loop over a
  three-way comparison, and \<open>sort.Slice\<close> over a \<open>less\<close> function. The two
  interfaces (a three-way comparison, a \<open>less\<close> function) are locales; the comparators
  of the program interpret them in the theories that define them.

  A Go \<open>string\<close> is a byte sequence, so it is HOL's \<^typ>\<open>string\<close> with one
  \<^typ>\<open>char\<close> per byte, ordered bytewise (HOL-Library.List_Lexorder over
  HOL-Library.Char_ord), which is the order of Go's \<open><\<close> and \<open>strings.Compare\<close>.
  A Go \<open>int64\<close> that is only compared is an \<^typ>\<open>int\<close>; arithmetic on an
  \<open>int64\<close> writes out what Go does at the limits.
\<close>

named_theorems go_defs \<open>the definitions of the small Go helpers, for unfolding\<close>

subsection \<open>Results and maps\<close>

text \<open>
  A Go function that returns \<open>(T, error)\<close> returns \<open>error + T\<close> here: \<open>Inl\<close>
  is the error return, \<open>Inr\<close> the value. A Go \<open>map[string]V\<close> is a finite map;
  two maps with the same entries are equal, as for \<open>reflect.DeepEqual\<close>.
\<close>

type_synonym 'v gomap = "(string, 'v) fmap"

abbreviation ok :: "'e + 'a \<Rightarrow> bool" where
  "ok r \<equiv> \<not> isl r"

lemma ok_iff: "ok r \<longleftrightarrow> (\<exists>x. r = Inr x)"
  by (cases r) auto

lemma fmlookup_overlay:
  "fmlookup (m ++\<^sub>f n) k = (case fmlookup n k of None \<Rightarrow> fmlookup m k | Some v \<Rightarrow> Some v)"
  by (auto simp: fmdom_notD split: option.splits dest: fmdomI)

text \<open>A byte that does not occur before the separator splits a string in one way only.\<close>

lemma split_at_separator:
  "c \<notin> set xs \<Longrightarrow> c \<notin> set ys \<Longrightarrow> xs @ c # us = ys @ c # vs \<longleftrightarrow> xs = ys \<and> us = vs"
proof (induction xs arbitrary: ys)
  case Nil
  then show ?case by (cases ys) auto
next
  case (Cons x xs)
  then show ?case by (cases ys) auto
qed

lemma split_at_last_separator:
  assumes "c \<notin> set us" "c \<notin> set vs"
  shows "xs @ c # us = ys @ c # vs \<longleftrightarrow> xs = ys \<and> us = vs"
proof -
  have "xs @ c # us = ys @ c # vs \<longleftrightarrow> rev (xs @ c # us) = rev (ys @ c # vs)"
    by (simp only: rev_is_rev_conv)
  also have "\<dots> \<longleftrightarrow> rev us @ c # rev xs = rev vs @ c # rev ys" by simp
  finally show ?thesis using split_at_separator [of c "rev us" "rev vs" "rev xs" "rev ys"] assms
    by auto
qed

lemma find_SomeI: "x \<in> set xs \<Longrightarrow> P x \<Longrightarrow> \<exists>y. find P xs = Some y \<and> y \<in> set xs \<and> P y"
  by (induction xs) auto

subsection \<open>A mapping that can fail\<close>

text \<open>The loop \<open>for _, x := range xs { y, err := f(x); if err != nil { return err }; ys = append(ys, y) }\<close>.\<close>

fun map_result :: "('a \<Rightarrow> 'e + 'b) \<Rightarrow> 'a list \<Rightarrow> 'e + 'b list" where
  "map_result f [] = Inr []"
| "map_result f (x # xs) =
     (case f x of
        Inl e \<Rightarrow> Inl e
      | Inr y \<Rightarrow> (case map_result f xs of Inl e \<Rightarrow> Inl e | Inr ys \<Rightarrow> Inr (y # ys)))"

lemma map_result_Inr_iff: "map_result f xs = Inr ys \<longleftrightarrow> map f xs = map Inr ys"
proof (induction xs arbitrary: ys)
  case (Cons x xs)
  show ?case
  proof (cases ys)
    case (Cons y ys')
    then show ?thesis using Cons.IH [of ys'] by (auto split: sum.splits)
  qed (auto split: sum.splits)
qed auto

lemma map_result_total:
  "(\<And>x. x \<in> set xs \<Longrightarrow> f x = Inr (g x)) \<Longrightarrow> map_result f xs = Inr (map g xs)"
  by (simp add: map_result_Inr_iff)

lemma map_Inr_ex_iff: "(\<exists>ys. map f xs = map Inr ys) \<longleftrightarrow> (\<forall>x\<in>set xs. ok (f x))"
proof (induction xs)
  case (Cons x xs)
  have "(\<exists>ys. map f (x # xs) = map Inr ys) \<longleftrightarrow> (\<exists>y. f x = Inr y) \<and> (\<exists>ys. map f xs = map Inr ys)"
    by (auto simp: Cons_eq_map_conv)
  then show ?case using Cons.IH by (simp add: ok_iff)
qed simp

lemma map_Inr_memD: "map f xs = map Inr ys \<Longrightarrow> y \<in> set ys \<Longrightarrow> \<exists>x\<in>set xs. f x = Inr y"
  by (metis (no_types, lifting) image_iff list.set_map)

subsection \<open>First occurrences\<close>

text \<open>
  A Go loop over a slice with a map \<open>seen\<close>: the elements whose key is new when they are
  reached, and the other ones. The set is the domain of \<open>seen\<close> when the loop starts.
\<close>

fun firsts :: "('a \<Rightarrow> 'k) \<Rightarrow> 'k set \<Rightarrow> 'a list \<Rightarrow> 'a list" where
  "firsts k S [] = []"
| "firsts k S (x # xs) =
     (if k x \<in> S then firsts k S xs else x # firsts k (insert (k x) S) xs)"

fun repeats :: "('a \<Rightarrow> 'k) \<Rightarrow> 'k set \<Rightarrow> 'a list \<Rightarrow> 'a list" where
  "repeats k S [] = []"
| "repeats k S (x # xs) =
     (if k x \<in> S then x # repeats k S xs else repeats k (insert (k x) S) xs)"

lemma mset_firsts_repeats: "mset (firsts k S xs) + mset (repeats k S xs) = mset xs"
  by (induction xs arbitrary: S) auto

lemma set_firsts_subset: "set (firsts k S xs) \<subseteq> set xs"
  by (induction xs arbitrary: S) auto

lemma set_repeats_subset: "set (repeats k S xs) \<subseteq> set xs"
  by (induction xs arbitrary: S) auto

lemma keys_firsts: "k ` set (firsts k S xs) = k ` set xs - S"
  by (induction xs arbitrary: S) auto

lemma distinct_keys_firsts: "distinct (map k (firsts k S xs))"
proof (induction xs arbitrary: S)
  case (Cons x xs)
  then show ?case using keys_firsts [of k "insert (k x) S" xs] by auto
qed simp

lemma repeats_empty_iff: "repeats k S xs = [] \<longleftrightarrow> distinct (map k xs) \<and> k ` set xs \<inter> S = {}"
  by (induction xs arbitrary: S) auto

subsection \<open>Three-way comparisons and the selection of the greatest\<close>

text \<open>
  The Go loop \<open>winner := c[0]; for _, x := range c[1:] { if cmp(x, winner) > 0 { winner = x } }\<close>.
\<close>

fun select_greatest :: "('a \<Rightarrow> 'a \<Rightarrow> int) \<Rightarrow> 'a \<Rightarrow> 'a list \<Rightarrow> 'a" where
  "select_greatest cmp w [] = w"
| "select_greatest cmp w (c # cs) = select_greatest cmp (if 0 < cmp c w then c else w) cs"

text \<open>
  The contract of a comparison function that returns a negative, zero or positive number: it
  decides the order of a key.
\<close>

locale three_way =
  fixes cmp :: "'a \<Rightarrow> 'a \<Rightarrow> int"
    and key :: "'a \<Rightarrow> 'k::linorder"
  assumes cmp_pos_iff: "0 < cmp x y \<longleftrightarrow> key y < key x"
    and cmp_neg_iff: "cmp x y < 0 \<longleftrightarrow> key x < key y"
begin

lemma cmp_zero_iff: "cmp x y = 0 \<longleftrightarrow> key x = key y"
  using cmp_pos_iff [of x y] cmp_neg_iff [of x y] by (metis linorder_cases less_irrefl)

lemma cmp_swap: "0 < cmp x y \<longleftrightarrow> cmp y x < 0"
  by (simp add: cmp_pos_iff cmp_neg_iff)

lemma cmp_trans: "0 < cmp x y \<Longrightarrow> 0 < cmp y z \<Longrightarrow> 0 < cmp x z"
  by (simp add: cmp_pos_iff)

lemma select_greatest_in: "select_greatest cmp x xs \<in> insert x (set xs)"
proof (induction xs arbitrary: x)
  case (Cons y ys)
  from Cons.IH [of "if 0 < cmp y x then y else x"] show ?case by (auto split: if_splits)
qed simp

lemma select_greatest_max: "y \<in> insert x (set xs) \<Longrightarrow> key y \<le> key (select_greatest cmp x xs)"
proof (induction xs arbitrary: x y)
  case (Cons z zs)
  define w where "w = (if 0 < cmp z x then z else x)"
  have "key x \<le> key w" "key z \<le> key w"
    by (auto simp: w_def cmp_pos_iff)
  moreover have "key v \<le> key (select_greatest cmp w zs)" if "v \<in> insert w (set zs)" for v
    using that by (rule Cons.IH)
  ultimately have "key y \<le> key (select_greatest cmp w zs)"
    using Cons.prems by (auto intro: order_trans)
  then show ?case by (simp add: w_def)
qed simp

text \<open>With injective keys the loop finds the one greatest element, whatever the order.\<close>

lemma select_greatest_unique:
  assumes "w \<in> insert x (set xs)" "\<And>y. y \<in> insert x (set xs) \<Longrightarrow> key y \<le> key w"
    and "inj_on key (insert x (set xs))"
  shows "select_greatest cmp x xs = w"
proof -
  let ?s = "select_greatest cmp x xs"
  have "key ?s = key w"
    using assms(1,2) select_greatest_in [of x xs] select_greatest_max [of w x xs]
    by (metis order_antisym)
  then show ?thesis using assms(1,3) select_greatest_in [of x xs] by (metis inj_onD)
qed

end

subsection \<open>sort.Slice\<close>

text \<open>
  \<open>sort.Slice(x, less)\<close> permutes \<open>x\<close> into an order in which no later element is
  \<open>less\<close> than an earlier one; it does not promise to keep equal elements in place. The
  model is an insertion sort (which Go itself uses up to twelve elements); the locale shows
  that, where the order has no ties, every result that \<open>sort.Slice\<close> may return is this one.
\<close>

fun slice_insert :: "('a \<Rightarrow> 'a \<Rightarrow> bool) \<Rightarrow> 'a \<Rightarrow> 'a list \<Rightarrow> 'a list" where
  "slice_insert lt x [] = [x]"
| "slice_insert lt x (y # ys) = (if lt y x then y # slice_insert lt x ys else x # y # ys)"

definition slice_sort :: "('a \<Rightarrow> 'a \<Rightarrow> bool) \<Rightarrow> 'a list \<Rightarrow> 'a list" where
  "slice_sort lt xs = foldr (slice_insert lt) xs []"

definition slice_sorted :: "('a \<Rightarrow> 'a \<Rightarrow> bool) \<Rightarrow> 'a list \<Rightarrow> bool" where
  "slice_sorted lt xs \<longleftrightarrow> sorted_wrt (\<lambda>x y. \<not> lt y x) xs"

locale less_order =
  fixes lt :: "'a \<Rightarrow> 'a \<Rightarrow> bool"
    and key :: "'a \<Rightarrow> 'k::linorder"
  assumes less_iff: "lt x y \<longleftrightarrow> key x < key y"
begin

lemma slice_sort_eq: "slice_sort lt xs = sort_key key xs"
proof -
  have "slice_insert lt x ys = insort_key key x ys" for x ys
    by (induction ys) (auto simp: less_iff)
  then have "slice_insert lt = insort_key key" by (intro ext)
  then show ?thesis by (simp add: slice_sort_def sort_key_def)
qed

lemma mset_slice_sort [simp]: "mset (slice_sort lt xs) = mset xs"
  by (simp add: slice_sort_eq)

lemma set_slice_sort [simp]: "set (slice_sort lt xs) = set xs"
  by (simp add: slice_sort_eq)

lemma slice_sorted_iff: "slice_sorted lt xs \<longleftrightarrow> sorted (map key xs)"
  by (simp add: slice_sorted_def less_iff sorted_map linorder_not_less)

lemma slice_sorted_sort: "slice_sorted lt (slice_sort lt xs)"
  by (simp add: slice_sorted_iff slice_sort_eq)

text \<open>No ties: the sorted permutation is unique.\<close>

lemma slice_sort_unique:
  assumes "mset ys = mset xs" "slice_sorted lt ys" "inj_on key (set xs)"
  shows "slice_sort lt xs = ys"
  using assms by (simp add: slice_sort_eq slice_sorted_iff sort_key_inj_key_eq)

lemma slice_sort_permute:
  assumes "mset ys = mset xs" "inj_on key (set xs)"
  shows "slice_sort lt ys = slice_sort lt xs"
  using slice_sort_unique [of "slice_sort lt ys" xs] assms slice_sorted_sort by simp

lemma slice_sort_filter:
  "slice_sort lt (filter P xs) = filter P (slice_sort lt xs)"
  by (simp add: slice_sort_eq filter_sort)

end

end
