(* ===== verification/GoText.thy ===== *)
theory GoText
  imports Prelude
begin

section \<open>The strings functions the program uses\<close>

text \<open>
  \<open>strings.TrimSpace\<close>, \<open>strings.ToLower\<close> and hexadecimal encoding over byte
  strings. \<open>TrimSpace\<close> removes Unicode white space; a byte string starts (ends) with a
  white-space rune exactly when it starts (ends) with the UTF-8 encoding of one, so the model
  works on the encodings. \<open>ToLower\<close> has Go's ASCII path written out; on a string with a
  non-ASCII byte it is the table of package \<open>unicode\<close>, a parameter.
\<close>

subsection \<open>White space\<close>

definition space_encodings :: "string list" where
  "space_encodings =
     [[CHR 0x09], [CHR 0x0A], [CHR 0x0B], [CHR 0x0C], [CHR 0x0D], [CHR 0x20],
      [CHR 0xC2, CHR 0x85], [CHR 0xC2, CHR 0xA0],
      [CHR 0xE1, CHR 0x9A, CHR 0x80],
      [CHR 0xE2, CHR 0x80, CHR 0x80], [CHR 0xE2, CHR 0x80, CHR 0x81],
      [CHR 0xE2, CHR 0x80, CHR 0x82], [CHR 0xE2, CHR 0x80, CHR 0x83],
      [CHR 0xE2, CHR 0x80, CHR 0x84], [CHR 0xE2, CHR 0x80, CHR 0x85],
      [CHR 0xE2, CHR 0x80, CHR 0x86], [CHR 0xE2, CHR 0x80, CHR 0x87],
      [CHR 0xE2, CHR 0x80, CHR 0x88], [CHR 0xE2, CHR 0x80, CHR 0x89],
      [CHR 0xE2, CHR 0x80, CHR 0x8A], [CHR 0xE2, CHR 0x80, CHR 0xA8],
      [CHR 0xE2, CHR 0x80, CHR 0xA9], [CHR 0xE2, CHR 0x80, CHR 0xAF],
      [CHR 0xE2, CHR 0x81, CHR 0x9F], [CHR 0xE3, CHR 0x80, CHR 0x80]]"

fun strip_prefix :: "'a list \<Rightarrow> 'a list \<Rightarrow> 'a list option" where
  "strip_prefix [] ys = Some ys"
| "strip_prefix (x # xs) [] = None"
| "strip_prefix (x # xs) (y # ys) = (if x = y then strip_prefix xs ys else None)"

fun strip_any :: "'a list list \<Rightarrow> 'a list \<Rightarrow> 'a list option" where
  "strip_any [] s = None"
| "strip_any (e # es) s = (case strip_prefix e s of None \<Rightarrow> strip_any es s | Some r \<Rightarrow> Some r)"

lemma strip_prefix_Some_iff: "strip_prefix p s = Some r \<longleftrightarrow> s = p @ r"
  by (induction p s rule: strip_prefix.induct) auto

lemma strip_prefix_None_iff: "strip_prefix p s = None \<longleftrightarrow> (\<forall>r. s \<noteq> p @ r)"
  by (metis not_None_eq strip_prefix_Some_iff)

lemma strip_any_SomeD: "strip_any es s = Some r \<Longrightarrow> \<exists>e\<in>set es. s = e @ r"
  by (induction es) (auto simp: strip_prefix_Some_iff split: option.splits)

lemma strip_any_None_iff: "strip_any es s = None \<longleftrightarrow> (\<forall>e\<in>set es. \<forall>r. s \<noteq> e @ r)"
  by (induction es) (auto simp: strip_prefix_None_iff strip_prefix_Some_iff split: option.splits)

text \<open>Remove leading elements of a list of non-empty patterns as long as there is one.\<close>

function trim_front :: "'a list list \<Rightarrow> 'a list \<Rightarrow> 'a list" where
  "trim_front es s =
     (case strip_any (filter (\<lambda>e. e \<noteq> []) es) s of None \<Rightarrow> s | Some r \<Rightarrow> trim_front es r)"
  by pat_completeness auto
termination
  by (relation "measure (\<lambda>(es, s). length s)") (auto dest!: strip_any_SomeD)

declare trim_front.simps [simp del]

definition trim_space :: "string \<Rightarrow> string" where
  "trim_space s = rev (trim_front (map rev space_encodings) (rev (trim_front space_encodings s)))"

lemma space_encodings_nonempty: "\<forall>e\<in>set space_encodings. e \<noteq> []"
  by (simp add: space_encodings_def)

lemma trim_front_suffix: "\<exists>p. s = p @ trim_front es s"
proof (induction es s rule: trim_front.induct)
  case (1 es s)
  show ?case
  proof (cases "strip_any (filter (\<lambda>e. e \<noteq> []) es) s")
    case None
    then show ?thesis by (simp add: trim_front.simps [of es s])
  next
    case (Some r)
    then obtain e where "s = e @ r" by (auto dest: strip_any_SomeD)
    moreover obtain p where "r = p @ trim_front es r" using "1.IH" [OF Some] by blast
    moreover have "trim_front es s = trim_front es r"
      by (simp add: trim_front.simps [of es s] Some)
    ultimately have "s = (e @ p) @ trim_front es s" by (metis append.assoc)
    then show ?thesis by blast
  qed
qed

lemma trim_front_clean:
  "e \<in> set es \<Longrightarrow> e \<noteq> [] \<Longrightarrow> trim_front es s \<noteq> e @ r"
proof (induction es s rule: trim_front.induct)
  case (1 es s)
  show ?case
  proof (cases "strip_any (filter (\<lambda>e. e \<noteq> []) es) s")
    case None
    then have "\<forall>r. s \<noteq> e @ r" using "1.prems" by (auto simp: strip_any_None_iff)
    then show ?thesis using None by (simp add: trim_front.simps [of es s])
  next
    case (Some r')
    then show ?thesis using "1.IH" [OF Some "1.prems"] by (simp add: trim_front.simps [of es s])
  qed
qed

lemma trim_front_id:
  assumes "\<And>e r. e \<in> set es \<Longrightarrow> e \<noteq> [] \<Longrightarrow> s \<noteq> e @ r"
  shows "trim_front es s = s"
proof -
  have "strip_any (filter (\<lambda>e. e \<noteq> []) es) s = None"
    using assms by (auto simp: strip_any_None_iff)
  then show ?thesis by (simp add: trim_front.simps [of es s])
qed

text \<open>A trimmed string has no white space at either end, and trimming it again changes nothing.\<close>

lemma trim_space_no_leading:
  assumes "e \<in> set space_encodings"
  shows "trim_space s \<noteq> e @ r"
proof
  assume eq: "trim_space s = e @ r"
  let ?t = "trim_front space_encodings s"
  obtain q where "rev ?t = q @ rev (trim_space s)"
    using trim_front_suffix [of "rev ?t" "map rev space_encodings"] by (auto simp: trim_space_def)
  then have "rev (rev ?t) = rev (q @ rev (trim_space s))" by simp
  then have "?t = e @ (r @ rev q)" by (simp add: eq)
  then show False using assms space_encodings_nonempty trim_front_clean by metis
qed

lemma trim_space_no_trailing:
  assumes "e \<in> set space_encodings"
  shows "trim_space s \<noteq> r @ e"
proof
  assume eq: "trim_space s = r @ e"
  have "rev e \<in> set (map rev space_encodings)" "rev e \<noteq> []"
    using assms space_encodings_nonempty by auto
  then have "trim_front (map rev space_encodings) (rev (trim_front space_encodings s)) \<noteq> rev e @ rev r"
    by (rule trim_front_clean)
  moreover have "rev (trim_space s) = rev e @ rev r" by (simp add: eq)
  ultimately show False by (simp add: trim_space_def)
qed

lemma trim_space_idem [simp]: "trim_space (trim_space s) = trim_space s"
proof -
  have "trim_front space_encodings (trim_space s) = trim_space s"
    by (rule trim_front_id) (use trim_space_no_leading in blast)
  moreover have "trim_front (map rev space_encodings) (rev (trim_space s)) = rev (trim_space s)"
  proof (rule trim_front_id)
    fix e r
    assume "e \<in> set (map rev space_encodings)"
    then obtain f where f: "f \<in> set space_encodings" "e = rev f" by auto
    show "rev (trim_space s) \<noteq> e @ r"
    proof
      assume "rev (trim_space s) = e @ r"
      then have "rev (rev (trim_space s)) = rev (e @ r)" by simp
      then have "trim_space s = rev r @ f" by (simp add: f)
      then show False using trim_space_no_trailing [OF f(1)] by blast
    qed
  qed
  ultimately show ?thesis by (simp add: trim_space_def)
qed

subsection \<open>Lower case\<close>

definition is_ascii :: "char \<Rightarrow> bool" where
  "is_ascii c \<longleftrightarrow> (of_char c :: nat) < 128"

definition lower_byte :: "char \<Rightarrow> char" where
  "lower_byte c = (if CHR ''A'' \<le> c \<and> c \<le> CHR ''Z'' then char_of ((of_char c :: nat) + 32) else c)"

text \<open>\<open>lower_unicode\<close> is \<open>strings.Map(unicode.ToLower, s)\<close>, taken only off the ASCII path.\<close>

definition to_lower :: "(string \<Rightarrow> string) \<Rightarrow> string \<Rightarrow> string" where
  "to_lower lower_unicode s =
     (if list_all is_ascii s then map lower_byte s else lower_unicode s)"

lemma lower_byte_ascii: "is_ascii c \<Longrightarrow> is_ascii (lower_byte c)"
proof (cases "CHR ''A'' \<le> c \<and> c \<le> CHR ''Z''")
  case True
  then have "(of_char c :: nat) \<le> 90" by (simp add: less_eq_char_def)
  then have "(of_char c + 32 :: nat) < 128" by simp
  then show ?thesis using True by (simp add: lower_byte_def is_ascii_def)
qed (auto simp: lower_byte_def)

lemma lower_byte_idem: "lower_byte (lower_byte c) = lower_byte c"
proof (cases "CHR ''A'' \<le> c \<and> c \<le> CHR ''Z''")
  case True
  then have "65 \<le> (of_char c :: nat)" "(of_char c :: nat) \<le> 90" by (simp_all add: less_eq_char_def)
  then have "\<not> char_of ((of_char c :: nat) + 32) \<le> CHR ''Z''" by (simp add: less_eq_char_def)
  then show ?thesis using True by (simp add: lower_byte_def)
qed (auto simp: lower_byte_def)

lemma to_lower_ascii: "list_all is_ascii s \<Longrightarrow> list_all is_ascii (to_lower lu s)"
  by (simp add: to_lower_def list_all_iff lower_byte_ascii)

lemma to_lower_idem_ascii: "list_all is_ascii s \<Longrightarrow> to_lower lu (to_lower lu s) = to_lower lu s"
  using to_lower_ascii [of s lu] by (simp add: to_lower_def lower_byte_idem)

subsection \<open>Hexadecimal\<close>

definition hex_digit :: "nat \<Rightarrow> char" where
  "hex_digit n = ''0123456789abcdef'' ! (n mod 16)"

text \<open>\<open>hex.EncodeToString\<close>\<close>

definition hex_encode :: "string \<Rightarrow> string" where
  "hex_encode bs =
     concat (map (\<lambda>b. [hex_digit (of_char b div 16), hex_digit (of_char b mod 16)]) bs)"

lemma length_hex_encode: "length (hex_encode bs) = 2 * length bs"
  by (induction bs) (auto simp: hex_encode_def)

end
