(* ===== verification/GoTime.thy ===== *)
theory GoTime
  imports GoText
begin

section \<open>time.Time, time.Duration and the RFC 3339 format\<close>

text \<open>
  A \<open>time.Time\<close> is an instant and a location. The instant is counted in nanoseconds from
  the zero time (January 1 of year 1, 00:00 UTC), as Go's \<open>sec\<close> and \<open>nsec\<close> fields
  do; the location is UTC or a fixed offset. A monotonic reading is left out: every comparison
  of the program has an operand that went through \<open>normalizeTime\<close>, whose
  \<open>Round(0)\<close> drops it, and Go then compares instants. A \<open>time.Duration\<close> is an
  \<open>int64\<close> of nanoseconds.

  \<open>Add\<close> and \<open>Sub\<close> saturate as in package \<open>time\<close>. The lemmas at the end show
  that the RFC 3339 text of a UTC time determines the instant, which the fact key needs.
\<close>

subsection \<open>Instants\<close>

datatype location = UTC | Offset int

record go_time =
  tm_nanos :: int
  tm_loc :: location

definition zero_time :: go_time where
  "zero_time = \<lparr>tm_nanos = 0, tm_loc = UTC\<rparr>"

definition is_zero :: "go_time \<Rightarrow> bool" where
  "is_zero t \<longleftrightarrow> tm_nanos t = 0"

definition before :: "go_time \<Rightarrow> go_time \<Rightarrow> bool" where
  "before t u \<longleftrightarrow> tm_nanos t < tm_nanos u"

definition after :: "go_time \<Rightarrow> go_time \<Rightarrow> bool" where
  "after t u \<longleftrightarrow> tm_nanos t > tm_nanos u"

definition normalize_time :: "go_time \<Rightarrow> go_time" where
  "normalize_time t = (if is_zero t then zero_time else t\<lparr>tm_loc := UTC\<rparr>)"

lemma normalize_time_nanos [simp]: "tm_nanos (normalize_time t) = tm_nanos t"
  by (simp add: normalize_time_def zero_time_def is_zero_def)

lemma normalize_time_loc [simp]: "tm_loc (normalize_time t) = UTC"
  by (simp add: normalize_time_def zero_time_def)

lemma normalize_time_eq_iff: "normalize_time t = normalize_time u \<longleftrightarrow> tm_nanos t = tm_nanos u"
proof
  assume "tm_nanos t = tm_nanos u"
  then show "normalize_time t = normalize_time u"
    by (intro go_time.equality) simp_all
qed (metis normalize_time_nanos)

lemma normalize_time_idem [simp]: "normalize_time (normalize_time t) = normalize_time t"
  by (simp add: normalize_time_eq_iff)

lemma is_zero_normalize [simp]: "is_zero (normalize_time t) = is_zero t"
  by (simp add: is_zero_def)

lemma utc_time_eq_iff:
  fixes t u :: go_time
  shows "tm_loc t = UTC \<Longrightarrow> tm_loc u = UTC \<Longrightarrow> t = u \<longleftrightarrow> tm_nanos t = tm_nanos u"
  by (cases t; cases u) auto

subsection \<open>Durations\<close>

definition second_ns :: int where "second_ns = 1000000000"
definition hour_ns :: int where "hour_ns = 3600 * second_ns"
definition max_int64 :: int where "max_int64 = 9223372036854775807"
definition min_int64 :: int where "min_int64 = - 9223372036854775808"

text \<open>\<open>Time.Add\<close>: the seconds field saturates, the nanoseconds within the second do not.\<close>

definition time_add :: "go_time \<Rightarrow> int \<Rightarrow> go_time" where
  "time_add t d =
     (let total = tm_nanos t + d; sec = total div second_ns; nsec = total mod second_ns in
      t\<lparr>tm_nanos :=
          (if sec > max_int64 then max_int64 * second_ns + nsec
           else if sec < min_int64 then - max_int64 * second_ns + nsec
           else total)\<rparr>)"

text \<open>\<open>Time.Sub\<close>: the difference, or the extreme duration where it does not fit.\<close>

definition time_sub :: "go_time \<Rightarrow> go_time \<Rightarrow> int" where
  "time_sub t u =
     (let d = tm_nanos t - tm_nanos u in
      if d > max_int64 then max_int64 else if d < min_int64 then min_int64 else d)"

text \<open>Instants whose seconds field is an \<open>int64\<close> with room for any duration.\<close>

definition time_in_range :: "go_time \<Rightarrow> bool" where
  "time_in_range t \<longleftrightarrow>
     (min_int64 + 10000000000) * second_ns \<le> tm_nanos t \<and>
     tm_nanos t \<le> (max_int64 - 10000000000) * second_ns"

lemma time_add_exact:
  assumes "time_in_range t" "min_int64 \<le> d" "d \<le> max_int64"
  shows "tm_nanos (time_add t d) = tm_nanos t + d"
proof -
  have "(tm_nanos t + d) div second_ns \<le> max_int64" "min_int64 \<le> (tm_nanos t + d) div second_ns"
    using assms by (auto simp: time_in_range_def second_ns_def max_int64_def min_int64_def)
  then show ?thesis by (simp add: time_add_def Let_def)
qed

lemma time_sub_le_iff: "d < max_int64 \<Longrightarrow> min_int64 \<le> d \<Longrightarrow>
   time_sub t u \<le> d \<longleftrightarrow> tm_nanos t \<le> tm_nanos u + d"
  by (auto simp: time_sub_def Let_def)

subsection \<open>Decimal fields\<close>

definition digit_char :: "int \<Rightarrow> char" where
  "digit_char n = ''0123456789'' ! nat (n mod 10)"

function digits :: "int \<Rightarrow> string" where
  "digits n = (if n < 10 then [digit_char n] else digits (n div 10) @ [digit_char n])"
  by pat_completeness auto
termination by (relation "measure nat") auto

declare digits.simps [simp del]

definition pad :: "nat \<Rightarrow> int \<Rightarrow> string" where
  "pad w n = (let ds = digits n in replicate (w - length ds) (CHR ''0'') @ ds)"

fun dec_value :: "int \<Rightarrow> string \<Rightarrow> int" where
  "dec_value acc [] = acc"
| "dec_value acc (c # cs) = dec_value (10 * acc + (of_char c - 48)) cs"

lemma mod_10_cases:
  fixes n :: int
  obtains "n mod 10 = 0" | "n mod 10 = 1" | "n mod 10 = 2" | "n mod 10 = 3" | "n mod 10 = 4"
    | "n mod 10 = 5" | "n mod 10 = 6" | "n mod 10 = 7" | "n mod 10 = 8" | "n mod 10 = 9"
proof -
  have "n mod 10 = 0 \<or> n mod 10 = 1 \<or> n mod 10 = 2 \<or> n mod 10 = 3 \<or> n mod 10 = 4 \<or>
    n mod 10 = 5 \<or> n mod 10 = 6 \<or> n mod 10 = 7 \<or> n mod 10 = 8 \<or> n mod 10 = 9" by presburger
  then show thesis using that by metis
qed

lemma of_char_digit: "(of_char (digit_char n) :: int) = 48 + n mod 10"
  by (rule mod_10_cases [of n]) (simp_all add: digit_char_def)

definition is_digit :: "char \<Rightarrow> bool" where
  "is_digit c \<longleftrightarrow> CHR ''0'' \<le> c \<and> c \<le> CHR ''9''"

lemma is_digit_digit_char: "is_digit (digit_char n)"
  by (rule mod_10_cases [of n]) (simp_all add: digit_char_def is_digit_def)

lemma dec_value_append: "dec_value acc (xs @ ys) = dec_value (dec_value acc xs) ys"
  by (induction xs arbitrary: acc) auto

lemma dec_value_zeros: "dec_value 0 (replicate k (CHR ''0'')) = 0"
  by (induction k) auto

lemma dec_value_digits: "0 \<le> n \<Longrightarrow> dec_value 0 (digits n) = n"
proof (induction n rule: digits.induct)
  case (1 n)
  show ?case
  proof (cases "n < 10")
    case True
    then show ?thesis using "1.prems" by (simp add: digits.simps [of n] of_char_digit)
  next
    case False
    then have "dec_value 0 (digits (n div 10)) = n div 10" by (intro "1.IH") auto
    then show ?thesis using False by (simp add: digits.simps [of n] dec_value_append of_char_digit)
  qed
qed

lemma digits_all_digit: "list_all is_digit (digits n)"
proof (induction n rule: digits.induct)
  case (1 n)
  then show ?case
    by (cases "n < 10") (simp_all add: digits.simps [of n] is_digit_digit_char)
qed

lemma pad_all_digit: "list_all is_digit (pad w n)"
proof -
  have "is_digit (CHR ''0'')" by (simp add: is_digit_def)
  then show ?thesis by (auto simp: pad_def Let_def list_all_iff digits_all_digit [unfolded list_all_iff])
qed

lemma dec_value_pad: "0 \<le> n \<Longrightarrow> dec_value 0 (pad w n) = n"
  by (simp add: pad_def Let_def dec_value_append dec_value_zeros dec_value_digits)

lemma pad_inj: "0 \<le> m \<Longrightarrow> 0 \<le> n \<Longrightarrow> pad w m = pad v n \<Longrightarrow> m = n"
  by (metis dec_value_pad)

lemma length_digits: "n < 10 ^ Suc k \<Longrightarrow> length (digits n) \<le> Suc k"
proof (induction k arbitrary: n)
  case 0
  then show ?case by (simp add: digits.simps [of n])
next
  case (Suc k)
  show ?case
  proof (cases "n < 10")
    case True
    then show ?thesis by (simp add: digits.simps [of n])
  next
    case False
    have "n div 10 < 10 ^ Suc k" using Suc.prems by simp
    then show ?thesis using Suc.IH [of "n div 10"] False by (simp add: digits.simps [of n])
  qed
qed

lemma length_pad: "n < 10 ^ Suc k \<Longrightarrow> length (pad (Suc k) n) = Suc k"
  using length_digits [of n k] by (simp add: pad_def Let_def)


subsection \<open>The civil calendar\<close>

text \<open>
  The year and the day of the year of a day count (day 0 is January 1 of year 1), in the cycles
  of 400, 100, 4 and 1 years that package \<open>time\<close> uses; the last 100-year cycle and the
  last year of a cycle have a day more, which is what the cut back by \<open>n div 4\<close> is for.
\<close>

definition civil_year :: "int \<Rightarrow> int \<times> int" where
  "civil_year days =
     (let n400 = days div 146097; d1 = days mod 146097;
          n100 = d1 div 36524 - d1 div 36524 div 4; d2 = d1 - 36524 * n100;
          n4 = d2 div 1461; d3 = d2 - 1461 * n4;
          n1 = d3 div 365 - d3 div 365 div 4
      in (400 * n400 + 100 * n100 + 4 * n4 + n1 + 1, d3 - 365 * n1))"

definition is_leap :: "int \<Rightarrow> bool" where
  "is_leap y \<longleftrightarrow> y mod 4 = 0 \<and> (y mod 100 \<noteq> 0 \<or> y mod 400 = 0)"

definition days_before :: "int list" where
  "days_before = [0, 31, 59, 90, 120, 151, 181, 212, 243, 273, 304, 334, 365]"

definition plain_month_day :: "int \<Rightarrow> int \<times> int" where
  "plain_month_day day =
     (let m = day div 31; end_day = days_before ! nat (m + 1)
      in if end_day \<le> day then (m + 2, day - end_day + 1)
         else (m + 1, day - days_before ! nat m + 1))"
definition month_day :: "bool \<Rightarrow> int \<Rightarrow> int \<times> int" where
  "month_day leap yday =
     (if leap \<and> yday = 59 then (2, 29)
      else plain_month_day (if leap \<and> 59 < yday then yday - 1 else yday))"

lemma cut_back:
  fixes c d :: int
  assumes "0 < c" "0 \<le> d" "d \<le> 4 * c"
  defines "n \<equiv> d div c - d div c div 4"
  shows "0 \<le> n" "n \<le> 3" "0 \<le> d - c * n" "d - c * n \<le> c"
    and "d - c * n = c \<Longrightarrow> n = 3 \<and> d = 4 * c"
proof -
  define k where "k = d div c"
  have k: "c * k \<le> d" "d < c * k + c"
    using assms(1) unfolding k_def
    by (simp_all add: mult.commute div_mult_mod_eq [symmetric] minus_mod_eq_mult_div [symmetric])
  have "0 \<le> k" using assms unfolding k_def by (simp add: pos_imp_zdiv_nonneg_iff)
  moreover have "k \<le> 4"
    using zdiv_mono1 [OF assms(3) assms(1)] assms(1) by (simp add: k_def)
  ultimately have "k = 0 \<or> k = 1 \<or> k = 2 \<or> k = 3 \<or> k = 4" by linarith
  then show "0 \<le> n" "n \<le> 3" "0 \<le> d - c * n" "d - c * n \<le> c"
    "d - c * n = c \<Longrightarrow> n = 3 \<and> d = 4 * c"
    using k assms(1,3) unfolding n_def k_def [symmetric] by (elim disjE; simp; linarith)+
qed

text \<open>The inverse of \<open>civil_year\<close>, and the bounds of its parts.\<close>

lemma civil_year_parts:
  assumes "civil_year days = (y, yd)"
  shows "days = 146097 * ((y - 1) div 400) + 36524 * ((y - 1) mod 400 div 100)
           + 1461 * ((y - 1) mod 100 div 4) + 365 * ((y - 1) mod 4) + yd"
    and "0 \<le> yd" "yd \<le> 365" "yd = 365 \<Longrightarrow> is_leap y"
proof -
  define a d1 n100 d2 n4 d3 n1 where "a = days div 146097" and "d1 = days mod 146097"
    and "n100 = d1 div 36524 - d1 div 36524 div 4" and "d2 = d1 - 36524 * n100"
    and "n4 = d2 div 1461" and "d3 = d2 - 1461 * n4" and "n1 = d3 div 365 - d3 div 365 div 4"
  have "civil_year days = (400 * a + 100 * n100 + 4 * n4 + n1 + 1, d3 - 365 * n1)"
    by (simp only: civil_year_def Let_def a_def d1_def n100_def d2_def n4_def d3_def n1_def)
  then have y: "y - 1 = 400 * a + 100 * n100 + 4 * n4 + n1" and yd: "yd = d3 - 365 * n1"
    using assms by simp_all
  have days: "days = 146097 * a + d1" by (simp add: a_def d1_def)
  have d1: "0 \<le> d1" "d1 \<le> 4 * 36524"
    using pos_mod_bound [of 146097 days] by (simp_all add: d1_def)
  have n100: "0 \<le> n100" "n100 \<le> 3" and d2: "0 \<le> d2" "d2 \<le> 36524" "d2 = 36524 \<Longrightarrow> n100 = 3"
    using cut_back [of 36524 d1, folded n100_def, folded d2_def] d1 by auto
  have d3: "d3 = d2 mod 1461" by (simp add: d3_def n4_def minus_mult_div_eq_mod)
  have d3b: "0 \<le> d3" "d3 \<le> 4 * 365"
    using pos_mod_bound [of 1461 d2] by (simp_all add: d3)
  have n4: "0 \<le> n4" "n4 \<le> 24"
    using d2 d3b d3_def by linarith+
  have leap4: "n4 = 24 \<Longrightarrow> d3 = 1460 \<Longrightarrow> n100 = 3" using d2 d3_def by linarith
  have n1: "0 \<le> n1" "n1 \<le> 3" and yd_b: "0 \<le> yd" "yd \<le> 365"
    and yd': "yd = 365 \<Longrightarrow> n1 = 3 \<and> d3 = 1460"
    using cut_back [of 365 d3, folded n1_def, folded yd] d3b by auto
  define r where "r = 100 * n100 + 4 * n4 + n1"
  have r: "0 \<le> r" "r < 400" and y400: "y - 1 = 400 * a + r"
    using y n100 n4 n1 unfolding r_def by linarith+
  have y100: "y - 1 = 100 * (4 * a + n100) + (4 * n4 + n1)" and low: "0 \<le> 4 * n4 + n1" "4 * n4 + n1 < 100"
    using y n4 n1 by auto
  have y4': "y - 1 = 4 * (100 * a + 25 * n100 + n4) + n1" and n1': "n1 < 4"
    using y n1 by auto
  have r100: "r = 100 * n100 + (4 * n4 + n1)" unfolding r_def by linarith
  have "(y - 1) div 400 = a" by (rule int_div_pos_eq [OF y400 r])
  moreover have "(y - 1) mod 400 div 100 = n100"
    unfolding int_mod_pos_eq [OF y400 r] by (rule int_div_pos_eq [OF r100 low])
  moreover have "(y - 1) mod 100 div 4 = n4"
    unfolding int_mod_pos_eq [OF y100 low] by (rule int_div_pos_eq [OF refl n1(1) n1'])
  moreover have "(y - 1) mod 4 = n1" by (rule int_mod_pos_eq [OF y4' n1(1) n1'])
  ultimately show "days = 146097 * ((y - 1) div 400) + 36524 * ((y - 1) mod 400 div 100)
           + 1461 * ((y - 1) mod 100 div 4) + 365 * ((y - 1) mod 4) + yd"
    using days yd d3_def d2_def by linarith
  show "0 \<le> yd" "yd \<le> 365" by (fact yd_b)+
  assume "yd = 365"
  then have n: "n1 = 3" "n4 = 24 \<Longrightarrow> n100 = 3" using yd' leap4 by auto
  have y4: "y = 4 * (100 * a + 25 * n100 + n4 + 1)" using y n(1) by simp
  show "is_leap y"
  proof (cases "n4 = 24")
    case True
    then have "y = 400 * (a + 1)" using y n by simp
    then show ?thesis by (simp add: is_leap_def)
  next
    case False
    then have "4 * n4 + 4 < 100" using n4 by linarith
    moreover have "y = 100 * (4 * a + n100) + (4 * n4 + 4)" using y n(1) by auto
    moreover have "0 \<le> 4 * n4 + 4" using n4 by simp
    ultimately have "y mod 100 = 4 * n4 + 4" by (rule int_mod_pos_eq [rotated 2])
    then show ?thesis using y4 n4 by (simp add: is_leap_def)
  qed
qed

lemma civil_year_inj: "civil_year d = civil_year e \<Longrightarrow> d = e"
  using civil_year_parts(1) by (metis surj_pair)

text \<open>The day of the year from month and day.\<close>

definition year_day :: "bool \<Rightarrow> int \<times> int \<Rightarrow> int" where
  "year_day leap md =
     days_before ! nat (fst md - 1) + snd md - 1 + (if leap \<and> 2 < fst md then 1 else 0)"

lemma days_before_table:
  "list_all (\<lambda>m. days_before ! nat m \<le> 31 * m \<and> 31 * m \<le> days_before ! nat (m + 1) \<and>
      days_before ! nat (m + 1) \<le> days_before ! nat m + 31) [0..11]"
  by code_simp

lemma plain_month_day_correct:
  assumes "0 \<le> day" "day \<le> 364"
  defines "md \<equiv> plain_month_day day"
  shows "1 \<le> fst md" "fst md \<le> 12" "1 \<le> snd md" "snd md \<le> 31"
    and "days_before ! nat (fst md - 1) + snd md - 1 = day"
    and "fst md \<le> 2 \<longleftrightarrow> day < 59"
proof -
  define m where "m = day div 31"
  define lo hi where "lo = days_before ! nat m" and "hi = days_before ! nat (m + 1)"
  have b: "31 * m \<le> day" "day < 31 * m + 31"
    unfolding m_def by simp_all
  then have m: "0 \<le> m" "m \<le> 11" using assms by linarith+
  then have t: "lo \<le> 31 * m" "31 * m \<le> hi" "hi \<le> lo + 31"
    using days_before_table by (auto simp: list_all_iff lo_def hi_def)
  have last: "m = 11 \<Longrightarrow> hi = 365" by (simp add: hi_def days_before_def)
  have md: "md = (if hi \<le> day then (m + 2, day - hi + 1) else (m + 1, day - lo + 1))"
    by (simp add: md_def plain_month_day_def Let_def m_def lo_def hi_def)
  show "1 \<le> fst md" "1 \<le> snd md" using md b m t by auto
  show "snd md \<le> 31" using md b t by auto
  show "fst md \<le> 12"
  proof (cases "m = 11")
    case True
    then show ?thesis using md last assms by simp
  next
    case False
    then show ?thesis using md m by simp
  qed
  show "days_before ! nat (fst md - 1) + snd md - 1 = day"
    by (simp add: md lo_def hi_def add.commute)
  consider "m = 0" | "m = 1" | "2 \<le> m" using m by linarith
  then show "fst md \<le> 2 \<longleftrightarrow> day < 59"
  proof cases
    case 1
    then show ?thesis using b md by (simp add: hi_def days_before_def)
  next
    case 2
    then show ?thesis using b md by (simp add: hi_def days_before_def)
  next
    case 3
    then show ?thesis using b md by auto
  qed
qed

lemma month_day_correct:
  assumes "0 \<le> yd" "yd \<le> 365" "yd = 365 \<Longrightarrow> leap"
  shows "year_day leap (month_day leap yd) = yd"
    and "1 \<le> fst (month_day leap yd)" "fst (month_day leap yd) \<le> 12"
    and "1 \<le> snd (month_day leap yd)" "snd (month_day leap yd) \<le> 31"
proof -
  let ?d = "if leap \<and> 59 < yd then yd - 1 else yd"
  have "\<not> leap \<Longrightarrow> yd \<le> 364" using assms(2,3) by (cases "yd = 365") auto
  then have d: "0 \<le> ?d" "?d \<le> 364" using assms(1,2) by auto
  have "yd = 59 \<and> leap \<or> month_day leap yd = plain_month_day ?d" by (simp add: month_day_def)
  then show "year_day leap (month_day leap yd) = yd"
    "1 \<le> fst (month_day leap yd)" "fst (month_day leap yd) \<le> 12"
    "1 \<le> snd (month_day leap yd)" "snd (month_day leap yd) \<le> 31"
    using plain_month_day_correct [OF d] assms
    by (auto simp: month_day_def year_day_def days_before_def not_le split: if_splits)
qed
lemma month_day_inj:
  assumes "0 \<le> yd" "yd \<le> 365" "yd = 365 \<Longrightarrow> leap" "0 \<le> yd'" "yd' \<le> 365" "yd' = 365 \<Longrightarrow> leap"
    and "month_day leap yd = month_day leap yd'"
  shows "yd = yd'"
  using assms month_day_correct(1) by metis

subsection \<open>RFC 3339 with nanoseconds\<close>

definition day_seconds :: int where "day_seconds = 86400"

definition format_year :: "int \<Rightarrow> string" where
  "format_year y = (if y < 0 then CHR ''-'' # pad 4 (- y) else pad 4 y)"

definition format_date :: "int \<Rightarrow> string" where
  "format_date days =
     (let (y, yd) = civil_year days; (m, d) = month_day (is_leap y) yd
      in format_year y @ CHR ''-'' # pad 2 m @ CHR ''-'' # pad 2 d)"

definition format_clock :: "int \<Rightarrow> string" where
  "format_clock s =
     pad 2 (s div 3600) @ CHR '':'' # pad 2 (s div 60 mod 60) @ CHR '':'' # pad 2 (s mod 60)"

text \<open>The fraction drops trailing zeros, and the point with them when nothing is left.\<close>

definition trim_zeros :: "string \<Rightarrow> string" where
  "trim_zeros s = rev (dropWhile (\<lambda>c. c = CHR ''0'') (rev s))"

definition format_fraction :: "int \<Rightarrow> string" where
  "format_fraction ns = (let f = trim_zeros (pad 9 ns) in if f = [] then [] else CHR ''.'' # f)"

definition format_offset :: "location \<Rightarrow> string" where
  "format_offset l =
     (case l of UTC \<Rightarrow> ''Z''
      | Offset s \<Rightarrow>
          (if s = 0 then ''Z''
           else (if s < 0 then CHR ''-'' else CHR ''+'') #
                pad 2 (\<bar>s\<bar> div 3600) @ CHR '':'' # pad 2 (\<bar>s\<bar> div 60 mod 60)))"

text \<open>\<open>Time.Format(time.RFC3339Nano)\<close>\<close>

definition format_rfc3339nano :: "go_time \<Rightarrow> string" where
  "format_rfc3339nano t =
     (let offset = (case tm_loc t of UTC \<Rightarrow> 0 | Offset s \<Rightarrow> s);
          ns = tm_nanos t + offset * second_ns;
          sec = ns div second_ns
      in format_date (sec div day_seconds) @ CHR ''T'' # format_clock (sec mod day_seconds) @
         format_fraction (ns mod second_ns) @ format_offset (tm_loc t))"


subsection \<open>The text determines the instant\<close>

lemma not_digit [simp]:
  "\<not> is_digit (CHR ''-'')" "\<not> is_digit (CHR ''T'')" "\<not> is_digit (CHR '':'')"
  "\<not> is_digit (CHR ''Z'')" "\<not> is_digit (CHR ''.'')" "\<not> is_digit (CHR 0x1F)"
  by (simp_all add: is_digit_def)

lemma pad_no_char: "\<not> is_digit c \<Longrightarrow> c \<notin> set (pad w n)"
  using pad_all_digit [of w n] by (auto simp: list_all_iff)

lemma pad_not_Nil: "pad w n \<noteq> []"
  by (auto simp: pad_def Let_def digits.simps [of n])

lemma pad_hd_digit: "pad w n = c # cs \<Longrightarrow> is_digit c"
  using pad_all_digit [of w n] by simp

lemma pad_2: "0 \<le> n \<Longrightarrow> n < 100 \<Longrightarrow> length (pad 2 n) = 2"
  using length_pad [of n 1] by (simp add: numeral_2_eq_2)

lemma format_year_inj:
  assumes "format_year y = format_year z"
  shows "y = z"
proof -
  have "u < 0 \<Longrightarrow> hd (format_year u) = CHR ''-''" "0 \<le> u \<Longrightarrow> is_digit (hd (format_year u))" for u
    using pad_hd_digit [of 4 u] pad_not_Nil [of 4 u] by (auto simp: format_year_def neq_Nil_conv)
  then have "y < 0 \<longleftrightarrow> z < 0" using assms not_digit(1) by (metis not_less)
  then show ?thesis using assms pad_inj [of y z 4 4] pad_inj [of "- y" "- z" 4 4]
    by (auto simp: format_year_def split: if_splits)
qed

lemma format_date_inj:
  assumes "format_date d = format_date e"
  shows "d = e"
proof -
  obtain y yd z zd where c: "civil_year d = (y, yd)" "civil_year e = (z, zd)" by (metis surj_pair)
  note py = civil_year_parts(2-4) [OF c(1)] and pz = civil_year_parts(2-4) [OF c(2)]
  obtain m dd n ee where md: "month_day (is_leap y) yd = (m, dd)" "month_day (is_leap z) zd = (n, ee)"
    by (metis surj_pair)
  have b: "1 \<le> m" "m \<le> 12" "1 \<le> dd" "dd \<le> 31" "1 \<le> n" "n \<le> 12" "1 \<le> ee" "ee \<le> 31"
    using month_day_correct(2-5) [OF py] month_day_correct(2-5) [OF pz] md by simp_all
  have "format_year y @ CHR ''-'' # pad 2 m @ CHR ''-'' # pad 2 dd =
        format_year z @ CHR ''-'' # pad 2 n @ CHR ''-'' # pad 2 ee"
    using assms by (simp add: format_date_def c md)
  moreover have "length (CHR ''-'' # pad 2 m @ CHR ''-'' # pad 2 dd) =
                 length (CHR ''-'' # pad 2 n @ CHR ''-'' # pad 2 ee)"
    using b by (simp add: pad_2)
  ultimately have "format_year y = format_year z"
    and "pad 2 m @ CHR ''-'' # pad 2 dd = pad 2 n @ CHR ''-'' # pad 2 ee"
    by (simp_all add: append_eq_append_conv)
  then have "y = z" "pad 2 m = pad 2 n" "pad 2 dd = pad 2 ee"
    by (simp_all add: format_year_inj split_at_separator pad_no_char)
  then have "y = z" "m = n" "dd = ee" using b by (auto dest: pad_inj [rotated 2])
  then have "yd = zd" using month_day_inj py pz md by metis
  then show ?thesis using c \<open>y = z\<close> civil_year_inj by metis
qed

lemma format_clock_inj:
  assumes "0 \<le> s" "s < 86400" "0 \<le> t" "t < 86400" "format_clock s = format_clock t"
  shows "s = t"
proof -
  have "pad 2 (s div 3600) = pad 2 (t div 3600)" "pad 2 (s div 60 mod 60) = pad 2 (t div 60 mod 60)"
    "pad 2 (s mod 60) = pad 2 (t mod 60)"
    using assms(5) by (simp_all add: format_clock_def split_at_separator pad_no_char)
  moreover have "0 \<le> u div 3600" "0 \<le> u div 60 mod 60" "0 \<le> u mod 60" if "0 \<le> u" for u :: int
    using that by (simp_all add: pos_imp_zdiv_nonneg_iff)
  ultimately have "s div 3600 = t div 3600" "s div 60 mod 60 = t div 60 mod 60" "s mod 60 = t mod 60"
    using assms(1,3) pad_inj by metis+
  moreover have "u = 60 * (60 * (u div 3600) + u div 60 mod 60) + u mod 60" for u :: int
  proof -
    have "u div 3600 = u div 60 div 60" by (simp add: zdiv_zmult2_eq [symmetric])
    then show ?thesis by simp
  qed
  ultimately show ?thesis by metis
qed

lemma trim_zeros_pad: "\<exists>k. s = trim_zeros s @ replicate k (CHR ''0'')"
proof -
  let ?z = "\<lambda>c. c = CHR ''0''"
  have "rev s = takeWhile ?z (rev s) @ dropWhile ?z (rev s)" by simp
  then have "rev (rev s) = trim_zeros s @ rev (takeWhile ?z (rev s))"
    unfolding trim_zeros_def by (metis rev_append)
  moreover have "rev (takeWhile ?z (rev s)) = replicate (length (takeWhile ?z (rev s))) (CHR ''0'')"
    by (rule replicate_eqI) (auto dest: set_takeWhileD)
  ultimately show ?thesis by (metis rev_rev_ident)
qed

lemma format_fraction_inj:
  assumes "0 \<le> m" "m < 1000000000" "0 \<le> n" "n < 1000000000" "format_fraction m = format_fraction n"
  shows "m = n"
proof -
  have eq: "trim_zeros (pad 9 m) = trim_zeros (pad 9 n)"
    using assms(5) by (auto simp: format_fraction_def Let_def split: if_splits)
  have len: "length (pad 9 m) = 9" "length (pad 9 n) = 9"
    using length_pad [of m 8] length_pad [of n 8] assms(2,4) by simp_all
  obtain j k where "pad 9 m = trim_zeros (pad 9 m) @ replicate j (CHR ''0'')"
    "pad 9 n = trim_zeros (pad 9 n) @ replicate k (CHR ''0'')"
    using trim_zeros_pad by metis
  moreover from this have "j = k"
    using len eq by (metis add_left_cancel length_append length_replicate)
  ultimately have "pad 9 m = pad 9 n" using eq by metis
  then show ?thesis using assms(1,3) by (auto dest: pad_inj [rotated 2])
qed

lemma format_date_no_T: "CHR ''T'' \<notin> set (format_date d)"
  by (auto simp: format_date_def format_year_def pad_no_char split: prod.splits)

lemma format_clock_length: "0 \<le> s \<Longrightarrow> s < 86400 \<Longrightarrow> length (format_clock s) = 8"
proof -
  assume s: "0 \<le> s" "s < 86400"
  then have "s div 3600 \<le> 86400 div 3600" by (intro zdiv_mono1) simp_all
  then have "0 \<le> s div 3600" "s div 3600 < 100" using s by (simp_all add: pos_imp_zdiv_nonneg_iff)
  moreover have "0 \<le> u mod 60" "u mod 60 < 100" for u :: int
    using pos_mod_bound [of 60 u] by simp_all
  ultimately show ?thesis by (simp add: format_clock_def pad_2)
qed

lemma format_rfc3339nano_inj:
  assumes "tm_loc t = UTC" "tm_loc u = UTC" "format_rfc3339nano t = format_rfc3339nano u"
  shows "tm_nanos t = tm_nanos u"
proof -
  let ?sec = "\<lambda>t. tm_nanos t div second_ns" and ?ns = "\<lambda>t. tm_nanos t mod second_ns"
  let ?clock = "\<lambda>t. format_clock (?sec t mod day_seconds)"
  have b: "0 \<le> ?sec v mod day_seconds" "?sec v mod day_seconds < 86400"
    "0 \<le> ?ns v" "?ns v < 1000000000" for v :: go_time
    using pos_mod_bound [of day_seconds "?sec v"] pos_mod_bound [of second_ns "tm_nanos v"]
    by (simp_all add: day_seconds_def second_ns_def)
  have "format_date (?sec t div day_seconds) = format_date (?sec u div day_seconds)"
    and "?clock t @ format_fraction (?ns t) @ ''Z'' = ?clock u @ format_fraction (?ns u) @ ''Z''"
    using assms(3)
    by (simp_all add: format_rfc3339nano_def Let_def assms(1,2) format_offset_def
        split_at_separator format_date_no_T)
  then have "?sec t div day_seconds = ?sec u div day_seconds"
    and "?clock t = ?clock u" "format_fraction (?ns t) = format_fraction (?ns u)"
    using b by (simp_all add: format_date_inj append_eq_append_conv format_clock_length)
  then have "?sec t div day_seconds = ?sec u div day_seconds"
    "?sec t mod day_seconds = ?sec u mod day_seconds" "?ns t = ?ns u"
    using b format_clock_inj format_fraction_inj by metis+
  then show ?thesis by (metis div_mult_mod_eq)
qed

text \<open>The text has no control character, so it cannot hold the separator of a fact key.\<close>

lemma format_fraction_chars: "c \<in> set (format_fraction n) \<Longrightarrow> is_digit c \<or> c = CHR ''.''"
proof -
  have "set (trim_zeros s) \<subseteq> set s" for s
    by (auto simp: trim_zeros_def dest: set_dropWhileD)
  then show "c \<in> set (format_fraction n) \<Longrightarrow> is_digit c \<or> c = CHR ''.''"
    using pad_no_char [of c 9 n] by (auto simp: format_fraction_def Let_def split: if_splits)
qed

lemma format_rfc3339nano_no_separator: "CHR 0x1F \<notin> set (format_rfc3339nano t)"
  by (auto simp: format_rfc3339nano_def Let_def format_date_def format_year_def format_clock_def
      format_offset_def pad_no_char
      dest!: format_fraction_chars split: prod.splits location.splits if_splits)

end
