(* ===== verification/Facts.thy ===== *)
theory Facts
  imports GoTime "HOL-Library.Word"
begin

section \<open>The data model (pkg/reconcile/model.go)\<close>

text \<open>
  The types of \<open>model.go\<close>: an enumeration of string constants is a datatype with the
  constants as constructors and a function that gives the string back, a struct is a record
  whose fields carry a prefix for the struct (\<open>pe_\<close> PhysicalEvent, \<open>cf_\<close>
  CanonicalFact, \<open>ft_\<close> FreshnessTuple, \<open>ip_\<close> IdentityProjection, \<open>os_\<close>
  ObservedState, \<open>er_\<close> EventResolution). A physical event holds the unchecked strings of
  its source; a canonical fact holds the checked enumerations. An event type outside the eight
  constants never gets past \<open>Canonicalize\<close>, so the facts have no constructor for one.
\<close>

subsection \<open>Event types and scopes\<close>

datatype event_type =
    Hire | Rehire | DataUpdate | Leave | ReturnFromLeave | Conversion | Transfer | Termination

fun event_type_name :: "event_type \<Rightarrow> string" where
  "event_type_name Hire = ''hire''"
| "event_type_name Rehire = ''rehire''"
| "event_type_name DataUpdate = ''data_update''"
| "event_type_name Leave = ''leave''"
| "event_type_name ReturnFromLeave = ''return_from_leave''"
| "event_type_name Conversion = ''conversion''"
| "event_type_name Transfer = ''transfer''"
| "event_type_name Termination = ''termination''"

fun is_hire :: "event_type \<Rightarrow> bool" where
  "is_hire Hire = True"
| "is_hire Rehire = True"
| "is_hire _ = False"

datatype source_scope = HireSnapshot | Lifecycle

fun source_scope_name :: "source_scope \<Rightarrow> string" where
  "source_scope_name HireSnapshot = ''hire_snapshot''"
| "source_scope_name Lifecycle = ''lifecycle''"

lemma event_type_name_inj: "event_type_name a = event_type_name b \<Longrightarrow> a = b"
  by (cases a; cases b) simp_all

lemma source_scope_name_inj: "source_scope_name a = source_scope_name b \<Longrightarrow> a = b"
  by (cases a; cases b) simp_all

text \<open>Go compares event types as strings, which makes them a linear order.\<close>

instantiation event_type :: linorder
begin

definition less_eq_event_type :: "event_type \<Rightarrow> event_type \<Rightarrow> bool" where
  "less_eq_event_type a b \<longleftrightarrow> event_type_name a \<le> event_type_name b"

definition less_event_type :: "event_type \<Rightarrow> event_type \<Rightarrow> bool" where
  "less_event_type a b \<longleftrightarrow> event_type_name a < event_type_name b"

instance
  by intro_classes (auto simp: less_eq_event_type_def less_event_type_def event_type_name_inj)

end

subsection \<open>Decisions and lifecycle states\<close>

datatype decision_action = ProcessNow | Schedule | Skip | NoOp

datatype reason_code =
    Accepted | AcceptedRetroactive | ScheduledFutureHire | FutureLifecycle
  | DuplicateDelivery | DuplicateOrOlder | PreCutoff | PastEndTime | ScopeMismatch

text \<open>
  A \<open>LifecycleState\<close> is a string. \<open>NoState\<close> is the empty one, the value that was
  never assigned; \<open>OtherState\<close> holds a string that is none of the constants, which a
  projection can only get from a database row. \<open>lifecycle_of_name\<close> is the conversion
  from a string.
\<close>

datatype lifecycle_state =
    NoState | StateUnknown | StateActive | StateOnLeave | StateTerminated | OtherState string

fun lifecycle_name :: "lifecycle_state \<Rightarrow> string" where
  "lifecycle_name NoState = []"
| "lifecycle_name StateUnknown = ''unknown''"
| "lifecycle_name StateActive = ''active''"
| "lifecycle_name StateOnLeave = ''on_leave''"
| "lifecycle_name StateTerminated = ''terminated''"
| "lifecycle_name (OtherState s) = s"

definition lifecycle_of_name :: "string \<Rightarrow> lifecycle_state" where
  "lifecycle_of_name s =
     (case find (\<lambda>t. lifecycle_name t = s)
         [NoState, StateUnknown, StateActive, StateOnLeave, StateTerminated] of
        Some t \<Rightarrow> t | None \<Rightarrow> OtherState s)"

lemma lifecycle_name_of_name [simp]: "lifecycle_name (lifecycle_of_name s) = s"
  by (auto simp: lifecycle_of_name_def split: option.splits simp: find_Some_iff)

lemma lifecycle_of_name_name:
  "\<forall>s. t \<noteq> OtherState s \<Longrightarrow> lifecycle_of_name (lifecycle_name t) = t"
  by (cases t) (simp_all add: lifecycle_of_name_def)

subsection \<open>Payload values\<close>

text \<open>
  The dynamic types an \<open>any\<close> may hold, as far as the program distinguishes them. A
  \<open>float64\<close> is its bit pattern, a \<open>json.Number\<close> its text; every other type is an
  \<open>OtherValue\<close>, which every type switch sends to its default branch.
\<close>

datatype go_value =
    NilValue
  | BoolValue bool
  | FloatValue "64 word"
  | NumberValue string
  | StringValue string
  | ListValue "go_value list"
  | MapValue "(string, go_value) fmap"
  | StringMapValue "(string, string) fmap"
  | OtherValue nat

subsection \<open>Structs\<close>

record physical_event =
  pe_event_key :: string
  pe_subject_id :: string
  pe_event_type :: string
  pe_source_scope :: string
  pe_effective_time :: go_time
  pe_end_time :: "go_time option"
  pe_modification_time :: go_time
  pe_source_sequence :: int
  pe_revision_number :: int
  pe_payload :: "go_value gomap option"

record freshness_tuple =
  ft_source_sequence :: int
  ft_modification_time :: go_time
  ft_revision_number :: int
  ft_event_key :: string

record canonical_fact =
  cf_fact_key :: string
  cf_event_key :: string
  cf_subject_id :: string
  cf_event_type :: event_type
  cf_source_scope :: source_scope
  cf_effective_time :: go_time
  cf_end_time :: "go_time option"
  cf_modification_time :: go_time
  cf_received_at :: go_time
  cf_freshness :: freshness_tuple
  cf_payload_hash :: string
  cf_payload :: "go_value gomap"
  cf_attributes :: "string gomap"

record identity_projection =
  ip_subject_id :: string
  ip_exists :: bool
  ip_enabled :: bool
  ip_lifecycle_state :: lifecycle_state
  ip_attributes :: "string gomap"
  ip_source_fact_key :: string
  ip_source_event_key :: string
  ip_effective_time :: go_time
  ip_freshness :: freshness_tuple
  ip_row_version :: int

record observed_state =
  os_exists :: bool
  os_enabled :: bool
  os_attributes :: "string gomap"

record event_resolution =
  er_event_key :: string
  er_fact_key :: string
  er_action :: decision_action
  er_reason :: reason_code
  er_fact :: canonical_fact

record batch_result =
  br_decisions :: "event_resolution list"
  br_projections :: "identity_projection gomap"

subsection \<open>Freshness\<close>

text \<open>\<open>strings.Compare\<close>\<close>

definition string_compare :: "string \<Rightarrow> string \<Rightarrow> int" where
  "string_compare a b = (if a < b then -1 else if b < a then 1 else 0)"

definition compare_freshness :: "freshness_tuple \<Rightarrow> freshness_tuple \<Rightarrow> int" where
  "compare_freshness f g =
     (if ft_source_sequence f < ft_source_sequence g then -1
      else if ft_source_sequence f > ft_source_sequence g then 1
      else if before (ft_modification_time f) (ft_modification_time g) then -1
      else if after (ft_modification_time f) (ft_modification_time g) then 1
      else if ft_revision_number f < ft_revision_number g then -1
      else if ft_revision_number f > ft_revision_number g then 1
      else string_compare (ft_event_key f) (ft_event_key g))"

text \<open>
  The specification of the comparison: the lexicographic order of the four components, with the
  modification time as an instant.
\<close>

definition freshness_key :: "freshness_tuple \<Rightarrow> int \<times> int \<times> int \<times> string" where
  "freshness_key f =
     (ft_source_sequence f, tm_nanos (ft_modification_time f), ft_revision_number f, ft_event_key f)"

text \<open>One level of a lexicographic three-way comparison.\<close>

lemma lex_compare:
  fixes a b :: "'a::linorder" and x y :: "'b::linorder"
  assumes "r = (if x < y then -1 else if y < x then 1 else 0 :: int)"
  shows "(if a < b then -1 else if b < a then 1 else r) =
         (if (a, x) < (b, y) then -1 else if (b, y) < (a, x) then 1 else 0)"
  by (rule linorder_cases [of a b]) (simp_all add: assms)

lemma compare_freshness_key:
  "compare_freshness f g =
     (if freshness_key f < freshness_key g then -1
      else if freshness_key g < freshness_key f then 1 else 0)"
  unfolding compare_freshness_def freshness_key_def string_compare_def before_def after_def
  by (intro lex_compare refl)

interpretation freshness: three_way compare_freshness freshness_key
  by unfold_locales (auto simp: compare_freshness_key)

lemma freshness_key_event: "freshness_key f = freshness_key g \<Longrightarrow> ft_event_key f = ft_event_key g"
  by (simp add: freshness_key_def)

text \<open>
  C33. The comparison of freshness tuples takes the values -1, 0 and 1 only, is antisymmetric,
  and decides the lexicographic order of (source sequence, modification instant, revision
  number, event key): 0 exactly for tuples with equal components, whatever the locations of the
  two times, and 1 exactly for a greater tuple.
\<close>

theorem compare_freshness_lexicographic:
  "compare_freshness f g \<in> {-1, 0, 1} \<and>
   compare_freshness g f = - compare_freshness f g \<and>
   (compare_freshness f g = 0 \<longleftrightarrow>
      ft_source_sequence f = ft_source_sequence g \<and>
      tm_nanos (ft_modification_time f) = tm_nanos (ft_modification_time g) \<and>
      ft_revision_number f = ft_revision_number g \<and> ft_event_key f = ft_event_key g) \<and>
   (compare_freshness f g = 1 \<longleftrightarrow>
      (ft_source_sequence g, tm_nanos (ft_modification_time g), ft_revision_number g, ft_event_key g)
      < (ft_source_sequence f, tm_nanos (ft_modification_time f), ft_revision_number f, ft_event_key f))"
  (is "?range \<and> ?swap \<and> ?zero \<and> ?one")
proof (intro conjI)
  note order = linorder_cases [of "freshness_key f" "freshness_key g"]
  show ?range by (simp add: compare_freshness_key)
  show ?swap by (rule order) (simp_all add: compare_freshness_key)
  show ?zero using freshness.cmp_zero_iff [of f g] by (simp add: freshness_key_def)
  show ?one unfolding freshness_key_def [symmetric]
    by (rule order) (simp_all add: compare_freshness_key)
qed

end
