(* ===== verification/Policies.thy ===== *)
theory Policies
  imports Facts
begin

section \<open>Temporal and scope decisions (pkg/reconcile/policy.go)\<close>

text \<open>
  The policy record, its validation and the decision for one canonical fact, with the checks in
  the order of \<open>Evaluate\<close>. Durations are \<open>int64\<close> nanoseconds; the negations of the
  grace and of the retroactive window cannot overflow because both were checked to be
  non-negative. The theorems relate the decision to the rules of section 5 of
  \<open>docs/specification.md\<close>, stated over instants.
\<close>

record policy =
  po_now :: go_time
  po_cutoff_time :: "go_time option"
  po_retroactive_window :: int
  po_hire_window :: int
  po_past_end_grace :: int

datatype policy_error =
    NowRequired | NegativeRetroactiveWindow | NegativeHireWindow | NegativePastEndGrace

definition default_policy :: "go_time \<Rightarrow> policy" where
  "default_policy now =
     \<lparr>po_now = normalize_time now, po_cutoff_time = None,
      po_retroactive_window = 48 * hour_ns, po_hire_window = 72 * hour_ns,
      po_past_end_grace = 72 * hour_ns\<rparr>"

text \<open>\<open>Validate\<close>: the error, if there is one.\<close>

definition validate :: "policy \<Rightarrow> policy_error option" where
  "validate p =
     (if is_zero (po_now p) then Some NowRequired
      else if po_retroactive_window p < 0 then Some NegativeRetroactiveWindow
      else if po_hire_window p < 0 then Some NegativeHireWindow
      else if po_past_end_grace p < 0 then Some NegativePastEndGrace
      else None)"

definition evaluate :: "policy \<Rightarrow> canonical_fact \<Rightarrow> policy_error + decision_action \<times> reason_code" where
  "evaluate p f =
     (case validate p of
        Some err \<Rightarrow> Inl err
      | None \<Rightarrow>
          if cf_source_scope f = HireSnapshot \<and> \<not> is_hire (cf_event_type f) then
            Inr (NoOp, ScopeMismatch)
          else if cf_source_scope f = Lifecycle \<and> is_hire (cf_event_type f) then
            Inr (NoOp, ScopeMismatch)
          else if (case cf_end_time f of
                     None \<Rightarrow> False
                   | Some e \<Rightarrow> before e (time_add (po_now p) (- po_past_end_grace p))) then
            Inr (Skip, PastEndTime)
          else if (case po_cutoff_time p of
                     None \<Rightarrow> False
                   | Some c \<Rightarrow> before (cf_effective_time f) (normalize_time c)) then
            (let retroactive_limit = time_add (po_now p) (- po_retroactive_window p) in
             if before (cf_modification_time f) retroactive_limit then Inr (Skip, PreCutoff)
             else Inr (ProcessNow, AcceptedRetroactive))
          else if after (cf_effective_time f) (po_now p) then
            (if \<not> is_hire (cf_event_type f) then Inr (Skip, FutureLifecycle)
             else if time_sub (cf_effective_time f) (po_now p) \<le> po_hire_window p then
               Inr (ProcessNow, Accepted)
             else Inr (Schedule, ScheduledFutureHire))
          else Inr (ProcessNow, Accepted))"

subsection \<open>Facts the resolver uses\<close>

lemma evaluate_total: "validate p = None \<Longrightarrow> \<exists>d. evaluate p f = Inr d"
  by (simp add: evaluate_def Let_def)

lemma validate_default_policy: "validate (default_policy now) = None \<longleftrightarrow> \<not> is_zero now"
  by (simp add: validate_def default_policy_def hour_ns_def second_ns_def)

text \<open>Instants that a duration away from them are still exact; JSON times are among them.\<close>

definition policy_in_range :: "policy \<Rightarrow> bool" where
  "policy_in_range p \<longleftrightarrow> time_in_range (po_now p) \<and>
     po_retroactive_window p < max_int64 \<and> po_hire_window p < max_int64 \<and>
     po_past_end_grace p < max_int64"

lemma po_now_minus:
  assumes "time_in_range (po_now p)" "0 \<le> d" "d < max_int64"
  shows "tm_nanos (time_add (po_now p) (- d)) = tm_nanos (po_now p) - d"
  using time_add_exact [OF assms(1), of "- d"] assms(2,3)
  by (simp add: min_int64_def max_int64_def)

subsection \<open>The decision rules over instants\<close>

definition scope_matches :: "canonical_fact \<Rightarrow> bool" where
  "scope_matches f \<longleftrightarrow> (cf_source_scope f = HireSnapshot \<longleftrightarrow> is_hire (cf_event_type f))"

definition expired :: "policy \<Rightarrow> canonical_fact \<Rightarrow> bool" where
  "expired p f \<longleftrightarrow>
     (\<exists>e. cf_end_time f = Some e \<and> tm_nanos e < tm_nanos (po_now p) - po_past_end_grace p)"

definition pre_cutoff :: "policy \<Rightarrow> canonical_fact \<Rightarrow> bool" where
  "pre_cutoff p f \<longleftrightarrow>
     (\<exists>c. po_cutoff_time p = Some c \<and> tm_nanos (cf_effective_time f) < tm_nanos c)"

definition in_retroactive_window :: "policy \<Rightarrow> canonical_fact \<Rightarrow> bool" where
  "in_retroactive_window p f \<longleftrightarrow>
     tm_nanos (po_now p) - po_retroactive_window p \<le> tm_nanos (cf_modification_time f)"

definition in_future :: "policy \<Rightarrow> canonical_fact \<Rightarrow> bool" where
  "in_future p f \<longleftrightarrow> tm_nanos (po_now p) < tm_nanos (cf_effective_time f)"

definition in_hire_window :: "policy \<Rightarrow> canonical_fact \<Rightarrow> bool" where
  "in_hire_window p f \<longleftrightarrow>
     tm_nanos (cf_effective_time f) \<le> tm_nanos (po_now p) + po_hire_window p"

text \<open>The specification: one action per fact, by the first rule that applies.\<close>

definition decision_rules :: "policy \<Rightarrow> canonical_fact \<Rightarrow> decision_action \<times> reason_code" where
  "decision_rules p f =
     (if \<not> scope_matches f then (NoOp, ScopeMismatch)
      else if expired p f then (Skip, PastEndTime)
      else if pre_cutoff p f then
        (if in_retroactive_window p f then (ProcessNow, AcceptedRetroactive) else (Skip, PreCutoff))
      else if in_future p f then
        (if \<not> is_hire (cf_event_type f) then (Skip, FutureLifecycle)
         else if in_hire_window p f then (ProcessNow, Accepted)
         else (Schedule, ScheduledFutureHire))
      else (ProcessNow, Accepted))"

lemma evaluate_rules:
  assumes v: "validate p = None" and r: "policy_in_range p"
  shows "evaluate p f = Inr (decision_rules p f)"
proof -
  have nonneg: "0 \<le> po_past_end_grace p" "0 \<le> po_retroactive_window p" "0 \<le> po_hire_window p"
    using v by (auto simp: validate_def split: if_splits)
  have range: "time_in_range (po_now p)" "po_past_end_grace p < max_int64"
    "po_retroactive_window p < max_int64" "po_hire_window p < max_int64"
    using r by (simp_all add: policy_in_range_def)
  have minus: "tm_nanos (time_add (po_now p) (- po_past_end_grace p)) = tm_nanos (po_now p) - po_past_end_grace p"
    "tm_nanos (time_add (po_now p) (- po_retroactive_window p)) = tm_nanos (po_now p) - po_retroactive_window p"
    using nonneg range by (simp_all add: po_now_minus)
  have sub: "time_sub (cf_effective_time f) (po_now p) \<le> po_hire_window p \<longleftrightarrow> in_hire_window p f"
    using range(4) nonneg(3) by (simp add: time_sub_le_iff in_hire_window_def min_int64_def)
  have scope: "scope_matches f \<longleftrightarrow>
      \<not> (cf_source_scope f = HireSnapshot \<and> \<not> is_hire (cf_event_type f)) \<and>
      \<not> (cf_source_scope f = Lifecycle \<and> is_hire (cf_event_type f))"
    by (cases "cf_source_scope f") (auto simp: scope_matches_def)
  have "expired p f \<longleftrightarrow> (case cf_end_time f of None \<Rightarrow> False
      | Some e \<Rightarrow> before e (time_add (po_now p) (- po_past_end_grace p)))"
    by (auto simp: expired_def before_def minus split: option.splits)
  moreover have "pre_cutoff p f \<longleftrightarrow> (case po_cutoff_time p of None \<Rightarrow> False
      | Some c \<Rightarrow> before (cf_effective_time f) (normalize_time c))"
    by (auto simp: pre_cutoff_def before_def split: option.splits)
  moreover have "in_retroactive_window p f \<longleftrightarrow>
      \<not> before (cf_modification_time f) (time_add (po_now p) (- po_retroactive_window p))"
    by (simp add: in_retroactive_window_def before_def minus not_less)
  moreover have "in_future p f \<longleftrightarrow> after (cf_effective_time f) (po_now p)"
    by (simp add: in_future_def after_def)
  ultimately show ?thesis
    unfolding evaluate_def decision_rules_def v Let_def sub by (simp add: scope)
qed

end
