(* ===== verification/Canonical.thy ===== *)
theory Canonical
  imports Policies
begin

section \<open>Canonicalization (pkg/reconcile/canonicalize.go)\<close>

text \<open>
  \<open>Canonicalize\<close> as a chain of checks in the source's order, each with its error, then the
  normalised times, the attributes of the payload, the hash of the envelope and the fact.
  \<open>attributesFromPayload\<close> is the loop over the sorted attribute names.

  Four library functions are parameters, bundled in the record \<open>go_runtime\<close>: the Unicode
  part of \<open>strings.ToLower\<close>, \<open>strconv.FormatFloat(v, 'f', -1, 64)\<close> on the bits of a
  \<open>float64\<close>, \<open>json.Marshal\<close> of the envelope (\<open>None\<close> is its error) and
  \<open>sha256.Sum256\<close>. No lemma here assumes anything about them.
\<close>

record hash_envelope =
  he_subject_id :: string
  he_event_type :: string
  he_source_scope :: string
  he_effective_time :: string
  he_end_time :: "string option"
  he_modification_time :: string
  he_source_sequence :: int
  he_revision_number :: int
  he_payload :: "go_value gomap"

record go_runtime =
  rt_lower_unicode :: "string \<Rightarrow> string"
  rt_format_float :: "64 word \<Rightarrow> string"
  rt_marshal_envelope :: "hash_envelope \<Rightarrow> string option"
  rt_sha256 :: "string \<Rightarrow> string"

datatype canonicalize_error =
    SubjectIdRequired
  | EventKeyRequired
  | UnsupportedEventType string
  | UnsupportedSourceScope string
  | EffectiveTimeRequired
  | ModificationTimeRequired
  | NegativeSourceSequence
  | NegativeRevisionNumber
  | EmptyAttributeName string
  | AttributeNamesCollide string string string
  | MarshalEnvelopeFailed

subsection \<open>Attributes\<close>

definition scalar_string :: "go_runtime \<Rightarrow> go_value \<Rightarrow> string option" where
  "scalar_string rt v =
     (case v of
        StringValue s \<Rightarrow> Some s
      | BoolValue b \<Rightarrow> Some (if b then ''true'' else ''false'')
      | FloatValue w \<Rightarrow> Some (rt_format_float rt w)
      | NumberValue s \<Rightarrow> Some s
      | _ \<Rightarrow> None)"

text \<open>The map the type switch selects; any other dynamic type leaves it empty.\<close>

definition attribute_values :: "go_value \<Rightarrow> go_value gomap" where
  "attribute_values raw =
     (case raw of
        MapValue m \<Rightarrow> m
      | StringMapValue m \<Rightarrow> fmmap StringValue m
      | _ \<Rightarrow> fmempty)"

text \<open>The loop: \<open>seen\<close> is \<open>seenNames\<close>, \<open>attrs\<close> the map under construction.\<close>

fun collect_attributes ::
    "go_runtime \<Rightarrow> go_value gomap \<Rightarrow> string list \<Rightarrow> string gomap \<Rightarrow> string gomap
       \<Rightarrow> canonicalize_error + string gomap" where
  "collect_attributes rt values [] seen attrs = Inr attrs"
| "collect_attributes rt values (key # keys) seen attrs =
     (let name = trim_space key in
      if name = [] then Inl (EmptyAttributeName key)
      else case fmlookup seen name of
             Some previous \<Rightarrow> Inl (AttributeNamesCollide previous key name)
           | None \<Rightarrow>
               collect_attributes rt values keys (fmupd name key seen)
                 (case Option.bind (fmlookup values key) (scalar_string rt) of
                    Some normalized \<Rightarrow> fmupd name normalized attrs
                  | None \<Rightarrow> attrs))"

definition attributes_from_payload ::
    "go_runtime \<Rightarrow> go_value gomap \<Rightarrow> canonicalize_error + string gomap" where
  "attributes_from_payload rt payload =
     (case fmlookup payload ''attributes'' of
        None \<Rightarrow> Inr fmempty
      | Some raw \<Rightarrow>
          (let values = attribute_values raw
           in collect_attributes rt values (sorted_list_of_fset (fmdom values)) fmempty fmempty))"

subsection \<open>Keys and enumerations\<close>

definition all_event_types :: "event_type list" where
  "all_event_types =
     [Hire, Rehire, DataUpdate, Leave, ReturnFromLeave, Conversion, Transfer, Termination]"

text \<open>\<open>validEventType\<close>, with the constant it recognised.\<close>

definition valid_event_type :: "string \<Rightarrow> event_type option" where
  "valid_event_type s = find (\<lambda>t. event_type_name t = s) all_event_types"

definition valid_source_scope :: "string \<Rightarrow> source_scope option" where
  "valid_source_scope s = find (\<lambda>t. source_scope_name t = s) [HireSnapshot, Lifecycle]"

definition separator :: char where "separator = CHR 0x1F"

definition make_fact_key :: "string \<Rightarrow> source_scope \<Rightarrow> event_type \<Rightarrow> go_time \<Rightarrow> string" where
  "make_fact_key subject scope type effective =
     subject @ separator # source_scope_name scope @ separator # event_type_name type @
     separator # format_rfc3339nano effective"

subsection \<open>The envelope and its hash\<close>

text \<open>A nil payload becomes an empty map.\<close>

definition event_payload :: "physical_event \<Rightarrow> go_value gomap" where
  "event_payload e = (case pe_payload e of None \<Rightarrow> fmempty | Some p \<Rightarrow> p)"

text \<open>The envelope of an event whose strings and times are normalised already.\<close>

definition make_envelope ::
    "physical_event \<Rightarrow> string \<Rightarrow> event_type \<Rightarrow> source_scope \<Rightarrow> hash_envelope" where
  "make_envelope e subject type scope =
     \<lparr>he_subject_id = subject, he_event_type = event_type_name type,
      he_source_scope = source_scope_name scope,
      he_effective_time = format_rfc3339nano (normalize_time (pe_effective_time e)),
      he_end_time = map_option (\<lambda>t. format_rfc3339nano (normalize_time t)) (pe_end_time e),
      he_modification_time = format_rfc3339nano (normalize_time (pe_modification_time e)),
      he_source_sequence = pe_source_sequence e,
      he_revision_number = pe_revision_number e,
      he_payload = event_payload e\<rparr>"

definition payload_hash :: "go_runtime \<Rightarrow> hash_envelope \<Rightarrow> string option" where
  "payload_hash rt env = map_option (\<lambda>bs. hex_encode (rt_sha256 rt bs)) (rt_marshal_envelope rt env)"

definition normalize_name :: "go_runtime \<Rightarrow> string \<Rightarrow> string" where
  "normalize_name rt s = to_lower (rt_lower_unicode rt) (trim_space s)"

definition received_time :: "go_time \<Rightarrow> go_time \<Rightarrow> go_time" where
  "received_time received_at modification =
     (let received = normalize_time received_at in if is_zero received then modification else received)"

subsection \<open>Canonicalize\<close>

text \<open>The struct literal that \<open>Canonicalize\<close> returns.\<close>

definition build_fact ::
    "physical_event \<Rightarrow> event_type \<Rightarrow> source_scope \<Rightarrow> string gomap \<Rightarrow> string \<Rightarrow> go_time
       \<Rightarrow> canonical_fact" where
  "build_fact e type scope attributes hash received_at =
     (let subject = trim_space (pe_subject_id e); event_key = trim_space (pe_event_key e);
          effective = normalize_time (pe_effective_time e);
          modification = normalize_time (pe_modification_time e)
      in \<lparr>cf_fact_key = make_fact_key subject scope type effective,
          cf_event_key = event_key,
          cf_subject_id = subject,
          cf_event_type = type,
          cf_source_scope = scope,
          cf_effective_time = effective,
          cf_end_time = map_option normalize_time (pe_end_time e),
          cf_modification_time = modification,
          cf_received_at = received_time received_at modification,
          cf_freshness =
            \<lparr>ft_source_sequence = pe_source_sequence e,
             ft_modification_time = modification,
             ft_revision_number = pe_revision_number e,
             ft_event_key = event_key\<rparr>,
          cf_payload_hash = hash,
          cf_payload = event_payload e,
          cf_attributes = attributes\<rparr>)"

definition canonicalize ::
    "go_runtime \<Rightarrow> physical_event \<Rightarrow> go_time \<Rightarrow> canonicalize_error + canonical_fact" where
  "canonicalize rt e received_at =
     (let subject = trim_space (pe_subject_id e) in
      if subject = [] then Inl SubjectIdRequired
      else if trim_space (pe_event_key e) = [] then Inl EventKeyRequired
      else case valid_event_type (normalize_name rt (pe_event_type e)) of
        None \<Rightarrow> Inl (UnsupportedEventType (pe_event_type e))
      | Some type \<Rightarrow>
      (case valid_source_scope (normalize_name rt (pe_source_scope e)) of
        None \<Rightarrow> Inl (UnsupportedSourceScope (pe_source_scope e))
      | Some scope \<Rightarrow>
      if is_zero (pe_effective_time e) then Inl EffectiveTimeRequired
      else if is_zero (pe_modification_time e) then Inl ModificationTimeRequired
      else if pe_source_sequence e < 0 then Inl NegativeSourceSequence
      else if pe_revision_number e < 0 then Inl NegativeRevisionNumber
      else case attributes_from_payload rt (event_payload e) of
        Inl err \<Rightarrow> Inl err
      | Inr attributes \<Rightarrow>
      (case payload_hash rt (make_envelope e subject type scope) of
        None \<Rightarrow> Inl MarshalEnvelopeFailed
      | Some hash \<Rightarrow> Inr (build_fact e type scope attributes hash received_at))))"

subsection \<open>Keys and names\<close>

lemma valid_event_type_iff: "valid_event_type s = Some t \<longleftrightarrow> s = event_type_name t"
proof
  assume "valid_event_type s = Some t"
  then show "s = event_type_name t" by (auto simp: valid_event_type_def find_Some_iff)
next
  assume "s = event_type_name t"
  then show "valid_event_type s = Some t"
    by (cases t) (simp_all add: valid_event_type_def all_event_types_def)
qed

lemma valid_source_scope_iff: "valid_source_scope s = Some t \<longleftrightarrow> s = source_scope_name t"
proof
  assume "valid_source_scope s = Some t"
  then show "s = source_scope_name t" by (auto simp: valid_source_scope_def split: if_splits)
next
  assume "s = source_scope_name t"
  then show "valid_source_scope s = Some t"
    by (cases t) (simp_all add: valid_source_scope_def)
qed

lemma names_no_separator:
  "separator \<notin> set (event_type_name t)" "separator \<notin> set (source_scope_name s)"
  by (cases t; simp add: separator_def) (cases s; simp add: separator_def)

text \<open>
  The key is read back from its end: time, type and scope hold no separator, so the subject is
  what remains, even where it holds separators itself.
\<close>

lemma make_fact_key_inj:
  assumes "tm_loc t = UTC" "tm_loc u = UTC"
    and "make_fact_key subj sc ty t = make_fact_key subj' sc' ty' u"
  shows "subj = subj' \<and> sc = sc' \<and> ty = ty' \<and> tm_nanos t = tm_nanos u"
proof -
  have nosep: "separator \<notin> set (format_rfc3339nano v)" for v
    using format_rfc3339nano_no_separator by (simp add: separator_def)
  have "(subj @ separator # source_scope_name sc @ separator # event_type_name ty) @ separator # format_rfc3339nano t =
        (subj' @ separator # source_scope_name sc' @ separator # event_type_name ty') @ separator # format_rfc3339nano u"
    using assms(3) unfolding make_fact_key_def by simp
  then have time: "format_rfc3339nano t = format_rfc3339nano u"
    and "subj @ separator # source_scope_name sc @ separator # event_type_name ty =
      subj' @ separator # source_scope_name sc' @ separator # event_type_name ty'"
    unfolding split_at_last_separator [OF nosep nosep] by simp_all
  then have "(subj @ separator # source_scope_name sc) @ separator # event_type_name ty =
      (subj' @ separator # source_scope_name sc') @ separator # event_type_name ty'"
    by simp
  then have "event_type_name ty = event_type_name ty'"
    and "subj @ separator # source_scope_name sc = subj' @ separator # source_scope_name sc'"
    unfolding split_at_last_separator [OF names_no_separator(1) names_no_separator(1)] by simp_all
  then have "event_type_name ty = event_type_name ty'" "source_scope_name sc = source_scope_name sc'" "subj = subj'"
    unfolding split_at_last_separator [OF names_no_separator(2) names_no_separator(2)] by simp_all
  then show ?thesis
    using time format_rfc3339nano_inj [OF assms(1,2)] event_type_name_inj source_scope_name_inj by blast
qed

subsection \<open>Attributes\<close>

text \<open>What the loop does with one attribute value.\<close>

definition attribute_text :: "go_runtime \<Rightarrow> go_value gomap \<Rightarrow> string \<Rightarrow> string option" where
  "attribute_text rt values key = Option.bind (fmlookup values key) (scalar_string rt)"

lemma collect_attributes_ok_iff:
  "ok (collect_attributes rt values keys seen attrs) \<longleftrightarrow>
     (\<forall>k\<in>set keys. trim_space k \<noteq> [] \<and> fmlookup seen (trim_space k) = None) \<and>
     distinct (map trim_space keys)"
proof (induction keys arbitrary: seen attrs)
  case (Cons k keys)
  show ?case
  proof (cases "trim_space k = [] \<or> fmlookup seen (trim_space k) \<noteq> None")
    case True
    then show ?thesis by (auto simp: Let_def split: option.splits)
  next
    case False
    then show ?thesis by (auto simp: Let_def Cons.IH split: option.splits if_splits)
  qed
qed simp

lemma collect_attributes_lookup:
  "collect_attributes rt values keys seen attrs = Inr m \<Longrightarrow>
   fmlookup m n =
     (case find (\<lambda>k. trim_space k = n \<and> attribute_text rt values k \<noteq> None) keys of
        Some k \<Rightarrow> attribute_text rt values k
      | None \<Rightarrow> fmlookup attrs n)"
proof (induction keys arbitrary: seen attrs)
  case (Cons k keys)
  let ?attrs = "case attribute_text rt values k of Some s \<Rightarrow> fmupd (trim_space k) s attrs | None \<Rightarrow> attrs"
  have rest: "collect_attributes rt values keys (fmupd (trim_space k) k seen) ?attrs = Inr m"
    using Cons.prems by (auto simp: Let_def attribute_text_def split: if_splits option.splits)
  have "ok (collect_attributes rt values (k # keys) seen attrs)" using Cons.prems by simp
  then have "trim_space k \<notin> trim_space ` set keys"
    unfolding collect_attributes_ok_iff by simp
  then have none: "find (\<lambda>j. trim_space j = trim_space k \<and> attribute_text rt values j \<noteq> None) keys = None"
    unfolding find_None_iff by (metis image_eqI)
  show ?case
  proof (cases "trim_space k = n")
    case True
    then show ?thesis using Cons.IH [OF rest] none by (auto split: option.splits)
  next
    case False
    then show ?thesis using Cons.IH [OF rest] by (auto split: option.splits)
  qed
qed simp

lemma attributes_from_payload_ok_iff:
  assumes "fmlookup payload ''attributes'' = Some raw"
  shows "ok (attributes_from_payload rt payload) \<longleftrightarrow>
     (\<forall>k\<in>fset (fmdom (attribute_values raw)). trim_space k \<noteq> []) \<and>
     inj_on trim_space (fset (fmdom (attribute_values raw)))"
proof -
  let ?keys = "sorted_list_of_fset (fmdom (attribute_values raw))"
  have "set ?keys = fset (fmdom (attribute_values raw))" "distinct ?keys"
    by (simp_all add: sorted_list_of_fset.rep_eq)
  then show ?thesis
    by (simp add: attributes_from_payload_def assms Let_def collect_attributes_ok_iff distinct_map)
qed

lemma attributes_from_payload_lookup:
  assumes "fmlookup payload ''attributes'' = Some raw" "attributes_from_payload rt payload = Inr m"
  shows "fmlookup m n = Some s \<longleftrightarrow>
     (\<exists>k v. fmlookup (attribute_values raw) k = Some v \<and> trim_space k = n \<and> scalar_string rt v = Some s)"
proof -
  let ?vs = "attribute_values raw" and ?keys = "sorted_list_of_fset (fmdom (attribute_values raw))"
  let ?P = "\<lambda>k. trim_space k = n \<and> attribute_text rt ?vs k \<noteq> None"
  have keys: "k \<in> set ?keys \<longleftrightarrow> (\<exists>v. fmlookup ?vs k = Some v)" for k
    by (simp add: fmlookup_dom_iff)
  have inj: "inj_on trim_space (set ?keys)"
    using attributes_from_payload_ok_iff [OF assms(1), of rt] assms(2) by simp
  have "collect_attributes rt ?vs ?keys fmempty fmempty = Inr m"
    using assms by (simp add: attributes_from_payload_def Let_def)
  then have m: "fmlookup m n =
      (case find ?P ?keys of Some k \<Rightarrow> attribute_text rt ?vs k | None \<Rightarrow> None)"
    using collect_attributes_lookup [of rt ?vs ?keys fmempty fmempty m n]
    by (simp cong: option.case_cong)
  show ?thesis
  proof
    assume "fmlookup m n = Some s"
    then obtain k where "find ?P ?keys = Some k" "attribute_text rt ?vs k = Some s"
      using m by (auto split: option.splits)
    then show "\<exists>k v. fmlookup ?vs k = Some v \<and> trim_space k = n \<and> scalar_string rt v = Some s"
      by (auto simp: find_Some_iff attribute_text_def bind_eq_Some_conv)
  next
    assume "\<exists>k v. fmlookup ?vs k = Some v \<and> trim_space k = n \<and> scalar_string rt v = Some s"
    then obtain k v where k: "fmlookup ?vs k = Some v" "trim_space k = n" "scalar_string rt v = Some s"
      by blast
    then have P: "?P k" "k \<in> set ?keys" unfolding keys by (auto simp: attribute_text_def)
    then obtain j where j: "find ?P ?keys = Some j" "j \<in> set ?keys" "trim_space j = n"
      using find_SomeI [of k ?keys ?P] by blast
    then have "j = k" using inj_onD [OF inj _ j(2) P(2)] k(2) by simp
    then show "fmlookup m n = Some s" using m k j(1) by (simp add: attribute_text_def)
  qed
qed


subsection \<open>When Canonicalize succeeds, and with what\<close>

text \<open>The conditions on an event that the checks impose, for the enumerations they recognise.\<close>

definition acceptable :: "go_runtime \<Rightarrow> physical_event \<Rightarrow> event_type \<Rightarrow> source_scope \<Rightarrow> bool" where
  "acceptable rt e type scope \<longleftrightarrow>
     trim_space (pe_subject_id e) \<noteq> [] \<and> trim_space (pe_event_key e) \<noteq> [] \<and>
     normalize_name rt (pe_event_type e) = event_type_name type \<and>
     normalize_name rt (pe_source_scope e) = source_scope_name scope \<and>
     \<not> is_zero (pe_effective_time e) \<and> \<not> is_zero (pe_modification_time e) \<and>
     0 \<le> pe_source_sequence e \<and> 0 \<le> pe_revision_number e"

lemma canonicalize_Inr_iff:
  "canonicalize rt e r = Inr c \<longleftrightarrow>
     (\<exists>type scope attrs hash. acceptable rt e type scope \<and>
        attributes_from_payload rt (event_payload e) = Inr attrs \<and>
        payload_hash rt (make_envelope e (trim_space (pe_subject_id e)) type scope) = Some hash \<and>
        c = build_fact e type scope attrs hash r)"
proof -
  have names: "event_type_name t = event_type_name u \<longleftrightarrow> t = u" for t u
    using event_type_name_inj by blast
  have scopes: "source_scope_name t = source_scope_name u \<longleftrightarrow> t = u" for t u
    using source_scope_name_inj by blast
  show ?thesis
  proof (cases "\<exists>type scope. acceptable rt e type scope")
    case True
    then obtain type scope where a: "acceptable rt e type scope" by blast
    then have only: "acceptable rt e type' scope' \<longleftrightarrow> type' = type \<and> scope' = scope" for type' scope'
      by (auto simp: acceptable_def names scopes)
    have "valid_event_type (normalize_name rt (pe_event_type e)) = Some type"
      "valid_source_scope (normalize_name rt (pe_source_scope e)) = Some scope"
      using a by (simp_all add: acceptable_def valid_event_type_iff valid_source_scope_iff)
    then have "canonicalize rt e r =
        (case attributes_from_payload rt (event_payload e) of Inl err \<Rightarrow> Inl err
         | Inr attributes \<Rightarrow>
           (case payload_hash rt (make_envelope e (trim_space (pe_subject_id e)) type scope) of
              None \<Rightarrow> Inl MarshalEnvelopeFailed
            | Some hash \<Rightarrow> Inr (build_fact e type scope attributes hash r)))"
      using a by (simp add: canonicalize_def acceptable_def)
    then show ?thesis by (auto simp: only split: sum.splits option.splits)
  next
    case False
    then have "canonicalize rt e r \<noteq> Inr c"
      unfolding canonicalize_def Let_def
      by (auto simp: acceptable_def valid_event_type_iff valid_source_scope_iff
          split: sum.splits option.splits if_splits)
    with False show ?thesis by blast
  qed
qed

lemma build_fact_sel [simp]:
  "cf_event_key (build_fact e ty sc at h r) = trim_space (pe_event_key e)"
  "cf_subject_id (build_fact e ty sc at h r) = trim_space (pe_subject_id e)"
  "cf_event_type (build_fact e ty sc at h r) = ty"
  "cf_source_scope (build_fact e ty sc at h r) = sc"
  "cf_effective_time (build_fact e ty sc at h r) = normalize_time (pe_effective_time e)"
  "cf_end_time (build_fact e ty sc at h r) = map_option normalize_time (pe_end_time e)"
  "cf_modification_time (build_fact e ty sc at h r) = normalize_time (pe_modification_time e)"
  "cf_payload_hash (build_fact e ty sc at h r) = h"
  "cf_payload (build_fact e ty sc at h r) = event_payload e"
  "cf_attributes (build_fact e ty sc at h r) = at"
  by (simp_all add: build_fact_def Let_def)

text \<open>What every fact that leaves \<open>Canonicalize\<close> satisfies.\<close>

definition canonical_wf :: "canonical_fact \<Rightarrow> bool" where
  "canonical_wf c \<longleftrightarrow>
     cf_event_key c \<noteq> [] \<and> trim_space (cf_event_key c) = cf_event_key c \<and>
     cf_subject_id c \<noteq> [] \<and> trim_space (cf_subject_id c) = cf_subject_id c \<and>
     cf_fact_key c =
       make_fact_key (cf_subject_id c) (cf_source_scope c) (cf_event_type c) (cf_effective_time c) \<and>
     tm_loc (cf_effective_time c) = UTC \<and> \<not> is_zero (cf_effective_time c) \<and>
     tm_loc (cf_modification_time c) = UTC \<and> \<not> is_zero (cf_modification_time c) \<and>
     tm_loc (cf_received_at c) = UTC \<and> \<not> is_zero (cf_received_at c) \<and>
     (\<forall>t. cf_end_time c = Some t \<longrightarrow> tm_loc t = UTC) \<and>
     ft_event_key (cf_freshness c) = cf_event_key c \<and>
     ft_modification_time (cf_freshness c) = cf_modification_time c \<and>
     0 \<le> ft_source_sequence (cf_freshness c) \<and> 0 \<le> ft_revision_number (cf_freshness c)"

lemma canonicalize_wf: "canonicalize rt e r = Inr c \<Longrightarrow> canonical_wf c"
  by (auto simp: canonicalize_Inr_iff acceptable_def canonical_wf_def build_fact_def Let_def
      received_time_def split: if_splits)

lemma wf_same_fact_key:
  assumes "canonical_wf c" "canonical_wf d" "cf_fact_key c = cf_fact_key d"
  shows "cf_subject_id c = cf_subject_id d" "cf_effective_time c = cf_effective_time d"
    "cf_event_type c = cf_event_type d" "cf_source_scope c = cf_source_scope d"
proof -
  have loc: "tm_loc (cf_effective_time c) = UTC" "tm_loc (cf_effective_time d) = UTC"
    using assms(1,2) by (simp_all add: canonical_wf_def)
  have "make_fact_key (cf_subject_id c) (cf_source_scope c) (cf_event_type c) (cf_effective_time c) =
        make_fact_key (cf_subject_id d) (cf_source_scope d) (cf_event_type d) (cf_effective_time d)"
    using assms by (simp add: canonical_wf_def)
  from make_fact_key_inj [OF loc this] loc
  show "cf_subject_id c = cf_subject_id d" "cf_effective_time c = cf_effective_time d"
    "cf_event_type c = cf_event_type d" "cf_source_scope c = cf_source_scope d"
    using utc_time_eq_iff by auto
qed

end
