(* ===== verification/Resolve.thy ===== *)
theory Resolve
  imports Canonical
begin

section \<open>Batch resolution (pkg/reconcile/resolve.go, ResolveBatch and applyFact)\<close>

text \<open>
  \<open>ResolveBatch\<close> in the steps of the source: ingest (canonicalize and drop replays), group
  by fact key, select the freshest fact of each group, decide every fact, sort the decisions,
  collect and sort the accepted facts, and fold them into one projection per subject.
  \<open>ingest\<close> takes the map \<open>seenEventKeys\<close> as an argument and returns the facts and the
  decisions it appended. The two calls of \<open>sort.Slice\<close> are \<open>slice_sort\<close> with the
  comparison functions of the source.
\<close>

datatype resolve_error =
    InvalidPolicy policy_error
  | CanonicalizeFailed string canonicalize_error
  | EventKeyReused string
  | EvaluateFailed string policy_error

subsection \<open>Ingestion\<close>

definition replay_decision :: "canonical_fact \<Rightarrow> event_resolution" where
  "replay_decision c =
     \<lparr>er_event_key = cf_event_key c, er_fact_key = cf_fact_key c,
      er_action = Skip, er_reason = DuplicateDelivery, er_fact = c\<rparr>"

fun ingest ::
    "go_runtime \<Rightarrow> policy \<Rightarrow> canonical_fact gomap \<Rightarrow> physical_event list
       \<Rightarrow> resolve_error + canonical_fact list \<times> event_resolution list" where
  "ingest rt p seen [] = Inr ([], [])"
| "ingest rt p seen (e # es) =
     (case canonicalize rt e (po_now p) of
        Inl err \<Rightarrow> Inl (CanonicalizeFailed (pe_event_key e) err)
      | Inr c \<Rightarrow>
        (case fmlookup seen (cf_event_key c) of
           Some previous \<Rightarrow>
             if cf_payload_hash previous \<noteq> cf_payload_hash c \<or> cf_fact_key previous \<noteq> cf_fact_key c then
               Inl (EventKeyReused (cf_event_key c))
             else (case ingest rt p seen es of
                     Inl err \<Rightarrow> Inl err
                   | Inr (facts, decisions) \<Rightarrow> Inr (facts, replay_decision c # decisions))
         | None \<Rightarrow>
             (case ingest rt p (fmupd (cf_event_key c) c seen) es of
                Inl err \<Rightarrow> Inl err
              | Inr (facts, decisions) \<Rightarrow> Inr (c # facts, decisions))))"

subsection \<open>Revision selection\<close>

text \<open>\<open>grouped[fact.FactKey] = append(grouped[fact.FactKey], fact)\<close>; no group is empty.\<close>

fun group_facts ::
    "canonical_fact list gomap \<Rightarrow> canonical_fact list \<Rightarrow> canonical_fact list gomap" where
  "group_facts grouped [] = grouped"
| "group_facts grouped (c # cs) =
     group_facts
       (fmupd (cf_fact_key c)
          ((case fmlookup grouped (cf_fact_key c) of None \<Rightarrow> [] | Some g \<Rightarrow> g) @ [c]) grouped) cs"

definition fresher :: "canonical_fact \<Rightarrow> canonical_fact \<Rightarrow> int" where
  "fresher c d = compare_freshness (cf_freshness c) (cf_freshness d)"

definition select_winners :: "canonical_fact list gomap \<Rightarrow> canonical_fact gomap" where
  "select_winners grouped = fmmap (\<lambda>g. select_greatest fresher (hd g) (tl g)) grouped"

text \<open>The event key of \<open>winners[fact.FactKey]\<close>; a missing entry is the zero fact.\<close>

definition winner_event_key :: "canonical_fact gomap \<Rightarrow> canonical_fact \<Rightarrow> string" where
  "winner_event_key winners c =
     (case fmlookup winners (cf_fact_key c) of None \<Rightarrow> [] | Some w \<Rightarrow> cf_event_key w)"

subsection \<open>Decisions\<close>

definition decide ::
    "policy \<Rightarrow> canonical_fact gomap \<Rightarrow> canonical_fact \<Rightarrow> resolve_error + event_resolution" where
  "decide p winners c =
     (if cf_event_key c \<noteq> winner_event_key winners c then
        Inr \<lparr>er_event_key = cf_event_key c, er_fact_key = cf_fact_key c,
             er_action = Skip, er_reason = DuplicateOrOlder, er_fact = c\<rparr>
      else case evaluate p c of
        Inl err \<Rightarrow> Inl (EvaluateFailed (cf_event_key c) err)
      | Inr (action, reason) \<Rightarrow>
          Inr \<lparr>er_event_key = cf_event_key c, er_fact_key = cf_fact_key c,
               er_action = action, er_reason = reason, er_fact = c\<rparr>)"

definition decision_less :: "event_resolution \<Rightarrow> event_resolution \<Rightarrow> bool" where
  "decision_less a b =
     (if er_event_key a \<noteq> er_event_key b then er_event_key a < er_event_key b
      else er_fact_key a < er_fact_key b)"

definition fact_less :: "canonical_fact \<Rightarrow> canonical_fact \<Rightarrow> bool" where
  "fact_less left right =
     (if before (cf_effective_time left) (cf_effective_time right) then True
      else if after (cf_effective_time left) (cf_effective_time right) then False
      else let freshness = compare_freshness (cf_freshness left) (cf_freshness right) in
        if freshness \<noteq> 0 then freshness < 0
        else if cf_event_type left \<noteq> cf_event_type right then cf_event_type left < cf_event_type right
        else cf_event_key left < cf_event_key right)"

definition accepted_facts :: "event_resolution list \<Rightarrow> canonical_fact list" where
  "accepted_facts decisions =
     slice_sort fact_less (map er_fact (filter (\<lambda>d. er_action d = ProcessNow) decisions))"

subsection \<open>Projection\<close>

text \<open>The lifecycle part of \<open>applyFact\<close>'s switch.\<close>

definition apply_lifecycle :: "event_type \<Rightarrow> identity_projection \<Rightarrow> identity_projection" where
  "apply_lifecycle t ip =
     (case t of
        Hire \<Rightarrow> ip\<lparr>ip_exists := True, ip_enabled := True, ip_lifecycle_state := StateActive\<rparr>
      | Rehire \<Rightarrow> ip\<lparr>ip_exists := True, ip_enabled := True, ip_lifecycle_state := StateActive\<rparr>
      | Leave \<Rightarrow> ip\<lparr>ip_exists := True, ip_enabled := False, ip_lifecycle_state := StateOnLeave\<rparr>
      | ReturnFromLeave \<Rightarrow> ip\<lparr>ip_exists := True, ip_enabled := True, ip_lifecycle_state := StateActive\<rparr>
      | Termination \<Rightarrow> ip\<lparr>ip_exists := True, ip_enabled := False, ip_lifecycle_state := StateTerminated\<rparr>
      | DataUpdate \<Rightarrow> ip
      | Conversion \<Rightarrow> ip
      | Transfer \<Rightarrow> ip)"

text \<open>
  The loop \<open>for key, value := range fact.Attributes\<close> over the entries in the order in which
  they are visited; the runtime may choose any order.
\<close>

fun write_attributes :: "string gomap \<Rightarrow> (string \<times> string) list \<Rightarrow> string gomap" where
  "write_attributes attrs [] = attrs"
| "write_attributes attrs ((k, v) # kvs) = write_attributes (fmupd k v attrs) kvs"

definition apply_fact :: "identity_projection \<Rightarrow> canonical_fact \<Rightarrow> identity_projection" where
  "apply_fact ip c =
     (let ip1 = ip\<lparr>ip_attributes := write_attributes (ip_attributes ip) (sorted_list_of_fmap (cf_attributes c))\<rparr>;
          ip2 = apply_lifecycle (cf_event_type c) ip1
      in ip2\<lparr>ip_source_fact_key := cf_fact_key c,
             ip_source_event_key := cf_event_key c,
             ip_effective_time := cf_effective_time c,
             ip_freshness := cf_freshness c\<rparr>)"

definition zero_freshness :: freshness_tuple where
  "zero_freshness =
     \<lparr>ft_source_sequence = 0, ft_modification_time = zero_time, ft_revision_number = 0, ft_event_key = []\<rparr>"

definition new_projection :: "string \<Rightarrow> identity_projection" where
  "new_projection subject =
     \<lparr>ip_subject_id = subject, ip_exists = False, ip_enabled = False, ip_lifecycle_state = NoState,
      ip_attributes = fmempty, ip_source_fact_key = [], ip_source_event_key = [],
      ip_effective_time = zero_time, ip_freshness = zero_freshness, ip_row_version = 0\<rparr>"

fun project_facts ::
    "identity_projection gomap \<Rightarrow> canonical_fact list \<Rightarrow> identity_projection gomap" where
  "project_facts projections [] = projections"
| "project_facts projections (c # cs) =
     (let ip = (case fmlookup projections (cf_subject_id c) of
                  None \<Rightarrow> new_projection (cf_subject_id c)
                | Some ip \<Rightarrow> ip)
      in project_facts (fmupd (cf_subject_id c) (apply_fact ip c) projections) cs)"

subsection \<open>ResolveBatch\<close>

definition resolve_batch ::
    "go_runtime \<Rightarrow> physical_event list \<Rightarrow> policy \<Rightarrow> resolve_error + batch_result" where
  "resolve_batch rt events p =
     (case validate p of
        Some err \<Rightarrow> Inl (InvalidPolicy err)
      | None \<Rightarrow>
      (case ingest rt p fmempty events of
        Inl err \<Rightarrow> Inl err
      | Inr (facts, replays) \<Rightarrow>
      (let winners = select_winners (group_facts fmempty facts) in
       case map_result (decide p winners) facts of
        Inl err \<Rightarrow> Inl err
      | Inr decided \<Rightarrow>
          (let decisions = slice_sort decision_less (replays @ decided)
           in Inr \<lparr>br_decisions = decisions,
                   br_projections = project_facts fmempty (accepted_facts decisions)\<rparr>))))"

end
