(* ===== verification/Timeline.thy ===== *)
theory Timeline
  imports Resolve
begin

section \<open>What a batch resolves to\<close>

text \<open>
  The proof layer over \<^theory_text>\<open>Resolve\<close>: a successful batch is described by the list of
  its canonical facts alone. \<open>result_of\<close> is that description; \<open>resolve_batch_Inr_iff\<close>
  says that the code computes it. Its parts depend on the set of facts only (the freshest
  revisions, the accepted facts in their one order), which is what the properties in the root
  theory rest on.
\<close>

subsection \<open>Comparators\<close>

text \<open>The order in which accepted facts are applied, as a key.\<close>

definition fact_order ::
    "canonical_fact \<Rightarrow> int \<times> (int \<times> int \<times> int \<times> string) \<times> event_type \<times> string" where
  "fact_order c =
     (tm_nanos (cf_effective_time c), freshness_key (cf_freshness c), cf_event_type c, cf_event_key c)"

definition decision_order :: "event_resolution \<Rightarrow> string \<times> string" where
  "decision_order d = (er_event_key d, er_fact_key d)"

interpretation revision: three_way fresher "\<lambda>c. freshness_key (cf_freshness c)"
  by unfold_locales (simp_all add: fresher_def freshness.cmp_pos_iff freshness.cmp_neg_iff)

interpretation decision: less_order decision_less decision_order
  by unfold_locales (auto simp: decision_less_def decision_order_def)

lemma fact_less_iff: "fact_less c d \<longleftrightarrow> fact_order c < fact_order d"
proof (rule linorder_cases [of "tm_nanos (cf_effective_time c)" "tm_nanos (cf_effective_time d)"])
  assume eq: "tm_nanos (cf_effective_time c) = tm_nanos (cf_effective_time d)"
  show ?thesis
  proof (rule linorder_cases [of "freshness_key (cf_freshness c)" "freshness_key (cf_freshness d)"])
    assume "freshness_key (cf_freshness c) = freshness_key (cf_freshness d)"
    then show ?thesis using eq
      by (cases "cf_event_type c = cf_event_type d")
        (auto simp: fact_less_def fact_order_def before_def after_def compare_freshness_key)
  qed (use eq in \<open>auto simp: fact_less_def fact_order_def before_def after_def compare_freshness_key\<close>)
qed (simp_all add: fact_less_def fact_order_def before_def after_def)

interpretation application: less_order fact_less fact_order
  by unfold_locales (rule fact_less_iff)

lemma fact_order_inj: "inj_on cf_event_key F \<Longrightarrow> inj_on fact_order F"
  by (auto simp: inj_on_def fact_order_def)

subsection \<open>Ingestion\<close>

definition canon :: "go_runtime \<Rightarrow> policy \<Rightarrow> physical_event \<Rightarrow> canonicalize_error + canonical_fact" where
  "canon rt p e = canonicalize rt e (po_now p)"

text \<open>What the code checks before it takes an event for a replay of an earlier one.\<close>

definition same_event :: "canonical_fact \<Rightarrow> canonical_fact \<Rightarrow> bool" where
  "same_event c d \<longleftrightarrow> cf_payload_hash c = cf_payload_hash d \<and> cf_fact_key c = cf_fact_key d"

definition keys_consistent :: "canonical_fact set \<Rightarrow> bool" where
  "keys_consistent F \<longleftrightarrow> (\<forall>c\<in>F. \<forall>d\<in>F. cf_event_key c = cf_event_key d \<longrightarrow> same_event c d)"

definition seen_consistent :: "canonical_fact gomap \<Rightarrow> canonical_fact set \<Rightarrow> bool" where
  "seen_consistent seen F \<longleftrightarrow>
     (\<forall>c\<in>F. \<forall>d. fmlookup seen (cf_event_key c) = Some d \<longrightarrow> same_event d c)"

lemma same_event_refl: "same_event c c"
  by (simp add: same_event_def)

lemma same_event_sym: "same_event c d \<Longrightarrow> same_event d c"
  by (simp add: same_event_def)

lemma same_event_trans: "same_event c d \<Longrightarrow> same_event d e \<Longrightarrow> same_event c e"
  by (simp add: same_event_def)

lemma keys_consistent_insert:
  "keys_consistent (insert c F) \<longleftrightarrow>
     keys_consistent F \<and> (\<forall>d\<in>F. cf_event_key d = cf_event_key c \<longrightarrow> same_event c d)"
  unfolding keys_consistent_def using same_event_refl same_event_sym by (metis insert_iff)

text \<open>The two ways the check goes on: a new key enters the map, a known one must match it.\<close>

lemma consistent_step_new:
  assumes "fmlookup seen (cf_event_key c) = None"
  shows "keys_consistent (insert c F) \<and> seen_consistent seen (insert c F) \<longleftrightarrow>
         keys_consistent F \<and> seen_consistent (fmupd (cf_event_key c) c seen) F"
  using assms unfolding keys_consistent_insert seen_consistent_def
  by (auto split: if_splits)

lemma consistent_step_known:
  assumes "fmlookup seen (cf_event_key c) = Some d"
  shows "keys_consistent (insert c F) \<and> seen_consistent seen (insert c F) \<longleftrightarrow>
         same_event d c \<and> keys_consistent F \<and> seen_consistent seen F"
proof -
  have "same_event c x" if "same_event d c" "seen_consistent seen F" "x \<in> F"
    "cf_event_key x = cf_event_key c" for x
    using that assms same_event_trans same_event_sym unfolding seen_consistent_def by metis
  moreover have "seen_consistent seen (insert c F) \<longleftrightarrow> same_event d c \<and> seen_consistent seen F"
    using assms by (simp add: seen_consistent_def)
  ultimately show ?thesis unfolding keys_consistent_insert by blast
qed

lemma ingest_canon:
  assumes "map (canon rt p) es = map Inr cs"
  shows "if keys_consistent (set cs) \<and> seen_consistent seen (set cs)
    then ingest rt p seen es =
      Inr (firsts cf_event_key (fset (fmdom seen)) cs,
           map replay_decision (repeats cf_event_key (fset (fmdom seen)) cs))
    else \<exists>k. ingest rt p seen es = Inl (EventKeyReused k)"
  using assms
proof (induction es arbitrary: cs seen)
  case Nil
  then show ?case by (simp add: keys_consistent_def seen_consistent_def)
next
  case (Cons e es)
  then obtain c cs' where cs: "cs = c # cs'" and c0: "canon rt p e = Inr c"
    and cs': "map (canon rt p) es = map Inr cs'"
    by (cases cs) auto
  have c: "canonicalize rt e (po_now p) = Inr c" using c0 by (simp add: canon_def)
  show ?case
  proof (cases "fmlookup seen (cf_event_key c)")
    case None
    let ?seen = "fmupd (cf_event_key c) c seen"
    have "keys_consistent (set cs) \<and> seen_consistent seen (set cs) \<longleftrightarrow>
          keys_consistent (set cs') \<and> seen_consistent ?seen (set cs')"
      using consistent_step_new [OF None] by (simp add: cs)
    moreover have "cf_event_key c \<notin> fset (fmdom seen)" using None by (simp add: fmdom_notI)
    ultimately show ?thesis using Cons.IH [OF cs', of ?seen] None
      by (auto simp: cs c split: if_splits)
  next
    case (Some d)
    have "keys_consistent (set cs) \<and> seen_consistent seen (set cs) \<longleftrightarrow>
          same_event d c \<and> keys_consistent (set cs') \<and> seen_consistent seen (set cs')"
      using consistent_step_known [OF Some] by (simp add: cs)
    moreover have "cf_event_key c \<in> fset (fmdom seen)" using Some by (simp add: fmdomI)
    ultimately show ?thesis using Cons.IH [OF cs', of seen] Some
      by (auto simp: cs c same_event_def split: if_splits)
  qed
qed

lemma ingest_ok_canon: "ingest rt p seen es = Inr r \<Longrightarrow> \<exists>cs. map (canon rt p) es = map Inr cs"
proof (induction es arbitrary: seen r)
  case (Cons e es)
  then obtain c where c: "canon rt p e = Inr c" by (auto simp: canon_def split: sum.splits)
  moreover have "\<exists>seen' r'. ingest rt p seen' es = Inr r'"
    using Cons.prems by (auto split: sum.splits option.splits if_splits)
  ultimately obtain cs where "map (canon rt p) es = map Inr cs" using Cons.IH by blast
  then have "map (canon rt p) (e # es) = map Inr (c # cs)" by (simp add: c)
  then show ?case by blast
qed simp

lemma ingest_Inr_iff:
  "ingest rt p fmempty es = Inr (facts, replays) \<longleftrightarrow>
     (\<exists>cs. map (canon rt p) es = map Inr cs \<and> keys_consistent (set cs) \<and>
        facts = firsts cf_event_key {} cs \<and>
        replays = map replay_decision (repeats cf_event_key {} cs))"
proof -
  have "seen_consistent fmempty F" for F by (simp add: seen_consistent_def)
  then have "if keys_consistent (set cs)
      then ingest rt p fmempty es =
        Inr (firsts cf_event_key {} cs, map replay_decision (repeats cf_event_key {} cs))
      else \<exists>k. ingest rt p fmempty es = Inl (EventKeyReused k)"
    if "map (canon rt p) es = map Inr cs" for cs
    using ingest_canon [OF that, of fmempty] by simp
  then show ?thesis using ingest_ok_canon [of rt p fmempty es] by (auto split: if_splits)
qed

lemma canon_wf: "map (canon rt p) es = map Inr cs \<Longrightarrow> c \<in> set cs \<Longrightarrow> canonical_wf c"
  by (metis (no_types, lifting) canon_def canonicalize_wf imageE image_eqI image_set)


subsection \<open>Selection\<close>

lemma group_facts_lookup:
  "fmlookup (group_facts g cs) k =
     (let new = filter (\<lambda>c. cf_fact_key c = k) cs in
      if new = [] then fmlookup g k
      else Some ((case fmlookup g k of None \<Rightarrow> [] | Some old \<Rightarrow> old) @ new))"
  by (induction cs arbitrary: g) (auto simp: Let_def split: option.splits)

text \<open>The freshest revision of its fact key: no other fact with the key compares greater.\<close>

definition freshest :: "canonical_fact set \<Rightarrow> canonical_fact \<Rightarrow> bool" where
  "freshest F c \<longleftrightarrow>
     (\<forall>d\<in>F. cf_fact_key d = cf_fact_key c \<longrightarrow> compare_freshness (cf_freshness d) (cf_freshness c) \<le> 0)"

lemma freshest_iff:
  "freshest F c \<longleftrightarrow> (\<forall>d\<in>F. cf_fact_key d = cf_fact_key c \<longrightarrow>
     freshness_key (cf_freshness d) \<le> freshness_key (cf_freshness c))"
  unfolding freshest_def by (metis freshness.cmp_pos_iff not_le)

lemma freshness_inj:
  assumes "\<forall>c\<in>F. canonical_wf c" "inj_on cf_event_key F"
  shows "inj_on (\<lambda>c. freshness_key (cf_freshness c)) F"
proof (rule inj_onI)
  fix c d
  assume cd: "c \<in> F" "d \<in> F" "freshness_key (cf_freshness c) = freshness_key (cf_freshness d)"
  then have "cf_event_key c = cf_event_key d"
    using assms(1) freshness_key_event by (metis canonical_wf_def)
  then show "c = d" using cd assms(2) by (auto dest: inj_onD)
qed

lemma select_winners_lookup:
  assumes "\<forall>c\<in>set facts. canonical_wf c" "inj_on cf_event_key (set facts)"
    and "w \<in> set facts" "freshest (set facts) w"
  shows "fmlookup (select_winners (group_facts fmempty facts)) (cf_fact_key w) = Some w"
proof -
  let ?g = "filter (\<lambda>c. cf_fact_key c = cf_fact_key w) facts"
  have "?g \<noteq> []" using assms(3) by (auto simp: filter_empty_conv)
  then obtain x xs where g: "?g = x # xs" by (cases ?g) auto
  then have set: "insert x (set xs) = {c \<in> set facts. cf_fact_key c = cf_fact_key w}"
    using set_filter [of "\<lambda>c. cf_fact_key c = cf_fact_key w" facts] by simp
  have "select_greatest fresher x xs = w"
  proof (rule revision.select_greatest_unique)
    show "w \<in> insert x (set xs)" using assms(3) set by blast
    show "freshness_key (cf_freshness y) \<le> freshness_key (cf_freshness w)" if "y \<in> insert x (set xs)" for y
      using that assms(4) unfolding set freshest_iff by blast
    show "inj_on (\<lambda>c. freshness_key (cf_freshness c)) (insert x (set xs))"
      unfolding set using freshness_inj [OF assms(1,2)] by (rule inj_on_subset) blast
  qed
  then show ?thesis
    by (simp add: select_winners_def group_facts_lookup Let_def g)
qed

lemma freshest_exists:
  assumes "finite F" "c \<in> F"
  shows "\<exists>w\<in>F. cf_fact_key w = cf_fact_key c \<and> freshest F w"
proof -
  define G where "G = {d \<in> F. cf_fact_key d = cf_fact_key c}"
  define k where "k = (\<lambda>d :: canonical_fact. freshness_key (cf_freshness d))"
  have "finite (k ` G)" "k ` G \<noteq> {}" using assms by (auto simp: G_def)
  then obtain w where "w \<in> G" "k w = Max (k ` G)" using Max_in by (metis imageE)
  then have "\<forall>d\<in>G. k d \<le> k w" using \<open>finite (k ` G)\<close> by simp
  then show ?thesis using \<open>w \<in> G\<close> unfolding freshest_iff G_def k_def by auto
qed

lemma winner_event_key_iff:
  assumes "\<forall>c\<in>set facts. canonical_wf c" "inj_on cf_event_key (set facts)" "c \<in> set facts"
  shows "winner_event_key (select_winners (group_facts fmempty facts)) c = cf_event_key c \<longleftrightarrow>
         freshest (set facts) c"
proof -
  obtain w where w: "w \<in> set facts" "cf_fact_key w = cf_fact_key c" "freshest (set facts) w"
    using freshest_exists [OF _ assms(3)] by auto
  then have "winner_event_key (select_winners (group_facts fmempty facts)) c = cf_event_key w"
    using select_winners_lookup [OF assms(1,2) w(1,3)] by (simp add: winner_event_key_def)
  moreover have "w = c" if "freshest (set facts) c"
    using that w assms(3) inj_onD [OF freshness_inj [OF assms(1,2)]]
    unfolding freshest_iff by (metis order_antisym)
  ultimately show ?thesis using w assms(2,3) by (metis inj_onD)
qed

subsection \<open>The result of a batch\<close>

definition decided_by :: "policy \<Rightarrow> canonical_fact set \<Rightarrow> canonical_fact \<Rightarrow> decision_action \<times> reason_code" where
  "decided_by p F c = (if freshest F c then projr (evaluate p c) else (Skip, DuplicateOrOlder))"

definition resolution_of :: "policy \<Rightarrow> canonical_fact set \<Rightarrow> canonical_fact \<Rightarrow> event_resolution" where
  "resolution_of p F c =
     \<lparr>er_event_key = cf_event_key c, er_fact_key = cf_fact_key c,
      er_action = fst (decided_by p F c), er_reason = snd (decided_by p F c), er_fact = c\<rparr>"

definition accepts :: "policy \<Rightarrow> canonical_fact set \<Rightarrow> canonical_fact \<Rightarrow> bool" where
  "accepts p F c \<longleftrightarrow> freshest F c \<and> fst (projr (evaluate p c)) = ProcessNow"

text \<open>The accepted facts in the order in which they are applied.\<close>

definition timeline :: "policy \<Rightarrow> canonical_fact list \<Rightarrow> canonical_fact list" where
  "timeline p facts = sort_key fact_order (filter (accepts p (set facts)) facts)"

definition batch_facts :: "canonical_fact list \<Rightarrow> canonical_fact list" where
  "batch_facts cs = firsts cf_event_key {} cs"

definition batch_decisions :: "policy \<Rightarrow> canonical_fact list \<Rightarrow> event_resolution list" where
  "batch_decisions p cs =
     map replay_decision (repeats cf_event_key {} cs) @
     map (resolution_of p (set (batch_facts cs))) (batch_facts cs)"

definition result_of :: "policy \<Rightarrow> canonical_fact list \<Rightarrow> batch_result" where
  "result_of p cs =
     \<lparr>br_decisions = slice_sort decision_less (batch_decisions p cs),
      br_projections = project_facts fmempty (timeline p (batch_facts cs))\<rparr>"

lemma batch_facts_inj: "inj_on cf_event_key (set (batch_facts cs))"
  using distinct_keys_firsts [of cf_event_key "{}" cs] by (simp add: batch_facts_def distinct_map)

lemma batch_facts_distinct: "distinct (batch_facts cs)"
  using distinct_keys_firsts [of cf_event_key "{}" cs] by (simp add: batch_facts_def distinct_map)

lemma batch_facts_subset: "set (batch_facts cs) \<subseteq> set cs"
  by (simp add: batch_facts_def set_firsts_subset)

lemma decide_resolution:
  assumes "\<forall>c\<in>set facts. canonical_wf c" "inj_on cf_event_key (set facts)" "c \<in> set facts"
    and "validate p = None"
  shows "decide p (select_winners (group_facts fmempty facts)) c = Inr (resolution_of p (set facts) c)"
proof -
  obtain a r where "evaluate p c = Inr (a, r)" using evaluate_total [OF assms(4)] by fastforce
  then show ?thesis
    using winner_event_key_iff [OF assms(1-3)]
    by (auto simp: decide_def resolution_of_def decided_by_def)
qed

lemma filter_map_replay:
  "filter (\<lambda>d. er_action d = ProcessNow) (map replay_decision cs) = []"
  by (induction cs) (simp_all add: replay_decision_def)

lemma filter_map_resolution:
  "map er_fact (filter (\<lambda>d. er_action d = ProcessNow) (map (resolution_of p F) cs)) =
   filter (accepts p F) cs"
  by (induction cs) (simp_all add: resolution_of_def decided_by_def accepts_def)

text \<open>Sorting the decisions first, stably or not, does not change the accepted facts.\<close>

lemma accepted_facts_any_order:
  assumes "mset ds = mset (batch_decisions p cs)"
  shows "accepted_facts ds = timeline p (batch_facts cs)"
proof -
  let ?acc = "\<lambda>ds. map er_fact (filter (\<lambda>d. er_action d = ProcessNow) ds)"
  have "mset (?acc ds) = mset (?acc (batch_decisions p cs))"
    using assms by (metis mset_filter mset_map)
  moreover have "?acc (batch_decisions p cs) = filter (accepts p (set (batch_facts cs))) (batch_facts cs)"
    by (simp add: batch_decisions_def filter_map_replay filter_map_resolution)
  moreover have "inj_on fact_order (set (filter (accepts p (set (batch_facts cs))) (batch_facts cs)))"
    by (rule fact_order_inj) (rule inj_on_subset [OF batch_facts_inj], auto)
  ultimately have "slice_sort fact_less (?acc ds) =
      slice_sort fact_less (filter (accepts p (set (batch_facts cs))) (batch_facts cs))"
    by (metis application.slice_sort_permute)
  then show ?thesis by (simp add: accepted_facts_def timeline_def application.slice_sort_eq)
qed

theorem resolve_batch_Inr_iff:
  "resolve_batch rt es p = Inr r \<longleftrightarrow>
     validate p = None \<and>
     (\<exists>cs. map (canon rt p) es = map Inr cs \<and> keys_consistent (set cs) \<and> r = result_of p cs)"
proof (cases "validate p")
  case None
  have result: "resolve_batch rt es p = Inr (result_of p cs)"
    if cs: "map (canon rt p) es = map Inr cs" "keys_consistent (set cs)" for cs
  proof -
    let ?facts = "batch_facts cs" and ?replays = "map replay_decision (repeats cf_event_key {} cs)"
    let ?winners = "select_winners (group_facts fmempty ?facts)"
    have "ingest rt p fmempty es = Inr (?facts, ?replays)"
      using cs unfolding ingest_Inr_iff batch_facts_def by blast
    moreover have "\<forall>c\<in>set ?facts. canonical_wf c"
      using canon_wf [OF cs(1)] batch_facts_subset by blast
    then have "map_result (decide p ?winners) ?facts = Inr (map (resolution_of p (set ?facts)) ?facts)"
      using decide_resolution batch_facts_inj None by (intro map_result_total) blast
    moreover have "accepted_facts (slice_sort decision_less (batch_decisions p cs)) = timeline p ?facts"
      by (intro accepted_facts_any_order) simp
    ultimately show ?thesis
      by (simp add: resolve_batch_def None Let_def result_of_def batch_decisions_def)
  qed
  show ?thesis
  proof
    assume r: "resolve_batch rt es p = Inr r"
    then obtain facts replays where "ingest rt p fmempty es = Inr (facts, replays)"
      by (auto simp: resolve_batch_def None split: sum.splits)
    then obtain cs where "map (canon rt p) es = map Inr cs" "keys_consistent (set cs)"
      unfolding ingest_Inr_iff by blast
    then show "validate p = None \<and>
        (\<exists>cs. map (canon rt p) es = map Inr cs \<and> keys_consistent (set cs) \<and> r = result_of p cs)"
      using result r None by (metis sum.inject(2))
  qed (use result in blast)
qed (simp add: resolve_batch_def)

end
