(* ===== verification/Projections.thy ===== *)
theory Projections
  imports Timeline
begin

section \<open>Projections as functions of the accepted facts\<close>

text \<open>
  Lemmas about \<open>applyFact\<close> and the projection loop: the projection of a subject is the fold
  of \<open>apply_fact\<close> over that subject's accepted facts, its provenance comes from the last of
  them, its attributes from the last writer of each name, its lifecycle fields from the last
  fact that sets them. The accepted facts depend on the set of ingested facts only, and those
  of a subject on the facts of that subject only.
\<close>

subsection \<open>Attributes\<close>

lemma write_attributes_lookup:
  "distinct (map fst kvs) \<Longrightarrow>
   fmlookup (write_attributes attrs kvs) k =
     (case map_of kvs k of None \<Rightarrow> fmlookup attrs k | Some v \<Rightarrow> Some v)"
proof (induction attrs kvs rule: write_attributes.induct)
  case (2 attrs j v kvs)
  then have "map_of kvs j = None" by (simp add: map_of_eq_None_iff)
  then show ?case using 2 by (auto split: option.splits)
qed simp

text \<open>Whatever order the runtime iterates the map in, the loop overlays the map.\<close>

lemma write_attributes_any_order:
  assumes "distinct (map fst kvs)" "map_of kvs = fmlookup m"
  shows "write_attributes attrs kvs = attrs ++\<^sub>f m"
  using assms by (intro fmap_ext) (auto simp: write_attributes_lookup fmdom_notD split: option.splits)

lemma write_attributes_sorted:
  "write_attributes attrs (sorted_list_of_fmap m) = attrs ++\<^sub>f m"
proof (rule write_attributes_any_order)
  have "map fst (sorted_list_of_fmap m) = sorted_list_of_fset (fmdom m)"
    by (simp add: sorted_list_of_fmap_def comp_def)
  then show "distinct (map fst (sorted_list_of_fmap m))" by (simp add: sorted_list_of_fset.rep_eq)
qed simp

subsection \<open>applyFact, field by field\<close>

fun sets_lifecycle :: "event_type \<Rightarrow> bool" where
  "sets_lifecycle DataUpdate = False"
| "sets_lifecycle Conversion = False"
| "sets_lifecycle Transfer = False"
| "sets_lifecycle _ = True"

lemma apply_lifecycle_sel [simp]:
  "ip_subject_id (apply_lifecycle t ip) = ip_subject_id ip"
  "ip_attributes (apply_lifecycle t ip) = ip_attributes ip"
  "ip_row_version (apply_lifecycle t ip) = ip_row_version ip"
  by (cases t; simp add: apply_lifecycle_def)+

lemma apply_fact_sel [simp]:
  "ip_subject_id (apply_fact ip c) = ip_subject_id ip"
  "ip_attributes (apply_fact ip c) = ip_attributes ip ++\<^sub>f cf_attributes c"
  "ip_source_fact_key (apply_fact ip c) = cf_fact_key c"
  "ip_source_event_key (apply_fact ip c) = cf_event_key c"
  "ip_effective_time (apply_fact ip c) = cf_effective_time c"
  "ip_freshness (apply_fact ip c) = cf_freshness c"
  "ip_row_version (apply_fact ip c) = ip_row_version ip"
  by (simp_all add: apply_fact_def Let_def write_attributes_sorted)

text \<open>The three lifecycle fields together.\<close>

definition lifecycle_of :: "identity_projection \<Rightarrow> bool \<times> bool \<times> lifecycle_state" where
  "lifecycle_of ip = (ip_exists ip, ip_enabled ip, ip_lifecycle_state ip)"

fun lifecycle_after :: "event_type \<Rightarrow> bool \<times> bool \<times> lifecycle_state" where
  "lifecycle_after Hire = (True, True, StateActive)"
| "lifecycle_after Rehire = (True, True, StateActive)"
| "lifecycle_after Leave = (True, False, StateOnLeave)"
| "lifecycle_after ReturnFromLeave = (True, True, StateActive)"
| "lifecycle_after Termination = (True, False, StateTerminated)"
| "lifecycle_after _ = (False, False, NoState)"

lemma apply_fact_lifecycle:
  "lifecycle_of (apply_fact ip c) =
     (if sets_lifecycle (cf_event_type c) then lifecycle_after (cf_event_type c) else lifecycle_of ip)"
  by (cases "cf_event_type c")
    (simp_all add: lifecycle_of_def apply_fact_def apply_lifecycle_def Let_def)

subsection \<open>Folding a timeline\<close>

definition projection_from :: "identity_projection \<Rightarrow> canonical_fact list \<Rightarrow> identity_projection" where
  "projection_from ip cs = foldl apply_fact ip cs"

lemma projection_from_simps [simp]:
  "projection_from ip [] = ip"
  "projection_from ip (c # cs) = projection_from (apply_fact ip c) cs"
  "projection_from ip (cs @ [c]) = apply_fact (projection_from ip cs) c"
  by (simp_all add: projection_from_def)

lemma projection_from_subject [simp]: "ip_subject_id (projection_from ip cs) = ip_subject_id ip"
  by (induction cs arbitrary: ip) simp_all

lemma projection_from_row_version [simp]: "ip_row_version (projection_from ip cs) = ip_row_version ip"
  by (induction cs arbitrary: ip) simp_all

lemma projection_from_provenance:
  assumes "cs \<noteq> []"
  shows "ip_source_fact_key (projection_from ip cs) = cf_fact_key (last cs)"
    and "ip_source_event_key (projection_from ip cs) = cf_event_key (last cs)"
    and "ip_effective_time (projection_from ip cs) = cf_effective_time (last cs)"
    and "ip_freshness (projection_from ip cs) = cf_freshness (last cs)"
  using assms by (cases cs rule: rev_cases; simp)+

text \<open>The last fact of a list that writes the attribute, or that sets the lifecycle.\<close>

fun last_writer :: "string \<Rightarrow> canonical_fact list \<Rightarrow> string option" where
  "last_writer n [] = None"
| "last_writer n (c # cs) =
     (case last_writer n cs of None \<Rightarrow> fmlookup (cf_attributes c) n | Some v \<Rightarrow> Some v)"

fun last_lifecycle :: "canonical_fact list \<Rightarrow> event_type option" where
  "last_lifecycle [] = None"
| "last_lifecycle (c # cs) =
     (case last_lifecycle cs of
        None \<Rightarrow> if sets_lifecycle (cf_event_type c) then Some (cf_event_type c) else None
      | Some t \<Rightarrow> Some t)"

lemma projection_from_attributes:
  "fmlookup (ip_attributes (projection_from ip cs)) n =
     (case last_writer n cs of None \<Rightarrow> fmlookup (ip_attributes ip) n | Some v \<Rightarrow> Some v)"
  by (induction cs arbitrary: ip)
    (auto simp: fmlookup_overlay simp del: fmlookup_add split: option.splits)

lemma projection_from_lifecycle:
  "lifecycle_of (projection_from ip cs) =
     (case last_lifecycle cs of None \<Rightarrow> lifecycle_of ip | Some t \<Rightarrow> lifecycle_after t)"
  by (induction cs arbitrary: ip) (auto simp: apply_fact_lifecycle split: option.splits)

lemma last_lifecycle_sets: "last_lifecycle cs = Some t \<Longrightarrow> sets_lifecycle t"
  by (induction cs) (auto split: option.splits if_splits)

lemma last_lifecycle_append:
  "last_lifecycle (cs @ ds) = (case last_lifecycle ds of None \<Rightarrow> last_lifecycle cs | Some t \<Rightarrow> Some t)"
  by (induction cs) (auto split: option.splits)

lemma last_writer_append:
  "last_writer n (cs @ ds) = (case last_writer n ds of None \<Rightarrow> last_writer n cs | Some v \<Rightarrow> Some v)"
  by (induction cs) (auto split: option.splits)

lemma last_lifecycle_None_iff: "last_lifecycle cs = None \<longleftrightarrow> (\<forall>c\<in>set cs. \<not> sets_lifecycle (cf_event_type c))"
  by (induction cs) (auto split: option.splits)

subsection \<open>One projection per subject\<close>

lemma project_facts_lookup:
  "fmlookup (project_facts m cs) s =
     (let own = filter (\<lambda>c. cf_subject_id c = s) cs in
      if own = [] then fmlookup m s
      else Some (projection_from (case fmlookup m s of None \<Rightarrow> new_projection s | Some ip \<Rightarrow> ip) own))"
proof (induction cs arbitrary: m)
  case (Cons c cs)
  then show ?case by (cases "cf_subject_id c = s") (auto simp: Let_def split: option.splits)
qed simp

lemma projection_lookup:
  "fmlookup (br_projections (result_of p cs)) s =
     (let own = filter (\<lambda>c. cf_subject_id c = s) (timeline p (batch_facts cs)) in
      if own = [] then None else Some (projection_from (new_projection s) own))"
  by (simp add: result_of_def project_facts_lookup Let_def)

subsection \<open>The timeline as a set with one order\<close>

lemma set_timeline: "set (timeline p facts) = {c \<in> set facts. accepts p (set facts) c}"
  by (simp add: timeline_def)

lemma sorted_timeline: "sorted (map fact_order (timeline p facts))"
  by (simp add: timeline_def)

lemma distinct_timeline: "distinct facts \<Longrightarrow> distinct (timeline p facts)"
  by (simp add: timeline_def)

lemma timeline_cong:
  assumes "set facts = set facts'" "distinct facts" "distinct facts'" "inj_on cf_event_key (set facts)"
  shows "timeline p facts = timeline p facts'"
proof -
  have "mset (filter (accepts p (set facts)) facts) = mset (filter (accepts p (set facts)) facts')"
    using assms(1-3) by (metis mset_filter set_eq_iff_mset_eq_distinct)
  moreover have "inj_on fact_order (set (filter (accepts p (set facts)) facts))"
    by (rule fact_order_inj) (rule inj_on_subset [OF assms(4)], auto)
  ultimately show ?thesis
    unfolding timeline_def assms(1)
    by (metis assms(1) application.slice_sort_eq application.slice_sort_permute)
qed

text \<open>
  Only facts with the same fact key compete, and these share a subject: the accepted facts of a
  subject are those of the facts of that subject.
\<close>

lemma accepts_subject:
  assumes "\<forall>c\<in>F. canonical_wf c" "c \<in> F" "cf_subject_id c = s"
  shows "accepts p {d \<in> F. cf_subject_id d = s} c \<longleftrightarrow> accepts p F c"
proof -
  have "cf_subject_id d = s" if "d \<in> F" "cf_fact_key d = cf_fact_key c" for d
    using that assms wf_same_fact_key(1) by blast
  then have "freshest {d \<in> F. cf_subject_id d = s} c \<longleftrightarrow> freshest F c"
    unfolding freshest_def by blast
  then show ?thesis by (simp add: accepts_def)
qed

lemma timeline_subject:
  assumes "\<forall>c\<in>set facts. canonical_wf c"
  shows "filter (\<lambda>c. cf_subject_id c = s) (timeline p facts) =
         timeline p (filter (\<lambda>c. cf_subject_id c = s) facts)"
proof -
  have "filter (\<lambda>c. cf_subject_id c = s) (filter (accepts p (set facts)) facts) =
        filter (accepts p {c \<in> set facts. cf_subject_id c = s}) (filter (\<lambda>c. cf_subject_id c = s) facts)"
    unfolding filter_filter using accepts_subject [OF assms] by (intro filter_cong) auto
  then show ?thesis by (simp add: timeline_def filter_sort)
qed

end
