(* ===== verification/Batch.thy ===== *)
theory Batch
  imports Projections
begin

section \<open>Properties of batch resolution\<close>

text \<open>
  Lemmas about whole batches, from the description of a successful batch in
  \<^theory_text>\<open>Timeline\<close> and \<^theory_text>\<open>Projections\<close>: that the facts and
  the projections of a batch depend on the set of its events only, and when a batch resolves.
  The properties of \<open>ResolveBatch\<close> in \<^theory_text>\<open>Engine\<close> rest on them.
\<close>

subsection \<open>The hash as an identity of events\<close>

text \<open>The envelope that is hashed for an event, where its enumerations are recognised.\<close>

definition envelope_of :: "go_runtime \<Rightarrow> physical_event \<Rightarrow> hash_envelope option" where
  "envelope_of rt e =
     (case valid_event_type (normalize_name rt (pe_event_type e)) of
        None \<Rightarrow> None
      | Some type \<Rightarrow>
        (case valid_source_scope (normalize_name rt (pe_source_scope e)) of
           None \<Rightarrow> None
         | Some scope \<Rightarrow> Some (make_envelope e (trim_space (pe_subject_id e)) type scope)))"

text \<open>
  The hypothesis on SHA-256 and the JSON encoding that replay detection relies on: among the
  events of a batch, equal hashes come from equal envelopes. It is about the batch at hand, so
  it can hold for a hash with finitely many values.
\<close>

definition hash_injective_on :: "go_runtime \<Rightarrow> physical_event set \<Rightarrow> bool" where
  "hash_injective_on rt E \<longleftrightarrow>
     (\<forall>e\<in>E. \<forall>f\<in>E. \<forall>u v. envelope_of rt e = Some u \<longrightarrow> envelope_of rt f = Some v \<longrightarrow>
        payload_hash rt u = payload_hash rt v \<longrightarrow> u = v)"

lemma acceptable_envelope:
  "acceptable rt e type scope \<Longrightarrow>
   envelope_of rt e = Some (make_envelope e (trim_space (pe_subject_id e)) type scope)"
  by (simp add: acceptable_def envelope_of_def valid_event_type_iff [THEN iffD2]
      valid_source_scope_iff [THEN iffD2])

lemma normalize_time_format:
  "format_rfc3339nano (normalize_time t) = format_rfc3339nano (normalize_time u) \<longleftrightarrow>
   normalize_time t = normalize_time u"
  using format_rfc3339nano_inj [of "normalize_time t" "normalize_time u"]
  by (metis normalize_time_eq_iff normalize_time_loc normalize_time_nanos)

text \<open>Two events with the same key whose hashes agree canonicalize to the same fact.\<close>

lemma canon_determined:
  assumes "hash_injective_on rt E" "e \<in> E" "f \<in> E"
    and "canon rt p e = Inr c" "canon rt p f = Inr d"
    and "cf_event_key c = cf_event_key d" "cf_payload_hash c = cf_payload_hash d"
  shows "c = d"
proof -
  obtain ty sc at h where c: "acceptable rt e ty sc"
    "attributes_from_payload rt (event_payload e) = Inr at"
    "payload_hash rt (make_envelope e (trim_space (pe_subject_id e)) ty sc) = Some h"
    "c = build_fact e ty sc at h (po_now p)"
    using assms(4) unfolding canon_def canonicalize_Inr_iff by blast
  obtain ty' sc' at' h' where d: "acceptable rt f ty' sc'"
    "attributes_from_payload rt (event_payload f) = Inr at'"
    "payload_hash rt (make_envelope f (trim_space (pe_subject_id f)) ty' sc') = Some h'"
    "d = build_fact f ty' sc' at' h' (po_now p)"
    using assms(5) unfolding canon_def canonicalize_Inr_iff by blast
  have "h = h'" using assms(7) c(4) d(4) by simp
  then have env: "make_envelope e (trim_space (pe_subject_id e)) ty sc =
      make_envelope f (trim_space (pe_subject_id f)) ty' sc'"
    using assms(1-3) acceptable_envelope [OF c(1)] acceptable_envelope [OF d(1)] c(3) d(3)
    unfolding hash_injective_on_def by metis
  then have "ty = ty'" "sc = sc'"
    using event_type_name_inj source_scope_name_inj by (auto simp: make_envelope_def)
  moreover have "event_payload e = event_payload f" "trim_space (pe_subject_id e) = trim_space (pe_subject_id f)"
    "pe_source_sequence e = pe_source_sequence f" "pe_revision_number e = pe_revision_number f"
    "normalize_time (pe_effective_time e) = normalize_time (pe_effective_time f)"
    "normalize_time (pe_modification_time e) = normalize_time (pe_modification_time f)"
    using env by (simp_all add: make_envelope_def normalize_time_format)
  moreover have "map_option normalize_time (pe_end_time e) = map_option normalize_time (pe_end_time f)"
    using env by (cases "pe_end_time e"; cases "pe_end_time f")
      (simp_all add: make_envelope_def normalize_time_format)
  moreover have "trim_space (pe_event_key e) = trim_space (pe_event_key f)"
    using assms(6) c(4) d(4) by simp
  ultimately show ?thesis using c d \<open>h = h'\<close> by (simp add: build_fact_def Let_def)
qed

subsection \<open>Batches with the same events\<close>

lemma canon_set:
  assumes "map (canon rt p) es = map Inr cs" "map (canon rt p) es' = map Inr cs'" "set es = set es'"
  shows "set cs = set cs'"
proof -
  have "Inr ` set cs = canon rt p ` set es" "Inr ` set cs' = canon rt p ` set es'"
    using assms(1,2) by (metis list.set_map)+
  then have "(Inr ` set cs :: (canonicalize_error + canonical_fact) set) = Inr ` set cs'"
    by (simp only: assms(3))
  then show ?thesis by (simp add: inj_image_eq_iff)
qed

lemma canon_mset:
  assumes "map (canon rt p) es = map Inr cs" "map (canon rt p) es' = map Inr cs'" "mset es' = mset es"
  shows "mset cs' = mset cs"
proof -
  have "map (\<lambda>e. projr (canon rt p e)) fs = ds" if "map (canon rt p) fs = map Inr ds" for fs ds
    using arg_cong [OF that, of "map projr"] by (simp add: comp_def)
  then show ?thesis using assms by (metis mset_map)
qed

lemma canon_exists:
  assumes "map (canon rt p) es = map Inr cs" "set es' \<subseteq> set es"
  shows "\<exists>cs'. map (canon rt p) es' = map Inr cs'"
  using assms map_Inr_ex_iff by blast

text \<open>With the hash hypothesis the facts of a batch are all its canonical facts.\<close>

lemma batch_facts_set:
  assumes "hash_injective_on rt (set es)" "map (canon rt p) es = map Inr cs" "keys_consistent (set cs)"
  shows "set (batch_facts cs) = set cs"
proof
  show "set cs \<subseteq> set (batch_facts cs)"
  proof
    fix c
    assume c: "c \<in> set cs"
    have "cf_event_key c \<in> cf_event_key ` set (batch_facts cs)"
      using c keys_firsts [of cf_event_key "{}" cs] by (simp add: batch_facts_def)
    then obtain d where d: "d \<in> set (batch_facts cs)" "cf_event_key d = cf_event_key c" by fastforce
    then have "d \<in> set cs" using batch_facts_subset by blast
    obtain e f where ef: "e \<in> set es" "canon rt p e = Inr c" "f \<in> set es" "canon rt p f = Inr d"
      using map_Inr_memD [OF assms(2) c] map_Inr_memD [OF assms(2) \<open>d \<in> set cs\<close>] by blast
    have "cf_payload_hash c = cf_payload_hash d"
      using assms(3) c \<open>d \<in> set cs\<close> d(2) unfolding keys_consistent_def same_event_def by metis
    then have "c = d" using canon_determined [OF assms(1) ef(1,3,2,4)] d(2) by simp
    then show "c \<in> set (batch_facts cs)" using d by simp
  qed
qed (rule batch_facts_subset)

lemma projections_same_events:
  assumes "hash_injective_on rt (set es)" "set es' = set es"
    and "map (canon rt p) es = map Inr cs" "map (canon rt p) es' = map Inr cs'"
    and "keys_consistent (set cs)"
  shows "set (batch_facts cs') = set (batch_facts cs)"
    and "br_projections (result_of p cs') = br_projections (result_of p cs)"
proof -
  have "set cs' = set cs" using canon_set [OF assms(4,3)] assms(2) by blast
  then show facts: "set (batch_facts cs') = set (batch_facts cs)"
    using batch_facts_set [OF _ assms(4)] batch_facts_set [OF assms(1,3,5)] assms by simp
  show "br_projections (result_of p cs') = br_projections (result_of p cs)"
    using timeline_cong [OF facts batch_facts_distinct batch_facts_distinct batch_facts_inj]
    by (simp add: result_of_def)
qed

lemma resolve_batch_ok_iff:
  "ok (resolve_batch rt es p) \<longleftrightarrow>
     validate p = None \<and>
     (\<exists>cs. map (canon rt p) es = map Inr cs \<and> keys_consistent (set cs))"
  unfolding ok_iff resolve_batch_Inr_iff by blast

lemma mset_decisions:
  "mset (br_decisions (result_of p cs)) = mset (batch_decisions p cs)"
  by (simp add: result_of_def)

end
