(* ===== verification/Examples.thy ===== *)
theory Examples
  imports Batch
begin

section \<open>Concrete inputs for the witnesses\<close>

text \<open>
  A runtime with concrete functions for the library parameters, and the events of the
  repository's own fixture \<open>examples/events.json\<close> with the evaluation time the README gives.
  The example encoding holds the two envelope fields in which the events differ. The
  witnesses of the engine's properties apply the theorems to these inputs.
\<close>

definition utc :: "int \<Rightarrow> go_time" where
  "utc seconds = \<lparr>tm_nanos = seconds * second_ns, tm_loc = UTC\<rparr>"

definition example_marshal :: "hash_envelope \<Rightarrow> string option" where
  "example_marshal env =
     Some (he_event_type env @ CHR '','' # digits (he_source_sequence env))"

definition example_runtime :: go_runtime where
  "example_runtime =
     \<lparr>rt_lower_unicode = id, rt_format_float = (\<lambda>w. digits (uint w)),
      rt_marshal_envelope = example_marshal, rt_sha256 = id\<rparr>"

definition example_event ::
    "string \<Rightarrow> string \<Rightarrow> string \<Rightarrow> int \<Rightarrow> int \<Rightarrow> int \<Rightarrow> (string \<times> string) list \<Rightarrow> physical_event" where
  "example_event key type scope effective modification sequence attrs =
     \<lparr>pe_event_key = key, pe_subject_id = ''person-001'', pe_event_type = type,
      pe_source_scope = scope, pe_effective_time = utc effective, pe_end_time = None,
      pe_modification_time = utc modification, pe_source_sequence = sequence,
      pe_revision_number = 0,
      pe_payload = Some (fmap_of_list [(''attributes'',
        MapValue (fmap_of_list (map (\<lambda>(n, v). (n, StringValue v)) attrs)))])\<rparr>"

text \<open>Days of the fixture in seconds since January 1 of year 1; 2026-09-12 is the evaluation time.\<close>

definition sep :: "int \<Rightarrow> int" where
  "sep day = 63924768000 + (day - 12) * 86400"

definition example_now :: go_time where "example_now = utc (sep 12)"

definition hire_v1 :: physical_event where
  "hire_v1 = example_event ''evt-ava-hire-v1'' ''hire'' ''hire_snapshot'' (sep 10) (sep 1 + 36000) 10
     [(''email'', ''ava@example.test''), (''department'', ''engineering'')]"

definition hire_v2 :: physical_event where
  "hire_v2 = example_event ''evt-ava-hire-v2'' ''hire'' ''hire_snapshot'' (sep 10) (sep 2 + 36000) 11
     [(''email'', ''ava@example.test''), (''department'', ''platform-engineering'')]"

definition profile_update :: physical_event where
  "profile_update = example_event ''evt-ava-profile-001'' ''data_update'' ''lifecycle'' (sep 11)
     (sep 11 + 36000) 12 [(''title'', ''senior-engineer'')]"

definition future_termination :: physical_event where
  "future_termination = example_event ''evt-ava-termination-future'' ''termination'' ''lifecycle''
     (sep 20) (sep 11 + 43200) 13 []"

definition example_events :: "physical_event list" where
  "example_events = [hire_v1, hire_v2, profile_update, profile_update, future_termination]"

lemma example_policy_valid: "validate (default_policy example_now) = None"
  by code_simp

lemma hash_injective_onI:
  assumes "distinct (map (\<lambda>e. Option.bind (envelope_of rt e) (payload_hash rt)) es)"
  shows "hash_injective_on rt (set es)"
proof -
  let ?h = "\<lambda>e. Option.bind (envelope_of rt e) (payload_hash rt)"
  have inj: "inj_on ?h (set es)" using assms by (simp add: distinct_map)
  have "e = f" if "e \<in> set es" "f \<in> set es" "envelope_of rt e = Some u" "envelope_of rt f = Some v"
    "payload_hash rt u = payload_hash rt v" for e f u v
    using inj_onD [OF inj _ that(1,2)] that(3-5) by simp
  then show ?thesis unfolding hash_injective_on_def by (metis option.inject)
qed

lemma example_hashes: "hash_injective_on example_runtime (set example_events)"
proof -
  have "hash_injective_on example_runtime (set [hire_v1, hire_v2, profile_update, future_termination])"
    by (rule hash_injective_onI) code_simp
  then show ?thesis by (simp add: example_events_def insert_commute)
qed

text \<open>The result of the fixture, evaluated once: one decision per event and one projection.\<close>

definition decision_summary :: "event_resolution \<Rightarrow> string \<times> decision_action \<times> reason_code" where
  "decision_summary d = (er_event_key d, er_action d, er_reason d)"

definition example_summary :: "(string \<times> decision_action \<times> reason_code) list" where
  "example_summary =
     [(''evt-ava-hire-v1'', Skip, DuplicateOrOlder),
      (''evt-ava-hire-v2'', ProcessNow, Accepted),
      (''evt-ava-profile-001'', Skip, DuplicateDelivery),
      (''evt-ava-profile-001'', ProcessNow, Accepted),
      (''evt-ava-termination-future'', Skip, FutureLifecycle)]"

definition example_attributes :: "(string \<times> string) list" where
  "example_attributes =
     [(''department'', ''platform-engineering''), (''email'', ''ava@example.test''),
      (''title'', ''senior-engineer'')]"

text \<open>The fact key that the two revisions of the hire share.\<close>

definition example_hire_key :: string where
  "example_hire_key = make_fact_key ''person-001'' HireSnapshot Hire (utc (sep 10))"

definition example_check :: "resolve_error + batch_result \<Rightarrow> bool" where
  "example_check result =
     (case result of
        Inl _ \<Rightarrow> False
      | Inr r \<Rightarrow>
          map decision_summary (br_decisions r) = example_summary \<and>
          map er_fact_key (take 2 (br_decisions r)) = [example_hire_key, example_hire_key] \<and>
          (case fmlookup (br_projections r) ''person-001'' of
             None \<Rightarrow> False
           | Some ip \<Rightarrow>
               ip_exists ip \<and> ip_enabled ip \<and> ip_lifecycle_state ip = StateActive \<and>
               ip_attributes ip = fmap_of_list example_attributes))"

lemma example_evaluates:
  "example_check (resolve_batch example_runtime example_events (default_policy example_now))"
  by code_simp

lemma example_result:
  obtains r where
    "resolve_batch example_runtime example_events (default_policy example_now) = Inr r"
    "length (br_decisions r) = 5"
    "map decision_summary (br_decisions r) = example_summary"
    "\<forall>d\<in>set (br_decisions r). er_event_key d \<in> {''evt-ava-hire-v1'', ''evt-ava-hire-v2''} \<longrightarrow>
        er_fact_key d = example_hire_key"
proof -
  obtain r where r: "resolve_batch example_runtime example_events (default_policy example_now) = Inr r"
    and s: "map decision_summary (br_decisions r) = example_summary"
    and k: "map er_fact_key (take 2 (br_decisions r)) = [example_hire_key, example_hire_key]"
    using example_evaluates by (auto simp: example_check_def split: sum.splits)
  have n: "length (br_decisions r) = 5"
    using arg_cong [OF s, of length] by (simp add: example_summary_def)
  then obtain a b c d e where ds: "br_decisions r = [a, b, c, d, e]"
    by (auto simp: numeral_eq_Suc length_Suc_conv)
  have "\<forall>d\<in>set (br_decisions r). er_event_key d \<in> {''evt-ava-hire-v1'', ''evt-ava-hire-v2''} \<longrightarrow>
        er_fact_key d = example_hire_key"
    using s k by (simp add: ds decision_summary_def example_summary_def)
  then show thesis using that r s n by blast
qed

text \<open>
  A batch in which a data update with a newer modification arrives for a day before a
  termination, and one with a profile update alone.
\<close>

definition termination_today :: physical_event where
  "termination_today = example_event ''evt-termination'' ''termination'' ''lifecycle'' (sep 11)
     (sep 11 + 3600) 20 []"

definition late_update :: physical_event where
  "late_update = example_event ''evt-late-update'' ''data_update'' ''lifecycle'' (sep 10 + 3600)
     (sep 12) 30 [(''title'', ''director''), (''email'', ''ava@new.example.test'')]"

definition late_events :: "physical_event list" where
  "late_events = [late_update, hire_v2, termination_today]"

definition result_satisfies :: "(batch_result \<Rightarrow> bool) \<Rightarrow> physical_event list \<Rightarrow> bool" where
  "result_satisfies P es =
     (case resolve_batch example_runtime es (default_policy example_now) of Inl _ \<Rightarrow> False | Inr r \<Rightarrow> P r)"

lemma result_satisfiesE:
  assumes "result_satisfies P es"
  obtains r where "resolve_batch example_runtime es (default_policy example_now) = Inr r" "P r"
  using assms by (auto simp: result_satisfies_def split: sum.splits)

end
