(* ===== verification/Engine.thy ===== *)
theory Engine
  imports Examples
begin

section \<open>The contract of the reconciliation engine\<close>

text \<open>
  The properties of \<open>ResolveBatch\<close>, each with a witness at the repository's fixture. The
  hypothesis \<open>hash_injective_on\<close> is the collision-freedom of the payload hash on the events of
  the batch; the properties that do not need it do not have it.
\<close>

subsection \<open>Helpers over decisions\<close>

text \<open>The decisions that a first delivery of an event got.\<close>

definition first_deliveries :: "event_resolution list \<Rightarrow> event_resolution list" where
  "first_deliveries ds = filter (\<lambda>d. er_reason d \<noteq> DuplicateDelivery) ds"

lemma evaluate_reason: "evaluate p c = Inr (a, r) \<Longrightarrow> r \<noteq> DuplicateDelivery \<and> r \<noteq> DuplicateOrOlder"
  by (auto simp: evaluate_def Let_def split: option.splits if_splits)

lemma decided_by_reason:
  assumes "validate p = None"
  shows "snd (decided_by p F c) \<noteq> DuplicateDelivery"
    and "snd (decided_by p F c) = DuplicateOrOlder \<longleftrightarrow> \<not> freshest F c"
proof -
  obtain a r where "evaluate p c = Inr (a, r)" using evaluate_total [OF assms] by fastforce
  then show "snd (decided_by p F c) \<noteq> DuplicateDelivery"
    "snd (decided_by p F c) = DuplicateOrOlder \<longleftrightarrow> \<not> freshest F c"
    using evaluate_reason by (auto simp: decided_by_def)
qed

lemma decision_cases:
  assumes "validate p = None" "d \<in> set (br_decisions (result_of p cs))" "er_reason d \<noteq> DuplicateDelivery"
  obtains c where "c \<in> set (batch_facts cs)" "d = resolution_of p (set (batch_facts cs)) c"
proof -
  have "d \<in> set (batch_decisions p cs)"
    using assms(2) mset_decisions by (metis set_mset_mset)
  then show thesis using that assms(3) by (auto simp: batch_decisions_def replay_decision_def)
qed

lemma accepted_decision_iff:
  assumes "validate p = None"
  shows "(\<exists>d\<in>set (br_decisions (result_of p cs)). er_action d = ProcessNow \<and> er_fact d = c) \<longleftrightarrow>
         c \<in> set (timeline p (batch_facts cs))"
proof -
  let ?F = "set (batch_facts cs)"
  have replay: "er_action (replay_decision x) \<noteq> ProcessNow" for x
    by (simp add: replay_decision_def)
  have resolution: "er_action (resolution_of p ?F x) = ProcessNow \<longleftrightarrow> accepts p ?F x"
    "er_fact (resolution_of p ?F x) = x" for x
    by (simp_all add: resolution_of_def decided_by_def accepts_def)
  have "set (br_decisions (result_of p cs)) = set (batch_decisions p cs)"
    using mset_decisions by (metis set_mset_mset)
  also have "\<dots> = replay_decision ` set (repeats cf_event_key {} cs) \<union> resolution_of p ?F ` ?F"
    by (simp add: batch_decisions_def)
  finally have "(\<exists>d\<in>set (br_decisions (result_of p cs)). er_action d = ProcessNow \<and> er_fact d = c) \<longleftrightarrow>
      (\<exists>x\<in>?F. accepts p ?F x \<and> x = c)"
    using replay resolution by (simp add: bex_Un)
  then show ?thesis by (auto simp: set_timeline)
qed

lemma first_deliveries_mset:
  assumes "validate p = None"
  shows "mset (first_deliveries (br_decisions (result_of p cs))) =
         mset (map (resolution_of p (set (batch_facts cs))) (batch_facts cs))"
proof -
  have "filter (\<lambda>d. er_reason d \<noteq> DuplicateDelivery) (map replay_decision xs) = []" for xs
    by (induction xs) (simp_all add: replay_decision_def)
  moreover have "filter (\<lambda>d. er_reason d \<noteq> DuplicateDelivery) (map (resolution_of p F) xs) =
      map (resolution_of p F) xs" for F xs
    using decided_by_reason(1) [OF assms] by (induction xs) (simp_all add: resolution_of_def)
  ultimately show ?thesis
    by (simp add: first_deliveries_def mset_filter mset_decisions flip: mset_map)
      (simp add: batch_decisions_def flip: mset_filter mset_map)
qed

text \<open>Two deliveries of the same set of events, as batches of facts.\<close>

lemma resolve_same_events:
  assumes "hash_injective_on rt (set es)" "set es' = set es" "resolve_batch rt es p = Inr r"
  obtains cs cs' where "validate p = None" "map (canon rt p) es = map Inr cs"
    "map (canon rt p) es' = map Inr cs'" "r = result_of p cs" "resolve_batch rt es' p = Inr (result_of p cs')"
    "set (batch_facts cs') = set (batch_facts cs)" "mset (batch_facts cs') = mset (batch_facts cs)"
    "br_projections (result_of p cs') = br_projections r"
    "mset (first_deliveries (br_decisions (result_of p cs'))) = mset (first_deliveries (br_decisions r))"
proof -
  obtain cs where v: "validate p = None" and cs: "map (canon rt p) es = map Inr cs"
    "keys_consistent (set cs)" and r: "r = result_of p cs"
    using assms(3) unfolding resolve_batch_Inr_iff by blast
  obtain cs' where cs': "map (canon rt p) es' = map Inr cs'"
    using canon_exists [OF cs(1)] assms(2) by blast
  have "set cs' = set cs" using canon_set [OF cs' cs(1) assms(2)] .
  then have resolved: "resolve_batch rt es' p = Inr (result_of p cs')"
    using v cs' cs(2) unfolding resolve_batch_Inr_iff by metis
  note same = projections_same_events [OF assms(1,2) cs(1) cs' cs(2)]
  then have facts: "mset (batch_facts cs') = mset (batch_facts cs)"
    using batch_facts_distinct by (metis set_eq_iff_mset_eq_distinct)
  then have "mset (first_deliveries (br_decisions (result_of p cs'))) =
      mset (first_deliveries (br_decisions (result_of p cs)))"
    by (simp add: first_deliveries_mset [OF v] same(1))
  then show thesis using that [OF v cs(1) cs' r resolved same(1) facts] same(2) r by simp
qed

subsection \<open>Order and repetition of deliveries\<close>

text \<open>
  C1. Permutation invariance: a batch that resolves also resolves in any other delivery order,
  with the same projections and the same decisions (as a multiset; both lists are sorted by
  event key, and only the decisions of one event's repeated deliveries can be tied).
\<close>

theorem resolve_permutation_invariant:
  assumes "hash_injective_on rt (set es)" "mset es' = mset es"
    and "resolve_batch rt es p = Inr r"
  shows "\<exists>r'. resolve_batch rt es' p = Inr r' \<and> br_projections r' = br_projections r \<and>
    mset (br_decisions r') = mset (br_decisions r)"
proof -
  have "set es' = set es" using assms(2) by (metis set_mset_mset)
  from assms(1) this assms(3) obtain cs cs' where cs: "map (canon rt p) es = map Inr cs"
    "map (canon rt p) es' = map Inr cs'" "r = result_of p cs" "resolve_batch rt es' p = Inr (result_of p cs')"
    and facts: "set (batch_facts cs') = set (batch_facts cs)" "mset (batch_facts cs') = mset (batch_facts cs)"
      "br_projections (result_of p cs') = br_projections r"
    by (rule resolve_same_events)
  have "mset (repeats cf_event_key {} cs') = mset (repeats cf_event_key {} cs)"
    using mset_firsts_repeats [of cf_event_key "{}" cs] mset_firsts_repeats [of cf_event_key "{}" cs']
      facts(2) canon_mset [OF cs(1,2) assms(2)] by (metis batch_facts_def add_left_cancel)
  then have "mset (br_decisions (result_of p cs')) = mset (br_decisions (result_of p cs))"
    using facts by (simp add: mset_decisions batch_decisions_def)
  then show ?thesis using cs(3,4) facts(3) by blast
qed

theorem resolve_permutation_invariant_witness:
  "\<exists>r r'. resolve_batch example_runtime example_events (default_policy example_now) = Inr r \<and>
     resolve_batch example_runtime (rev example_events) (default_policy example_now) = Inr r' \<and>
     br_projections r' = br_projections r \<and> length (br_decisions r') = 5"
proof -
  obtain r where r: "resolve_batch example_runtime example_events (default_policy example_now) = Inr r"
    and n: "length (br_decisions r) = 5"
    by (rule example_result)
  then show ?thesis
    using resolve_permutation_invariant [OF example_hashes mset_rev r] by (metis mset_eq_length)
qed

text \<open>
  C11. Replay idempotence: delivering events of the batch again, any number of times and at any
  place, changes neither the projections nor the decisions of the first deliveries, where the
  payload hashes of the events of the batch do not collide.
\<close>

theorem resolve_redelivery_idempotent:
  assumes "hash_injective_on rt (set es)" "set es' = set es"
    and "resolve_batch rt es p = Inr r"
  shows "\<exists>r'. resolve_batch rt es' p = Inr r' \<and> br_projections r' = br_projections r \<and>
    mset (first_deliveries (br_decisions r')) = mset (first_deliveries (br_decisions r))"
  using assms by (rule resolve_same_events) blast

theorem resolve_redelivery_idempotent_witness:
  "\<exists>r r'. resolve_batch example_runtime example_events (default_policy example_now) = Inr r \<and>
     resolve_batch example_runtime (hire_v2 # example_events @ [hire_v1, hire_v1])
       (default_policy example_now) = Inr r' \<and>
     br_projections r' = br_projections r"
proof -
  obtain r where r: "resolve_batch example_runtime example_events (default_policy example_now) = Inr r"
    by (rule example_result)
  have "set (hire_v2 # example_events @ [hire_v1, hire_v1]) = set example_events"
    by (auto simp: example_events_def)
  then show ?thesis using resolve_redelivery_idempotent [OF example_hashes _ r] r by blast
qed

text \<open>
  Whether a batch is refused does not depend on the delivery order or on repeated
  deliveries: only on the set of events. No hypothesis on the hash is needed.
\<close>

theorem resolve_acceptance_order_free:
  assumes "set es' = set es"
  shows "ok (resolve_batch rt es' p) \<longleftrightarrow> ok (resolve_batch rt es p)"
proof -
  have "ok (resolve_batch rt es2 p)" if a: "ok (resolve_batch rt es1 p)" and b: "set es2 = set es1" for es1 es2
  proof -
    obtain cs where v: "validate p = None" and cs: "map (canon rt p) es1 = map Inr cs" "keys_consistent (set cs)"
      using a unfolding resolve_batch_ok_iff by blast
    obtain cs2 where cs2: "map (canon rt p) es2 = map Inr cs2"
      using canon_exists [OF cs(1)] b by blast
    then show ?thesis using canon_set [OF cs2 cs(1) b] v cs(2) unfolding resolve_batch_ok_iff by metis
  qed
  then show ?thesis using assms by metis
qed

theorem resolve_acceptance_order_free_witness:
  "ok (resolve_batch example_runtime (rev example_events) (default_policy example_now))"
proof -
  have "ok (resolve_batch example_runtime example_events (default_policy example_now))"
    by (rule example_result) simp
  then show ?thesis
    using resolve_acceptance_order_free [of "rev example_events" example_events] by simp
qed

subsection \<open>Revisions\<close>

text \<open>
  C2. Revision dominance: where an event was decided by the policy (not as a replay and not as
  an older revision), every other event with the same fact key has a strictly smaller freshness
  tuple and was skipped as an older revision.
\<close>

theorem revision_dominance:
  assumes "resolve_batch rt es p = Inr r"
    and "d \<in> set (br_decisions r)" "er_reason d \<noteq> DuplicateDelivery" "er_reason d \<noteq> DuplicateOrOlder"
    and "d' \<in> set (br_decisions r)" "er_reason d' \<noteq> DuplicateDelivery"
    and "er_fact_key d' = er_fact_key d" "er_event_key d' \<noteq> er_event_key d"
  shows "compare_freshness (cf_freshness (er_fact d')) (cf_freshness (er_fact d)) < 0 \<and>
    er_action d' = Skip \<and> er_reason d' = DuplicateOrOlder"
proof -
  obtain cs where v: "validate p = None" and cs: "map (canon rt p) es = map Inr cs"
    and r: "r = result_of p cs"
    using assms(1) unfolding resolve_batch_Inr_iff by blast
  let ?F = "set (batch_facts cs)"
  obtain c where c: "c \<in> ?F" "d = resolution_of p ?F c"
    using decision_cases [OF v] assms(2,3) r by blast
  obtain c' where c': "c' \<in> ?F" "d' = resolution_of p ?F c'"
    using decision_cases [OF v] assms(5,6) r by blast
  have wf: "\<forall>c\<in>?F. canonical_wf c" using canon_wf [OF cs] batch_facts_subset by blast
  have keys: "cf_fact_key c' = cf_fact_key c" "cf_event_key c' \<noteq> cf_event_key c"
    using assms(7,8) c(2) c'(2) by (simp_all add: resolution_of_def)
  have fresh: "freshest ?F c" using assms(4) c(2) decided_by_reason(2) [OF v] by (simp add: resolution_of_def)
  then have "freshness_key (cf_freshness c') \<le> freshness_key (cf_freshness c)"
    using c'(1) keys(1) unfolding freshest_iff by blast
  moreover have "freshness_key (cf_freshness c') \<noteq> freshness_key (cf_freshness c)"
    using inj_onD [OF freshness_inj [OF wf batch_facts_inj]] c(1) c'(1) keys(2) by blast
  ultimately have less: "freshness_key (cf_freshness c') < freshness_key (cf_freshness c)" by simp
  then have "\<not> freshest ?F c'" using c(1) keys(1) unfolding freshest_iff by (metis not_le)
  then show ?thesis using less c(2) c'(2)
    by (simp add: resolution_of_def decided_by_def freshness.cmp_neg_iff)
qed

theorem revision_dominance_witness:
  "\<exists>r d d'. resolve_batch example_runtime example_events (default_policy example_now) = Inr r \<and>
     d \<in> set (br_decisions r) \<and> er_event_key d = ''evt-ava-hire-v2'' \<and> er_action d = ProcessNow \<and>
     d' \<in> set (br_decisions r) \<and> er_event_key d' = ''evt-ava-hire-v1'' \<and>
     compare_freshness (cf_freshness (er_fact d')) (cf_freshness (er_fact d)) < 0"
proof -
  obtain r where r: "resolve_batch example_runtime example_events (default_policy example_now) = Inr r"
    and s: "map decision_summary (br_decisions r) = example_summary"
    and k: "\<forall>d\<in>set (br_decisions r). er_event_key d \<in> {''evt-ava-hire-v1'', ''evt-ava-hire-v2''} \<longrightarrow>
        er_fact_key d = example_hire_key"
    by (rule example_result)
  have "(''evt-ava-hire-v2'', ProcessNow, Accepted) \<in> decision_summary ` set (br_decisions r)"
    "(''evt-ava-hire-v1'', Skip, DuplicateOrOlder) \<in> decision_summary ` set (br_decisions r)"
    using arg_cong [OF s, of set] by (simp_all add: example_summary_def)
  then obtain d d' where d: "d \<in> set (br_decisions r)" "er_event_key d = ''evt-ava-hire-v2''"
      "er_action d = ProcessNow" "er_reason d = Accepted"
    and d': "d' \<in> set (br_decisions r)" "er_event_key d' = ''evt-ava-hire-v1''" "er_reason d' = DuplicateOrOlder"
    by (auto simp: decision_summary_def)
  then have "er_fact_key d' = er_fact_key d" using k by auto
  then show ?thesis using revision_dominance [OF r d(1) _ _ d'(1)] d d' r by auto
qed

end
