(* ===== verification/Outcomes.thy ===== *)
theory Outcomes
  imports Engine
begin

section \<open>What the projections of a batch say\<close>

text \<open>
  The properties of the projections and of the decision list that \<open>ResolveBatch\<close> returns,
  stated over the result alone: \<open>accepted_of r s\<close> are the facts of a subject that its
  decisions processed, and \<open>fact_less\<close> is the order in which the code applies them.
\<close>

definition accepted_of :: "batch_result \<Rightarrow> string \<Rightarrow> canonical_fact list" where
  "accepted_of r s =
     map er_fact (filter (\<lambda>d. er_action d = ProcessNow \<and> cf_subject_id (er_fact d) = s) (br_decisions r))"

text \<open>No fact of the list that satisfies the predicate is applied after this one.\<close>

definition latest_such :: "(canonical_fact \<Rightarrow> bool) \<Rightarrow> canonical_fact list \<Rightarrow> canonical_fact \<Rightarrow> bool" where
  "latest_such P cs c \<longleftrightarrow> c \<in> set cs \<and> P c \<and> list_all (\<lambda>d. P d \<longrightarrow> \<not> fact_less c d) cs"

subsection \<open>The timeline of a subject\<close>

definition own_facts :: "policy \<Rightarrow> canonical_fact list \<Rightarrow> string \<Rightarrow> canonical_fact list" where
  "own_facts p cs s = filter (\<lambda>c. cf_subject_id c = s) (timeline p (batch_facts cs))"

lemma own_facts_projection:
  "fmlookup (br_projections (result_of p cs)) s =
     (if own_facts p cs s = [] then None
      else Some (projection_from (new_projection s) (own_facts p cs s)))"
  by (simp add: projection_lookup own_facts_def Let_def)

lemma set_accepted_of:
  assumes "validate p = None"
  shows "set (accepted_of (result_of p cs) s) = set (own_facts p cs s)"
proof (rule set_eqI)
  fix c
  have "c \<in> set (accepted_of (result_of p cs) s) \<longleftrightarrow>
      (\<exists>d\<in>set (br_decisions (result_of p cs)). er_action d = ProcessNow \<and> er_fact d = c) \<and> cf_subject_id c = s"
    by (auto simp: accepted_of_def)
  then show "c \<in> set (accepted_of (result_of p cs) s) \<longleftrightarrow> c \<in> set (own_facts p cs s)"
    by (auto simp: accepted_decision_iff [OF assms] own_facts_def)
qed

lemma own_facts_strict: "sorted_wrt (\<lambda>c d. fact_less c d) (own_facts p cs s)"
proof -
  have "inj_on fact_order (set (timeline p (batch_facts cs)))"
    by (rule fact_order_inj) (rule inj_on_subset [OF batch_facts_inj [of cs]], auto simp: set_timeline)
  then have "distinct (map fact_order (timeline p (batch_facts cs)))"
    using distinct_timeline [OF batch_facts_distinct] by (simp add: distinct_map)
  then have "sorted_wrt (<) (map fact_order (timeline p (batch_facts cs)))"
    using sorted_timeline by (simp add: strict_sorted_iff)
  then show ?thesis
    unfolding own_facts_def by (intro sorted_wrt_filter) (simp add: sorted_wrt_map fact_less_iff)
qed

text \<open>The latest fact with a property splits the timeline: none after it has the property.\<close>

lemma latest_split:
  assumes "sorted_wrt fact_less xs" "latest_such P cs c" "set cs = set xs"
  obtains ys zs where "xs = ys @ c # zs" "\<forall>d\<in>set zs. \<not> P d"
proof -
  have "c \<in> set xs" using assms(2,3) by (simp add: latest_such_def)
  then obtain ys zs where xs: "xs = ys @ c # zs" by (meson split_list)
  then have "\<forall>d\<in>set zs. fact_less c d" using assms(1) by (simp add: sorted_wrt_append)
  then have "\<forall>d\<in>set zs. \<not> P d"
    using assms(2,3) xs unfolding latest_such_def list_all_iff by auto
  then show thesis using that xs by blast
qed

lemma last_writer_None_iff: "last_writer n cs = None \<longleftrightarrow> (\<forall>c\<in>set cs. fmlookup (cf_attributes c) n = None)"
  by (induction cs) (auto split: option.splits)

text \<open>A batch that resolved, as the facts of a subject.\<close>

lemma resolved_subject:
  assumes "resolve_batch rt es p = Inr r"
  obtains cs where "r = result_of p cs" "set (accepted_of r s) = set (own_facts p cs s)"
    "validate p = None" "map (canon rt p) es = map Inr cs"
  using assms set_accepted_of that unfolding resolve_batch_Inr_iff by metis

text \<open>The accepted lifecycle fact applied last sets the lifecycle fields.\<close>

lemma latest_lifecycle:
  assumes "resolve_batch rt es p = Inr r"
    and "latest_such (\<lambda>c. sets_lifecycle (cf_event_type c)) (accepted_of r s) c"
  obtains ip where "fmlookup (br_projections r) s = Some ip"
    "(ip_exists ip, ip_enabled ip, ip_lifecycle_state ip) = lifecycle_after (cf_event_type c)"
proof -
  obtain cs where cs: "r = result_of p cs" "set (accepted_of r s) = set (own_facts p cs s)"
    using resolved_subject [OF assms(1)] by blast
  obtain ys zs where split: "own_facts p cs s = ys @ c # zs" "\<forall>d\<in>set zs. \<not> sets_lifecycle (cf_event_type d)"
    using latest_split [OF own_facts_strict assms(2) cs(2)] by blast
  then have "last_lifecycle zs = None" by (simp add: last_lifecycle_None_iff)
  moreover have "sets_lifecycle (cf_event_type c)" using assms(2) by (simp add: latest_such_def)
  ultimately have "last_lifecycle (own_facts p cs s) = Some (cf_event_type c)"
    by (simp add: split(1) last_lifecycle_append)
  then have "lifecycle_of (projection_from (new_projection s) (own_facts p cs s)) = lifecycle_after (cf_event_type c)"
    by (simp add: projection_from_lifecycle)
  then show thesis using that by (simp add: own_facts_projection cs(1) split(1) lifecycle_of_def)
qed

text \<open>The accepted fact applied last gives its freshness to the projection.\<close>

lemma latest_freshness:
  assumes "resolve_batch rt es p = Inr r" "latest_such (\<lambda>d. True) (accepted_of r s) c"
  obtains ip where "fmlookup (br_projections r) s = Some ip" "ip_subject_id ip = s"
    "ip_freshness ip = cf_freshness c"
proof -
  obtain cs where cs: "r = result_of p cs" "set (accepted_of r s) = set (own_facts p cs s)"
    using resolved_subject [OF assms(1)] by blast
  obtain ys zs where "own_facts p cs s = ys @ c # zs" "\<forall>d\<in>set zs. \<not> True"
    using latest_split [OF own_facts_strict assms(2) cs(2)] by blast
  then have own: "own_facts p cs s = ys @ [c]" by (cases zs) auto
  have "fmlookup (br_projections r) s = Some (projection_from (new_projection s) (ys @ [c]))"
    by (simp add: own_facts_projection cs(1) own)
  then show thesis
    by (rule that) (simp_all add: new_projection_def)
qed

text \<open>The concrete batches of the witnesses, evaluated once.\<close>

definition ava :: string where "ava = ''person-001''"

definition late_check :: "batch_result \<Rightarrow> bool" where
  "late_check r \<longleftrightarrow>
     list_ex (\<lambda>c. latest_such (\<lambda>d. sets_lifecycle (cf_event_type d)) (accepted_of r ava) c \<and>
         cf_event_type c = Termination) (accepted_of r ava) \<and>
     list_ex (\<lambda>c. latest_such (\<lambda>d. fmlookup (cf_attributes d) ''title'' \<noteq> None) (accepted_of r ava) c \<and>
         fmlookup (cf_attributes c) ''title'' = Some ''director'') (accepted_of r ava)"

definition update_only_check :: "batch_result \<Rightarrow> bool" where
  "update_only_check r \<longleftrightarrow>
     map cf_event_type (accepted_of r ava) = [DataUpdate] \<and> fmlookup (br_projections r) ava \<noteq> None"

lemma late_evaluates: "result_satisfies late_check late_events"
  by code_simp

lemma update_only_evaluates: "result_satisfies update_only_check [profile_update]"
  by code_simp

lemma late_accepts_three:
  "result_satisfies (\<lambda>r. length (filter (\<lambda>d. er_action d = ProcessNow) (br_decisions r)) = 3) late_events"
  by code_simp

subsection \<open>The order of application\<close>

text \<open>
  C8. The projections are the fold of the accepted facts, each once, in ascending effective
  time, whatever order they were delivered in; facts with the same effective time are applied
  in the lexicographic order of source sequence, modification time, revision number and event
  key, and no two facts of a batch are tied.
\<close>

theorem application_order:
  assumes "resolve_batch rt es p = Inr r"
  shows "\<exists>cs. mset cs = mset (map er_fact (filter (\<lambda>d. er_action d = ProcessNow) (br_decisions r))) \<and>
    br_projections r = project_facts fmempty cs \<and>
    sorted_wrt (\<lambda>c d.
      (tm_nanos (cf_effective_time c), ft_source_sequence (cf_freshness c),
       tm_nanos (cf_modification_time c), ft_revision_number (cf_freshness c), cf_event_key c) <
      (tm_nanos (cf_effective_time d), ft_source_sequence (cf_freshness d),
       tm_nanos (cf_modification_time d), ft_revision_number (cf_freshness d), cf_event_key d)) cs"
    (is "\<exists>cs. _ \<and> _ \<and> sorted_wrt ?before cs")
proof -
  obtain cs where cs: "map (canon rt p) es = map Inr cs" and r: "r = result_of p cs"
    using assms unfolding resolve_batch_Inr_iff by blast
  let ?T = "timeline p (batch_facts cs)"
  have applied: "accepted_facts (br_decisions r) = ?T"
    using mset_decisions by (simp add: r accepted_facts_any_order)
  have inj: "inj_on cf_event_key (set ?T)"
    by (rule inj_on_subset [OF batch_facts_inj [of cs]]) (auto simp: set_timeline)
  have wf: "ft_modification_time (cf_freshness c) = cf_modification_time c \<and>
      ft_event_key (cf_freshness c) = cf_event_key c" if "c \<in> set ?T" for c
    using that canon_wf [OF cs] batch_facts_subset by (auto simp: set_timeline canonical_wf_def)
  have strict: "sorted_wrt (\<lambda>c d. fact_less c d) ?T"
  proof -
    have "distinct (map fact_order ?T)"
      using distinct_timeline [OF batch_facts_distinct] fact_order_inj [OF inj] by (simp add: distinct_map)
    then have "sorted_wrt (<) (map fact_order ?T)" using sorted_timeline by (simp add: strict_sorted_iff)
    then show ?thesis by (simp add: sorted_wrt_map fact_less_iff)
  qed
  have "?before c d" if "c \<in> set ?T" "d \<in> set ?T" "fact_less c d" for c d
  proof -
    have "cf_event_key c \<noteq> cf_event_key d" using that inj fact_less_iff by (metis inj_onD less_irrefl)
    then show ?thesis using that(3) wf [OF that(1)] wf [OF that(2)]
      by (auto simp: fact_less_iff fact_order_def freshness_key_def)
  qed
  then have "sorted_wrt ?before ?T" using strict by (rule sorted_wrt_mono_rel)
  moreover have "mset ?T = mset (map er_fact (filter (\<lambda>d. er_action d = ProcessNow) (br_decisions r)))"
    unfolding applied [symmetric] by (simp add: accepted_facts_def)
  moreover have "br_projections r = project_facts fmempty ?T" by (simp add: r result_of_def)
  ultimately show ?thesis by blast
qed

theorem application_order_witness:
  "\<exists>r cs. resolve_batch example_runtime late_events (default_policy example_now) = Inr r \<and>
     length cs = 3 \<and> br_projections r = project_facts fmempty cs \<and>
     sorted (map (\<lambda>c. tm_nanos (cf_effective_time c)) cs)"
proof -
  obtain r where r: "resolve_batch example_runtime late_events (default_policy example_now) = Inr r"
    and n: "length (filter (\<lambda>d. er_action d = ProcessNow) (br_decisions r)) = 3"
    by (rule result_satisfiesE [OF late_accepts_three])
  obtain cs where cs: "mset cs = mset (map er_fact (filter (\<lambda>d. er_action d = ProcessNow) (br_decisions r)))"
    "br_projections r = project_facts fmempty cs"
    and sorted: "sorted_wrt (\<lambda>c d.
      (tm_nanos (cf_effective_time c), ft_source_sequence (cf_freshness c),
       tm_nanos (cf_modification_time c), ft_revision_number (cf_freshness c), cf_event_key c) <
      (tm_nanos (cf_effective_time d), ft_source_sequence (cf_freshness d),
       tm_nanos (cf_modification_time d), ft_revision_number (cf_freshness d), cf_event_key d)) cs"
    using application_order [OF r] by blast
  have "sorted_wrt (\<lambda>c d. tm_nanos (cf_effective_time c) \<le> tm_nanos (cf_effective_time d)) cs"
    by (rule sorted_wrt_mono_rel [OF _ sorted]) auto
  moreover from cs have "length cs = 3" using n by (metis length_map mset_eq_length)
  ultimately show ?thesis using r cs(2) by (auto simp: sorted_map)
qed

subsection \<open>Lifecycle\<close>

text \<open>
  C5. The lifecycle state follows the effective timeline: it is the one that the accepted
  lifecycle fact applied last sets, whatever accepted updates, conversions and transfers lie
  before or after it. A later modification of an earlier fact, or a late data update, cannot
  undo a termination.
\<close>

theorem lifecycle_from_latest_fact:
  assumes "resolve_batch rt es p = Inr r"
    and "latest_such (\<lambda>c. sets_lifecycle (cf_event_type c)) (accepted_of r s) c"
  shows "\<exists>ip. fmlookup (br_projections r) s = Some ip \<and>
    (ip_exists ip, ip_enabled ip, ip_lifecycle_state ip) = lifecycle_after (cf_event_type c)"
  using assms by (rule latest_lifecycle) blast

theorem lifecycle_from_latest_fact_witness:
  "\<exists>r ip. resolve_batch example_runtime late_events (default_policy example_now) = Inr r \<and>
     fmlookup (br_projections r) ava = Some ip \<and>
     (ip_exists ip, ip_enabled ip, ip_lifecycle_state ip) = (True, False, StateTerminated)"
proof -
  obtain r where r: "resolve_batch example_runtime late_events (default_policy example_now) = Inr r"
    and check: "late_check r" by (rule result_satisfiesE [OF late_evaluates])
  obtain c where "latest_such (\<lambda>d. sets_lifecycle (cf_event_type d)) (accepted_of r ava) c"
    "cf_event_type c = Termination" using check by (auto simp: late_check_def list_ex_iff)
  then show ?thesis using lifecycle_from_latest_fact [OF r] r by fastforce
qed

text \<open>
  C38. A subject none of whose accepted facts sets a lifecycle state gets a projection that does
  not exist, is not enabled and has the empty lifecycle state.
\<close>

theorem no_lifecycle_fact:
  assumes "resolve_batch rt es p = Inr r" "fmlookup (br_projections r) s = Some ip"
    and "list_all (\<lambda>c. cf_event_type c \<in> {DataUpdate, Conversion, Transfer}) (accepted_of r s)"
  shows "\<not> ip_exists ip \<and> \<not> ip_enabled ip \<and> ip_lifecycle_state ip = NoState"
proof -
  obtain cs where cs: "r = result_of p cs" "set (accepted_of r s) = set (own_facts p cs s)"
    using resolved_subject [OF assms(1)] by blast
  have "\<forall>c\<in>set (own_facts p cs s). \<not> sets_lifecycle (cf_event_type c)"
    using assms(3) unfolding list_all_iff cs(2) by fastforce
  then have "last_lifecycle (own_facts p cs s) = None" by (simp add: last_lifecycle_None_iff)
  then have "lifecycle_of (projection_from (new_projection s) (own_facts p cs s)) = (False, False, NoState)"
    by (simp add: projection_from_lifecycle) (simp add: lifecycle_of_def new_projection_def)
  moreover have "ip = projection_from (new_projection s) (own_facts p cs s)"
    using assms(2) by (simp add: own_facts_projection cs(1) split: if_splits)
  ultimately show ?thesis by (simp add: lifecycle_of_def)
qed

theorem no_lifecycle_fact_witness:
  "\<exists>r ip. resolve_batch example_runtime [profile_update] (default_policy example_now) = Inr r \<and>
     fmlookup (br_projections r) ava = Some ip \<and> ip_lifecycle_state ip = NoState"
proof -
  obtain r where r: "resolve_batch example_runtime [profile_update] (default_policy example_now) = Inr r"
    and check: "update_only_check r" by (rule result_satisfiesE [OF update_only_evaluates])
  obtain ip where ip: "fmlookup (br_projections r) ava = Some ip"
    using check by (auto simp: update_only_check_def)
  have "cf_event_type ` set (accepted_of r ava) = {DataUpdate}"
    using arg_cong [of _ _ set] check by (fastforce simp: update_only_check_def)
  then have "list_all (\<lambda>c. cf_event_type c \<in> {DataUpdate, Conversion, Transfer}) (accepted_of r ava)"
    unfolding list_all_iff by blast
  then show ?thesis using no_lifecycle_fact [OF r ip] r ip by blast
qed

subsection \<open>Attributes and provenance\<close>

text \<open>
  C7. An attribute of a projection has the value of the accepted fact of the subject that is
  applied last among those that carry the attribute, and is absent when none carries it: no
  other value, and no value of another subject, gets in.
\<close>

theorem attribute_from_latest_writer:
  assumes "resolve_batch rt es p = Inr r" "fmlookup (br_projections r) s = Some ip"
  shows "fmlookup (ip_attributes ip) n = Some v \<longleftrightarrow>
    (\<exists>c. latest_such (\<lambda>d. fmlookup (cf_attributes d) n \<noteq> None) (accepted_of r s) c \<and>
       fmlookup (cf_attributes c) n = Some v)"
proof -
  let ?P = "\<lambda>d. fmlookup (cf_attributes d) n \<noteq> None"
  obtain cs where cs: "r = result_of p cs" "set (accepted_of r s) = set (own_facts p cs s)"
    using resolved_subject [OF assms(1)] by blast
  have lookup: "fmlookup (ip_attributes ip) n = last_writer n (own_facts p cs s)"
    using assms(2) by (auto simp: own_facts_projection cs(1) projection_from_attributes new_projection_def
        split: if_splits option.splits)
  have latest: "last_writer n (own_facts p cs s) = fmlookup (cf_attributes c) n"
    if c: "latest_such ?P (accepted_of r s) c" for c
  proof -
    obtain ys zs where split: "own_facts p cs s = ys @ c # zs" "\<forall>d\<in>set zs. \<not> ?P d"
      using latest_split [OF own_facts_strict c cs(2)] by blast
    then have "last_writer n zs = None" by (simp add: last_writer_None_iff)
    moreover have "?P c" using c by (simp add: latest_such_def)
    ultimately show ?thesis by (auto simp: split(1) last_writer_append)
  qed
  have "\<exists>c. latest_such ?P (accepted_of r s) c" if "last_writer n (own_facts p cs s) = Some v"
  proof -
    have "\<exists>c\<in>set (own_facts p cs s). ?P c"
      using that last_writer_None_iff [of n "own_facts p cs s"] by auto
    then obtain ys c zs where split: "own_facts p cs s = ys @ c # zs" "?P c" "\<forall>d\<in>set zs. \<not> ?P d"
      using split_list_last_prop [of "own_facts p cs s" ?P] by blast
    have "sorted_wrt fact_less (ys @ c # zs)" using own_facts_strict [of p cs s] split(1) by simp
    then have "\<not> fact_less c d" if "d \<in> set (ys @ [c])" for d
      using that by (auto simp: sorted_wrt_append fact_less_iff dest: less_asym)
    then have "\<forall>d\<in>set (own_facts p cs s). ?P d \<longrightarrow> \<not> fact_less c d" using split by auto
    then show ?thesis using split cs(2) unfolding latest_such_def list_all_iff by auto
  qed
  then show ?thesis using lookup latest by metis
qed

theorem attribute_from_latest_writer_witness:
  "\<exists>r ip. resolve_batch example_runtime late_events (default_policy example_now) = Inr r \<and>
     fmlookup (br_projections r) ava = Some ip \<and> fmlookup (ip_attributes ip) ''title'' = Some ''director''"
proof -
  obtain r where r: "resolve_batch example_runtime late_events (default_policy example_now) = Inr r"
    and check: "late_check r" by (rule result_satisfiesE [OF late_evaluates])
  obtain c where c: "latest_such (\<lambda>d. fmlookup (cf_attributes d) ''title'' \<noteq> None) (accepted_of r ava) c"
    "fmlookup (cf_attributes c) ''title'' = Some ''director''"
    using check by (auto simp: late_check_def list_ex_iff)
  obtain cs where "r = result_of (default_policy example_now) cs"
    "set (accepted_of r ava) = set (own_facts (default_policy example_now) cs ava)"
    using resolved_subject [OF r] by blast
  then obtain ip where ip: "fmlookup (br_projections r) ava = Some ip"
    using c(1) by (cases "own_facts (default_policy example_now) cs ava")
      (auto simp: own_facts_projection latest_such_def)
  then show ?thesis using attribute_from_latest_writer [OF r ip] c r by blast
qed

text \<open>
  C12. A subject has a projection exactly when one of its facts was accepted. Its provenance
  (fact key, event key, effective time and freshness) is that of the one accepted fact that is
  applied last, and its row version is 0, for the store to assign.
\<close>

theorem projection_provenance:
  assumes "resolve_batch rt es p = Inr r"
  shows "(fmlookup (br_projections r) s = None \<longleftrightarrow> accepted_of r s = []) \<and>
    (\<forall>ip. fmlookup (br_projections r) s = Some ip \<longrightarrow>
       (\<exists>c. latest_such (\<lambda>d. True) (accepted_of r s) c \<and>
          ip_subject_id ip = s \<and> ip_source_fact_key ip = cf_fact_key c \<and>
          ip_source_event_key ip = cf_event_key c \<and> ip_effective_time ip = cf_effective_time c \<and>
          ip_freshness ip = cf_freshness c \<and> ip_row_version ip = 0))"
proof (intro conjI allI impI)
  obtain cs where cs: "r = result_of p cs" "set (accepted_of r s) = set (own_facts p cs s)"
    using resolved_subject [OF assms(1)] by blast
  show "fmlookup (br_projections r) s = None \<longleftrightarrow> accepted_of r s = []"
    using cs by (simp add: own_facts_projection flip: set_empty)
  fix ip assume "fmlookup (br_projections r) s = Some ip"
  then have own: "own_facts p cs s \<noteq> []" and ip: "ip = projection_from (new_projection s) (own_facts p cs s)"
    by (auto simp: own_facts_projection cs(1) split: if_splits)
  let ?c = "last (own_facts p cs s)"
  have split: "own_facts p cs s = butlast (own_facts p cs s) @ [?c]" using own by simp
  then have "sorted_wrt fact_less (butlast (own_facts p cs s) @ [?c])"
    using own_facts_strict [of p cs s] by simp
  then have "\<forall>d\<in>set (butlast (own_facts p cs s) @ [?c]). \<not> fact_less ?c d"
    by (auto simp: sorted_wrt_append fact_less_iff dest: less_asym)
  then have "latest_such (\<lambda>d. True) (accepted_of r s) ?c"
    using own cs(2) split unfolding latest_such_def list_all_iff by (metis last_in_set)
  then show "\<exists>c. latest_such (\<lambda>d. True) (accepted_of r s) c \<and>
      ip_subject_id ip = s \<and> ip_source_fact_key ip = cf_fact_key c \<and>
      ip_source_event_key ip = cf_event_key c \<and> ip_effective_time ip = cf_effective_time c \<and>
      ip_freshness ip = cf_freshness c \<and> ip_row_version ip = 0"
    using projection_from_provenance [OF own] by (auto simp: ip new_projection_def)
qed

theorem projection_provenance_witness:
  "\<exists>r ip c. resolve_batch example_runtime late_events (default_policy example_now) = Inr r \<and>
     fmlookup (br_projections r) ava = Some ip \<and> c \<in> set (accepted_of r ava) \<and>
     ip_source_event_key ip = cf_event_key c \<and> ip_freshness ip = cf_freshness c"
proof -
  obtain r where r: "resolve_batch example_runtime late_events (default_policy example_now) = Inr r"
    and check: "late_check r" by (rule result_satisfiesE [OF late_evaluates])
  have "accepted_of r ava \<noteq> []" using check by (auto simp: late_check_def)
  then obtain ip where "fmlookup (br_projections r) ava = Some ip"
    using projection_provenance [OF r, of ava] by auto
  then show ?thesis using projection_provenance [OF r, of ava] r unfolding latest_such_def by blast
qed

end
