(* ===== verification/Accounting.thy ===== *)
theory Accounting
  imports Outcomes
begin

section \<open>Accounting, isolation and refusal of batches\<close>

text \<open>
  The remaining properties of \<open>ResolveBatch\<close>: every delivery gets one decision, the
  subjects of a batch do not influence one another, a batch is refused for the reasons of the
  code and no others, and the repository's own fixture resolves as its tests expect.
\<close>

subsection \<open>Helpers\<close>

lemma firsts_insert_unused: "a \<notin> k ` set xs \<Longrightarrow> firsts k (insert a S) xs = firsts k S xs"
  by (induction xs arbitrary: S) (auto simp: insert_commute)

text \<open>A filter that keeps or drops all elements with a key commutes with the scan.\<close>

lemma firsts_filter:
  assumes "\<forall>x\<in>set xs. \<forall>y\<in>set xs. k x = k y \<longrightarrow> P x = P y"
  shows "firsts k S (filter P xs) = filter P (firsts k S xs)"
  using assms
proof (induction xs arbitrary: S)
  case (Cons x xs)
  have IH: "firsts k S (filter P xs) = filter P (firsts k S xs)" for S
    using Cons.prems unfolding list.set by (intro Cons.IH) blast
  show ?case
  proof (cases "P x \<or> k x \<in> S")
    case False
    have "k x \<notin> k ` set (filter P xs)"
    proof
      assume "k x \<in> k ` set (filter P xs)"
      then obtain y where y: "y \<in> set xs" "P y" "k x = k y" by fastforce
      moreover have "x \<in> set (x # xs)" "y \<in> set (x # xs)" using y(1) by simp_all
      ultimately have "P x = P y" using Cons.prems by blast
      then show False using y(2) False by simp
    qed
    then have "firsts k (insert (k x) S) (filter P xs) = firsts k S (filter P xs)"
      by (rule firsts_insert_unused)
    then show ?thesis using False IH by simp
  qed (auto simp: IH)
qed simp

lemma canon_keys:
  assumes "map (canon rt p) es = map Inr cs"
  shows "map cf_event_key cs = map (\<lambda>e. trim_space (pe_event_key e)) es"
    and "map cf_subject_id cs = map (\<lambda>e. trim_space (pe_subject_id e)) es"
proof -
  have length: "length cs = length es" using assms by (metis length_map)
  have "canon rt p (es ! i) = Inr (cs ! i)" if "i < length es" for i
    using assms that length by (metis nth_map)
  then have "cf_event_key (cs ! i) = trim_space (pe_event_key (es ! i)) \<and>
      cf_subject_id (cs ! i) = trim_space (pe_subject_id (es ! i))" if "i < length es" for i
    using that by (fastforce simp: canon_def canonicalize_Inr_iff)
  then show "map cf_event_key cs = map (\<lambda>e. trim_space (pe_event_key e)) es"
    "map cf_subject_id cs = map (\<lambda>e. trim_space (pe_subject_id e)) es"
    using length by (auto intro!: nth_equalityI)
qed

lemma canon_filter:
  assumes "map (canon rt p) es = map Inr cs"
  shows "map (canon rt p) (filter (\<lambda>e. trim_space (pe_subject_id e) = s) es) =
         map Inr (filter (\<lambda>c. cf_subject_id c = s) cs)"
  using assms
proof (induction es arbitrary: cs)
  case (Cons e es)
  then obtain c cs' where cs: "cs = c # cs'" "canon rt p e = Inr c" "map (canon rt p) es = map Inr cs'"
    by (cases cs) auto
  have "cf_subject_id c = trim_space (pe_subject_id e)"
    using canon_keys(2) [OF Cons.prems] by (simp add: cs(1))
  then show ?case using cs Cons.IH [OF cs(3)] by simp
qed simp

lemma decision_keys:
  assumes "d \<in> set (br_decisions (result_of p cs))"
  shows "er_event_key d = cf_event_key (er_fact d)" "er_fact_key d = cf_fact_key (er_fact d)"
proof -
  have "d \<in> set (batch_decisions p cs)" using assms mset_decisions by (metis set_mset_mset)
  then show "er_event_key d = cf_event_key (er_fact d)" "er_fact_key d = cf_fact_key (er_fact d)"
    by (auto simp: batch_decisions_def replay_decision_def resolution_of_def)
qed

subsection \<open>Accounting\<close>

text \<open>
  C14. Every delivered event gets exactly one decision, under its trimmed event key; the list of
  decisions is sorted by event key and fact key; and for every event key exactly one of its
  deliveries is decided, the others being replays.
\<close>

theorem one_decision_per_delivery:
  assumes "resolve_batch rt es p = Inr r"
  shows "mset (map er_event_key (br_decisions r)) = mset (map (\<lambda>e. trim_space (pe_event_key e)) es) \<and>
    sorted (map (\<lambda>d. (er_event_key d, er_fact_key d)) (br_decisions r)) \<and>
    distinct (map er_event_key (first_deliveries (br_decisions r))) \<and>
    er_event_key ` set (first_deliveries (br_decisions r)) = (\<lambda>e. trim_space (pe_event_key e)) ` set es"
proof -
  obtain cs where v: "validate p = None" and cs: "map (canon rt p) es = map Inr cs" and r: "r = result_of p cs"
    using assms unfolding resolve_batch_Inr_iff by blast
  let ?F = "set (batch_facts cs)"
  have resolution: "er_event_key (resolution_of p F c) = cf_event_key c" for F c
    by (simp add: resolution_of_def)
  have replay: "er_event_key (replay_decision c) = cf_event_key c" for c
    by (simp add: replay_decision_def)
  have "mset (map er_event_key (br_decisions r)) = image_mset er_event_key (mset (batch_decisions p cs))"
    by (simp add: r mset_decisions)
  also have "\<dots> = image_mset cf_event_key (mset (repeats cf_event_key {} cs) + mset (batch_facts cs))"
    by (simp add: batch_decisions_def resolution replay image_mset.compositionality comp_def)
  also have "\<dots> = mset (map cf_event_key cs)"
    by (metis add.commute batch_facts_def mset_firsts_repeats mset_map)
  finally have keys: "mset (map er_event_key (br_decisions r)) = mset (map (\<lambda>e. trim_space (pe_event_key e)) es)"
    using canon_keys(1) [OF cs] by simp
  have sorted: "sorted (map (\<lambda>d. (er_event_key d, er_fact_key d)) (br_decisions r))"
    using decision.slice_sorted_sort [of "batch_decisions p cs"]
    unfolding decision.slice_sorted_iff by (simp add: r result_of_def decision_order_def [abs_def])
  have "image_mset er_event_key (mset (first_deliveries (br_decisions r))) = mset (map cf_event_key (batch_facts cs))"
    by (simp add: r first_deliveries_mset [OF v] resolution image_mset.compositionality comp_def)
  then have first: "mset (map er_event_key (first_deliveries (br_decisions r))) = mset (map cf_event_key (batch_facts cs))"
    by simp
  have "distinct (map cf_event_key (batch_facts cs))"
    by (simp add: batch_facts_def distinct_keys_firsts)
  then have distinct: "distinct (map er_event_key (first_deliveries (br_decisions r)))"
    using first mset_eq_imp_distinct_iff by blast
  have "er_event_key ` set (first_deliveries (br_decisions r)) = cf_event_key ` set (batch_facts cs)"
    using first by (metis list.set_map mset_eq_setD)
  also have "\<dots> = set (map cf_event_key cs)" by (simp add: batch_facts_def keys_firsts)
  finally have "er_event_key ` set (first_deliveries (br_decisions r)) = (\<lambda>e. trim_space (pe_event_key e)) ` set es"
    by (simp add: canon_keys(1) [OF cs])
  with keys sorted distinct show ?thesis by blast
qed

theorem one_decision_per_delivery_witness:
  "\<exists>r. resolve_batch example_runtime example_events (default_policy example_now) = Inr r \<and>
     mset (map er_event_key (br_decisions r)) = mset (map (\<lambda>e. trim_space (pe_event_key e)) example_events)"
proof -
  obtain r where r: "resolve_batch example_runtime example_events (default_policy example_now) = Inr r"
    by (rule example_result)
  then show ?thesis using one_decision_per_delivery [OF r] by blast
qed

subsection \<open>Isolation\<close>

text \<open>
  C15. Subjects are independent: dropping the events of all other subjects from a batch leaves
  the projection of a subject as it was.
\<close>

theorem subjects_are_isolated:
  assumes "resolve_batch rt es p = Inr r"
  shows "\<exists>r'. resolve_batch rt (filter (\<lambda>e. trim_space (pe_subject_id e) = s) es) p = Inr r' \<and>
    fmlookup (br_projections r') s = fmlookup (br_projections r) s"
proof -
  obtain cs where v: "validate p = None" and cs: "map (canon rt p) es = map Inr cs" "keys_consistent (set cs)"
    and r: "r = result_of p cs"
    using assms unfolding resolve_batch_Inr_iff by blast
  let ?own = "filter (\<lambda>c. cf_subject_id c = s)"
  have wf: "\<forall>c\<in>set cs. canonical_wf c" using canon_wf [OF cs(1)] by blast
  have "keys_consistent (set (?own cs))" using cs(2) unfolding keys_consistent_def by simp
  then have resolved: "resolve_batch rt (filter (\<lambda>e. trim_space (pe_subject_id e) = s) es) p = Inr (result_of p (?own cs))"
    using v canon_filter [OF cs(1)] unfolding resolve_batch_Inr_iff by blast
  have "cf_subject_id c = cf_subject_id d" if "c \<in> set cs" "d \<in> set cs" "cf_event_key c = cf_event_key d" for c d
    using that cs(2) wf wf_same_fact_key(1) unfolding keys_consistent_def same_event_def by metis
  then have "batch_facts (?own cs) = ?own (batch_facts cs)"
    unfolding batch_facts_def by (intro firsts_filter) metis
  moreover have "\<forall>c\<in>set (batch_facts cs). canonical_wf c" using wf batch_facts_subset by blast
  ultimately have "own_facts p (?own cs) s = own_facts p cs s"
    by (simp add: own_facts_def timeline_subject)
  then show ?thesis using resolved by (simp add: r own_facts_projection)
qed

text \<open>A batch with a second subject, whose event the filter drops.\<close>

definition hire_of_ben :: physical_event where
  "hire_of_ben = hire_v2\<lparr>pe_event_key := ''evt-ben-hire'', pe_subject_id := ''person-002''\<rparr>"

lemma two_subjects_evaluate:
  "result_satisfies (\<lambda>r. fmlookup (br_projections r) ava \<noteq> None \<and>
     fmlookup (br_projections r) ''person-002'' \<noteq> None) [hire_v2, hire_of_ben]"
  by code_simp

theorem subjects_are_isolated_witness:
  "\<exists>r r'. resolve_batch example_runtime [hire_v2, hire_of_ben] (default_policy example_now) = Inr r \<and>
     fmlookup (br_projections r) ''person-002'' \<noteq> None \<and>
     resolve_batch example_runtime [hire_v2] (default_policy example_now) = Inr r' \<and>
     fmlookup (br_projections r') ava = fmlookup (br_projections r) ava \<and>
     fmlookup (br_projections r') ava \<noteq> None"
proof -
  obtain r where r: "resolve_batch example_runtime [hire_v2, hire_of_ben] (default_policy example_now) = Inr r"
    "fmlookup (br_projections r) ava \<noteq> None" "fmlookup (br_projections r) ''person-002'' \<noteq> None"
    by (rule result_satisfiesE [OF two_subjects_evaluate]) blast
  have "trim_space (pe_subject_id hire_v2) = ava" "trim_space (pe_subject_id hire_of_ben) \<noteq> ava" by code_simp+
  then show ?thesis using subjects_are_isolated [OF r(1), of ava] r by auto
qed

subsection \<open>Refusal\<close>

text \<open>
  C13. A batch resolves exactly when the policy is valid, every event canonicalizes, and no
  event key is used for two events (a different payload hash or another fact key); nothing else
  makes it fail, and in particular no decision fails once the policy is valid.
\<close>

theorem batch_resolves_iff:
  "ok (resolve_batch rt es p) \<longleftrightarrow>
     validate p = None \<and> (\<forall>e\<in>set es. ok (canonicalize rt e (po_now p))) \<and>
     (\<forall>e\<in>set es. \<forall>f\<in>set es. \<forall>c d.
        canonicalize rt e (po_now p) = Inr c \<longrightarrow> canonicalize rt f (po_now p) = Inr d \<longrightarrow>
        cf_event_key c = cf_event_key d \<longrightarrow>
        cf_payload_hash c = cf_payload_hash d \<and> cf_fact_key c = cf_fact_key d)"
proof -
  have consistent: "keys_consistent (set cs) \<longleftrightarrow>
      (\<forall>e\<in>set es. \<forall>f\<in>set es. \<forall>c d.
        canonicalize rt e (po_now p) = Inr c \<longrightarrow> canonicalize rt f (po_now p) = Inr d \<longrightarrow>
        cf_event_key c = cf_event_key d \<longrightarrow>
        cf_payload_hash c = cf_payload_hash d \<and> cf_fact_key c = cf_fact_key d)"
    if cs: "map (canon rt p) es = map Inr cs" for cs
  proof -
    have "canon rt p ` set es = Inr ` set cs" using cs by (metis list.set_map)
    then have "c \<in> set cs \<longleftrightarrow> Inr c \<in> canon rt p ` set es" for c by auto
    then have "c \<in> set cs \<longleftrightarrow> (\<exists>e\<in>set es. canonicalize rt e (po_now p) = Inr c)" for c
      unfolding canon_def image_iff by metis
    then show ?thesis unfolding keys_consistent_def same_event_def by blast
  qed
  have "(\<exists>cs. map (canon rt p) es = map Inr cs) \<longleftrightarrow> (\<forall>e\<in>set es. ok (canonicalize rt e (po_now p)))"
    unfolding map_Inr_ex_iff by (simp add: canon_def)
  then show ?thesis unfolding resolve_batch_ok_iff using consistent by blast
qed

text \<open>A repeated delivery is accepted, and the same key with another source sequence is not.\<close>

theorem batch_resolves_iff_witness:
  "ok (canonicalize example_runtime hire_v1 (po_now (default_policy example_now))) \<and>
   \<not> ok (resolve_batch example_runtime [hire_v1, hire_v1\<lparr>pe_source_sequence := 99\<rparr>] (default_policy example_now))"
proof -
  let ?now = "po_now (default_policy example_now)" and ?f = "hire_v1\<lparr>pe_source_sequence := 99\<rparr>"
  have "(case (canonicalize example_runtime hire_v1 ?now, canonicalize example_runtime ?f ?now) of
      (Inr c, Inr d) \<Rightarrow> cf_event_key c = cf_event_key d \<and> cf_payload_hash c \<noteq> cf_payload_hash d
    | _ \<Rightarrow> False)" by code_simp
  then obtain c d where "canonicalize example_runtime hire_v1 ?now = Inr c" "canonicalize example_runtime ?f ?now = Inr d"
    "cf_event_key c = cf_event_key d" "cf_payload_hash c \<noteq> cf_payload_hash d"
    by (auto split: sum.splits)
  then show ?thesis unfolding batch_resolves_iff by auto
qed

subsection \<open>The repository's fixture\<close>

text \<open>
  The events of \<open>examples/events.json\<close>, evaluated at 2026-09-12: the older revision of
  the hire is skipped, the newer one and the profile update are processed, the repeated delivery
  is a replay and the future termination is skipped; the identity is active with the attributes
  of the newer hire and of the profile update.
\<close>

theorem fixture_outcome:
  "\<exists>r ip. resolve_batch example_runtime example_events (default_policy example_now) = Inr r \<and>
     map (\<lambda>d. (er_event_key d, er_action d, er_reason d)) (br_decisions r) =
       [(''evt-ava-hire-v1'', Skip, DuplicateOrOlder), (''evt-ava-hire-v2'', ProcessNow, Accepted),
        (''evt-ava-profile-001'', Skip, DuplicateDelivery), (''evt-ava-profile-001'', ProcessNow, Accepted),
        (''evt-ava-termination-future'', Skip, FutureLifecycle)] \<and>
     fmlookup (br_projections r) ''person-001'' = Some ip \<and>
     ip_exists ip \<and> ip_enabled ip \<and> ip_lifecycle_state ip = StateActive \<and>
     ip_attributes ip = fmap_of_list
       [(''department'', ''platform-engineering''), (''email'', ''ava@example.test''),
        (''title'', ''senior-engineer'')]"
  using example_evaluates
  unfolding example_check_def example_summary_def decision_summary_def [abs_def] example_attributes_def
  by (auto split: sum.splits option.splits)

end
