(* ===== verification/Contracts.thy ===== *)
theory Contracts
  imports Accounting
begin

section \<open>The contracts of the policy and of Canonicalize\<close>

text \<open>
  Properties of \<open>policy.go\<close> and \<open>canonicalize.go\<close>: the decision rules over
  instants, what the defaults amount to, the rule that a future lifecycle change does not
  mutate current state and where it stops applying, and what \<open>Canonicalize\<close> accepts,
  returns and ignores.
\<close>

subsection \<open>Decisions\<close>

text \<open>
  C16. For a valid policy \<open>Evaluate\<close> never fails and takes the action of the first of the
  rules of \<open>decision_rules\<close> that applies, where these compare instants over the
  integers: where the windows of the policy are below the greatest duration and its evaluation
  time is far from the ends of the calendar, no saturation of the code's arithmetic changes a
  decision.
\<close>

theorem evaluate_follows_rules:
  assumes "validate p = None" "policy_in_range p"
  shows "evaluate p f = Inr (decision_rules p f)"
  using assms by (rule evaluate_rules)

theorem evaluate_follows_rules_witness:
  "validate (default_policy example_now) = None \<and>
   evaluate (default_policy example_now)
     (build_fact future_termination Termination Lifecycle fmempty [] example_now) =
     Inr (decision_rules (default_policy example_now)
       (build_fact future_termination Termination Lifecycle fmempty [] example_now))"
proof -
  have "policy_in_range (default_policy example_now)" by code_simp
  then show ?thesis using evaluate_follows_rules [OF example_policy_valid] example_policy_valid by blast
qed

text \<open>
  The decisions of the default policy, in hours: a fact whose scope does not fit its event
  type is no operation; one that ended more than 72 hours ago is skipped; current and past facts
  are processed; a future fact is processed when it is a hire at most 72 hours away, scheduled
  when it is a later hire, and skipped when it is not a hire.
\<close>

theorem default_policy_decisions:
  assumes "\<not> is_zero now" "time_in_range now"
  shows "evaluate (default_policy now) f = Inr
    (if (cf_source_scope f = HireSnapshot) \<noteq> is_hire (cf_event_type f) then (NoOp, ScopeMismatch)
     else if (case cf_end_time f of None \<Rightarrow> False
              | Some e \<Rightarrow> tm_nanos e < tm_nanos now - 72 * 3600 * 1000000000) then (Skip, PastEndTime)
     else if tm_nanos (cf_effective_time f) \<le> tm_nanos now then (ProcessNow, Accepted)
     else if \<not> is_hire (cf_event_type f) then (Skip, FutureLifecycle)
     else if tm_nanos (cf_effective_time f) \<le> tm_nanos now + 72 * 3600 * 1000000000 then (ProcessNow, Accepted)
     else (Schedule, ScheduledFutureHire))"
proof -
  let ?p = "default_policy now"
  have "policy_in_range ?p"
    using assms(2) by (simp add: policy_in_range_def default_policy_def hour_ns_def second_ns_def
        max_int64_def time_in_range_def)
  then have "evaluate ?p f = Inr (decision_rules ?p f)"
    using evaluate_rules assms(1) validate_default_policy by blast
  moreover have "\<not> pre_cutoff ?p f" by (simp add: pre_cutoff_def default_policy_def)
  moreover have "expired ?p f \<longleftrightarrow> (case cf_end_time f of None \<Rightarrow> False
              | Some e \<Rightarrow> tm_nanos e < tm_nanos now - 72 * 3600 * 1000000000)"
    by (auto simp: expired_def default_policy_def hour_ns_def second_ns_def split: option.splits)
  moreover have "in_future ?p f \<longleftrightarrow> \<not> tm_nanos (cf_effective_time f) \<le> tm_nanos now"
    by (auto simp: in_future_def default_policy_def)
  moreover have "in_hire_window ?p f \<longleftrightarrow>
      tm_nanos (cf_effective_time f) \<le> tm_nanos now + 72 * 3600 * 1000000000"
    by (simp add: in_hire_window_def default_policy_def hour_ns_def second_ns_def)
  moreover have "scope_matches f \<longleftrightarrow> \<not> ((cf_source_scope f = HireSnapshot) \<noteq> is_hire (cf_event_type f))"
    by (simp add: scope_matches_def)
  ultimately show ?thesis unfolding decision_rules_def by presburger
qed

theorem default_policy_decisions_witness:
  "evaluate (default_policy example_now)
     (build_fact future_termination Termination Lifecycle fmempty [] example_now) = Inr (Skip, FutureLifecycle)"
proof -
  have "\<not> is_zero example_now" "time_in_range example_now" by code_simp+
  note rule = default_policy_decisions [OF this]
  have "tm_nanos (cf_effective_time (build_fact future_termination Termination Lifecycle fmempty [] example_now))
      > tm_nanos example_now" by code_simp
  then show ?thesis unfolding rule by (simp add: future_termination_def example_event_def)
qed

text \<open>
  C35. A future lifecycle change does not mutate current state, where the cutoff, if there is
  one, is not after the evaluation time: every processed decision that is not a hire is about a
  fact that is already effective.
\<close>

theorem future_lifecycle_not_processed:
  assumes "resolve_batch rt es p = Inr r"
    and "\<forall>c. po_cutoff_time p = Some c \<longrightarrow> tm_nanos c \<le> tm_nanos (po_now p)"
    and "d \<in> set (br_decisions r)" "er_action d = ProcessNow" "\<not> is_hire (cf_event_type (er_fact d))"
  shows "tm_nanos (cf_effective_time (er_fact d)) \<le> tm_nanos (po_now p)"
proof -
  obtain cs where v: "validate p = None" and r: "r = result_of p cs"
    using assms(1) unfolding resolve_batch_Inr_iff by blast
  have "er_fact d \<in> set (timeline p (batch_facts cs))"
    using accepted_decision_iff [OF v, of cs "er_fact d"] assms(3,4) r by blast
  then have accepted: "fst (projr (evaluate p (er_fact d))) = ProcessNow"
    by (simp add: set_timeline accepts_def)
  show ?thesis
  proof (rule ccontr)
    assume future: "\<not> ?thesis"
    then have "\<not> (case po_cutoff_time p of None \<Rightarrow> False
        | Some c \<Rightarrow> before (cf_effective_time (er_fact d)) (normalize_time c))"
      using assms(2) by (auto simp: before_def split: option.splits)
    moreover have "after (cf_effective_time (er_fact d)) (po_now p)" using future by (simp add: after_def)
    ultimately have "fst (projr (evaluate p (er_fact d))) \<noteq> ProcessNow"
      using assms(5) by (simp add: evaluate_def v)
    then show False using accepted by simp
  qed
qed

theorem future_lifecycle_not_processed_witness:
  "\<exists>r d. resolve_batch example_runtime late_events (default_policy example_now) = Inr r \<and>
     d \<in> set (br_decisions r) \<and> er_action d = ProcessNow \<and> cf_event_type (er_fact d) = Termination \<and>
     tm_nanos (cf_effective_time (er_fact d)) \<le> tm_nanos (po_now (default_policy example_now))"
proof -
  obtain r where r: "resolve_batch example_runtime late_events (default_policy example_now) = Inr r"
    and check: "late_check r" by (rule result_satisfiesE [OF late_evaluates])
  obtain d where d: "d \<in> set (br_decisions r)" "er_action d = ProcessNow" "cf_event_type (er_fact d) = Termination"
    using check by (auto simp: late_check_def list_ex_iff accepted_of_def)
  have "\<forall>c. po_cutoff_time (default_policy example_now) = Some c \<longrightarrow>
      tm_nanos c \<le> tm_nanos (po_now (default_policy example_now))"
    by (simp add: default_policy_def)
  then show ?thesis using future_lifecycle_not_processed [OF r _ d(1,2)] d r by fastforce
qed

definition late_cutoff_policy :: policy where
  "late_cutoff_policy = (default_policy example_now)\<lparr>po_cutoff_time := Some (utc (sep 30))\<rparr>"

lemma late_cutoff_evaluates:
  "(case resolve_batch example_runtime [hire_v2, future_termination] late_cutoff_policy of
      Inl err \<Rightarrow> False
    | Inr r \<Rightarrow> list_ex (\<lambda>d. er_event_key d = pe_event_key future_termination \<and>
        er_reason d \<notin> {DuplicateDelivery, DuplicateOrOlder} \<and> cf_subject_id (er_fact d) = ''person-001'' \<and>
        cf_event_type (er_fact d) = Termination \<and> cf_source_scope (er_fact d) = Lifecycle \<and>
        cf_end_time (er_fact d) = None \<and> after (cf_effective_time (er_fact d)) (po_now late_cutoff_policy) \<and>
        (case po_cutoff_time late_cutoff_policy of None \<Rightarrow> False
         | Some c \<Rightarrow> tm_nanos (cf_effective_time (er_fact d)) < tm_nanos c) \<and>
        tm_nanos (po_now late_cutoff_policy) - po_retroactive_window late_cutoff_policy
          \<le> tm_nanos (cf_modification_time (er_fact d)) \<and>
        latest_such (\<lambda>c. sets_lifecycle (cf_event_type c)) (accepted_of r ''person-001'') (er_fact d))
      (br_decisions r)) \<and> time_in_range (po_now late_cutoff_policy) \<and>
   po_retroactive_window late_cutoff_policy < max_int64 \<and> po_hire_window late_cutoff_policy < max_int64 \<and>
   po_past_end_grace late_cutoff_policy < max_int64"
  by code_simp

text \<open>
  C37. The cutoff takes precedence over the rule for future facts. Under a policy in range, a termination of the lifecycle
  scope that is the freshest of its key, has not ended, is effective before the cutoff and was
  modified within the retroactive window is processed, also where its effective time lies after
  the evaluation time; where it is the last accepted lifecycle fact of its subject, the subject
  is terminated and disabled at once. \<open>Validate\<close> accepts a cutoff after the evaluation time.
\<close>

theorem late_cutoff_processes_future_termination:
  assumes "resolve_batch rt es p = Inr r" "policy_in_range p"
    and "d \<in> set (br_decisions r)" "er_reason d \<noteq> DuplicateDelivery" "er_reason d \<noteq> DuplicateOrOlder"
    and "cf_event_type (er_fact d) = Termination" "cf_source_scope (er_fact d) = Lifecycle"
    and "\<not> expired p (er_fact d)" "pre_cutoff p (er_fact d)" "in_retroactive_window p (er_fact d)"
  shows "er_action d = ProcessNow \<and> er_reason d = AcceptedRetroactive \<and>
    (latest_such (\<lambda>c. sets_lifecycle (cf_event_type c)) (accepted_of r s) (er_fact d) \<longrightarrow>
       (\<exists>ip. fmlookup (br_projections r) s = Some ip \<and>
          ip_lifecycle_state ip = StateTerminated \<and> \<not> ip_enabled ip))"
proof (intro conjI impI)
  obtain cs where v: "validate p = None" and r: "r = result_of p cs"
    using assms(1) unfolding resolve_batch_Inr_iff by blast
  let ?F = "set (batch_facts cs)"
  obtain c where d: "d = resolution_of p ?F c"
    using decision_cases [OF v] assms(3,4) r by blast
  then have c: "er_fact d = c" by (simp add: resolution_of_def)
  have "freshest ?F c" using assms(5) d decided_by_reason(2) [OF v] by (simp add: resolution_of_def)
  moreover have "evaluate p c = Inr (ProcessNow, AcceptedRetroactive)"
    using assms(6-10) by (simp add: evaluate_rules [OF v assms(2)] c decision_rules_def scope_matches_def)
  ultimately show "er_action d = ProcessNow" "er_reason d = AcceptedRetroactive"
    by (simp_all add: d resolution_of_def decided_by_def)
next
  assume "latest_such (\<lambda>c. sets_lifecycle (cf_event_type c)) (accepted_of r s) (er_fact d)"
  with assms(1) obtain ip where "fmlookup (br_projections r) s = Some ip"
    "(ip_exists ip, ip_enabled ip, ip_lifecycle_state ip) = lifecycle_after (cf_event_type (er_fact d))"
    by (rule latest_lifecycle)
  then show "\<exists>ip. fmlookup (br_projections r) s = Some ip \<and>
      ip_lifecycle_state ip = StateTerminated \<and> \<not> ip_enabled ip"
    using assms(6) by simp
qed

text \<open>The fixture's termination of 2026-09-20, evaluated on 2026-09-12 with the cutoff 2026-09-30.\<close>

theorem late_cutoff_processes_future_termination_witness:
  "\<exists>r d ip. resolve_batch example_runtime [hire_v2, future_termination] late_cutoff_policy = Inr r \<and>
     d \<in> set (br_decisions r) \<and> after (cf_effective_time (er_fact d)) (po_now late_cutoff_policy) \<and>
     er_action d = ProcessNow \<and> fmlookup (br_projections r) ''person-001'' = Some ip \<and>
     ip_lifecycle_state ip = StateTerminated \<and> \<not> ip_enabled ip"
proof -
  obtain r d where r: "resolve_batch example_runtime [hire_v2, future_termination] late_cutoff_policy = Inr r"
    and d: "d \<in> set (br_decisions r)" "er_reason d \<noteq> DuplicateDelivery" "er_reason d \<noteq> DuplicateOrOlder"
      "cf_event_type (er_fact d) = Termination" "cf_source_scope (er_fact d) = Lifecycle"
      "\<not> expired late_cutoff_policy (er_fact d)" "pre_cutoff late_cutoff_policy (er_fact d)"
      "in_retroactive_window late_cutoff_policy (er_fact d)"
    and future: "after (cf_effective_time (er_fact d)) (po_now late_cutoff_policy)"
    and latest: "latest_such (\<lambda>c. sets_lifecycle (cf_event_type c)) (accepted_of r ''person-001'') (er_fact d)"
    using late_cutoff_evaluates
    by (auto simp: list_ex_iff expired_def pre_cutoff_def in_retroactive_window_def split: sum.splits option.splits)
  have "policy_in_range late_cutoff_policy" using late_cutoff_evaluates by (simp add: policy_in_range_def)
  from late_cutoff_processes_future_termination [OF r this d, of "''person-001''"] show ?thesis
    using r d(1) future latest by blast
qed

subsection \<open>Canonicalization\<close>

text \<open>
  C31. What every canonical fact satisfies: trimmed, non-empty identifiers, effective,
  modification and reception times in UTC that are not zero, an end time in UTC if there is one
  (it may be zero), non-negative sequence and revision numbers, a freshness tuple that repeats the
  event's own, and the fact key of its own subject, scope, type and effective time.
\<close>

theorem canonical_facts_well_formed:
  assumes "canonicalize rt e r = Inr c"
  shows "canonical_wf c"
  using assms by (rule canonicalize_wf)

theorem canonical_facts_well_formed_witness:
  "\<exists>c. canonicalize example_runtime hire_v1 example_now = Inr c \<and> canonical_wf c \<and> cf_event_type c = Hire"
proof -
  have "(case canonicalize example_runtime hire_v1 example_now of Inl _ \<Rightarrow> False | Inr c \<Rightarrow> cf_event_type c = Hire)"
    by code_simp
  then obtain c where c: "canonicalize example_runtime hire_v1 example_now = Inr c" "cf_event_type c = Hire"
    by (auto split: sum.splits)
  then show ?thesis using canonical_facts_well_formed [OF c(1)] by blast
qed

text \<open>
  C29. What \<open>Canonicalize\<close> accepts: exactly the events with non-blank identifiers, an event
  type and a scope that are known up to case and surrounding space, times that are not zero,
  non-negative numbers, attribute names that are not blank and stay different when trimmed, and
  a payload that can be encoded.
\<close>

theorem canonicalize_accepts_iff:
  "ok (canonicalize rt e r) \<longleftrightarrow>
     (\<exists>type scope. acceptable rt e type scope \<and>
        payload_hash rt (make_envelope e (trim_space (pe_subject_id e)) type scope) \<noteq> None) \<and>
     (case fmlookup (event_payload e) ''attributes'' of
        None \<Rightarrow> True
      | Some raw \<Rightarrow> (let names = fset (fmdom (attribute_values raw)) in
          (\<forall>n\<in>names. trim_space n \<noteq> []) \<and> inj_on trim_space names))"
proof -
  have "ok (attributes_from_payload rt (event_payload e)) \<longleftrightarrow>
      (case fmlookup (event_payload e) ''attributes'' of None \<Rightarrow> True
       | Some raw \<Rightarrow> (let names = fset (fmdom (attribute_values raw)) in
          (\<forall>n\<in>names. trim_space n \<noteq> []) \<and> inj_on trim_space names))"
    using attributes_from_payload_ok_iff [of "event_payload e" _ rt]
    by (cases "fmlookup (event_payload e) ''attributes''")
      (simp_all add: attributes_from_payload_def Let_def)
  then show ?thesis unfolding ok_iff canonicalize_Inr_iff by blast
qed

theorem canonicalize_accepts_iff_witness:
  "\<not> ok (canonicalize example_runtime
     (hire_v1\<lparr>pe_payload := Some (fmap_of_list [(''attributes'',
        StringMapValue (fmap_of_list [(''email'', ''a''), ('' email'', ''b'')]))])\<rparr>) example_now)"
proof -
  let ?m = "fmap_of_list [(''email'', ''a''), ('' email'', ''b'')] :: string gomap"
  let ?e = "hire_v1\<lparr>pe_payload := Some (fmap_of_list [(''attributes'', StringMapValue ?m)])\<rparr>"
  have lookup: "fmlookup (event_payload ?e) ''attributes'' = Some (StringMapValue ?m)"
    by (simp add: event_payload_def)
  have names: "fset (fmdom (attribute_values (StringMapValue ?m))) = {''email'', '' email''}"
    by (auto simp: attribute_values_def)
  have "trim_space ''email'' = trim_space '' email''" by code_simp
  then have "\<not> inj_on trim_space {''email'', '' email''}" by (simp add: inj_on_def)
  then show ?thesis unfolding canonicalize_accepts_iff lookup Let_def option.case names by blast
qed

text \<open>
  C30. What \<open>Canonicalize\<close> ignores: the space around the identifiers and the names, the
  case of the names, the location in which a time is given, a nil instead of an empty payload,
  and the time of delivery, which only becomes the fact's reception time. Two events that differ
  in nothing else give the same fact, with the same hash.
\<close>

theorem canonicalize_ignores_presentation:
  assumes "canonicalize rt e r = Inr c"
    and "trim_space (pe_event_key f) = trim_space (pe_event_key e)"
    and "trim_space (pe_subject_id f) = trim_space (pe_subject_id e)"
    and "normalize_name rt (pe_event_type f) = normalize_name rt (pe_event_type e)"
    and "normalize_name rt (pe_source_scope f) = normalize_name rt (pe_source_scope e)"
    and "tm_nanos (pe_effective_time f) = tm_nanos (pe_effective_time e)"
    and "map_option tm_nanos (pe_end_time f) = map_option tm_nanos (pe_end_time e)"
    and "tm_nanos (pe_modification_time f) = tm_nanos (pe_modification_time e)"
    and "pe_source_sequence f = pe_source_sequence e" "pe_revision_number f = pe_revision_number e"
    and "event_payload f = event_payload e"
  shows "canonicalize rt f r' = Inr (c\<lparr>cf_received_at := received_time r' (cf_modification_time c)\<rparr>)"
proof -
  obtain type scope attrs hash where e: "acceptable rt e type scope"
    "attributes_from_payload rt (event_payload e) = Inr attrs"
    "payload_hash rt (make_envelope e (trim_space (pe_subject_id e)) type scope) = Some hash"
    "c = build_fact e type scope attrs hash r"
    using assms(1) unfolding canonicalize_Inr_iff by blast
  have times: "normalize_time (pe_effective_time f) = normalize_time (pe_effective_time e)"
    "normalize_time (pe_modification_time f) = normalize_time (pe_modification_time e)"
    using assms(6,8) by (simp_all add: normalize_time_eq_iff)
  have ends: "map_option normalize_time (pe_end_time f) = map_option normalize_time (pe_end_time e)"
    using assms(7) by (cases "pe_end_time f"; cases "pe_end_time e") (simp_all add: normalize_time_eq_iff)
  have formatted: "map_option (\<lambda>t. format_rfc3339nano (normalize_time t)) (pe_end_time f) =
      map_option (\<lambda>t. format_rfc3339nano (normalize_time t)) (pe_end_time e)"
    using ends by (cases "pe_end_time f"; cases "pe_end_time e") simp_all
  have "is_zero (pe_effective_time f) = is_zero (pe_effective_time e)"
    "is_zero (pe_modification_time f) = is_zero (pe_modification_time e)"
    using assms(6,8) by (simp_all add: is_zero_def)
  then have acc: "acceptable rt f type scope" using e(1) assms(2-5,9,10) by (simp add: acceptable_def)
  have envelope: "make_envelope f (trim_space (pe_subject_id f)) type scope =
      make_envelope e (trim_space (pe_subject_id e)) type scope"
    using assms(3,9-11) times formatted by (simp add: make_envelope_def)
  have "build_fact f type scope attrs hash r' =
      c\<lparr>cf_received_at := received_time r' (cf_modification_time c)\<rparr>"
    using assms(2,3,9-11) times ends by (simp add: e(4) build_fact_def Let_def)
  then show ?thesis unfolding canonicalize_Inr_iff
    using acc e(2,3) envelope assms(11) by metis
qed

theorem canonicalize_ignores_presentation_witness:
  "\<exists>c c'. canonicalize example_runtime hire_v1 example_now = Inr c \<and>
     canonicalize example_runtime
       (hire_v1\<lparr>pe_event_key := ''  evt-ava-hire-v1 '', pe_event_type := '' HIRE'',
          pe_effective_time := (utc (sep 10))\<lparr>tm_loc := Offset 120\<rparr>\<rparr>) (utc (sep 13)) = Inr c' \<and>
     cf_payload_hash c' = cf_payload_hash c \<and> cf_received_at c' \<noteq> cf_received_at c"
proof -
  let ?f = "hire_v1\<lparr>pe_event_key := ''  evt-ava-hire-v1 '', pe_event_type := '' HIRE'',
          pe_effective_time := (utc (sep 10))\<lparr>tm_loc := Offset 120\<rparr>\<rparr>"
  have "(case canonicalize example_runtime hire_v1 example_now of Inl _ \<Rightarrow> False
      | Inr c \<Rightarrow> cf_received_at c \<noteq> received_time (utc (sep 13)) (cf_modification_time c))" by code_simp
  then obtain c where c: "canonicalize example_runtime hire_v1 example_now = Inr c"
    and received: "cf_received_at c \<noteq> received_time (utc (sep 13)) (cf_modification_time c)"
    by (auto split: sum.splits)
  have "trim_space (pe_event_key ?f) = trim_space (pe_event_key hire_v1)"
    "normalize_name example_runtime (pe_event_type ?f) = normalize_name example_runtime (pe_event_type hire_v1)"
    "tm_nanos (pe_effective_time ?f) = tm_nanos (pe_effective_time hire_v1)" by code_simp+
  then have "canonicalize example_runtime ?f (utc (sep 13)) =
      Inr (c\<lparr>cf_received_at := received_time (utc (sep 13)) (cf_modification_time c)\<rparr>)"
    by (intro canonicalize_ignores_presentation [OF c]) (simp_all add: event_payload_def)
  then show ?thesis using c received
    by (intro exI [of _ c]
        exI [of _ "c\<lparr>cf_received_at := received_time (utc (sep 13)) (cf_modification_time c)\<rparr>"]) simp
qed

text \<open>
  C32. The fact key identifies the fact: two canonical facts have the same key exactly when they
  have the same subject, source scope, event type and effective instant, even where a subject id
  contains the separator of the key.
\<close>

theorem fact_key_identifies:
  assumes "canonicalize rt e r = Inr c" "canonicalize rt f r' = Inr d"
  shows "cf_fact_key c = cf_fact_key d \<longleftrightarrow>
    cf_subject_id c = cf_subject_id d \<and> cf_source_scope c = cf_source_scope d \<and>
    cf_event_type c = cf_event_type d \<and>
    tm_nanos (cf_effective_time c) = tm_nanos (cf_effective_time d)"
proof -
  have wf: "canonical_wf c" "canonical_wf d" using assms canonicalize_wf by blast+
  then have "cf_effective_time c = cf_effective_time d \<longleftrightarrow>
      tm_nanos (cf_effective_time c) = tm_nanos (cf_effective_time d)"
    by (simp add: canonical_wf_def utc_time_eq_iff)
  then show ?thesis using wf wf_same_fact_key [OF wf] unfolding canonical_wf_def by metis
qed

theorem fact_key_identifies_witness:
  "\<exists>c d. canonicalize example_runtime hire_v1 example_now = Inr c \<and>
     canonicalize example_runtime hire_v2 example_now = Inr d \<and> cf_fact_key c = cf_fact_key d"
proof -
  have "(case canonicalize example_runtime hire_v1 example_now of Inl _ \<Rightarrow> False | Inr c \<Rightarrow>
      (case canonicalize example_runtime hire_v2 example_now of Inl _ \<Rightarrow> False | Inr d \<Rightarrow>
        (cf_subject_id c, cf_source_scope c, cf_event_type c, tm_nanos (cf_effective_time c)) =
        (cf_subject_id d, cf_source_scope d, cf_event_type d, tm_nanos (cf_effective_time d))))"
    by code_simp
  then obtain c d where cd: "canonicalize example_runtime hire_v1 example_now = Inr c"
      "canonicalize example_runtime hire_v2 example_now = Inr d"
    and same: "(cf_subject_id c, cf_source_scope c, cf_event_type c, tm_nanos (cf_effective_time c)) =
        (cf_subject_id d, cf_source_scope d, cf_event_type d, tm_nanos (cf_effective_time d))"
    by (auto split: sum.splits)
  then show ?thesis using fact_key_identifies [OF cd] cd by blast
qed

text \<open>
  The attributes of a fact are those entries of the payload's attribute map whose value is
  a scalar, under their trimmed names; lists, maps and null do not become attributes.
\<close>

theorem attributes_are_scalars:
  assumes "canonicalize rt e r = Inr c"
  shows "fmlookup (cf_attributes c) n = Some s \<longleftrightarrow>
    (\<exists>raw k v. fmlookup (event_payload e) ''attributes'' = Some raw \<and>
       fmlookup (attribute_values raw) k = Some v \<and> trim_space k = n \<and> scalar_string rt v = Some s)"
proof -
  obtain type scope attrs hash where c: "attributes_from_payload rt (event_payload e) = Inr attrs"
    "c = build_fact e type scope attrs hash r"
    using assms unfolding canonicalize_Inr_iff by blast
  show ?thesis
  proof (cases "fmlookup (event_payload e) ''attributes''")
    case None
    then show ?thesis using c by (simp add: attributes_from_payload_def)
  next
    case (Some raw)
    then show ?thesis using attributes_from_payload_lookup [OF Some c(1)] c(2) by simp
  qed
qed

theorem attributes_are_scalars_witness:
  "\<exists>c. canonicalize example_runtime hire_v1 example_now = Inr c \<and>
     fmlookup (cf_attributes c) ''department'' = Some ''engineering''"
proof -
  have "ok (canonicalize example_runtime hire_v1 example_now)" by code_simp
  then obtain c where c: "canonicalize example_runtime hire_v1 example_now = Inr c" by (auto simp: ok_iff)
  have "trim_space ''department'' = ''department''" by code_simp
  moreover have "scalar_string example_runtime (StringValue ''engineering'') = Some ''engineering''"
    by (simp add: scalar_string_def)
  moreover obtain raw where "fmlookup (event_payload hire_v1) ''attributes'' = Some raw"
    "fmlookup (attribute_values raw) ''department'' = Some (StringValue ''engineering'')"
    by (simp add: event_payload_def hire_v1_def example_event_def attribute_values_def)
  ultimately have "fmlookup (cf_attributes c) ''department'' = Some ''engineering''"
    unfolding attributes_are_scalars [OF c] by metis
  then show ?thesis using c by blast
qed

end
