(* ===== verification/Store.thy ===== *)
theory Store
  imports Facts "HOL-Library.Monad_Syntax"
begin

section \<open>The durable store (pkg/store/postgres/postgres.go over schema/postgres.sql)\<close>

text \<open>
  The three tables of the schema are finite maps from the primary key to a record of the
  columns; \<open>created_at\<close> and \<open>updated_at\<close>, which no query reads, are left out. A SQL
  statement of the source is a function on the database that returns its result or the error of
  the server: the constraints of the schema (checks, the foreign key, the second uniqueness
  constraint), the conflict clause and the WHERE clause are written out. A statement is atomic,
  as it is in PostgreSQL.

  What the code cannot see of the server and of the libraries is a parameter, bundled in
  \<open>store_runtime\<close>: the stored value of a time (a \<open>timestamptz\<close> holds microseconds) and
  the time read back, the order of the database's collation, which strings its encoding accepts,
  the \<open>jsonb\<close> value of a JSON text, and \<open>encoding/json\<close> on payloads and attributes.

  A connection can fail. A \<open>fault\<close> says whether a statement was not executed, was executed
  and its reply lost, or was executed with an unknown row count.
\<close>

record store_runtime =
  sr_instant :: "go_time \<Rightarrow> int option"
  sr_time :: "int \<Rightarrow> go_time"
  sr_text_less :: "string \<Rightarrow> string \<Rightarrow> bool"
  sr_text_ok :: "string \<Rightarrow> bool"
  sr_jsonb :: "string \<Rightarrow> string option"
  sr_marshal_payload :: "go_value gomap \<Rightarrow> string option"
  sr_marshal_attributes :: "string gomap \<Rightarrow> string option"
  sr_unmarshal_attributes :: "string \<Rightarrow> string gomap option"

datatype db_error =
    BadValue | CheckViolation | ForeignKeyViolation | UniqueViolation | BigintOutOfRange
  | NoRows | DriverFailure

datatype store_error =
    MarshalFailed
  | StatementFailed db_error
  | RowCountFailed
  | EventKeyConflict string
  | NegativeRowVersion
  | DecodeAttributesFailed

datatype fault = NoFault | RequestLost | ReplyLost | CountLost

subsection \<open>Tables\<close>

record event_row =
  ev_subject_id :: string
  ev_event_type :: string
  ev_source_scope :: string
  ev_effective_time :: int
  ev_end_time :: "int option"
  ev_modification_time :: int
  ev_source_sequence :: int
  ev_revision_number :: int
  ev_payload :: string
  ev_payload_hash :: string
  ev_received_at :: int

record fact_row =
  fr_event_key :: string
  fr_subject_id :: string
  fr_event_type :: string
  fr_source_scope :: string
  fr_effective_time :: int
  fr_end_time :: "int option"
  fr_modification_time :: int
  fr_source_sequence :: int
  fr_revision_number :: int
  fr_payload :: string
  fr_attributes :: string
  fr_payload_hash :: string
  fr_received_at :: int

record state_row =
  st_row_version :: int
  st_exists :: bool
  st_enabled :: bool
  st_lifecycle_state :: string
  st_attributes :: string
  st_source_fact_key :: string
  st_source_event_key :: string
  st_effective_time :: int
  st_source_sequence :: int
  st_modification_time :: int
  st_revision_number :: int
  st_physical_event_key :: string

record database =
  db_physical_events :: "event_row gomap"
  db_canonical_facts :: "fact_row gomap"
  db_canonical_state :: "state_row gomap"

subsection \<open>Values on their way into a column\<close>

fun optional_instant :: "store_runtime \<Rightarrow> go_time option \<Rightarrow> int option option" where
  "optional_instant s None = Some None"
| "optional_instant s (Some t) = map_option Some (sr_instant s t)"

text \<open>\<open>CHAR(64)\<close>: trailing blanks do not count, a longer value is an error.\<close>

definition char64 :: "string \<Rightarrow> string option" where
  "char64 s =
     (let t = rev (dropWhile (\<lambda>c. c = CHR '' '') (rev s)) in if length t \<le> 64 then Some t else None)"

definition event_row_of :: "store_runtime \<Rightarrow> canonical_fact \<Rightarrow> string \<Rightarrow> event_row option" where
  "event_row_of s c payload = do {
     effective \<leftarrow> sr_instant s (cf_effective_time c);
     end_time \<leftarrow> optional_instant s (cf_end_time c);
     modification \<leftarrow> sr_instant s (cf_modification_time c);
     received \<leftarrow> sr_instant s (cf_received_at c);
     json \<leftarrow> sr_jsonb s payload;
     hash \<leftarrow> char64 (cf_payload_hash c);
     (if list_all (sr_text_ok s)
           [cf_event_key c, cf_subject_id c, event_type_name (cf_event_type c),
            source_scope_name (cf_source_scope c), hash]
      then Some \<lparr>ev_subject_id = cf_subject_id c,
        ev_event_type = event_type_name (cf_event_type c),
        ev_source_scope = source_scope_name (cf_source_scope c),
        ev_effective_time = effective, ev_end_time = end_time,
        ev_modification_time = modification,
        ev_source_sequence = ft_source_sequence (cf_freshness c),
        ev_revision_number = ft_revision_number (cf_freshness c),
        ev_payload = json, ev_payload_hash = hash, ev_received_at = received\<rparr>
      else None) }"

definition fact_row_of :: "store_runtime \<Rightarrow> canonical_fact \<Rightarrow> string \<Rightarrow> string \<Rightarrow> fact_row option" where
  "fact_row_of s c payload attributes = do {
     effective \<leftarrow> sr_instant s (cf_effective_time c);
     end_time \<leftarrow> optional_instant s (cf_end_time c);
     modification \<leftarrow> sr_instant s (cf_modification_time c);
     received \<leftarrow> sr_instant s (cf_received_at c);
     json \<leftarrow> sr_jsonb s payload;
     attrs \<leftarrow> sr_jsonb s attributes;
     hash \<leftarrow> char64 (cf_payload_hash c);
     (if list_all (sr_text_ok s)
           [cf_fact_key c, cf_event_key c, cf_subject_id c, event_type_name (cf_event_type c),
            source_scope_name (cf_source_scope c), hash]
      then Some \<lparr>fr_event_key = cf_event_key c, fr_subject_id = cf_subject_id c,
        fr_event_type = event_type_name (cf_event_type c),
        fr_source_scope = source_scope_name (cf_source_scope c),
        fr_effective_time = effective, fr_end_time = end_time,
        fr_modification_time = modification,
        fr_source_sequence = ft_source_sequence (cf_freshness c),
        fr_revision_number = ft_revision_number (cf_freshness c),
        fr_payload = json, fr_attributes = attrs, fr_payload_hash = hash,
        fr_received_at = received\<rparr>
      else None) }"

text \<open>The row version is the caller's to set: 0 for an insert.\<close>

definition state_row_of :: "store_runtime \<Rightarrow> identity_projection \<Rightarrow> string \<Rightarrow> state_row option" where
  "state_row_of s ip attributes = do {
     effective \<leftarrow> sr_instant s (ip_effective_time ip);
     modification \<leftarrow> sr_instant s (ft_modification_time (ip_freshness ip));
     attrs \<leftarrow> sr_jsonb s attributes;
     (if list_all (sr_text_ok s)
           [ip_subject_id ip, lifecycle_name (ip_lifecycle_state ip), ip_source_fact_key ip,
            ip_source_event_key ip, ft_event_key (ip_freshness ip)]
      then Some \<lparr>st_row_version = 0, st_exists = ip_exists ip, st_enabled = ip_enabled ip,
        st_lifecycle_state = lifecycle_name (ip_lifecycle_state ip),
        st_attributes = attrs,
        st_source_fact_key = ip_source_fact_key ip, st_source_event_key = ip_source_event_key ip,
        st_effective_time = effective,
        st_source_sequence = ft_source_sequence (ip_freshness ip),
        st_modification_time = modification,
        st_revision_number = ft_revision_number (ip_freshness ip),
        st_physical_event_key = ft_event_key (ip_freshness ip)\<rparr>
      else None) }"

subsection \<open>The freshness conditions of the statements\<close>

type_synonym order_columns = "int \<times> int \<times> int \<times> string"

text \<open>The disjunction in the WHERE clause of the two upserts: stored columns, then excluded ones.\<close>

fun older_clause :: "(string \<Rightarrow> string \<Rightarrow> bool) \<Rightarrow> order_columns \<Rightarrow> order_columns \<Rightarrow> bool" where
  "older_clause text_less (seq1, mod1, rev1, key1) (seq2, mod2, rev2, key2) \<longleftrightarrow>
     seq1 < seq2 \<or>
     (seq1 = seq2 \<and> mod1 < mod2) \<or>
     (seq1 = seq2 \<and> mod1 = mod2 \<and> rev1 < rev2) \<or>
     (seq1 = seq2 \<and> mod1 = mod2 \<and> rev1 = rev2 \<and> text_less key1 key2)"

text \<open>The row comparison \<open>(a, b, c, d) < ($9, $10, $11, $12)\<close>: the first unequal pair decides.\<close>

fun row_less :: "(string \<Rightarrow> string \<Rightarrow> bool) \<Rightarrow> order_columns \<Rightarrow> order_columns \<Rightarrow> bool" where
  "row_less text_less (seq1, mod1, rev1, key1) (seq2, mod2, rev2, key2) \<longleftrightarrow>
     (if seq1 \<noteq> seq2 then seq1 < seq2
      else if mod1 \<noteq> mod2 then mod1 < mod2
      else if rev1 \<noteq> rev2 then rev1 < rev2
      else text_less key1 key2)"

definition fact_order_columns :: "fact_row \<Rightarrow> order_columns" where
  "fact_order_columns r =
     (fr_source_sequence r, fr_modification_time r, fr_revision_number r, fr_event_key r)"

definition state_order_columns :: "state_row \<Rightarrow> order_columns" where
  "state_order_columns r =
     (st_source_sequence r, st_modification_time r, st_revision_number r, st_physical_event_key r)"

subsection \<open>Statements\<close>

definition insert_physical_event_sql ::
    "string \<Rightarrow> event_row \<Rightarrow> database \<Rightarrow> db_error + nat \<times> database" where
  "insert_physical_event_sql key row db =
     (if ev_source_sequence row < 0 \<or> ev_revision_number row < 0 then Inl CheckViolation
      else case fmlookup (db_physical_events db) key of
        Some _ \<Rightarrow> Inr (0, db)
      | None \<Rightarrow> Inr (1, db\<lparr>db_physical_events := fmupd key row (db_physical_events db)\<rparr>))"

text \<open>The comparison leaves out \<open>received_at\<close>.\<close>

definition event_matches :: "event_row \<Rightarrow> event_row \<Rightarrow> bool" where
  "event_matches stored row \<longleftrightarrow>
     ev_subject_id stored = ev_subject_id row \<and> ev_event_type stored = ev_event_type row \<and>
     ev_source_scope stored = ev_source_scope row \<and>
     ev_effective_time stored = ev_effective_time row \<and> ev_end_time stored = ev_end_time row \<and>
     ev_modification_time stored = ev_modification_time row \<and>
     ev_source_sequence stored = ev_source_sequence row \<and>
     ev_revision_number stored = ev_revision_number row \<and>
     ev_payload stored = ev_payload row \<and> ev_payload_hash stored = ev_payload_hash row"

definition physical_event_matches_sql ::
    "string \<Rightarrow> event_row \<Rightarrow> database \<Rightarrow> db_error + bool \<times> database" where
  "physical_event_matches_sql key row db =
     (case fmlookup (db_physical_events db) key of
        None \<Rightarrow> Inl NoRows
      | Some stored \<Rightarrow> Inr (event_matches stored row, db))"

text \<open>The columns of \<open>UNIQUE (subject_id, source_scope, event_type, effective_time)\<close>.\<close>

definition same_identity :: "fact_row \<Rightarrow> fact_row \<Rightarrow> bool" where
  "same_identity r r' \<longleftrightarrow>
     fr_subject_id r = fr_subject_id r' \<and> fr_source_scope r = fr_source_scope r' \<and>
     fr_event_type r = fr_event_type r' \<and> fr_effective_time r = fr_effective_time r'"

text \<open>The SET clause: the identifying columns keep the stored values.\<close>

definition refresh_fact_row :: "fact_row \<Rightarrow> fact_row \<Rightarrow> fact_row" where
  "refresh_fact_row stored row =
     stored\<lparr>fr_event_key := fr_event_key row, fr_end_time := fr_end_time row,
       fr_modification_time := fr_modification_time row,
       fr_source_sequence := fr_source_sequence row, fr_revision_number := fr_revision_number row,
       fr_payload := fr_payload row, fr_attributes := fr_attributes row,
       fr_payload_hash := fr_payload_hash row, fr_received_at := fr_received_at row\<rparr>"

definition upsert_canonical_fact_sql ::
    "(string \<Rightarrow> string \<Rightarrow> bool) \<Rightarrow> string \<Rightarrow> fact_row \<Rightarrow> database
       \<Rightarrow> db_error + string \<times> database" where
  "upsert_canonical_fact_sql text_less key row db =
     (let facts = db_canonical_facts db; known = (fmlookup (db_physical_events db) (fr_event_key row) \<noteq> None) in
      if fr_source_sequence row < 0 \<or> fr_revision_number row < 0 then Inl CheckViolation
      else case fmlookup facts key of
        None \<Rightarrow>
          if list_ex (\<lambda>(k, r). same_identity r row) (sorted_list_of_fmap facts) then Inl UniqueViolation
          else if \<not> known then Inl ForeignKeyViolation
          else Inr (key, db\<lparr>db_canonical_facts := fmupd key row facts\<rparr>)
      | Some stored \<Rightarrow>
          if \<not> older_clause text_less (fact_order_columns stored) (fact_order_columns row) then Inl NoRows
          else if fr_event_key row \<noteq> fr_event_key stored \<and> \<not> known then Inl ForeignKeyViolation
          else Inr (key, db\<lparr>db_canonical_facts := fmupd key (refresh_fact_row stored row) facts\<rparr>))"

definition bigint_max :: int where "bigint_max = 9223372036854775807"

text \<open>\<open>row_version + 1\<close> on a \<open>BIGINT\<close>, with the other columns of the new row.\<close>

definition advance_row :: "state_row \<Rightarrow> state_row \<Rightarrow> db_error + state_row" where
  "advance_row stored row =
     (if st_row_version stored = bigint_max then Inl BigintOutOfRange
      else Inr (row\<lparr>st_row_version := st_row_version stored + 1\<rparr>))"

definition compare_and_set_projection_sql ::
    "(string \<Rightarrow> string \<Rightarrow> bool) \<Rightarrow> string \<Rightarrow> state_row \<Rightarrow> int \<Rightarrow> database
       \<Rightarrow> db_error + int \<times> database" where
  "compare_and_set_projection_sql text_less key row expected db =
     (let states = db_canonical_state db in
      if st_source_sequence row < 0 \<or> st_revision_number row < 0 then Inl CheckViolation
      else case fmlookup states key of
        None \<Rightarrow> Inr (0, db\<lparr>db_canonical_state := fmupd key (row\<lparr>st_row_version := 0\<rparr>) states\<rparr>)
      | Some stored \<Rightarrow>
          if \<not> (st_row_version stored = expected \<and>
                older_clause text_less (state_order_columns stored) (state_order_columns row)) then Inl NoRows
          else case advance_row stored row of
            Inl err \<Rightarrow> Inl err
          | Inr new \<Rightarrow> Inr (st_row_version new, db\<lparr>db_canonical_state := fmupd key new states\<rparr>))"

definition update_projection_sql ::
    "(string \<Rightarrow> string \<Rightarrow> bool) \<Rightarrow> string \<Rightarrow> state_row \<Rightarrow> int \<Rightarrow> database
       \<Rightarrow> db_error + int \<times> database" where
  "update_projection_sql text_less key row expected db =
     (let states = db_canonical_state db in
      case fmlookup states key of
        None \<Rightarrow> Inl NoRows
      | Some stored \<Rightarrow>
          if \<not> (st_row_version stored = expected \<and>
                row_less text_less (state_order_columns stored) (state_order_columns row)) then Inl NoRows
          else case advance_row stored row of
            Inl err \<Rightarrow> Inl err
          | Inr new \<Rightarrow>
              if st_source_sequence new < 0 \<or> st_revision_number new < 0 then Inl CheckViolation
              else Inr (st_row_version new, db\<lparr>db_canonical_state := fmupd key new states\<rparr>))"

definition load_projection_sql :: "string \<Rightarrow> database \<Rightarrow> db_error + state_row \<times> database" where
  "load_projection_sql key db =
     (case fmlookup (db_canonical_state db) key of None \<Rightarrow> Inl NoRows | Some row \<Rightarrow> Inr (row, db))"

text \<open>A statement over a connection that can fail. An error of the server changes nothing.\<close>

definition run_sql ::
    "fault \<Rightarrow> (database \<Rightarrow> db_error + 'a \<times> database) \<Rightarrow> database \<Rightarrow> (db_error + 'a) \<times> database" where
  "run_sql fault statement db =
     (case fault of
        RequestLost \<Rightarrow> (Inl DriverFailure, db)
      | ReplyLost \<Rightarrow> (Inl DriverFailure, case statement db of Inl _ \<Rightarrow> db | Inr (_, db') \<Rightarrow> db')
      | _ \<Rightarrow> (case statement db of Inl err \<Rightarrow> (Inl err, db) | Inr (x, db') \<Rightarrow> (Inr x, db')))"

text \<open>Conversion of the parameters happens in the server, before the statement runs.\<close>

definition with_row :: "'r option \<Rightarrow> ('r \<Rightarrow> database \<Rightarrow> db_error + 'a) \<Rightarrow> database \<Rightarrow> db_error + 'a" where
  "with_row row statement db = (case row of None \<Rightarrow> Inl BadValue | Some r \<Rightarrow> statement r db)"

subsection \<open>InsertPhysicalEvent and UpsertCanonicalFact\<close>

text \<open>
  The insert and the replay check are two statements, each on a connection of the pool;
  \<open>others\<close> is what other sessions commit between them.
\<close>

definition insert_physical_event ::
    "store_runtime \<Rightarrow> fault \<Rightarrow> (database \<Rightarrow> database) \<Rightarrow> fault \<Rightarrow> canonical_fact \<Rightarrow> database
       \<Rightarrow> (store_error + bool) \<times> database" where
  "insert_physical_event s fault1 others fault2 c db =
     (case sr_marshal_payload s (cf_payload c) of
        None \<Rightarrow> (Inl MarshalFailed, db)
      | Some payload \<Rightarrow>
      (case run_sql fault1 (with_row (event_row_of s c payload) (insert_physical_event_sql (cf_event_key c))) db of
        (Inl err, db1) \<Rightarrow> (Inl (StatementFailed err), db1)
      | (Inr rows, db1) \<Rightarrow>
          if fault1 = CountLost then (Inl RowCountFailed, db1)
          else if rows = 1 then (Inr True, db1)
          else
          (case run_sql fault2 (with_row (event_row_of s c payload) (physical_event_matches_sql (cf_event_key c)))
                  (others db1) of
            (Inl err, db2) \<Rightarrow> (Inl (StatementFailed err), db2)
          | (Inr exact_replay, db2) \<Rightarrow>
              if \<not> exact_replay then (Inl (EventKeyConflict (cf_event_key c)), db2)
              else (Inr False, db2))))"

definition upsert_canonical_fact ::
    "store_runtime \<Rightarrow> fault \<Rightarrow> canonical_fact \<Rightarrow> database \<Rightarrow> (store_error + bool) \<times> database" where
  "upsert_canonical_fact s fault c db =
     (case sr_marshal_payload s (cf_payload c) of
        None \<Rightarrow> (Inl MarshalFailed, db)
      | Some payload \<Rightarrow>
      (case sr_marshal_attributes s (cf_attributes c) of
        None \<Rightarrow> (Inl MarshalFailed, db)
      | Some attributes \<Rightarrow>
      (case run_sql fault (with_row (fact_row_of s c payload attributes)
              (upsert_canonical_fact_sql (sr_text_less s) (cf_fact_key c))) db of
        (Inl NoRows, db1) \<Rightarrow> (Inr False, db1)
      | (Inl err, db1) \<Rightarrow> (Inl (StatementFailed err), db1)
      | (Inr stored_key, db1) \<Rightarrow> (Inr (stored_key = cf_fact_key c), db1))))"

subsection \<open>CompareAndSetProjection and LoadProjection\<close>

definition compare_and_set_projection ::
    "store_runtime \<Rightarrow> fault \<Rightarrow> int \<Rightarrow> identity_projection \<Rightarrow> database
       \<Rightarrow> (store_error + bool) \<times> database" where
  "compare_and_set_projection s fault expected ip db =
     (if expected < 0 then (Inl NegativeRowVersion, db)
      else case sr_marshal_attributes s (ip_attributes ip) of
        None \<Rightarrow> (Inl MarshalFailed, db)
      | Some attributes \<Rightarrow>
      (let query = (if expected > 0 then update_projection_sql else compare_and_set_projection_sql) in
       case run_sql fault (with_row (state_row_of s ip attributes)
              (\<lambda>row. query (sr_text_less s) (ip_subject_id ip) row expected)) db of
         (Inl NoRows, db1) \<Rightarrow> (Inr False, db1)
       | (Inl err, db1) \<Rightarrow> (Inl (StatementFailed err), db1)
       | (Inr row_version, db1) \<Rightarrow> (Inr (row_version \<ge> 0), db1)))"

definition projection_of_row ::
    "store_runtime \<Rightarrow> string \<Rightarrow> state_row \<Rightarrow> store_error + identity_projection" where
  "projection_of_row s subject row =
     (case sr_unmarshal_attributes s (st_attributes row) of
        None \<Rightarrow> Inl DecodeAttributesFailed
      | Some attributes \<Rightarrow>
          Inr \<lparr>ip_subject_id = subject, ip_exists = st_exists row, ip_enabled = st_enabled row,
               ip_lifecycle_state = lifecycle_of_name (st_lifecycle_state row),
               ip_attributes = attributes,
               ip_source_fact_key = st_source_fact_key row,
               ip_source_event_key = st_source_event_key row,
               ip_effective_time = sr_time s (st_effective_time row),
               ip_freshness =
                 \<lparr>ft_source_sequence = st_source_sequence row,
                  ft_modification_time = sr_time s (st_modification_time row),
                  ft_revision_number = st_revision_number row,
                  ft_event_key = st_physical_event_key row\<rparr>,
               ip_row_version = st_row_version row\<rparr>)"

definition load_projection ::
    "store_runtime \<Rightarrow> fault \<Rightarrow> string \<Rightarrow> database \<Rightarrow> store_error + identity_projection" where
  "load_projection s fault subject db =
     (case fst (run_sql fault (load_projection_sql subject) db) of
        Inl err \<Rightarrow> Inl (StatementFailed err)
      | Inr row \<Rightarrow> projection_of_row s subject row)"

subsection \<open>WithLockedProjection\<close>

text \<open>
  The transaction as the list of what happens in it. The callback acts on a world \<open>'w\<close> of its
  own (the target system). \<open>defer tx.Rollback()\<close> does something only where the transaction
  is still open when the function returns; after a commit, failed or not, it is closed.
\<close>

datatype tx_event = TxBegin | TxSelectForUpdate string | TxCallback | TxCommit | TxRollback

datatype 'e locked_error =
    CallbackRequired
  | BeginFailed
  | LoadFailed store_error
  | CallbackFailed 'e
  | CommitFailed

definition with_locked_projection ::
    "store_runtime \<Rightarrow> bool \<Rightarrow> fault \<Rightarrow> bool \<Rightarrow> string
       \<Rightarrow> (identity_projection \<Rightarrow> 'w \<Rightarrow> 'e option \<times> 'w) option \<Rightarrow> database \<Rightarrow> 'w
       \<Rightarrow> 'e locked_error option \<times> 'w \<times> tx_event list" where
  "with_locked_projection s begin_fails load_fault commit_fails subject apply db w =
     (case apply of
        None \<Rightarrow> (Some CallbackRequired, w, [])
      | Some callback \<Rightarrow>
      if begin_fails then (Some BeginFailed, w, [])
      else case load_projection s load_fault subject db of
        Inl err \<Rightarrow> (Some (LoadFailed err), w, [TxBegin, TxSelectForUpdate subject, TxRollback])
      | Inr projection \<Rightarrow>
      (case callback projection w of
        (Some err, w1) \<Rightarrow>
          (Some (CallbackFailed err), w1, [TxBegin, TxSelectForUpdate subject, TxCallback, TxRollback])
      | (None, w1) \<Rightarrow>
          if commit_fails then
            (Some CommitFailed, w1, [TxBegin, TxSelectForUpdate subject, TxCallback, TxCommit])
          else (None, w1, [TxBegin, TxSelectForUpdate subject, TxCallback, TxCommit])))"

end
