(* ===== verification/Converge.thy ===== *)
theory Converge
  imports Facts
begin

section \<open>Read-before-write convergence (pkg/reconcile/resolve.go, Converge)\<close>

text \<open>
  \<open>StateEquivalent\<close>, \<open>stringMapsEqual\<close> and \<open>Converge\<close>. A target adapter is a
  record of its two operations, which thread the world \<open>'w\<close> they act on, and of the optional
  comparator that the type assertion finds. The locale \<open>reading_target\<close> is the contract of
  \<open>TargetAdapter\<close> over a world that is the list of the requests sent so far: observing sends
  reads only and applying sends at most one write. \<open>Converge\<close> and the preview of the
  converge command inherit it.
\<close>

type_synonym desired_state = identity_projection

datatype convergence_action = ConvergenceUnchanged | ConvergenceUpdated

record convergence_result =
  cr_action :: convergence_action
  cr_observed :: observed_state

record ('w, 'e) target_adapter =
  ta_observe :: "string \<Rightarrow> 'w \<Rightarrow> ('e + observed_state) \<times> 'w"
  ta_apply :: "desired_state \<Rightarrow> 'w \<Rightarrow> 'e option \<times> 'w"
  ta_comparator :: "(observed_state \<Rightarrow> desired_state \<Rightarrow> bool) option"

datatype 'e converge_error =
    AdapterRequired
  | ObserveFailed string 'e
  | ApplyFailed string 'e

subsection \<open>Comparison\<close>

text \<open>The lengths, then the loop over the entries of the left map, in any order.\<close>

definition string_maps_equal :: "string gomap \<Rightarrow> string gomap \<Rightarrow> bool" where
  "string_maps_equal left right =
     (if length (sorted_list_of_fmap left) \<noteq> length (sorted_list_of_fmap right) then False
      else list_all (\<lambda>(key, val). case fmlookup right key of None \<Rightarrow> False | Some other \<Rightarrow> other = val)
             (sorted_list_of_fmap left))"

definition state_equivalent :: "observed_state \<Rightarrow> desired_state \<Rightarrow> bool" where
  "state_equivalent observed desired =
     (if os_exists observed \<noteq> ip_exists desired then False
      else if \<not> ip_exists desired then True
      else if os_enabled observed \<noteq> ip_enabled desired then False
      else string_maps_equal (os_attributes observed) (ip_attributes desired))"

definition equivalent_for :: "('w, 'e) target_adapter \<Rightarrow> observed_state \<Rightarrow> desired_state \<Rightarrow> bool" where
  "equivalent_for adapter observed desired =
     (case ta_comparator adapter of
        None \<Rightarrow> state_equivalent observed desired
      | Some comparator \<Rightarrow> comparator observed desired)"

subsection \<open>Converge\<close>

definition converge ::
    "('w, 'e) target_adapter option \<Rightarrow> desired_state \<Rightarrow> 'w
       \<Rightarrow> ('e converge_error + convergence_result) \<times> 'w" where
  "converge adapter desired w =
     (case adapter of
        None \<Rightarrow> (Inl AdapterRequired, w)
      | Some a \<Rightarrow>
      (case ta_observe a (ip_subject_id desired) w of
        (Inl err, w1) \<Rightarrow> (Inl (ObserveFailed (ip_subject_id desired) err), w1)
      | (Inr observed, w1) \<Rightarrow>
          if equivalent_for a observed desired then
            (Inr \<lparr>cr_action = ConvergenceUnchanged, cr_observed = observed\<rparr>, w1)
          else (case ta_apply a desired w1 of
            (Some err, w2) \<Rightarrow> (Inl (ApplyFailed (ip_subject_id desired) err), w2)
          | (None, w2) \<Rightarrow>
              (Inr \<lparr>cr_action = ConvergenceUpdated, cr_observed = observed\<rparr>, w2))))"

subsection \<open>Lemmas\<close>

lemma sorted_list_of_fmap_set: "set (sorted_list_of_fmap m) = {(k, v). fmlookup m k = Some v}"
proof -
  have "map_of (sorted_list_of_fmap m) = fmlookup m" by simp
  moreover have "distinct (map fst (sorted_list_of_fmap m))"
    by (simp add: sorted_list_of_fmap_def comp_def sorted_list_of_fset.rep_eq)
  ultimately show ?thesis by (auto simp flip: map_of_eq_Some_iff)
qed

lemma length_sorted_list_of_fmap: "length (sorted_list_of_fmap m) = card (fmdom' m)"
  by (simp add: sorted_list_of_fmap_def sorted_list_of_fset.rep_eq fmdom'_alt_def)

lemma string_maps_equal_iff: "string_maps_equal left right \<longleftrightarrow> left = right"
proof
  assume eq: "string_maps_equal left right"
  then have sub: "fmlookup right k = Some v" if "fmlookup left k = Some v" for k v
    using that by (fastforce simp: string_maps_equal_def list_all_iff sorted_list_of_fmap_set
        split: if_splits option.splits)
  then have "fmdom' left \<subseteq> fmdom' right" by (auto simp: fmlookup_dom'_iff)
  moreover have "card (fmdom' left) = card (fmdom' right)"
    using eq by (simp add: string_maps_equal_def length_sorted_list_of_fmap split: if_splits)
  ultimately have dom: "fmdom' left = fmdom' right" by (simp add: card_subset_eq)
  show "left = right"
  proof (rule fmap_ext)
    fix k
    show "fmlookup left k = fmlookup right k"
    proof (cases "fmlookup left k")
      case None
      then have "k \<notin> fmdom' right" by (simp flip: dom add: fmlookup_dom'_iff)
      then show ?thesis using None by (cases "fmlookup right k") (auto simp: fmlookup_dom'_iff)
    qed (use sub in auto)
  qed
qed (auto simp: string_maps_equal_def list_all_iff sorted_list_of_fmap_set)

lemma state_equivalent_iff:
  "state_equivalent observed desired \<longleftrightarrow>
     os_exists observed = ip_exists desired \<and>
     (ip_exists desired \<longrightarrow> os_enabled observed = ip_enabled desired \<and>
        os_attributes observed = ip_attributes desired)"
  by (simp add: state_equivalent_def string_maps_equal_iff)

text \<open>How a convergence ends, by what the adapter did.\<close>

lemma converge_unchangedD:
  assumes "converge (Some a) d w = (Inr r, w')" "cr_action r = ConvergenceUnchanged"
  shows "ta_observe a (ip_subject_id d) w = (Inr (cr_observed r), w')"
    and "equivalent_for a (cr_observed r) d"
  using assms by (auto simp: converge_def split: prod.splits sum.splits if_splits option.splits)

lemma converge_updatedD:
  assumes "converge (Some a) d w = (Inr r, w')" "cr_action r = ConvergenceUpdated"
  obtains w1 where "ta_observe a (ip_subject_id d) w = (Inr (cr_observed r), w1)"
    "\<not> equivalent_for a (cr_observed r) d" "ta_apply a d w1 = (None, w')"
  using assms by (auto simp: converge_def split: prod.splits sum.splits if_splits option.splits)

subsection \<open>The contract of an adapter\<close>

text \<open>
  The world is the list of requests sent so far. Observing only adds reads, applying adds at
  most one request that is not a read, and neither takes a request back.
\<close>

definition writes :: "('r \<Rightarrow> bool) \<Rightarrow> 'r list \<Rightarrow> 'r list" where
  "writes is_read h = filter (\<lambda>r. \<not> is_read r) h"

lemma writes_append [simp]: "writes is_read (h @ h') = writes is_read h @ writes is_read h'"
  by (simp add: writes_def)

locale reading_target =
  fixes adapter :: "('r list, 'e) target_adapter"
    and is_read :: "'r \<Rightarrow> bool"
  assumes observe_reads: "\<exists>log. snd (ta_observe adapter s h) = h @ log \<and> writes is_read log = []"
    and apply_writes_once: "\<exists>log. snd (ta_apply adapter d h) = h @ log \<and> length (writes is_read log) \<le> 1"
begin

lemma observe_writes: "writes is_read (snd (ta_observe adapter s h)) = writes is_read h"
  using observe_reads [of s h] by auto

lemma unchanged_writes_nothing:
  assumes "converge (Some adapter) d h = (Inr r, h')" "cr_action r = ConvergenceUnchanged"
  shows "writes is_read h' = writes is_read h"
  using converge_unchangedD(1) [OF assms] observe_writes by (metis snd_conv)

lemma converge_extends:
  "\<exists>log. snd (converge (Some adapter) d h) = h @ log \<and> length (writes is_read log) \<le> 1"
proof -
  obtain o1 h1 where observed: "ta_observe adapter (ip_subject_id d) h = (o1, h1)" by fastforce
  then obtain log1 where h1: "h1 = h @ log1" "writes is_read log1 = []"
    using observe_reads [of "ip_subject_id d" h] by auto
  obtain r2 h2 where applied: "ta_apply adapter d h1 = (r2, h2)" by fastforce
  then obtain log2 where h2: "h2 = h1 @ log2" "length (writes is_read log2) \<le> 1"
    using apply_writes_once [of d h1] by auto
  have "snd (converge (Some adapter) d h) \<in> {h1, h2}"
    by (auto simp: converge_def observed applied split: sum.splits option.splits)
  then show ?thesis
  proof (elim insertE emptyE)
    assume "snd (converge (Some adapter) d h) = h1"
    then show ?thesis using h1 by (intro exI [of _ log1]) simp
  next
    assume "snd (converge (Some adapter) d h) = h2"
    then show ?thesis using h1 h2 by (intro exI [of _ "log1 @ log2"]) simp
  qed
qed

lemma observe_failure_writes_nothing:
  assumes "converge (Some adapter) d h = (Inl (ObserveFailed s e), h')"
  shows "writes is_read h' = writes is_read h"
proof -
  obtain o1 where "ta_observe adapter (ip_subject_id d) h = (o1, h')"
    using assms by (auto simp: converge_def split: prod.splits sum.splits if_splits option.splits)
  then show ?thesis using observe_writes by (metis snd_conv)
qed

end

end
