(* ===== verification/StoreLemmas.thy ===== *)
theory StoreLemmas
  imports Store Timeline Converge
begin

section \<open>Lemmas about the store\<close>

text \<open>
  What the statements do to the tables, case by case, the two spellings of the freshness
  condition and their relation to Go's comparison, and the relation \<open>db_grows\<close> between a
  database and every later one.
\<close>

subsection \<open>Columns of a row\<close>

lemma fact_row_of_sel:
  assumes "fact_row_of s c payload attributes = Some r"
  shows "fr_event_key r = cf_event_key c" "fr_subject_id r = cf_subject_id c"
    "fr_event_type r = event_type_name (cf_event_type c)"
    "fr_source_scope r = source_scope_name (cf_source_scope c)"
    "sr_instant s (cf_effective_time c) = Some (fr_effective_time r)"
    "sr_instant s (cf_modification_time c) = Some (fr_modification_time r)"
    "fr_source_sequence r = ft_source_sequence (cf_freshness c)"
    "fr_revision_number r = ft_revision_number (cf_freshness c)"
  using assms by (auto simp: fact_row_of_def bind_eq_Some_conv split: if_splits)

lemma state_row_of_sel:
  assumes "state_row_of s ip attributes = Some r"
  shows "st_row_version r = 0" "st_exists r = ip_exists ip" "st_enabled r = ip_enabled ip"
    "st_lifecycle_state r = lifecycle_name (ip_lifecycle_state ip)"
    "sr_jsonb s attributes = Some (st_attributes r)"
    "st_source_fact_key r = ip_source_fact_key ip" "st_source_event_key r = ip_source_event_key ip"
    "sr_instant s (ip_effective_time ip) = Some (st_effective_time r)"
    "st_source_sequence r = ft_source_sequence (ip_freshness ip)"
    "sr_instant s (ft_modification_time (ip_freshness ip)) = Some (st_modification_time r)"
    "st_revision_number r = ft_revision_number (ip_freshness ip)"
    "st_physical_event_key r = ft_event_key (ip_freshness ip)"
  using assms by (auto simp: state_row_of_def bind_eq_Some_conv split: if_splits)

subsection \<open>The freshness conditions\<close>

lemma row_less_clause: "row_less text_less a b = older_clause text_less a b"
  by (cases a; cases b) auto

text \<open>Under a bytewise collation the condition is the lexicographic order of the columns.\<close>

interpretation stored_order: less_order "older_clause (<)" "\<lambda>columns. columns"
proof
  fix a b :: order_columns
  show "older_clause (<) a b \<longleftrightarrow> a < b" by (cases a; cases b) auto
qed

lemma older_clause_irrefl: "(\<And>x. \<not> text_less x x) \<Longrightarrow> \<not> older_clause text_less a a"
  by (cases a) auto

lemma older_clause_trans:
  assumes "transp text_less" "older_clause text_less a b" "older_clause text_less b c"
  shows "older_clause text_less a c"
  using assms by (cases a; cases b; cases c) (auto dest: transpD)

text \<open>A time that the database stores exactly: it has no digits below the microsecond.\<close>

definition micro_exact :: "store_runtime \<Rightarrow> go_time \<Rightarrow> bool" where
  "micro_exact s t \<longleftrightarrow> 1000 dvd tm_nanos t \<and> sr_instant s t = Some (tm_nanos t div 1000)"

lemma micro_exact_less:
  assumes "micro_exact s t" "micro_exact s u" "sr_instant s t = Some m" "sr_instant s u = Some n"
  shows "m < n \<longleftrightarrow> tm_nanos t < tm_nanos u" and "m = n \<longleftrightarrow> tm_nanos t = tm_nanos u"
  using assms unfolding micro_exact_def by (auto elim!: dvdE)

lemma older_clause_key:
  assumes "micro_exact s (ft_modification_time f)" "micro_exact s (ft_modification_time g)"
    and "sr_instant s (ft_modification_time f) = Some m" "sr_instant s (ft_modification_time g) = Some n"
  shows "older_clause (<) (ft_source_sequence f, m, ft_revision_number f, ft_event_key f)
           (ft_source_sequence g, n, ft_revision_number g, ft_event_key g) \<longleftrightarrow>
         freshness_key f < freshness_key g"
  using micro_exact_less [OF assms] by (auto simp: freshness_key_def)

subsection \<open>What a statement may do\<close>

lemma run_sql_cases:
  obtains "snd (run_sql fault statement db) = db"
  | x where "statement db = Inr (x, snd (run_sql fault statement db))"
  by (cases "statement db"; cases fault) (auto simp: run_sql_def)

lemma run_sql_InrD: "run_sql fault statement db = (Inr x, db') \<Longrightarrow> statement db = Inr (x, db')"
  by (cases "statement db"; cases fault) (auto simp: run_sql_def)

lemma insert_physical_event_effect:
  assumes "db' = snd (insert_physical_event s fault1 (\<lambda>d. d) fault2 c db)"
  obtains "db' = db"
  | payload row where "sr_marshal_payload s (cf_payload c) = Some payload"
    "event_row_of s c payload = Some row" "0 \<le> ev_source_sequence row" "0 \<le> ev_revision_number row"
    "fmlookup (db_physical_events db) (cf_event_key c) = None"
    "db' = db\<lparr>db_physical_events := fmupd (cf_event_key c) row (db_physical_events db)\<rparr>"
proof (cases "sr_marshal_payload s (cf_payload c)")
  case None
  then show thesis using that(1) assms by (simp add: insert_physical_event_def)
next
  case (Some payload)
  let ?insert = "with_row (event_row_of s c payload) (insert_physical_event_sql (cf_event_key c))"
  let ?check = "with_row (event_row_of s c payload) (physical_event_matches_sql (cf_event_key c))"
  have check: "snd (run_sql fault2 ?check d) = d" for d
    by (cases "?check d"; cases fault2)
      (auto simp: run_sql_def with_row_def physical_event_matches_sql_def split: option.splits)
  obtain r1 db1 where first: "run_sql fault1 ?insert db = (r1, db1)" by fastforce
  obtain r2 where "run_sql fault2 ?check db1 = (r2, db1)" using check [of db1] by (metis surjective_pairing)
  then have "db' = db1"
    using assms first by (auto simp: insert_physical_event_def Some split: sum.splits if_splits)
  then have db': "db' = snd (run_sql fault1 ?insert db)" using first by simp
  show thesis
  proof (cases rule: run_sql_cases [of fault1 ?insert db])
    case (2 x)
    then obtain row where row: "event_row_of s c payload = Some row"
      "insert_physical_event_sql (cf_event_key c) row db = Inr (x, db')"
      using db' by (auto simp: with_row_def split: option.splits)
    then show thesis using that Some
      by (auto simp: insert_physical_event_sql_def split: option.splits if_splits)
  qed (use that(1) db' in simp)
qed

lemma upsert_canonical_fact_effect:
  assumes "db' = snd (upsert_canonical_fact s fault c db)"
  obtains "db' = db"
  | payload attributes row where "sr_marshal_payload s (cf_payload c) = Some payload"
    "sr_marshal_attributes s (cf_attributes c) = Some attributes"
    "fact_row_of s c payload attributes = Some row"
    "upsert_canonical_fact_sql (sr_text_less s) (cf_fact_key c) row db = Inr (cf_fact_key c, db')"
proof (cases "sr_marshal_payload s (cf_payload c)")
  case None
  then show thesis using that(1) assms by (simp add: upsert_canonical_fact_def)
next
  case (Some payload)
  show thesis
  proof (cases "sr_marshal_attributes s (cf_attributes c)")
    case None
    then show thesis using that(1) assms Some by (simp add: upsert_canonical_fact_def)
  next
    case attributes: (Some attributes)
    let ?upsert = "with_row (fact_row_of s c payload attributes)
        (upsert_canonical_fact_sql (sr_text_less s) (cf_fact_key c))"
    have db': "db' = snd (run_sql fault ?upsert db)"
      using assms by (auto simp: upsert_canonical_fact_def Some attributes
          split: prod.splits sum.splits db_error.splits)
    show thesis
    proof (cases rule: run_sql_cases [of fault ?upsert db])
      case (2 x)
      then obtain row where row: "fact_row_of s c payload attributes = Some row"
        "upsert_canonical_fact_sql (sr_text_less s) (cf_fact_key c) row db = Inr (x, db')"
        using db' by (auto simp: with_row_def split: option.splits)
      then have "x = cf_fact_key c"
        by (auto simp: upsert_canonical_fact_sql_def Let_def split: option.splits if_splits)
      then show thesis using that(2) Some attributes row by blast
    qed (use that(1) db' in simp)
  qed
qed

text \<open>
  \<open>CompareAndSetProjection\<close> on a row that can be stored: both of its statements have the
  same effect, given by the stored row alone.
\<close>

definition cas_outcome ::
    "(string \<Rightarrow> string \<Rightarrow> bool) \<Rightarrow> int \<Rightarrow> state_row option \<Rightarrow> state_row \<Rightarrow> db_error + state_row" where
  "cas_outcome text_less expected stored row =
     (case stored of
        None \<Rightarrow> if expected = 0 then Inr row else Inl NoRows
      | Some st \<Rightarrow>
          if st_row_version st \<noteq> expected \<or>
             \<not> older_clause text_less (state_order_columns st) (state_order_columns row) then Inl NoRows
          else if expected = bigint_max then Inl BigintOutOfRange
          else Inr (row\<lparr>st_row_version := expected + 1\<rparr>))"

lemma cas_outcome_cases:
  assumes "cas_outcome text_less expected stored row = Inr new"
  obtains (created) "stored = None" "expected = 0" "new = row"
  | (advanced) st where "stored = Some st" "st_row_version st = expected" "expected \<noteq> bigint_max"
    "older_clause text_less (state_order_columns st) (state_order_columns row)"
    "new = row\<lparr>st_row_version := expected + 1\<rparr>"
  using assms by (auto simp: cas_outcome_def split: option.splits if_splits)

definition cas_query ::
    "(string \<Rightarrow> string \<Rightarrow> bool) \<Rightarrow> string \<Rightarrow> state_row \<Rightarrow> int \<Rightarrow> database
       \<Rightarrow> db_error + int \<times> database" where
  "cas_query text_less key row expected db =
     (if expected > 0 then update_projection_sql text_less key row expected db
      else compare_and_set_projection_sql text_less key row expected db)"

lemma cas_query_outcome:
  assumes "0 \<le> st_source_sequence row" "0 \<le> st_revision_number row" "st_row_version row = 0" "0 \<le> expected"
  shows "cas_query text_less key row expected db =
    (case cas_outcome text_less expected (fmlookup (db_canonical_state db) key) row of
       Inl err \<Rightarrow> Inl err
     | Inr new \<Rightarrow> Inr (st_row_version new, db\<lparr>db_canonical_state := fmupd key new (db_canonical_state db)\<rparr>))"
proof (cases "fmlookup (db_canonical_state db) key")
  case None
  then show ?thesis using assms
    by (cases row) (auto simp: cas_query_def cas_outcome_def update_projection_sql_def compare_and_set_projection_sql_def Let_def)
next
  case (Some stored)
  then show ?thesis using assms
    by (auto simp: cas_query_def cas_outcome_def update_projection_sql_def
        compare_and_set_projection_sql_def Let_def row_less_clause advance_row_def)
qed

text \<open>Without the sign condition a successful statement still went this way.\<close>

lemma cas_query_InrD:
  assumes "cas_query text_less key row expected db = Inr (v, db')" "st_row_version row = 0" "0 \<le> expected"
  obtains new where "cas_outcome text_less expected (fmlookup (db_canonical_state db) key) row = Inr new"
    "v = st_row_version new" "db' = db\<lparr>db_canonical_state := fmupd key new (db_canonical_state db)\<rparr>"
    "0 \<le> st_source_sequence new" "0 \<le> st_revision_number new"
proof -
  have nonneg: "0 \<le> st_source_sequence row" "0 \<le> st_revision_number row"
    using assms(1)
    by (auto simp: cas_query_def update_projection_sql_def compare_and_set_projection_sql_def
        advance_row_def Let_def split: option.splits if_splits sum.splits)
  have "st_source_sequence new = st_source_sequence row \<and> st_revision_number new = st_revision_number row"
    if "cas_outcome text_less expected stored row = Inr new" for stored new
    using that by (auto simp: cas_outcome_def split: option.splits if_splits)
  then show thesis using that assms(1) nonneg cas_query_outcome [OF nonneg assms(2,3), of text_less key db]
    by (auto split: sum.splits)
qed

lemma compare_and_set_eq:
  assumes "0 \<le> expected" "sr_marshal_attributes s (ip_attributes ip) = Some attributes"
  shows "compare_and_set_projection s fault expected ip db =
    (case run_sql fault (with_row (state_row_of s ip attributes)
        (\<lambda>row. cas_query (sr_text_less s) (ip_subject_id ip) row expected)) db of
       (Inl NoRows, db1) \<Rightarrow> (Inr False, db1)
     | (Inl err, db1) \<Rightarrow> (Inl (StatementFailed err), db1)
     | (Inr v, db1) \<Rightarrow> (Inr (v \<ge> 0), db1))"
  using assms by (simp add: compare_and_set_projection_def Let_def cas_query_def [abs_def] cong: if_cong)

lemma compare_and_set_effect:
  assumes "db' = snd (compare_and_set_projection s fault expected ip db)"
  obtains "db' = db"
  | attributes row new where "0 \<le> expected" "sr_marshal_attributes s (ip_attributes ip) = Some attributes"
    "state_row_of s ip attributes = Some row"
    "cas_outcome (sr_text_less s) expected (fmlookup (db_canonical_state db) (ip_subject_id ip)) row = Inr new"
    "0 \<le> st_source_sequence new" "0 \<le> st_revision_number new"
    "db' = db\<lparr>db_canonical_state := fmupd (ip_subject_id ip) new (db_canonical_state db)\<rparr>"
proof (cases "expected < 0 \<or> sr_marshal_attributes s (ip_attributes ip) = None")
  case True
  then have "db' = db" using assms by (auto simp: compare_and_set_projection_def split: option.splits)
  then show thesis by (rule that(1))
next
  case False
  then obtain attributes where nonneg: "0 \<le> expected"
    and attributes: "sr_marshal_attributes s (ip_attributes ip) = Some attributes" by auto
  let ?query = "with_row (state_row_of s ip attributes)
        (\<lambda>row. cas_query (sr_text_less s) (ip_subject_id ip) row expected)"
  have db': "db' = snd (run_sql fault ?query db)"
    using assms unfolding compare_and_set_eq [OF nonneg attributes]
    by (auto split: prod.splits sum.splits db_error.splits)
  show thesis
  proof (cases rule: run_sql_cases [of fault ?query db])
    case (2 v)
    then obtain row where row: "state_row_of s ip attributes = Some row"
      and query: "cas_query (sr_text_less s) (ip_subject_id ip) row expected db = Inr (v, db')"
      using db' by (auto simp: with_row_def split: option.splits)
    from query show thesis
      by (rule cas_query_InrD [OF _ state_row_of_sel(1) [OF row] nonneg])
        (use nonneg that(2) [OF nonneg attributes row] in auto)
  qed (use that(1) db' in simp)
qed

text \<open>A compare-and-set that reports success has changed the row.\<close>

lemma compare_and_set_TrueD:
  assumes "compare_and_set_projection s fault expected ip db = (Inr True, db')"
  obtains attributes row new where "0 \<le> expected"
    "sr_marshal_attributes s (ip_attributes ip) = Some attributes"
    "state_row_of s ip attributes = Some row"
    "cas_outcome (sr_text_less s) expected (fmlookup (db_canonical_state db) (ip_subject_id ip)) row = Inr new"
    "db' = db\<lparr>db_canonical_state := fmupd (ip_subject_id ip) new (db_canonical_state db)\<rparr>"
proof -
  obtain attributes where nonneg: "0 \<le> expected"
    and attributes: "sr_marshal_attributes s (ip_attributes ip) = Some attributes"
    using assms by (auto simp: compare_and_set_projection_def split: if_splits option.splits)
  let ?query = "with_row (state_row_of s ip attributes)
        (\<lambda>row. cas_query (sr_text_less s) (ip_subject_id ip) row expected)"
  obtain v where "run_sql fault ?query db = (Inr v, db')"
    using assms unfolding compare_and_set_eq [OF nonneg attributes]
    by (auto split: prod.splits sum.splits db_error.splits)
  then have "?query db = Inr (v, db')" by (rule run_sql_InrD)
  then obtain row where row: "state_row_of s ip attributes = Some row"
    and query: "cas_query (sr_text_less s) (ip_subject_id ip) row expected db = Inr (v, db')"
    by (auto simp: with_row_def split: option.splits)
  from query show thesis
    by (rule cas_query_InrD [OF _ state_row_of_sel(1) [OF row] nonneg])
      (use nonneg that [OF nonneg attributes row] in auto)
qed

end
