(* ===== verification/Persistence.thy ===== *)
theory Persistence
  imports StoreLemmas Examples
begin

section \<open>Properties of the durable store\<close>

text \<open>
  The store as a state machine: \<open>store_step\<close> is one call of one of its three writing
  operations by any session, with any arguments and any failure of the connection, so its
  reflexive transitive closure holds every interleaving of sessions. The lemmas are
  what one call can have done, and the direction in which rows change, which is an invariant of
  every reachable database.
\<close>

subsection \<open>Steps\<close>

inductive store_step :: "store_runtime \<Rightarrow> database \<Rightarrow> database \<Rightarrow> bool" for s where
  insert_step: "db' = snd (insert_physical_event s fault1 (\<lambda>d. d) fault2 c db) \<Longrightarrow> store_step s db db'"
| upsert_step: "db' = snd (upsert_canonical_fact s fault c db) \<Longrightarrow> store_step s db db'"
| set_step: "db' = snd (compare_and_set_projection s fault expected ip db) \<Longrightarrow> store_step s db db'"

inductive_cases store_stepE: "store_step s db db'"

text \<open>What a call can have done, after the parameters are eliminated.\<close>

lemma store_step_effect:
  assumes "store_step s db db'"
  obtains (unchanged) "db' = db"
  | (event) key row where "0 \<le> ev_source_sequence row" "0 \<le> ev_revision_number row"
    "fmlookup (db_physical_events db) key = None"
    "db' = db\<lparr>db_physical_events := fmupd key row (db_physical_events db)\<rparr>"
  | (canonical) key row where "upsert_canonical_fact_sql (sr_text_less s) key row db = Inr (key, db')"
  | (state) key expected row new where "0 \<le> expected" "st_row_version row = 0"
    "cas_outcome (sr_text_less s) expected (fmlookup (db_canonical_state db) key) row = Inr new"
    "0 \<le> st_source_sequence new" "0 \<le> st_revision_number new"
    "db' = db\<lparr>db_canonical_state := fmupd key new (db_canonical_state db)\<rparr>"
  using assms
proof (cases rule: store_step.cases)
  case (insert_step fault1 fault2 c)
  from insert_step show thesis
    by (rule insert_physical_event_effect) (use unchanged event in blast)+
next
  case (upsert_step fault c)
  from upsert_step show thesis
    by (rule upsert_canonical_fact_effect) (use unchanged canonical in blast)+
next
  case (set_step fault expected ip)
  from set_step show thesis
    by (rule compare_and_set_effect) (use unchanged state state_row_of_sel(1) in blast)+
qed

lemma upsert_sql_cases:
  assumes "upsert_canonical_fact_sql text_less key row db = Inr (key, db')"
  obtains (new) "fmlookup (db_canonical_facts db) key = None"
    "\<forall>k r. fmlookup (db_canonical_facts db) k = Some r \<longrightarrow> \<not> same_identity r row"
    "0 \<le> fr_source_sequence row" "0 \<le> fr_revision_number row"
    "fmlookup (db_physical_events db) (fr_event_key row) \<noteq> None"
    "db' = db\<lparr>db_canonical_facts := fmupd key row (db_canonical_facts db)\<rparr>"
  | (newer) stored where "fmlookup (db_canonical_facts db) key = Some stored"
    "older_clause text_less (fact_order_columns stored) (fact_order_columns row)"
    "0 \<le> fr_source_sequence row" "0 \<le> fr_revision_number row"
    "fr_event_key row = fr_event_key stored \<or> fmlookup (db_physical_events db) (fr_event_key row) \<noteq> None"
    "db' = db\<lparr>db_canonical_facts := fmupd key (refresh_fact_row stored row) (db_canonical_facts db)\<rparr>"
proof (cases "fmlookup (db_canonical_facts db) key")
  case None
  then have "list_ex (\<lambda>(k, r). same_identity r row) (sorted_list_of_fmap (db_canonical_facts db)) = False"
    using assms by (auto simp: upsert_canonical_fact_sql_def Let_def split: if_splits)
  then have "\<forall>k r. fmlookup (db_canonical_facts db) k = Some r \<longrightarrow> \<not> same_identity r row"
    by (auto simp: list_ex_iff sorted_list_of_fmap_set)
  then show thesis using new assms None
    by (auto simp: upsert_canonical_fact_sql_def Let_def split: if_splits)
next
  case (Some stored)
  then show thesis using newer assms
    by (auto simp: upsert_canonical_fact_sql_def Let_def split: if_splits)
qed

lemma refresh_fact_row_sel:
  "fact_order_columns (refresh_fact_row stored row) = fact_order_columns row"
  "fr_event_key (refresh_fact_row stored row) = fr_event_key row"
  "fr_source_sequence (refresh_fact_row stored row) = fr_source_sequence row"
  "fr_revision_number (refresh_fact_row stored row) = fr_revision_number row"
  "same_identity (refresh_fact_row stored row) r = same_identity stored r"
  "same_identity r (refresh_fact_row stored row) = same_identity r stored"
  by (simp_all add: refresh_fact_row_def fact_order_columns_def same_identity_def)

lemma same_identity_refl: "same_identity r r"
  by (simp add: same_identity_def)

subsection \<open>Direction\<close>

text \<open>
  What a later database keeps of an earlier one: events are never changed or deleted; a fact and
  a projection keep their place and are only replaced by fresher ones, a projection with a
  greater row version.
\<close>

definition events_kept :: "database \<Rightarrow> database \<Rightarrow> bool" where
  "events_kept db db' \<longleftrightarrow>
     (\<forall>k r. fmlookup (db_physical_events db) k = Some r \<longrightarrow> fmlookup (db_physical_events db') k = Some r)"

definition facts_advance :: "(string \<Rightarrow> string \<Rightarrow> bool) \<Rightarrow> database \<Rightarrow> database \<Rightarrow> bool" where
  "facts_advance text_less db db' \<longleftrightarrow>
     (\<forall>k r. fmlookup (db_canonical_facts db) k = Some r \<longrightarrow>
        (\<exists>r'. fmlookup (db_canonical_facts db') k = Some r' \<and> same_identity r r' \<and>
           (r' = r \<or> older_clause text_less (fact_order_columns r) (fact_order_columns r'))))"

definition states_advance :: "(string \<Rightarrow> string \<Rightarrow> bool) \<Rightarrow> database \<Rightarrow> database \<Rightarrow> bool" where
  "states_advance text_less db db' \<longleftrightarrow>
     (\<forall>k r. fmlookup (db_canonical_state db) k = Some r \<longrightarrow>
        (\<exists>r'. fmlookup (db_canonical_state db') k = Some r' \<and>
           (r' = r \<or> st_row_version r < st_row_version r' \<and>
              older_clause text_less (state_order_columns r) (state_order_columns r'))))"

lemma direction_refl: "events_kept db db" "facts_advance text_less db db" "states_advance text_less db db"
  by (simp_all add: events_kept_def facts_advance_def states_advance_def same_identity_refl)

lemma state_order_columns_version [simp]:
  "state_order_columns (row\<lparr>st_row_version := v\<rparr>) = state_order_columns row"
  by (simp add: state_order_columns_def)

lemma store_step_direction:
  assumes "store_step s db db'"
  shows "events_kept db db' \<and> facts_advance (sr_text_less s) db db' \<and> states_advance (sr_text_less s) db db'"
  using assms
proof (cases rule: store_step_effect)
  case (event key row)
  then show ?thesis
    by (auto simp: events_kept_def facts_advance_def states_advance_def same_identity_refl)
next
  case (canonical key row)
  then show ?thesis
  proof (cases rule: upsert_sql_cases)
    case new
    then show ?thesis
      by (auto simp: events_kept_def facts_advance_def states_advance_def same_identity_refl)
  next
    case (newer stored)
    then show ?thesis
      by (auto simp: events_kept_def facts_advance_def states_advance_def same_identity_refl refresh_fact_row_sel)
  qed
next
  case (state key expected row new)
  from state(3) show ?thesis
  proof (cases rule: cas_outcome_cases)
    case created
    then show ?thesis using state(6)
      by (auto simp: events_kept_def facts_advance_def states_advance_def same_identity_refl)
  next
    case (advanced st)
    then show ?thesis using state(6)
      by (auto simp: events_kept_def facts_advance_def states_advance_def same_identity_refl)
  qed
qed (simp add: direction_refl)

lemma facts_advance_trans:
  assumes "transp text_less" "facts_advance text_less a b" "facts_advance text_less b c"
  shows "facts_advance text_less a c"
  unfolding facts_advance_def
proof (intro allI impI)
  fix k r
  assume "fmlookup (db_canonical_facts a) k = Some r"
  then obtain r1 where r1: "fmlookup (db_canonical_facts b) k = Some r1" "same_identity r r1"
    "r1 = r \<or> older_clause text_less (fact_order_columns r) (fact_order_columns r1)"
    using assms(2) unfolding facts_advance_def by blast
  then obtain r2 where r2: "fmlookup (db_canonical_facts c) k = Some r2" "same_identity r1 r2"
    "r2 = r1 \<or> older_clause text_less (fact_order_columns r1) (fact_order_columns r2)"
    using assms(3) unfolding facts_advance_def by blast
  have "same_identity r r2" using r1(2) r2(2) by (simp add: same_identity_def)
  then show "\<exists>r'. fmlookup (db_canonical_facts c) k = Some r' \<and> same_identity r r' \<and>
      (r' = r \<or> older_clause text_less (fact_order_columns r) (fact_order_columns r'))"
    using r1(3) r2(1,3) older_clause_trans [OF assms(1)] by blast
qed

lemma states_advance_trans:
  assumes "transp text_less" "states_advance text_less a b" "states_advance text_less b c"
  shows "states_advance text_less a c"
  unfolding states_advance_def
proof (intro allI impI)
  fix k r
  assume "fmlookup (db_canonical_state a) k = Some r"
  then obtain r1 where r1: "fmlookup (db_canonical_state b) k = Some r1"
    "r1 = r \<or> st_row_version r < st_row_version r1 \<and>
       older_clause text_less (state_order_columns r) (state_order_columns r1)"
    using assms(2) unfolding states_advance_def by blast
  then obtain r2 where r2: "fmlookup (db_canonical_state c) k = Some r2"
    "r2 = r1 \<or> st_row_version r1 < st_row_version r2 \<and>
       older_clause text_less (state_order_columns r1) (state_order_columns r2)"
    using assms(3) unfolding states_advance_def by blast
  then show "\<exists>r'. fmlookup (db_canonical_state c) k = Some r' \<and>
      (r' = r \<or> st_row_version r < st_row_version r' \<and>
         older_clause text_less (state_order_columns r) (state_order_columns r'))"
    using r1(2) older_clause_trans [OF assms(1)] by (metis order.strict_trans)
qed

lemma reachable_direction:
  assumes "(store_step s)\<^sup>*\<^sup>* db db'" "transp (sr_text_less s)"
  shows "events_kept db db' \<and> facts_advance (sr_text_less s) db db' \<and> states_advance (sr_text_less s) db db'"
  using assms(1)
proof (induction rule: rtranclp_induct)
  case (step b c)
  then show ?case
    using store_step_direction [OF step.hyps(2)] facts_advance_trans [OF assms(2)]
      states_advance_trans [OF assms(2)] by (auto simp: events_kept_def)
qed (simp add: direction_refl)

text \<open>The same for row versions alone, with no assumption on the collation.\<close>

lemma reachable_version:
  assumes "(store_step s)\<^sup>*\<^sup>* db db'" "fmlookup (db_canonical_state db) k = Some r"
  shows "\<exists>r'. fmlookup (db_canonical_state db') k = Some r' \<and> st_row_version r \<le> st_row_version r'"
  using assms(1)
proof (induction rule: rtranclp_induct)
  case (step b c)
  then show ?case using store_step_direction [OF step.hyps(2)] unfolding states_advance_def
    by (metis order.trans order.strict_implies_order)
qed (simp add: assms(2))

text \<open>And for source sequences.\<close>

lemma reachable_sequence:
  assumes "(store_step s)\<^sup>*\<^sup>* db db'" "fmlookup (db_canonical_state db) k = Some r"
  shows "\<exists>r'. fmlookup (db_canonical_state db') k = Some r' \<and> st_source_sequence r \<le> st_source_sequence r'"
  using assms(1)
proof (induction rule: rtranclp_induct)
  case (step b c)
  have "st_source_sequence r \<le> st_source_sequence r'"
    if "older_clause text_less (state_order_columns r) (state_order_columns r')" for text_less r r'
    using that by (auto simp: state_order_columns_def)
  then show ?case using step.IH store_step_direction [OF step.hyps(2)] unfolding states_advance_def
    by (metis order.trans)
qed (simp add: assms(2))

text \<open>
  An insertion between whose two statements other sessions work is a sequence of steps.
\<close>

lemma insert_interleaved:
  assumes "\<And>d. (store_step s)\<^sup>*\<^sup>* d (others d)"
  shows "(store_step s)\<^sup>*\<^sup>* db (snd (insert_physical_event s fault1 others fault2 c db))"
proof (cases "sr_marshal_payload s (cf_payload c)")
  case None
  then show ?thesis by (simp add: insert_physical_event_def)
next
  case (Some payload)
  let ?insert = "with_row (event_row_of s c payload) (insert_physical_event_sql (cf_event_key c))"
  let ?check = "with_row (event_row_of s c payload) (physical_event_matches_sql (cf_event_key c))"
  have check: "snd (run_sql f ?check d) = d" for f d
    by (cases "?check d"; cases f)
      (auto simp: run_sql_def with_row_def physical_event_matches_sql_def split: option.splits)
  obtain r1 db1 where first: "run_sql fault1 ?insert db = (r1, db1)" by fastforce
  have "snd (insert_physical_event s fault1 (\<lambda>d. d) fault2 c db) = db1"
    using first check [of fault2 db1]
    by (auto simp: insert_physical_event_def Some split: sum.splits prod.splits if_splits)
  then have step: "store_step s db db1" by (metis insert_step)
  obtain r2 where second: "run_sql fault2 ?check (others db1) = (r2, others db1)"
    using check by (metis surjective_pairing)
  have "snd (insert_physical_event s fault1 others fault2 c db) \<in> {db1, others db1}"
    using first second
    by (auto simp: insert_physical_event_def Some split: sum.splits prod.splits if_splits)
  then show ?thesis using step assms [of db1]
    by (auto intro: r_into_rtranclp converse_rtranclp_into_rtranclp)
qed

end
