(* ===== verification/Winners.thy ===== *)
theory Winners
  imports Persistence
begin

section \<open>The stored facts are the winners of the engine\<close>

text \<open>
  \<open>UpsertCanonicalFact\<close> over a list of facts, in any order, leaves in
  \<open>canonical_facts\<close> the row of the freshest fact of every fact key: the same selection that
  \<open>ResolveBatch\<close> makes in memory. It holds for facts whose times the database stores exactly
  and for a bytewise collation.
\<close>

definition stored_row :: "store_runtime \<Rightarrow> canonical_fact \<Rightarrow> fact_row option" where
  "stored_row s c =
     (case (sr_marshal_payload s (cf_payload c), sr_marshal_attributes s (cf_attributes c)) of
        (Some payload, Some attributes) \<Rightarrow> fact_row_of s c payload attributes
      | _ \<Rightarrow> None)"

definition storable :: "store_runtime \<Rightarrow> canonical_fact \<Rightarrow> bool" where
  "storable s c \<longleftrightarrow> stored_row s c \<noteq> None \<and>
     micro_exact s (cf_effective_time c) \<and> micro_exact s (cf_modification_time c)"

definition upsert_all :: "store_runtime \<Rightarrow> canonical_fact list \<Rightarrow> database \<Rightarrow> database" where
  "upsert_all s cs db = foldl (\<lambda>db c. snd (upsert_canonical_fact s NoFault c db)) db cs"

lemma upsert_all_simps [simp]:
  "upsert_all s [] db = db"
  "upsert_all s (cs @ [c]) db = snd (upsert_canonical_fact s NoFault c (upsert_all s cs db))"
  by (simp_all add: upsert_all_def)

lemma upsert_stored_row:
  assumes "stored_row s c = Some row"
  shows "snd (upsert_canonical_fact s NoFault c db) =
    (case upsert_canonical_fact_sql (sr_text_less s) (cf_fact_key c) row db of
       Inl _ \<Rightarrow> db | Inr (_, db') \<Rightarrow> db')"
  using assms by (auto simp: stored_row_def upsert_canonical_fact_def run_sql_def with_row_def
      split: option.splits sum.splits db_error.splits)

lemma stored_row_sel:
  assumes "stored_row s c = Some row"
  shows "fr_event_key row = cf_event_key c" "fr_subject_id row = cf_subject_id c"
    "fr_event_type row = event_type_name (cf_event_type c)"
    "fr_source_scope row = source_scope_name (cf_source_scope c)"
    "sr_instant s (cf_effective_time c) = Some (fr_effective_time row)"
    "sr_instant s (cf_modification_time c) = Some (fr_modification_time row)"
    "fr_source_sequence row = ft_source_sequence (cf_freshness c)"
    "fr_revision_number row = ft_revision_number (cf_freshness c)"
  using assms by (auto simp: stored_row_def fact_row_of_sel split: option.splits)

lemma same_identity_fact_key:
  assumes "canonical_wf c" "canonical_wf d" "storable s c" "storable s d"
    and "stored_row s c = Some r" "stored_row s d = Some r'"
  shows "same_identity r r' \<longleftrightarrow> cf_fact_key c = cf_fact_key d"
proof
  assume same: "same_identity r r'"
  then have "fr_effective_time r = fr_effective_time r'" by (simp add: same_identity_def)
  then have "tm_nanos (cf_effective_time c) = tm_nanos (cf_effective_time d)"
    using micro_exact_less(2) assms(3-6) stored_row_sel(5) unfolding storable_def by metis
  then have "cf_effective_time c = cf_effective_time d"
    using assms(1,2) by (simp add: canonical_wf_def utc_time_eq_iff)
  moreover have "cf_event_type c = cf_event_type d" "cf_source_scope c = cf_source_scope d"
    "cf_subject_id c = cf_subject_id d"
    using same stored_row_sel [OF assms(5)] stored_row_sel [OF assms(6)] event_type_name_inj source_scope_name_inj
    by (auto simp: same_identity_def)
  ultimately show "cf_fact_key c = cf_fact_key d" using assms(1,2) by (simp add: canonical_wf_def)
next
  assume "cf_fact_key c = cf_fact_key d"
  from wf_same_fact_key [OF assms(1,2) this] show "same_identity r r'"
    using stored_row_sel [OF assms(5)] stored_row_sel [OF assms(6)] by (simp add: same_identity_def)
qed

lemma stored_order_fresher:
  assumes "canonical_wf c" "canonical_wf d" "storable s c" "storable s d"
    and "stored_row s c = Some r" "stored_row s d = Some r'"
  shows "older_clause (<) (fact_order_columns r) (fact_order_columns r') \<longleftrightarrow>
         freshness_key (cf_freshness c) < freshness_key (cf_freshness d)"
proof -
  have ft: "ft_modification_time (cf_freshness c) = cf_modification_time c"
    "ft_modification_time (cf_freshness d) = cf_modification_time d"
    "ft_event_key (cf_freshness c) = cf_event_key c" "ft_event_key (cf_freshness d) = cf_event_key d"
    using assms(1,2) by (simp_all add: canonical_wf_def)
  note row = stored_row_sel [OF assms(5)] and row' = stored_row_sel [OF assms(6)]
  have "micro_exact s (ft_modification_time (cf_freshness c))" "micro_exact s (ft_modification_time (cf_freshness d))"
    using assms(3,4) by (simp_all add: storable_def ft)
  from older_clause_key [OF this] show ?thesis
    using row row' by (simp add: ft fact_order_columns_def)
qed

text \<open>The invariant of the fold: every row is that of the freshest fact seen with its key.\<close>

definition holds_winners :: "store_runtime \<Rightarrow> canonical_fact set \<Rightarrow> database \<Rightarrow> bool" where
  "holds_winners s F db \<longleftrightarrow>
     (\<forall>k. case fmlookup (db_canonical_facts db) k of
        None \<Rightarrow> \<forall>c\<in>F. cf_fact_key c \<noteq> k
      | Some r \<Rightarrow> \<exists>w\<in>F. cf_fact_key w = k \<and> freshest F w \<and> stored_row s w = Some r)"

lemma holds_winners_SomeD:
  assumes "holds_winners s F db" "fmlookup (db_canonical_facts db) k = Some r"
  shows "\<exists>w\<in>F. cf_fact_key w = k \<and> freshest F w \<and> stored_row s w = Some r"
  using assms(1) [unfolded holds_winners_def, THEN spec, of k] assms(2) by simp

lemma holds_winners_NoneD:
  assumes "holds_winners s F db" "fmlookup (db_canonical_facts db) k = None"
  shows "\<forall>c\<in>F. cf_fact_key c \<noteq> k"
  using assms(1) [unfolded holds_winners_def, THEN spec, of k] assms(2) by simp

lemma freshest_insert:
  "freshest (insert c F) w \<longleftrightarrow> freshest F w \<and>
     (cf_fact_key c = cf_fact_key w \<longrightarrow>
        freshness_key (cf_freshness c) \<le> freshness_key (cf_freshness w))"
  unfolding freshest_iff by blast

text \<open>Another fact does not concern the rows of other keys.\<close>

lemma holds_winners_other:
  assumes "holds_winners s F db" "k \<noteq> cf_fact_key c"
  shows "case fmlookup (db_canonical_facts db) k of
      None \<Rightarrow> \<forall>d\<in>insert c F. cf_fact_key d \<noteq> k
    | Some r \<Rightarrow> \<exists>w\<in>insert c F. cf_fact_key w = k \<and> freshest (insert c F) w \<and> stored_row s w = Some r"
proof (cases "fmlookup (db_canonical_facts db) k")
  case None
  then show ?thesis using holds_winners_NoneD [OF assms(1) None] assms(2) by simp
next
  case (Some r)
  then obtain w where w: "w \<in> F" "cf_fact_key w = k" "freshest F w" "stored_row s w = Some r"
    using holds_winners_SomeD [OF assms(1)] by blast
  then have "freshest (insert c F) w" using assms(2) by (simp add: freshest_insert)
  then show ?thesis using w Some by (simp only: option.case) blast
qed

text \<open>Storing the freshest fact of the enlarged set, or leaving the row to it.\<close>

lemma holds_winners_update:
  assumes "holds_winners s F db" "stored_row s c = Some row" "freshest (insert c F) c"
  shows "holds_winners s (insert c F)
    (db\<lparr>db_canonical_facts := fmupd (cf_fact_key c) row (db_canonical_facts db)\<rparr>)"
  unfolding holds_winners_def
proof
  fix k
  show "case fmlookup (db_canonical_facts (db\<lparr>db_canonical_facts :=
          fmupd (cf_fact_key c) row (db_canonical_facts db)\<rparr>)) k of
        None \<Rightarrow> \<forall>d\<in>insert c F. cf_fact_key d \<noteq> k
      | Some r \<Rightarrow> \<exists>w\<in>insert c F. cf_fact_key w = k \<and> freshest (insert c F) w \<and> stored_row s w = Some r"
  proof (cases "k = cf_fact_key c")
    case False
    then show ?thesis using holds_winners_other [OF assms(1) False] by simp
  qed (use assms(2,3) in auto)
qed

lemma holds_winners_keep:
  assumes "holds_winners s F db" "fmlookup (db_canonical_facts db) (cf_fact_key c) = Some r"
    and "w \<in> F" "stored_row s w = Some r" "cf_fact_key w = cf_fact_key c" "freshest (insert c F) w"
  shows "holds_winners s (insert c F) db"
  unfolding holds_winners_def
proof
  fix k
  show "case fmlookup (db_canonical_facts db) k of
        None \<Rightarrow> \<forall>d\<in>insert c F. cf_fact_key d \<noteq> k
      | Some r \<Rightarrow> \<exists>w\<in>insert c F. cf_fact_key w = k \<and> freshest (insert c F) w \<and> stored_row s w = Some r"
  proof (cases "k = cf_fact_key c")
    case False
    then show ?thesis using holds_winners_other [OF assms(1) False] by simp
  qed (use assms(2-6) in auto)
qed

lemma upsert_keeps_winners:
  assumes "holds_winners s F db" "sr_text_less s = (<)"
    and wf: "\<forall>d\<in>insert c F. canonical_wf d" and st: "\<forall>d\<in>insert c F. storable s d"
    and known: "fmlookup (db_physical_events db) (cf_event_key c) \<noteq> None"
    and "0 \<le> ft_source_sequence (cf_freshness c)" "0 \<le> ft_revision_number (cf_freshness c)"
  shows "holds_winners s (insert c F) (snd (upsert_canonical_fact s NoFault c db))"
proof -
  obtain row where row: "stored_row s c = Some row" using st by (auto simp: storable_def)
  have sql: "fr_event_key row = cf_event_key c" "\<not> (fr_source_sequence row < 0 \<or> fr_revision_number row < 0)"
    using stored_row_sel [OF row] assms(6,7) by simp_all
  show ?thesis
  proof (cases "fmlookup (db_canonical_facts db) (cf_fact_key c)")
    case None
    have "\<not> same_identity r row" if r: "fmlookup (db_canonical_facts db) k = Some r" for k r
    proof -
      obtain w where w: "w \<in> F" "cf_fact_key w = k" "stored_row s w = Some r"
        using holds_winners_SomeD [OF assms(1) r] by blast
      have "cf_fact_key w \<noteq> cf_fact_key c" using holds_winners_NoneD [OF assms(1) None] w(1) by blast
      then show ?thesis using same_identity_fact_key [OF _ _ _ _ w(3) row] wf st w(1) by blast
    qed
    then have "list_ex (\<lambda>(k, r). same_identity r row) (sorted_list_of_fmap (db_canonical_facts db)) = False"
      by (auto simp: list_ex_iff sorted_list_of_fmap_set)
    then have "snd (upsert_canonical_fact s NoFault c db) =
        db\<lparr>db_canonical_facts := fmupd (cf_fact_key c) row (db_canonical_facts db)\<rparr>"
      using sql known by (simp add: upsert_stored_row [OF row] upsert_canonical_fact_sql_def None)
    moreover have "freshest (insert c F) c"
      using holds_winners_NoneD [OF assms(1) None] unfolding freshest_iff by auto
    ultimately show ?thesis using holds_winners_update [OF assms(1) row] by simp
  next
    case (Some stored)
    then obtain w where w: "w \<in> F" "cf_fact_key w = cf_fact_key c" "freshest F w" "stored_row s w = Some stored"
      using holds_winners_SomeD [OF assms(1) Some] by blast
    have order: "older_clause (<) (fact_order_columns stored) (fact_order_columns row) \<longleftrightarrow>
        freshness_key (cf_freshness w) < freshness_key (cf_freshness c)"
      using stored_order_fresher [OF _ _ _ _ w(4) row] wf st w(1) by blast
    have "same_identity stored row"
      using same_identity_fact_key [OF _ _ _ _ w(4) row] wf st w(1,2) by blast
    then have same: "refresh_fact_row stored row = row"
      by (cases stored; cases row) (simp add: refresh_fact_row_def same_identity_def)
    show ?thesis
    proof (cases "freshness_key (cf_freshness w) < freshness_key (cf_freshness c)")
      case True
      then have "snd (upsert_canonical_fact s NoFault c db) =
          db\<lparr>db_canonical_facts := fmupd (cf_fact_key c) row (db_canonical_facts db)\<rparr>"
        using sql known order same by (simp add: upsert_stored_row [OF row] upsert_canonical_fact_sql_def Some assms(2) Let_def)
      moreover have "freshest (insert c F) c"
        using w(2,3) True unfolding freshest_iff by (auto dest: order.strict_trans1)
      ultimately show ?thesis using holds_winners_update [OF assms(1) row] by simp
    next
      case False
      then have "snd (upsert_canonical_fact s NoFault c db) = db"
        using sql order by (simp add: upsert_stored_row [OF row] upsert_canonical_fact_sql_def Some assms(2) Let_def)
      moreover have "freshest (insert c F) w" using w(2,3) False by (simp add: freshest_insert)
      ultimately show ?thesis using holds_winners_keep [OF assms(1) Some w(1,4,2)] by simp
    qed
  qed
qed

lemma upsert_keeps_events:
  "db_physical_events (snd (upsert_canonical_fact s fault c db)) = db_physical_events db"
proof -
  define db' where "db' = snd (upsert_canonical_fact s fault c db)"
  then show ?thesis
  proof (cases rule: upsert_canonical_fact_effect)
    case (2 payload attributes row)
    from 2(4) show ?thesis by (cases rule: upsert_sql_cases) (simp_all flip: db'_def)
  qed (simp flip: db'_def)
qed

lemma upsert_all_winners:
  assumes "sr_text_less s = (<)" "db_canonical_facts db = fmempty"
    and "\<forall>c\<in>set cs. canonical_wf c \<and> storable s c \<and> fmlookup (db_physical_events db) (cf_event_key c) \<noteq> None"
  shows "holds_winners s (set cs) (upsert_all s cs db)"
proof -
  have "holds_winners s (set ps) (upsert_all s ps db) \<and>
      db_physical_events (upsert_all s ps db) = db_physical_events db" if "set ps \<subseteq> set cs" for ps
    using that
  proof (induction ps rule: rev_induct)
    case Nil
    then show ?case using assms(2) by (simp add: holds_winners_def)
  next
    case (snoc c ps)
    then have sub: "\<forall>d\<in>insert c (set ps). d \<in> set cs" by auto
    moreover have "0 \<le> ft_source_sequence (cf_freshness c)" "0 \<le> ft_revision_number (cf_freshness c)"
      using sub assms(3) by (auto simp: canonical_wf_def)
    ultimately have "holds_winners s (insert c (set ps)) (upsert_all s (ps @ [c]) db)"
      unfolding upsert_all_simps using snoc assms
      by (intro upsert_keeps_winners) auto
    then show ?case using snoc by (simp add: upsert_keeps_events)
  qed
  then show ?thesis by blast
qed

end
