(* ===== verification/StoreContracts.thy ===== *)
theory StoreContracts
  imports Winners
begin

section \<open>The contract of the store\<close>

text \<open>
  The properties of \<open>postgres.go\<close>, each with a witness on a concrete server: microsecond
  times, a bytewise collation and a simple text encoding of attributes.
\<close>

subsection \<open>A concrete server\<close>

definition example_attributes_text :: "string gomap \<Rightarrow> string" where
  "example_attributes_text m =
     ''{'' @ concat (map (\<lambda>(k, v). k @ CHR '':'' # v @ '','') (sorted_list_of_fmap m)) @ ''}''"

definition example_store :: store_runtime where
  "example_store =
     \<lparr>sr_instant = (\<lambda>t. Some (tm_nanos t div 1000)),
      sr_time = (\<lambda>m. \<lparr>tm_nanos = m * 1000, tm_loc = UTC\<rparr>),
      sr_text_less = (<), sr_text_ok = (\<lambda>s. CHR 0x00 \<notin> set s), sr_jsonb = Some,
      sr_marshal_payload = (\<lambda>m. Some ''{}''),
      sr_marshal_attributes = (\<lambda>m. Some (example_attributes_text m)),
      sr_unmarshal_attributes = (\<lambda>s. if s = ''{}'' then Some fmempty else None)\<rparr>"

definition empty_database :: database where
  "empty_database =
     \<lparr>db_physical_events = fmempty, db_canonical_facts = fmempty, db_canonical_state = fmempty\<rparr>"

text \<open>A fact and a projection of the subject, by sequence number and seconds of the day.\<close>

definition example_fact :: "string \<Rightarrow> int \<Rightarrow> canonical_fact" where
  "example_fact key sequence =
     build_fact (example_event key ''hire'' ''hire_snapshot'' (sep 10) (sep 1) sequence [])
       Hire HireSnapshot fmempty ''hash'' example_now"

definition example_projection :: "int \<Rightarrow> identity_projection" where
  "example_projection sequence =
     apply_fact (new_projection ''person-001'') (example_fact ''evt'' sequence)"

lemma example_store_order: "sr_text_less example_store = (<)" "transp (sr_text_less example_store)"
  by (simp_all add: example_store_def transp_on_less)

lemma example_facts:
  "map_option fr_source_sequence (stored_row example_store (example_fact ''evt-1'' 1)) = Some 1"
  "micro_exact example_store (cf_effective_time (example_fact ''evt-1'' 1))"
  "micro_exact example_store (cf_modification_time (example_fact ''evt-1'' 1))"
  unfolding micro_exact_def by code_simp+

subsection \<open>Physical events\<close>

text \<open>A fact whose event the server accepts: it encodes, and its numbers satisfy the checks.\<close>

definition storable_event :: "store_runtime \<Rightarrow> canonical_fact \<Rightarrow> bool" where
  "storable_event s c \<longleftrightarrow>
     (case sr_marshal_payload s (cf_payload c) of None \<Rightarrow> False
      | Some payload \<Rightarrow> event_row_of s c payload \<noteq> None) \<and>
     0 \<le> ft_source_sequence (cf_freshness c) \<and> 0 \<le> ft_revision_number (cf_freshness c)"

lemma event_row_of_sel:
  assumes "event_row_of s c payload = Some r"
  shows "ev_subject_id r = cf_subject_id c" "ev_event_type r = event_type_name (cf_event_type c)"
    "ev_source_scope r = source_scope_name (cf_source_scope c)"
    "sr_instant s (cf_effective_time c) = Some (ev_effective_time r)"
    "optional_instant s (cf_end_time c) = Some (ev_end_time r)"
    "sr_instant s (cf_modification_time c) = Some (ev_modification_time r)"
    "ev_source_sequence r = ft_source_sequence (cf_freshness c)"
    "ev_revision_number r = ft_revision_number (cf_freshness c)"
    "sr_jsonb s payload = Some (ev_payload r)" "char64 (cf_payload_hash c) = Some (ev_payload_hash r)"
    "sr_instant s (cf_received_at c) = Some (ev_received_at r)"
  using assms by (auto simp: event_row_of_def bind_eq_Some_conv split: if_splits)

lemma storable_eventE:
  assumes "storable_event s c"
  obtains payload row where "sr_marshal_payload s (cf_payload c) = Some payload"
    "event_row_of s c payload = Some row" "0 \<le> ev_source_sequence row" "0 \<le> ev_revision_number row"
  using assms event_row_of_sel(7,8) by (fastforce simp: storable_event_def split: option.splits)

lemma insert_event_direct:
  assumes "sr_marshal_payload s (cf_payload c) = Some payload" "event_row_of s c payload = Some row"
    and "0 \<le> ev_source_sequence row" "0 \<le> ev_revision_number row"
  shows "insert_physical_event s NoFault (\<lambda>d. d) NoFault c db =
    (case fmlookup (db_physical_events db) (cf_event_key c) of
       None \<Rightarrow> (Inr True, db\<lparr>db_physical_events := fmupd (cf_event_key c) row (db_physical_events db)\<rparr>)
     | Some stored \<Rightarrow>
         if event_matches stored row then (Inr False, db)
         else (Inl (EventKeyConflict (cf_event_key c)), db))"
  using assms by (auto simp: insert_physical_event_def run_sql_def with_row_def
      insert_physical_event_sql_def physical_event_matches_sql_def split: option.splits)

text \<open>
  C20. Two deliveries of storable facts under one event key, without failures: the first, where
  the key is new, is stored with its reception time, everything else is left as it is, and the
  call returns true. The second changes nothing. It returns false exactly where the two facts
  agree, as the server stores them, in subject, type, scope, effective time, end time,
  modification time, source sequence, revision number, payload and payload hash, whatever their
  reception times; otherwise it returns an event-key conflict.
\<close>

theorem insert_event_outcomes:
  assumes "fmlookup (db_physical_events db) (cf_event_key c) = None"
    and "storable_event s c" "storable_event s d" "cf_event_key d = cf_event_key c"
  shows "\<exists>row. let db1 = db\<lparr>db_physical_events := fmupd (cf_event_key c) row (db_physical_events db)\<rparr> in
    insert_physical_event s NoFault (\<lambda>d. d) NoFault c db = (Inr True, db1) \<and>
    sr_instant s (cf_received_at c) = Some (ev_received_at row) \<and>
    insert_physical_event s NoFault (\<lambda>d. d) NoFault d db1 =
      (if cf_subject_id c = cf_subject_id d \<and> cf_event_type c = cf_event_type d \<and>
          cf_source_scope c = cf_source_scope d \<and>
          sr_instant s (cf_effective_time c) = sr_instant s (cf_effective_time d) \<and>
          optional_instant s (cf_end_time c) = optional_instant s (cf_end_time d) \<and>
          sr_instant s (cf_modification_time c) = sr_instant s (cf_modification_time d) \<and>
          ft_source_sequence (cf_freshness c) = ft_source_sequence (cf_freshness d) \<and>
          ft_revision_number (cf_freshness c) = ft_revision_number (cf_freshness d) \<and>
          Option.bind (sr_marshal_payload s (cf_payload c)) (sr_jsonb s) =
            Option.bind (sr_marshal_payload s (cf_payload d)) (sr_jsonb s) \<and>
          char64 (cf_payload_hash c) = char64 (cf_payload_hash d)
       then (Inr False, db1) else (Inl (EventKeyConflict (cf_event_key c)), db1))"
proof -
  obtain payload1 row1 where c: "sr_marshal_payload s (cf_payload c) = Some payload1"
    "event_row_of s c payload1 = Some row1" "0 \<le> ev_source_sequence row1" "0 \<le> ev_revision_number row1"
    using assms(2) by (rule storable_eventE)
  obtain payload2 row2 where d: "sr_marshal_payload s (cf_payload d) = Some payload2"
    "event_row_of s d payload2 = Some row2" "0 \<le> ev_source_sequence row2" "0 \<le> ev_revision_number row2"
    using assms(3) by (rule storable_eventE)
  note cols1 = event_row_of_sel [OF c(2)] and cols2 = event_row_of_sel [OF d(2)]
  have "event_type_name t = event_type_name u \<longleftrightarrow> t = u" for t u by (cases t; cases u) simp_all
  moreover have "source_scope_name t = source_scope_name u \<longleftrightarrow> t = u" for t u by (cases t; cases u) simp_all
  ultimately show ?thesis
    unfolding insert_event_direct [OF c] insert_event_direct [OF d]
    by (intro exI [of _ row1]) (simp add: Let_def assms(1,4) event_matches_def c(1) d(1) cols1 cols2)
qed

text \<open>A first delivery, a retry that is received a second later, and other content under the key.\<close>

theorem insert_event_outcomes_witness:
  "\<exists>db1. insert_physical_event example_store NoFault (\<lambda>d. d) NoFault (example_fact ''evt-1'' 1) empty_database =
       (Inr True, db1) \<and>
     insert_physical_event example_store NoFault (\<lambda>d. d) NoFault
       ((example_fact ''evt-1'' 1)\<lparr>cf_received_at := utc (sep 12 + 1)\<rparr>) db1 = (Inr False, db1) \<and>
     insert_physical_event example_store NoFault (\<lambda>d. d) NoFault (example_fact ''evt-1'' 2) db1 =
       (Inl (EventKeyConflict ''evt-1''), db1)"
proof -
  let ?c = "example_fact ''evt-1'' 1" and ?d = "example_fact ''evt-1'' 2"
  let ?retry = "?c\<lparr>cf_received_at := utc (sep 12 + 1)\<rparr>"
  have st: "storable_event example_store ?c" "storable_event example_store ?d" "storable_event example_store ?retry"
    "fmlookup (db_physical_events empty_database) (cf_event_key ?c) = None"
    "cf_event_key ?c = ''evt-1''" "cf_event_key ?d = cf_event_key ?c" "cf_event_key ?retry = cf_event_key ?c"
    "ft_source_sequence (cf_freshness ?c) \<noteq> ft_source_sequence (cf_freshness ?d)" by code_simp+
  show ?thesis
    using insert_event_outcomes [OF st(4,1,3,7)] insert_event_outcomes [OF st(4,1,2,6)] st(5,8)
    unfolding Let_def by auto
qed

text \<open>
  C21. A retry is safe: whatever failure a first call met (not executed, reply lost, row count
  unknown), calling \<open>InsertPhysicalEvent\<close> again for the same fact leaves the database as one
  call without failure would, and succeeds if that one would; the Boolean it returns may differ.
\<close>

theorem insert_retry_safe:
  "let db1 = snd (insert_physical_event s fault1 (\<lambda>d. d) fault2 c db);
       direct = insert_physical_event s NoFault (\<lambda>d. d) NoFault c db;
       retry = insert_physical_event s NoFault (\<lambda>d. d) NoFault c db1
   in snd retry = snd direct \<and> ok (fst retry) = ok (fst direct)"
proof -
  define db1 where "db1 = snd (insert_physical_event s fault1 (\<lambda>d. d) fault2 c db)"
  have "snd (insert_physical_event s NoFault (\<lambda>d. d) NoFault c db1) =
        snd (insert_physical_event s NoFault (\<lambda>d. d) NoFault c db) \<and>
      ok (fst (insert_physical_event s NoFault (\<lambda>d. d) NoFault c db1)) =
        ok (fst (insert_physical_event s NoFault (\<lambda>d. d) NoFault c db))"
    using db1_def
  proof (cases rule: insert_physical_event_effect)
    case (2 payload row)
    have "event_matches row row" by (simp add: event_matches_def)
    with 2 show ?thesis by (simp add: insert_physical_event_def run_sql_def with_row_def insert_physical_event_sql_def physical_event_matches_sql_def)
  qed simp
  then show ?thesis by (simp add: db1_def Let_def)
qed

theorem insert_retry_example:
  "fst (insert_physical_event example_store NoFault (\<lambda>d. d) NoFault (example_fact ''evt-1'' 1)
     (snd (insert_physical_event example_store ReplyLost (\<lambda>d. d) NoFault (example_fact ''evt-1'' 1)
        empty_database))) = Inr False"
  by code_simp

subsection \<open>The history of the tables\<close>

text \<open>
  C6. Under a transitive collation, along every interleaving of calls by any sessions, with any failures: physical events are
  never changed or deleted, a canonical fact keeps its identity and is only replaced by one that
  the database orders as fresher, and a projection only by one with a greater row version and a
  fresher tuple.
\<close>

theorem store_history:
  assumes "(store_step s)\<^sup>*\<^sup>* db db'" "transp (sr_text_less s)"
  shows "events_kept db db' \<and> facts_advance (sr_text_less s) db db' \<and> states_advance (sr_text_less s) db db'"
  using assms by (rule reachable_direction)

text \<open>A fact and a projection are stored; then a revision of each is.\<close>

definition example_revisions :: "canonical_fact list" where
  "example_revisions = [example_fact ''evt-2'' 2, example_fact ''evt-3'' 3, example_fact ''evt-1'' 1]"

definition example_event_row :: event_row where
  "example_event_row =
     \<lparr>ev_subject_id = [], ev_event_type = [], ev_source_scope = [], ev_effective_time = 0,
      ev_end_time = None, ev_modification_time = 0, ev_source_sequence = 0, ev_revision_number = 0,
      ev_payload = [], ev_payload_hash = [], ev_received_at = 0\<rparr>"

definition example_events_database :: database where
  "example_events_database = empty_database\<lparr>db_physical_events :=
     fmap_of_list (map (\<lambda>c. (cf_event_key c, example_event_row)) example_revisions)\<rparr>"

definition store_both :: "string \<Rightarrow> int \<Rightarrow> database \<Rightarrow> database" where
  "store_both key sequence db =
     snd (compare_and_set_projection example_store NoFault 0 (example_projection sequence)
       (snd (upsert_canonical_fact example_store NoFault (example_fact key sequence) db)))"

lemma store_both_steps: "(store_step example_store)\<^sup>*\<^sup>* db (store_both key sequence db)"
proof -
  let ?db1 = "snd (upsert_canonical_fact example_store NoFault (example_fact key sequence) db)"
  have "store_step example_store db ?db1" by (rule upsert_step) simp
  moreover have "store_step example_store ?db1 (store_both key sequence db)"
    by (rule set_step) (simp add: store_both_def)
  ultimately show ?thesis by simp
qed

theorem store_history_witness:
  "\<exists>(db :: database) (db' :: database) r r' st st'.
     fmlookup (db_canonical_facts db) (cf_fact_key (example_fact ''evt-1'' 1)) = Some r \<and>
     fmlookup (db_canonical_facts db') (cf_fact_key (example_fact ''evt-1'' 1)) = Some r' \<and>
     fr_event_key r = ''evt-1'' \<and> fr_event_key r' = ''evt-2'' \<and>
     older_clause (<) (fact_order_columns r) (fact_order_columns r') \<and>
     fmlookup (db_canonical_state db) ''person-001'' = Some st \<and>
     fmlookup (db_canonical_state db') ''person-001'' = Some st' \<and>
     st_row_version st < st_row_version st' \<and>
     older_clause (<) (state_order_columns st) (state_order_columns st')"
proof -
  let ?db = "store_both ''evt-1'' 1 example_events_database"
  let ?db' = "store_both ''evt-2'' 2 ?db"
  let ?k = "cf_fact_key (example_fact ''evt-1'' 1)"
  have "(case (fmlookup (db_canonical_facts ?db) ?k, fmlookup (db_canonical_facts ?db') ?k) of
      (Some r, Some r') \<Rightarrow> fr_event_key r = ''evt-1'' \<and> fr_event_key r' = ''evt-2'' | _ \<Rightarrow> False)"
    "(case (fmlookup (db_canonical_state ?db) ''person-001'', fmlookup (db_canonical_state ?db') ''person-001'') of
      (Some r, Some r') \<Rightarrow> st_source_sequence r = 1 \<and> st_source_sequence r' = 2 | _ \<Rightarrow> False)" by code_simp+
  then obtain r r' st st' where rows: "fmlookup (db_canonical_facts ?db) ?k = Some r"
    "fmlookup (db_canonical_facts ?db') ?k = Some r'" "fr_event_key r = ''evt-1''" "fr_event_key r' = ''evt-2''"
    "fmlookup (db_canonical_state ?db) ''person-001'' = Some st"
    "fmlookup (db_canonical_state ?db') ''person-001'' = Some st'"
    "st_source_sequence st = 1" "st_source_sequence st' = 2"
    by (auto split: option.splits)
  note later = store_history [OF store_both_steps example_store_order(2), of ?db "''evt-2''" 2,
      unfolded example_store_order(1) facts_advance_def states_advance_def]
  have "older_clause (<) (fact_order_columns r) (fact_order_columns r')"
    using later rows(1-4) by fastforce
  moreover have "st_row_version st < st_row_version st'"
    and "older_clause (<) (state_order_columns st) (state_order_columns st')"
    using later rows(5-8) by fastforce+
  note new = calculation this
  show ?thesis
    by (rule_tac exI [of _ ?db], rule_tac exI [of _ ?db'], rule_tac exI [of _ r], rule_tac exI [of _ r'],
        rule_tac exI [of _ st], rule_tac exI [of _ st']) (intro conjI rows new)
qed

subsection \<open>Canonical facts\<close>

text \<open>
  C9. Storing the facts of a batch one by one, in any order, leaves in \<open>canonical_facts\<close>
  exactly the winners that \<open>ResolveBatch\<close> selects in memory: the SQL conflict clause refines
  the selection loop. It holds for well-formed facts with distinct event keys whose events are
  stored already, an empty table of facts, a bytewise collation, and times that the server stores
  exactly (no digits below the microsecond).
\<close>

theorem stored_facts_are_winners:
  assumes "sr_text_less s = (<)" "db_canonical_facts db = fmempty" "inj_on cf_event_key (set cs)"
    and "\<forall>c\<in>set cs. canonical_wf c \<and> storable s c \<and> fmlookup (db_physical_events db) (cf_event_key c) \<noteq> None"
  shows "fmlookup (db_canonical_facts (upsert_all s cs db)) k =
    Option.bind (fmlookup (select_winners (group_facts fmempty cs)) k) (stored_row s)"
proof -
  have holds: "holds_winners s (set cs) (upsert_all s cs db)"
    using upsert_all_winners [OF assms(1,2,4)] .
  have wf: "\<forall>c\<in>set cs. canonical_wf c" using assms(4) by blast
  show ?thesis
  proof (cases "fmlookup (db_canonical_facts (upsert_all s cs db)) k")
    case None
    then have "filter (\<lambda>c. cf_fact_key c = k) cs = []"
      using holds_winners_NoneD [OF holds None] by (auto simp: filter_empty_conv)
    then show ?thesis using None by (simp add: select_winners_def group_facts_lookup)
  next
    case (Some r)
    then obtain w where "w \<in> set cs" "cf_fact_key w = k" "freshest (set cs) w" "stored_row s w = Some r"
      using holds_winners_SomeD [OF holds Some] by blast
    then show ?thesis using select_winners_lookup [OF wf assms(3)] Some by auto
  qed
qed

lemma example_fact_wf:
  "canonical_wf (build_fact e ty sc at h r)" if "acceptable rt e ty sc"
  using that by (auto simp: acceptable_def canonical_wf_def build_fact_def Let_def received_time_def
      split: if_splits)

theorem stored_facts_are_winners_witness:
  "\<exists>row. fmlookup (db_canonical_facts (upsert_all example_store example_revisions example_events_database))
      (cf_fact_key (example_fact ''evt-1'' 1)) = Some row \<and> fr_event_key row = ''evt-3''"
proof -
  have wf: "canonical_wf c" if "c \<in> set example_revisions" for c
  proof -
    have "list_all (\<lambda>(k, n). acceptable example_runtime
        (example_event k ''hire'' ''hire_snapshot'' (sep 10) (sep 1) n []) Hire HireSnapshot)
        [(''evt-2'', 2), (''evt-3'', 3), (''evt-1'', 1)]" by code_simp
    then show ?thesis using that example_fact_wf [of example_runtime]
      by (auto simp: example_revisions_def example_fact_def)
  qed
  have "list_all (\<lambda>c. stored_row example_store c \<noteq> None \<and>
      1000 dvd tm_nanos (cf_effective_time c) \<and> 1000 dvd tm_nanos (cf_modification_time c) \<and>
      fmlookup (db_physical_events example_events_database) (cf_event_key c) \<noteq> None) example_revisions"
    by code_simp
  then have "\<forall>c\<in>set example_revisions. canonical_wf c \<and> storable example_store c \<and>
      fmlookup (db_physical_events example_events_database) (cf_event_key c) \<noteq> None"
    using wf by (auto simp: list_all_iff storable_def micro_exact_def example_store_def)
  moreover have "distinct (map cf_event_key example_revisions)" by code_simp
  then have "inj_on cf_event_key (set example_revisions)" by (simp add: distinct_map)
  ultimately have winners: "fmlookup (db_canonical_facts (upsert_all example_store example_revisions example_events_database)) k =
      Option.bind (fmlookup (select_winners (group_facts fmempty example_revisions)) k) (stored_row example_store)" for k
    by (intro stored_facts_are_winners) (simp_all add: example_store_def example_events_database_def empty_database_def)
  have "(case Option.bind (fmlookup (select_winners (group_facts fmempty example_revisions))
        (cf_fact_key (example_fact ''evt-1'' 1))) (stored_row example_store) of
      None \<Rightarrow> False | Some row \<Rightarrow> fr_event_key row = ''evt-3'')" by code_simp
  then show ?thesis unfolding winners by (auto split: option.splits)
qed

text \<open>
  C22. The three spellings of the freshness order agree: the disjunction of the upserts, the row
  comparison of the update, and \<open>FreshnessTuple.Compare\<close>, for facts whose times the database
  stores exactly and a bytewise collation.
\<close>

theorem sql_order_is_compare:
  assumes "sr_text_less s = (<)" "canonical_wf c" "canonical_wf d" "storable s c" "storable s d"
    and "stored_row s c = Some r" "stored_row s d = Some r'"
  shows "(older_clause (sr_text_less s) (fact_order_columns r) (fact_order_columns r') \<longleftrightarrow>
      compare_freshness (cf_freshness c) (cf_freshness d) < 0) \<and>
    row_less (sr_text_less s) (fact_order_columns r) (fact_order_columns r') =
      older_clause (sr_text_less s) (fact_order_columns r) (fact_order_columns r')"
  using stored_order_fresher [OF assms(2-7)] assms(1) by (simp add: freshness.cmp_neg_iff row_less_clause)

theorem sql_order_is_compare_witness:
  "compare_freshness (cf_freshness (example_fact ''evt-1'' 1)) (cf_freshness (example_fact ''evt-2'' 2)) < 0"
proof -
  let ?c = "example_fact ''evt-1'' 1" and ?d = "example_fact ''evt-2'' 2"
  have "acceptable example_runtime (example_event ''evt-1'' ''hire'' ''hire_snapshot'' (sep 10) (sep 1) 1 []) Hire HireSnapshot"
    "acceptable example_runtime (example_event ''evt-2'' ''hire'' ''hire_snapshot'' (sep 10) (sep 1) 2 []) Hire HireSnapshot"
    by code_simp+
  then have wf: "canonical_wf ?c" "canonical_wf ?d"
    using example_fact_wf by (simp_all add: example_fact_def)
  have checks: "(case (stored_row example_store ?c, stored_row example_store ?d) of
      (Some r, Some r') \<Rightarrow> older_clause (<) (fact_order_columns r) (fact_order_columns r') | _ \<Rightarrow> False)"
    "list_all (\<lambda>c. 1000 dvd tm_nanos (cf_effective_time c) \<and> 1000 dvd tm_nanos (cf_modification_time c)) [?c, ?d]"
    by code_simp+
  then obtain r r' where rows: "stored_row example_store ?c = Some r" "stored_row example_store ?d = Some r'"
    "older_clause (<) (fact_order_columns r) (fact_order_columns r')" by (auto split: option.splits)
  have st: "storable example_store ?c" "storable example_store ?d"
    using checks(2) rows by (simp_all add: storable_def micro_exact_def example_store_def)
  show ?thesis using sql_order_is_compare [OF example_store_order(1) wf st rows(1,2)] rows(3)
    by (simp add: example_store_order(1))
qed

definition nanosecond_revision :: "string \<Rightarrow> int \<Rightarrow> int \<Rightarrow> canonical_fact" where
  "nanosecond_revision key nanos revision =
     build_fact ((example_event key ''hire'' ''hire_snapshot'' (sep 10) (sep 1) 1 [])
       \<lparr>pe_modification_time := (utc (sep 1))\<lparr>tm_nanos := tm_nanos (utc (sep 1)) + nanos\<rparr>,
        pe_revision_number := revision\<rparr>)
       Hire HireSnapshot fmempty ''hash'' example_now"

lemma upsert_known_fact:
  assumes "stored_row s c = Some row" "0 \<le> fr_source_sequence row" "0 \<le> fr_revision_number row"
    and "fmlookup (db_canonical_facts db) (cf_fact_key c) = Some stored"
    and "fmlookup (db_physical_events db) (cf_event_key c) \<noteq> None"
  shows "upsert_canonical_fact s NoFault c db =
    (if older_clause (sr_text_less s) (fact_order_columns stored) (fact_order_columns row)
     then (Inr True, db\<lparr>db_canonical_facts :=
       fmupd (cf_fact_key c) (refresh_fact_row stored row) (db_canonical_facts db)\<rparr>)
     else (Inr False, db))"
  using assms stored_row_sel(1) [OF assms(1)]
  by (auto simp: stored_row_def upsert_canonical_fact_def run_sql_def with_row_def upsert_canonical_fact_sql_def
      Let_def split: option.splits)

text \<open>
  C40. Where the server does not tell two modification times apart, the orders can differ: for
  two revisions of one fact with equal source sequences, of which the engine takes the first for
  fresher by its modification time alone, and the second has the greater revision number, the
  store keeps the second whichever arrives first. Where the row of the first is stored it is
  replaced by the second; where the row of the second is stored the first is refused.
\<close>

theorem store_order_loses_nanoseconds:
  assumes "canonical_wf c" "canonical_wf d" "cf_fact_key d = cf_fact_key c"
    and "stored_row s c = Some row" "stored_row s d = Some row'"
    and "ft_source_sequence (cf_freshness c) = ft_source_sequence (cf_freshness d)"
    and "before (cf_modification_time d) (cf_modification_time c)"
    and "sr_instant s (cf_modification_time d) = sr_instant s (cf_modification_time c)"
    and "ft_revision_number (cf_freshness c) < ft_revision_number (cf_freshness d)"
    and "fmlookup (db_physical_events db) (cf_event_key c) \<noteq> None"
    and "fmlookup (db_physical_events db) (cf_event_key d) \<noteq> None"
  shows "compare_freshness (cf_freshness c) (cf_freshness d) = 1 \<and>
    (fmlookup (db_canonical_facts db) (cf_fact_key c) = Some row \<longrightarrow>
       (\<exists>db' new. upsert_canonical_fact s NoFault d db = (Inr True, db') \<and>
          fmlookup (db_canonical_facts db') (cf_fact_key c) = Some new \<and> fr_event_key new = cf_event_key d)) \<and>
    (fmlookup (db_canonical_facts db) (cf_fact_key c) = Some row' \<longrightarrow>
       upsert_canonical_fact s NoFault c db = (Inr False, db))"
proof -
  have wf: "ft_modification_time (cf_freshness c) = cf_modification_time c"
    "ft_modification_time (cf_freshness d) = cf_modification_time d"
    "0 \<le> fr_source_sequence row" "0 \<le> fr_revision_number row"
    "0 \<le> fr_source_sequence row'" "0 \<le> fr_revision_number row'"
    using assms(1,2) stored_row_sel(7,8) [OF assms(4)] stored_row_sel(7,8) [OF assms(5)]
    by (simp_all add: canonical_wf_def)
  have "compare_freshness (cf_freshness c) (cf_freshness d) = 1"
    using assms(6,7) wf(1,2) by (simp add: compare_freshness_key freshness_key_def before_def)
  moreover have columns: "older_clause (sr_text_less s) (fact_order_columns row) (fact_order_columns row')"
    "\<not> older_clause (sr_text_less s) (fact_order_columns row') (fact_order_columns row)"
    using assms(6,8,9) stored_row_sel(6-8) [OF assms(4)] stored_row_sel(6-8) [OF assms(5)]
    by (simp_all add: fact_order_columns_def)
  ultimately show ?thesis
    using upsert_known_fact [OF assms(5) wf(5,6), of db row] upsert_known_fact [OF assms(4) wf(3,4), of db row']
      assms(3,10,11) stored_row_sel(1) [OF assms(5)]
    by (simp add: refresh_fact_row_sel)
qed

theorem store_order_loses_nanoseconds_witness:
  "let c = nanosecond_revision ''evt-2'' 500 0; d = nanosecond_revision ''evt-1'' 100 1;
       db = snd (upsert_canonical_fact example_store NoFault c example_events_database)
   in compare_freshness (cf_freshness c) (cf_freshness d) = 1 \<and>
      fst (upsert_canonical_fact example_store NoFault d db) = Inr True"
proof -
  let ?c = "nanosecond_revision ''evt-2'' 500 0" and ?d = "nanosecond_revision ''evt-1'' 100 1"
  let ?db = "snd (upsert_canonical_fact example_store NoFault ?c example_events_database)"
  have "list_all (\<lambda>(k, n, r). acceptable example_runtime
      ((example_event k ''hire'' ''hire_snapshot'' (sep 10) (sep 1) 1 [])
       \<lparr>pe_modification_time := (utc (sep 1))\<lparr>tm_nanos := tm_nanos (utc (sep 1)) + n\<rparr>,
        pe_revision_number := r\<rparr>) Hire HireSnapshot)
      [(''evt-2'', 500, 0), (''evt-1'', 100, 1)]" by code_simp
  then have wf: "canonical_wf ?c" "canonical_wf ?d"
    using example_fact_wf [of example_runtime] by (simp_all add: nanosecond_revision_def)
  have checks: "(case (stored_row example_store ?c, stored_row example_store ?d,
        fmlookup (db_canonical_facts ?db) (cf_fact_key ?c)) of
      (Some r, Some r', Some stored) \<Rightarrow> stored = r | _ \<Rightarrow> False)"
    "cf_fact_key ?d = cf_fact_key ?c"
    "ft_source_sequence (cf_freshness ?c) = ft_source_sequence (cf_freshness ?d)"
    "before (cf_modification_time ?d) (cf_modification_time ?c)"
    "tm_nanos (cf_modification_time ?d) div 1000 = tm_nanos (cf_modification_time ?c) div 1000"
    "ft_revision_number (cf_freshness ?c) < ft_revision_number (cf_freshness ?d)"
    "fmlookup (db_physical_events ?db) (cf_event_key ?c) \<noteq> None"
    "fmlookup (db_physical_events ?db) (cf_event_key ?d) \<noteq> None" by code_simp+
  then obtain row row' where rows: "stored_row example_store ?c = Some row" "stored_row example_store ?d = Some row'"
    "fmlookup (db_canonical_facts ?db) (cf_fact_key ?c) = Some row" by (auto split: option.splits)
  have "sr_instant example_store (cf_modification_time ?d) = sr_instant example_store (cf_modification_time ?c)"
    using checks(5) by (simp add: example_store_def)
  from store_order_loses_nanoseconds [OF wf checks(2) rows(1,2) checks(3,4) this checks(6-8)] rows(3)
  show ?thesis by (auto simp: Let_def)
qed

definition nanosecond_fact :: "string \<Rightarrow> int \<Rightarrow> canonical_fact" where
  "nanosecond_fact key nanos =
     build_fact ((example_event key ''hire'' ''hire_snapshot'' (sep 10) (sep 1) 1 [])
       \<lparr>pe_effective_time := (utc (sep 10))\<lparr>tm_nanos := tm_nanos (utc (sep 10)) + nanos\<rparr>\<rparr>)
       Hire HireSnapshot fmempty ''hash'' example_now"

text \<open>
  Two facts whose effective times differ below the microsecond have different fact keys, and
  the engine keeps both; the store refuses the second as a violation of the uniqueness of
  (subject, scope, type, effective time).
\<close>

theorem store_refuses_nanosecond_identity:
  "let c = nanosecond_fact ''evt-1'' 0; d = nanosecond_fact ''evt-2'' 1;
       db = snd (upsert_canonical_fact example_store NoFault c example_events_database) in
   cf_fact_key c \<noteq> cf_fact_key d \<and>
   fst (upsert_canonical_fact example_store NoFault d db) = Inl (StatementFailed UniqueViolation)"
  by code_simp

subsection \<open>Projections\<close>

text \<open>
  C18. Compare-and-set, on every branch, for a row that can be stored: a missing row is created at
  version 0 when 0 is expected and is left missing otherwise; a stored row is replaced, with the
  next version, exactly when its version is the expected one and the incoming tuple is newer;
  the greatest version cannot be advanced. A false result changes nothing.
\<close>

theorem compare_and_set_outcomes:
  assumes "0 \<le> expected" "sr_marshal_attributes s (ip_attributes ip) = Some attributes"
    and "state_row_of s ip attributes = Some row"
    and "0 \<le> st_source_sequence row" "0 \<le> st_revision_number row"
  shows "compare_and_set_projection s NoFault expected ip db =
    (let set = (\<lambda>new. db\<lparr>db_canonical_state := fmupd (ip_subject_id ip) new (db_canonical_state db)\<rparr>) in
     case fmlookup (db_canonical_state db) (ip_subject_id ip) of
       None \<Rightarrow> if expected = 0 then (Inr True, set row) else (Inr False, db)
     | Some stored \<Rightarrow>
         if st_row_version stored \<noteq> expected \<or>
            \<not> older_clause (sr_text_less s) (state_order_columns stored) (state_order_columns row)
         then (Inr False, db)
         else if expected = bigint_max then (Inl (StatementFailed BigintOutOfRange), db)
         else (Inr True, set (row\<lparr>st_row_version := expected + 1\<rparr>)))"
  using cas_query_outcome [OF assms(4,5) state_row_of_sel(1) [OF assms(3)] assms(1),
      of "sr_text_less s" "ip_subject_id ip" db]
    state_row_of_sel(1) [OF assms(3)] assms(1,3)
  by (auto simp: compare_and_set_eq [OF assms(1,2)] run_sql_def with_row_def cas_outcome_def Let_def
      split: option.splits)

theorem compare_and_set_outcomes_witness:
  "fst (compare_and_set_projection example_store NoFault 7 (example_projection 1) empty_database) = Inr False"
proof -
  let ?ip = "example_projection 1"
  let ?attributes = "example_attributes_text (ip_attributes ?ip)"
  have "(case state_row_of example_store ?ip ?attributes of None \<Rightarrow> False
      | Some row \<Rightarrow> 0 \<le> st_source_sequence row \<and> 0 \<le> st_revision_number row)" by code_simp
  then obtain row where row: "state_row_of example_store ?ip ?attributes = Some row"
    "0 \<le> st_source_sequence row" "0 \<le> st_revision_number row" by (auto split: option.splits)
  have "sr_marshal_attributes example_store (ip_attributes ?ip) = Some ?attributes"
    by (simp add: example_store_def)
  from compare_and_set_outcomes [OF _ this row, of 7 empty_database] show ?thesis
    by (simp add: empty_database_def)
qed

text \<open>
  C3. One winner: where a compare-and-set has advanced a row that was stored, or expected a version
  above zero, no other compare-and-set of the subject that expects the same version can succeed
  any more, whatever any session did in between, even after a failure of its own connection. The
  creation of a missing row at version zero is not such an advance: a fresher projection may
  still replace it with the expected version zero.
\<close>

theorem one_writer_per_version:
  assumes "compare_and_set_projection s fault1 expected ip1 db = (Inr True, db1)"
    and "0 < expected \<or> fmlookup (db_canonical_state db) (ip_subject_id ip1) \<noteq> None"
    and "(store_step s)\<^sup>*\<^sup>* db1 db2" "ip_subject_id ip2 = ip_subject_id ip1"
  shows "fst (compare_and_set_projection s fault2 expected ip2 db2) \<noteq> Inr True"
proof
  assume "fst (compare_and_set_projection s fault2 expected ip2 db2) = Inr True"
  then have second: "compare_and_set_projection s fault2 expected ip2 db2 =
      (Inr True, snd (compare_and_set_projection s fault2 expected ip2 db2))" by (metis surjective_pairing)
  obtain row new where first: "0 \<le> expected"
    "cas_outcome (sr_text_less s) expected (fmlookup (db_canonical_state db) (ip_subject_id ip1)) row = Inr new"
    "db1 = db\<lparr>db_canonical_state := fmupd (ip_subject_id ip1) new (db_canonical_state db)\<rparr>"
    using assms(1) by (rule compare_and_set_TrueD)
  from first(2) have "st_row_version new = expected + 1"
    by (cases rule: cas_outcome_cases) (use assms(2) in auto)
  moreover have "fmlookup (db_canonical_state db1) (ip_subject_id ip1) = Some new" using first(3) by simp
  ultimately obtain later where later: "fmlookup (db_canonical_state db2) (ip_subject_id ip1) = Some later"
    "expected + 1 \<le> st_row_version later"
    using reachable_version [OF assms(3)] by metis
  obtain row2 new2 where
    "cas_outcome (sr_text_less s) expected (fmlookup (db_canonical_state db2) (ip_subject_id ip2)) row2 = Inr new2"
    using second by (rule compare_and_set_TrueD)
  then show False using later assms(4) by (cases rule: cas_outcome_cases) auto
qed

text \<open>A database that holds the projection with sequence number 1 at version 0.\<close>

definition example_state_database :: database where
  "example_state_database = snd (compare_and_set_projection example_store NoFault 0 (example_projection 1) empty_database)"

theorem one_writer_per_version_witness:
  "\<exists>db1. compare_and_set_projection example_store NoFault 0 (example_projection 2) example_state_database = (Inr True, db1) \<and>
     fst (compare_and_set_projection example_store NoFault 0 (example_projection 3) db1) \<noteq> Inr True"
proof -
  have check: "fst (compare_and_set_projection example_store NoFault 0 (example_projection 2) example_state_database) = Inr True"
    "fmlookup (db_canonical_state example_state_database) (ip_subject_id (example_projection 2)) \<noteq> None"
    "ip_subject_id (example_projection 3) = ip_subject_id (example_projection 2)" by code_simp+
  then obtain db1 where db1: "compare_and_set_projection example_store NoFault 0 (example_projection 2)
      example_state_database = (Inr True, db1)" by (metis surjective_pairing)
  then show ?thesis using one_writer_per_version [OF db1 _ rtranclp.rtrancl_refl check(3)] check(2) by blast
qed

text \<open>
  C19. Round trip: after a successful compare-and-set, loading the subject gives back the
  projection with the version the statement assigned, where the two times and the attributes are
  what the server's conversions make of them: the times to its precision and in its location,
  the attributes through their JSON, whose decoding can fail, and the lifecycle state as the
  constant for its name. Every other field is the projection's own.
\<close>

theorem load_after_compare_and_set:
  assumes "compare_and_set_projection s fault expected ip db = (Inr True, db')"
  shows "\<exists>json effective modification.
    Option.bind (sr_marshal_attributes s (ip_attributes ip)) (sr_jsonb s) = Some json \<and>
    sr_instant s (ip_effective_time ip) = Some effective \<and>
    sr_instant s (ft_modification_time (ip_freshness ip)) = Some modification \<and>
    load_projection s NoFault (ip_subject_id ip) db' =
      (case sr_unmarshal_attributes s json of
         None \<Rightarrow> Inl DecodeAttributesFailed
       | Some attributes \<Rightarrow>
           Inr (ip\<lparr>ip_row_version :=
                 (case fmlookup (db_canonical_state db) (ip_subject_id ip) of None \<Rightarrow> 0 | Some _ \<Rightarrow> expected + 1),
               ip_attributes := attributes,
               ip_lifecycle_state := lifecycle_of_name (lifecycle_name (ip_lifecycle_state ip)),
               ip_effective_time := sr_time s effective,
               ip_freshness := (ip_freshness ip)\<lparr>ft_modification_time := sr_time s modification\<rparr>\<rparr>))"
proof -
  obtain attributes row new where effect: "sr_marshal_attributes s (ip_attributes ip) = Some attributes"
    "state_row_of s ip attributes = Some row"
    "cas_outcome (sr_text_less s) expected (fmlookup (db_canonical_state db) (ip_subject_id ip)) row = Inr new"
    "db' = db\<lparr>db_canonical_state := fmupd (ip_subject_id ip) new (db_canonical_state db)\<rparr>"
    using assms(1) by (rule compare_and_set_TrueD)
  let ?v = "case fmlookup (db_canonical_state db) (ip_subject_id ip) of None \<Rightarrow> 0 | Some _ \<Rightarrow> expected + 1"
  note cols = state_row_of_sel [OF effect(2)]
  have "new = row\<lparr>st_row_version := ?v\<rparr>"
    using effect(3) by (cases rule: cas_outcome_cases) (use cols(1) in simp_all)
  then show ?thesis using effect(1,4) cols
    by (intro exI [of _ "st_attributes row"] exI [of _ "st_effective_time row"] exI [of _ "st_modification_time row"])
      (simp add: load_projection_def run_sql_def load_projection_sql_def projection_of_row_def split: option.split)
qed

text \<open>The attributes of the example decode again and its times are whole seconds.\<close>

theorem load_after_compare_and_set_witness:
  "load_projection example_store NoFault ''person-001'' example_state_database =
     Inr ((example_projection 1)\<lparr>ip_row_version := 0\<rparr>)"
proof -
  let ?ip = "example_projection 1"
  have "fst (compare_and_set_projection example_store NoFault 0 ?ip empty_database) = Inr True" by code_simp
  then have set: "compare_and_set_projection example_store NoFault 0 ?ip empty_database = (Inr True, example_state_database)"
    unfolding example_state_database_def by (metis surjective_pairing)
  have "(case sr_unmarshal_attributes example_store (example_attributes_text (ip_attributes ?ip)) of
      None \<Rightarrow> False | Some m \<Rightarrow> m = ip_attributes ?ip)"
    "tm_nanos (ip_effective_time ?ip) div 1000 * 1000 = tm_nanos (ip_effective_time ?ip)"
    "tm_nanos (ft_modification_time (ip_freshness ?ip)) div 1000 * 1000 = tm_nanos (ft_modification_time (ip_freshness ?ip))"
    "tm_loc (ip_effective_time ?ip) = UTC" "tm_loc (ft_modification_time (ip_freshness ?ip)) = UTC"
    "lifecycle_of_name (lifecycle_name (ip_lifecycle_state ?ip)) = ip_lifecycle_state ?ip"
    "ip_subject_id ?ip = ''person-001''" by code_simp+
  then show ?thesis using load_after_compare_and_set [OF set]
    by (auto simp: example_store_def empty_database_def split: option.splits if_splits)
qed

subsection \<open>Locked reads\<close>

text \<open>
  \<open>WithLockedProjection\<close> runs its callback at most once, on the projection loaded under
  the row lock and inside the transaction, and not at all when loading fails; the world is
  changed by the callback only. A transaction that was begun is always closed, by a commit where
  the callback succeeded and by a rollback otherwise; success means that the callback succeeded
  and the commit did.
\<close>

theorem locked_projection_protocol:
  assumes "with_locked_projection s begin_fails fault commit_fails subject (Some callback) db w = (r, w', trace)"
  shows "(if begin_fails then trace = [] \<and> w' = w
     else case load_projection s fault subject db of
       Inl err \<Rightarrow> trace = [TxBegin, TxSelectForUpdate subject, TxRollback] \<and> w' = w \<and> r = Some (LoadFailed err)
     | Inr ip \<Rightarrow> w' = snd (callback ip w) \<and>
         trace = [TxBegin, TxSelectForUpdate subject, TxCallback,
           if fst (callback ip w) = None then TxCommit else TxRollback]) \<and>
    (r = None \<longleftrightarrow> \<not> begin_fails \<and> \<not> commit_fails \<and>
       (\<exists>ip. load_projection s fault subject db = Inr ip \<and> fst (callback ip w) = None))"
  using assms by (auto simp: with_locked_projection_def split: if_splits sum.splits prod.splits option.splits)

theorem locked_projection_protocol_witness:
  "snd (snd (with_locked_projection example_store False NoFault False ''person-001''
     (Some (\<lambda>ip w. (Some (), w + (1::nat)))) example_state_database 0)) =
   [TxBegin, TxSelectForUpdate ''person-001'', TxCallback, TxRollback]"
proof -
  let ?cb = "\<lambda>(ip :: identity_projection) w. (Some (), w + (1::nat))"
  let ?run = "with_locked_projection example_store False NoFault False ''person-001'' (Some ?cb) example_state_database 0"
  have "ok (load_projection example_store NoFault ''person-001'' example_state_database)" by code_simp
  then obtain ip where ip: "load_projection example_store NoFault ''person-001'' example_state_database = Inr ip"
    by (auto simp: ok_iff)
  have run: "?run = (fst ?run, fst (snd ?run), snd (snd ?run))" by (metis surjective_pairing)
  show ?thesis using locked_projection_protocol [OF run] ip by simp
qed

end
