(* ===== verification/GoUrl.thy ===== *)
theory GoUrl
  imports GoText
begin

section \<open>URLs and names as the adapter uses them\<close>

text \<open>
  The parts of \<open>net/url\<close> and \<open>strings\<close> that the SCIM adapter is built on: percent
  encoding in its three modes, the escaped path and the text of a URL, and case folding. A URL
  is what \<open>url.Parse\<close> returns for an absolute URL, with user information and host already
  rendered; parsing itself is a parameter of the adapter.
\<close>

subsection \<open>Percent encoding\<close>

datatype encoding = EncodePath | EncodePathSegment | EncodeQueryComponent

definition is_alphanumeric :: "char \<Rightarrow> bool" where
  "is_alphanumeric c \<longleftrightarrow>
     (CHR ''a'' \<le> c \<and> c \<le> CHR ''z'') \<or> (CHR ''A'' \<le> c \<and> c \<le> CHR ''Z'') \<or> (CHR ''0'' \<le> c \<and> c \<le> CHR ''9'')"

definition should_escape :: "encoding \<Rightarrow> char \<Rightarrow> bool" where
  "should_escape mode c =
     (if is_alphanumeric c \<or> c \<in> set ''-_.~'' then False
      else if c \<in> set ''$&+,/:;=?@'' then
        (case mode of
           EncodePath \<Rightarrow> c = CHR ''?''
         | EncodePathSegment \<Rightarrow> c \<in> set ''/;,?''
         | EncodeQueryComponent \<Rightarrow> True)
      else True)"

definition upper_hex :: "nat \<Rightarrow> char" where
  "upper_hex n = ''0123456789ABCDEF'' ! (n mod 16)"

definition escape_char :: "encoding \<Rightarrow> char \<Rightarrow> string" where
  "escape_char mode c =
     (if should_escape mode c then
        (if mode = EncodeQueryComponent \<and> c = CHR '' '' then ''+''
         else [CHR ''%'', upper_hex (of_char c div 16), upper_hex (of_char c)])
      else [c])"

definition escape :: "encoding \<Rightarrow> string \<Rightarrow> string" where
  "escape mode s = concat (map (escape_char mode) s)"

definition hex_value :: "char \<Rightarrow> nat option" where
  "hex_value c =
     (if CHR ''0'' \<le> c \<and> c \<le> CHR ''9'' then Some (of_char c - 48)
      else if CHR ''a'' \<le> c \<and> c \<le> CHR ''f'' then Some (of_char c - 87)
      else if CHR ''A'' \<le> c \<and> c \<le> CHR ''F'' then Some (of_char c - 55)
      else None)"

text \<open>\<open>unescape\<close> in the path modes: a percent sign needs two hexadecimal digits.\<close>

fun unescape :: "string \<Rightarrow> string option" where
  "unescape [] = Some []"
| "unescape (c # s) =
     (if c = CHR ''%'' then
        (case s of
           a # b # rest \<Rightarrow>
             (case (hex_value a, hex_value b) of
                (Some x, Some y) \<Rightarrow> map_option (\<lambda>r. char_of (16 * x + y) # r) (unescape rest)
              | _ \<Rightarrow> None)
         | _ \<Rightarrow> None)
      else map_option (\<lambda>r. c # r) (unescape s))"

text \<open>\<open>validEncoded(s, encodePath)\<close>\<close>

definition valid_encoded :: "string \<Rightarrow> bool" where
  "valid_encoded s = list_all (\<lambda>c. c \<in> set ''!$&'' \<or> c = CHR 0x27 \<or> c \<in> set ''()*+,;=:@[]%'' \<or>
     \<not> should_escape EncodePath c) s"

subsection \<open>URL\<close>

record url =
  url_scheme :: string
  url_host :: string
  url_authority :: string
  url_path :: string
  url_raw_path :: string
  url_force_query :: bool
  url_raw_query :: string
  url_fragment :: string

definition escaped_path :: "url \<Rightarrow> string" where
  "escaped_path u =
     (if url_raw_path u \<noteq> [] \<and> valid_encoded (url_raw_path u) \<and>
         unescape (url_raw_path u) = Some (url_path u) then url_raw_path u
      else if url_path u = ''*'' then ''*''
      else escape EncodePath (url_path u))"

text \<open>\<open>String\<close> of a URL with a scheme, a host and no fragment.\<close>

definition url_string :: "url \<Rightarrow> string" where
  "url_string u =
     (let path = escaped_path u in
      url_scheme u @ ''://'' @ url_authority u @
      (if path \<noteq> [] \<and> hd path \<noteq> CHR ''/'' then ''/'' else []) @ path @
      (if url_force_query u \<or> url_raw_query u \<noteq> [] then CHR ''?'' # url_raw_query u else []))"

definition trim_right_slash :: "string \<Rightarrow> string" where
  "trim_right_slash s = rev (dropWhile (\<lambda>c. c = CHR ''/'') (rev s))"

definition trim_left_slash :: "string \<Rightarrow> string" where
  "trim_left_slash s = dropWhile (\<lambda>c. c = CHR ''/'') s"

subsection \<open>Case folding\<close>

text \<open>
  \<open>strings.EqualFold(s, t)\<close> where \<open>t\<close> is an ASCII string, which it is at every call of
  the adapter. Simple folding sends two other characters to ASCII letters: the long s (C5 BF) and
  the Kelvin sign (E2 84 AA); any other byte that is not ASCII stays different from all letters.
\<close>

fun fold_case :: "string \<Rightarrow> string" where
  "fold_case [] = []"
| "fold_case [c] = [lower_byte c]"
| "fold_case [c, d] = (if c = CHR 0xC5 \<and> d = CHR 0xBF then ''s'' else [lower_byte c, lower_byte d])"
| "fold_case (c # d # e # s) =
     (if c = CHR 0xC5 \<and> d = CHR 0xBF then CHR ''s'' # fold_case (e # s)
      else if c = CHR 0xE2 \<and> d = CHR 0x84 \<and> e = CHR 0xAA then CHR ''k'' # fold_case s
      else lower_byte c # fold_case (d # e # s))"

definition equal_fold :: "string \<Rightarrow> string \<Rightarrow> bool" where
  "equal_fold s t \<longleftrightarrow> fold_case s = fold_case t"

subsection \<open>Lemmas\<close>

lemma escape_simps [simp]:
  "escape mode [] = []"
  "escape mode (c # s) = escape_char mode c @ escape mode s"
  "escape mode (s @ t) = escape mode s @ escape mode t"
  by (simp_all add: escape_def)

lemma fold_case_ascii: "list_all is_ascii s \<Longrightarrow> fold_case s = map lower_byte s"
  by (induction s rule: fold_case.induct) (auto simp: is_ascii_def)

end
