(* ===== verification/Scim.thy ===== *)
theory Scim
  imports Converge GoUrl
begin

section \<open>The SCIM adapter (pkg/adapter/scim/scim.go)\<close>

text \<open>
  The adapter's configuration, its requests and its reading of responses. The world of the
  adapter is the list of the HTTP requests it has sent; a \<open>server\<close> is any function from the
  requests so far and the current one to the outcome of \<open>http.Client.Do\<close>, so nothing is
  assumed about the provider: it may change between requests, lose a reply after acting, or
  answer anything.

  Parameters in \<open>scim_runtime\<close>: parsing of the base URL, the Unicode part of
  \<open>strings.ToLower\<close>, \<open>json.Marshal\<close> of a body, whether \<open>http.NewRequest\<close> accepts a URL, and
  decoding of a list response (\<open>totalResults\<close> and \<open>Resources\<close>, numbers kept as
  \<open>json.Number\<close>). Where the source ranges over a map, whose order Go leaves open, the model
  visits the keys in sorted order.
\<close>

datatype deprovision_mode = DeprovisionDisable | DeprovisionDelete

record scim_config =
  sc_base_url :: string
  sc_token :: string
  sc_subject_attribute :: string
  sc_managed_attributes :: "string list"
  sc_deprovision_mode :: string

record scim_adapter =
  sa_base_url :: url
  sa_token :: string
  sa_subject_attribute :: string
  sa_managed_attributes :: "string gomap"
  sa_deprovision_mode :: deprovision_mode

record scim_runtime =
  si_parse_url :: "string \<Rightarrow> url option"
  si_lower_unicode :: "string \<Rightarrow> string"
  si_marshal :: "go_value \<Rightarrow> string option"
  si_request_ok :: "string \<Rightarrow> bool"
  si_decode_list :: "string \<Rightarrow> (int option \<times> go_value gomap list) option"

datatype scim_error =
    InvalidBaseUrl
  | UnsupportedScheme
  | BaseUrlQueryOrFragment
  | InvalidSubjectAttribute string
  | OwnedSubjectAttribute string
  | UnsupportedDeprovisionMode string
  | InvalidManagedAttribute string
  | SubjectAttributeManaged string
  | OwnedManagedAttribute string
  | SameManagedAttribute string string
  | SubjectIdMissing
  | FindFailed string scim_error
  | TotalResultsMissing
  | SubjectAmbiguous string
  | InconsistentListResponse
  | ResourceIdMissing
  | ResourceIdRequired
  | SameDesiredAttribute string string
  | AmbiguousAttribute string
  | MetaNotObject
  | VersionNotString
  | ActiveNotBoolean
  | EncodeFailed
  | BuildFailed
  | SendFailed
  | StatusError string string
  | DecodeFailed

subsection \<open>Names\<close>

definition is_letter :: "char \<Rightarrow> bool" where
  "is_letter c \<longleftrightarrow> (CHR ''a'' \<le> c \<and> c \<le> CHR ''z'') \<or> (CHR ''A'' \<le> c \<and> c \<le> CHR ''Z'')"

text \<open>A byte outside ASCII starts a rune that is no letter, so bytes and runes agree here.\<close>

definition valid_attribute_name :: "string \<Rightarrow> bool" where
  "valid_attribute_name s \<longleftrightarrow>
     s \<noteq> [] \<and> is_letter (hd s) \<and>
     list_all (\<lambda>c. is_letter c \<or> (CHR ''0'' \<le> c \<and> c \<le> CHR ''9'') \<or> c \<in> set ''_-:.'') s"

definition adapter_owns_attribute :: "scim_runtime \<Rightarrow> string \<Rightarrow> bool" where
  "adapter_owns_attribute rt s \<longleftrightarrow>
     to_lower (si_lower_unicode rt) s \<in>
       {''schemas'', ''username'', ''externalid'', ''active'', ''id'', ''meta''}"

definition unsafe_subject_attribute :: "scim_runtime \<Rightarrow> string \<Rightarrow> bool" where
  "unsafe_subject_attribute rt s \<longleftrightarrow>
     to_lower (si_lower_unicode rt) s \<in> {''schemas'', ''active'', ''id'', ''meta''}"

text \<open>\<open>strings.ReplaceAll\<close> of a one-byte string.\<close>

definition replace_char :: "char \<Rightarrow> string \<Rightarrow> string \<Rightarrow> string" where
  "replace_char c by s = concat (map (\<lambda>d. if d = c then by else [d]) s)"

definition backslash :: char where "backslash = CHR 0x5C"
definition quotation :: char where "quotation = CHR 0x22"

definition escape_filter_value :: "string \<Rightarrow> string" where
  "escape_filter_value s =
     replace_char quotation [backslash, quotation] (replace_char backslash [backslash, backslash] s)"

subsection \<open>New\<close>

text \<open>The loop over the configured managed attributes; \<open>managed\<close> is the map so far.\<close>

fun collect_managed ::
    "scim_runtime \<Rightarrow> string \<Rightarrow> string gomap \<Rightarrow> string list \<Rightarrow> scim_error + string gomap" where
  "collect_managed rt subject managed [] = Inr managed"
| "collect_managed rt subject managed (raw # rest) =
     (let attribute = trim_space raw; normalized = to_lower (si_lower_unicode rt) attribute in
      if \<not> valid_attribute_name attribute then Inl (InvalidManagedAttribute attribute)
      else if equal_fold attribute subject then Inl (SubjectAttributeManaged subject)
      else if adapter_owns_attribute rt attribute then Inl (OwnedManagedAttribute attribute)
      else case fmlookup managed normalized of
        Some previous \<Rightarrow> Inl (SameManagedAttribute previous attribute)
      | None \<Rightarrow> collect_managed rt subject (fmupd normalized attribute managed) rest)"

definition parse_mode :: "string \<Rightarrow> deprovision_mode option" where
  "parse_mode s =
     (if s = [] \<or> s = ''disable'' then Some DeprovisionDisable
      else if s = ''delete'' then Some DeprovisionDelete
      else None)"

definition new_adapter :: "scim_runtime \<Rightarrow> scim_config \<Rightarrow> scim_error + scim_adapter" where
  "new_adapter rt config =
     (case si_parse_url rt (trim_space (sc_base_url config)) of
        None \<Rightarrow> Inl InvalidBaseUrl
      | Some parsed \<Rightarrow>
      if url_scheme parsed = [] \<or> url_host parsed = [] then Inl InvalidBaseUrl
      else if url_scheme parsed \<noteq> ''http'' \<and> url_scheme parsed \<noteq> ''https'' then Inl UnsupportedScheme
      else if url_raw_query parsed \<noteq> [] \<or> url_fragment parsed \<noteq> [] then Inl BaseUrlQueryOrFragment
      else
      (let trimmed = trim_space (sc_subject_attribute config);
           subject = (if trimmed = [] then ''externalId'' else trimmed) in
       if \<not> valid_attribute_name subject then Inl (InvalidSubjectAttribute subject)
       else if unsafe_subject_attribute rt subject then Inl (OwnedSubjectAttribute subject)
       else case parse_mode (sc_deprovision_mode config) of
         None \<Rightarrow> Inl (UnsupportedDeprovisionMode (sc_deprovision_mode config))
       | Some mode \<Rightarrow>
       (case collect_managed rt subject fmempty (sc_managed_attributes config) of
         Inl err \<Rightarrow> Inl err
       | Inr managed \<Rightarrow>
           Inr \<lparr>sa_base_url = parsed, sa_token = sc_token config, sa_subject_attribute = subject,
                sa_managed_attributes = managed, sa_deprovision_mode = mode\<rparr>)))"

subsection \<open>Reading a resource\<close>

text \<open>The loop of \<open>responseAttribute\<close> over the entries: the value, whether it was found.\<close>

fun scan_attribute ::
    "string \<Rightarrow> go_value option \<Rightarrow> (string \<times> go_value) list \<Rightarrow> scim_error + go_value option" where
  "scan_attribute attribute found [] = Inr found"
| "scan_attribute attribute found ((key, candidate) # rest) =
     (if \<not> equal_fold key attribute then scan_attribute attribute found rest
      else if found \<noteq> None then Inl (AmbiguousAttribute attribute)
      else scan_attribute attribute (Some candidate) rest)"

definition response_attribute :: "go_value gomap \<Rightarrow> string \<Rightarrow> scim_error + go_value option" where
  "response_attribute resource attribute =
     scan_attribute attribute None (sorted_list_of_fmap resource)"

definition resource_id :: "go_value gomap \<Rightarrow> scim_error + string" where
  "resource_id resource =
     (case response_attribute resource ''id'' of
        Inl err \<Rightarrow> Inl err
      | Inr (Some (StringValue s)) \<Rightarrow> Inr (trim_space s)
      | Inr _ \<Rightarrow> Inr [])"

definition resource_version :: "go_value gomap \<Rightarrow> scim_error + string" where
  "resource_version resource =
     (case response_attribute resource ''meta'' of
        Inl err \<Rightarrow> Inl err
      | Inr None \<Rightarrow> Inr []
      | Inr (Some (MapValue meta)) \<Rightarrow>
          (case response_attribute meta ''version'' of
             Inl err \<Rightarrow> Inl err
           | Inr None \<Rightarrow> Inr []
           | Inr (Some (StringValue s)) \<Rightarrow> Inr (trim_space s)
           | Inr (Some _) \<Rightarrow> Inl VersionNotString)
      | Inr (Some _) \<Rightarrow> Inl MetaNotObject)"

definition scim_active :: "go_value gomap \<Rightarrow> scim_error + bool" where
  "scim_active resource =
     (case response_attribute resource ''active'' of
        Inl err \<Rightarrow> Inl err
      | Inr None \<Rightarrow> Inr True
      | Inr (Some (BoolValue b)) \<Rightarrow> Inr b
      | Inr (Some _) \<Rightarrow> Inl ActiveNotBoolean)"

definition scalar_string :: "go_value \<Rightarrow> string option" where
  "scalar_string v =
     (case v of
        StringValue s \<Rightarrow> Some s
      | BoolValue b \<Rightarrow> Some (if b then ''true'' else ''false'')
      | NumberValue s \<Rightarrow> Some s
      | _ \<Rightarrow> None)"

fun read_managed ::
    "go_value gomap \<Rightarrow> string gomap \<Rightarrow> (string \<times> string) list \<Rightarrow> scim_error + string gomap" where
  "read_managed resource values [] = Inr values"
| "read_managed resource values ((_, attribute) # rest) =
     (case response_attribute resource attribute of
        Inl err \<Rightarrow> Inl err
      | Inr candidate \<Rightarrow>
          read_managed resource
            (case Option.bind candidate scalar_string of
               Some v \<Rightarrow> fmupd attribute v values | None \<Rightarrow> values) rest)"

definition managed_values :: "scim_adapter \<Rightarrow> go_value gomap \<Rightarrow> scim_error + string gomap" where
  "managed_values a resource =
     read_managed resource fmempty (sorted_list_of_fmap (sa_managed_attributes a))"

text \<open>The loop of \<open>managedDesiredValues\<close>: \<open>seen\<close> and \<open>values\<close> are its two maps.\<close>

fun select_desired ::
    "scim_runtime \<Rightarrow> scim_adapter \<Rightarrow> string gomap \<Rightarrow> string gomap \<Rightarrow> (string \<times> string) list
       \<Rightarrow> scim_error + string gomap" where
  "select_desired rt a seen values [] = Inr values"
| "select_desired rt a seen values ((attribute, v) # rest) =
     (let normalized = to_lower (si_lower_unicode rt) attribute in
      case fmlookup (sa_managed_attributes a) normalized of
        None \<Rightarrow> select_desired rt a seen values rest
      | Some canonical \<Rightarrow>
          (case fmlookup seen normalized of
             Some previous \<Rightarrow> Inl (SameDesiredAttribute previous attribute)
           | None \<Rightarrow> select_desired rt a (fmupd normalized attribute seen) (fmupd canonical v values) rest))"

definition managed_desired_values ::
    "scim_runtime \<Rightarrow> scim_adapter \<Rightarrow> string gomap \<Rightarrow> scim_error + string gomap" where
  "managed_desired_values rt a attributes =
     select_desired rt a fmempty fmempty (sorted_list_of_fmap attributes)"

subsection \<open>Requests\<close>

datatype http_method = MethodGet | MethodPost | MethodPatch | MethodDelete

record http_request =
  rq_method :: http_method
  rq_url :: string
  rq_if_match :: "string option"
  rq_content_type :: bool
  rq_authorization :: "string option"
  rq_body :: "string option"

datatype http_outcome = NoResponse | Response int string string

type_synonym server = "http_request list \<Rightarrow> http_request \<Rightarrow> http_outcome"

definition resource_url :: "scim_adapter \<Rightarrow> string \<Rightarrow> url" where
  "resource_url a resource =
     (sa_base_url a)\<lparr>url_path :=
        trim_right_slash (url_path (sa_base_url a)) @ ''/'' @ trim_left_slash resource\<rparr>"

definition user_url :: "scim_adapter \<Rightarrow> string \<Rightarrow> string" where
  "user_url a rid =
     (let users = resource_url a ''Users'';
          escaped = trim_right_slash (escaped_path users) @ ''/'' @ escape EncodePathSegment rid
      in url_string (users\<lparr>url_path := trim_right_slash (url_path users) @ ''/'' @ rid,
                           url_raw_path := escaped\<rparr>))"

text \<open>\<open>io.LimitReader\<close>: at most so many bytes of the content.\<close>

fun limit_reader :: "int \<Rightarrow> string \<Rightarrow> string" where
  "limit_reader n [] = []"
| "limit_reader n (c # s) = (if n \<le> 0 then [] else c # limit_reader (n - 1) s)"

text \<open>
  \<open>request\<close>: \<open>decode\<close> is the decoder of the response value, \<open>None\<close> where the caller
  passes nil; \<open>zero\<close> is the value before decoding. The request is appended to the history
  whatever comes of it.
\<close>

definition send_request ::
    "scim_runtime \<Rightarrow> server \<Rightarrow> scim_adapter \<Rightarrow> http_method \<Rightarrow> string \<Rightarrow> go_value option
       \<Rightarrow> (string \<Rightarrow> 'r option) option \<Rightarrow> 'r \<Rightarrow> string list \<Rightarrow> http_request list
       \<Rightarrow> (scim_error + 'r) \<times> http_request list" where
  "send_request rt server a verb endpoint body decode zero versions h =
     (case (case body of None \<Rightarrow> Some None | Some b \<Rightarrow> map_option Some (si_marshal rt b)) of
        None \<Rightarrow> (Inl EncodeFailed, h)
      | Some encoded \<Rightarrow>
      if \<not> si_request_ok rt endpoint then (Inl BuildFailed, h)
      else
      (let req =
         \<lparr>rq_method = verb, rq_url = endpoint,
          rq_if_match = (case versions of v # _ \<Rightarrow> if v \<noteq> [] then Some v else None | [] \<Rightarrow> None),
          rq_content_type = (body \<noteq> None),
          rq_authorization = (if sa_token a \<noteq> [] then Some (''Bearer '' @ sa_token a) else None),
          rq_body = encoded\<rparr>;
           h1 = h @ [req]
       in case server h req of
            NoResponse \<Rightarrow> (Inl SendFailed, h1)
          | Response code status content \<Rightarrow>
              if code < 200 \<or> code \<ge> 300 then
                (Inl (StatusError status (trim_space (limit_reader (8 * 1024) content))), h1)
              else (case decode of
                None \<Rightarrow> (Inr zero, h1)
              | Some d \<Rightarrow>
                  if code = 204 then (Inr zero, h1)
                  else (case d (limit_reader (4 * 1024 * 1024) content) of
                    None \<Rightarrow> (Inl DecodeFailed, h1)
                  | Some r \<Rightarrow> (Inr r, h1)))))"

subsection \<open>find\<close>

definition find_url :: "scim_adapter \<Rightarrow> string \<Rightarrow> string" where
  "find_url a subject =
     (let filter_text = sa_subject_attribute a @ '' eq '' @ quotation # escape_filter_value subject @ [quotation]
      in url_string ((resource_url a ''Users'')
           \<lparr>url_raw_query := ''count=2&filter='' @ escape EncodeQueryComponent filter_text\<rparr>))"

definition find_resource ::
    "scim_runtime \<Rightarrow> server \<Rightarrow> scim_adapter \<Rightarrow> string \<Rightarrow> http_request list
       \<Rightarrow> (scim_error + go_value gomap option) \<times> http_request list" where
  "find_resource rt server a subject h =
     (if trim_space subject = [] then (Inl SubjectIdMissing, h)
      else case send_request rt server a MethodGet (find_url a subject) None
                  (Some (si_decode_list rt)) (None, []) [] h of
        (Inl err, h1) \<Rightarrow> (Inl (FindFailed subject err), h1)
      | (Inr (results, resources), h1) \<Rightarrow>
      (case results of
         None \<Rightarrow> (Inl TotalResultsMissing, h1)
       | Some n \<Rightarrow>
           if n < 0 then (Inl TotalResultsMissing, h1)
           else if n > 1 then (Inl (SubjectAmbiguous subject), h1)
           else if n \<noteq> int (length resources) then (Inl InconsistentListResponse, h1)
           else (case resources of
             [] \<Rightarrow> (Inr None, h1)
           | resource # _ \<Rightarrow>
               (case resource_id resource of
                  Inl err \<Rightarrow> (Inl err, h1)
                | Inr rid \<Rightarrow> if rid = [] then (Inl ResourceIdMissing, h1) else (Inr (Some resource), h1)))))"

subsection \<open>Observe and StateEquivalent\<close>

definition scim_observe ::
    "scim_runtime \<Rightarrow> server \<Rightarrow> scim_adapter \<Rightarrow> string \<Rightarrow> http_request list
       \<Rightarrow> (scim_error + observed_state) \<times> http_request list" where
  "scim_observe rt server a subject h =
     (case find_resource rt server a subject h of
        (Inl err, h1) \<Rightarrow> (Inl err, h1)
      | (Inr None, h1) \<Rightarrow> (Inr \<lparr>os_exists = False, os_enabled = False, os_attributes = fmempty\<rparr>, h1)
      | (Inr (Some resource), h1) \<Rightarrow>
          (case scim_active resource of
             Inl err \<Rightarrow> (Inl err, h1)
           | Inr active \<Rightarrow>
               (case managed_values a resource of
                  Inl err \<Rightarrow> (Inl err, h1)
                | Inr attributes \<Rightarrow>
                    (Inr \<lparr>os_exists = True, os_enabled = active, os_attributes = attributes\<rparr>, h1))))"

definition scim_state_equivalent ::
    "scim_runtime \<Rightarrow> scim_adapter \<Rightarrow> observed_state \<Rightarrow> desired_state \<Rightarrow> bool" where
  "scim_state_equivalent rt a observed desired =
     (if \<not> ip_exists desired \<and> sa_deprovision_mode a = DeprovisionDisable then
        \<not> os_exists observed \<or> \<not> os_enabled observed
      else case managed_desired_values rt a (ip_attributes desired) of
        Inl _ \<Rightarrow> False
      | Inr attributes \<Rightarrow> state_equivalent observed (desired\<lparr>ip_attributes := attributes\<rparr>))"

subsection \<open>Apply\<close>

definition core_user_schema :: string where
  "core_user_schema = ''urn:ietf:params:scim:schemas:core:2.0:User''"

definition patch_operation_schema :: string where
  "patch_operation_schema = ''urn:ietf:params:scim:api:messages:2.0:PatchOp''"

fun write_values :: "go_value gomap \<Rightarrow> (string \<times> string) list \<Rightarrow> go_value gomap" where
  "write_values user [] = user"
| "write_values user ((k, v) # rest) = write_values (fmupd k (StringValue v) user) rest"

definition create_body :: "scim_adapter \<Rightarrow> desired_state \<Rightarrow> string gomap \<Rightarrow> go_value gomap" where
  "create_body a desired attributes =
     write_values
       (fmupd (sa_subject_attribute a) (StringValue (ip_subject_id desired))
         (fmap_of_list
           [(''schemas'', ListValue [StringValue core_user_schema]),
            (''userName'', StringValue (ip_subject_id desired)),
            (''externalId'', StringValue (ip_subject_id desired)),
            (''active'', BoolValue (ip_enabled desired))]))
       (sorted_list_of_fmap attributes)"

definition scim_create ::
    "scim_runtime \<Rightarrow> server \<Rightarrow> scim_adapter \<Rightarrow> desired_state \<Rightarrow> http_request list
       \<Rightarrow> scim_error option \<times> http_request list" where
  "scim_create rt server a desired h =
     (case managed_desired_values rt a (ip_attributes desired) of
        Inl err \<Rightarrow> (Some err, h)
      | Inr attributes \<Rightarrow>
          (case send_request rt server a MethodPost (url_string (resource_url a ''Users''))
                  (Some (MapValue (create_body a desired attributes))) None () [] h of
             (Inl err, h1) \<Rightarrow> (Some err, h1)
           | (Inr _, h1) \<Rightarrow> (None, h1)))"

definition replace_operation :: "string \<Rightarrow> go_value \<Rightarrow> go_value" where
  "replace_operation path v =
     MapValue (fmap_of_list [(''op'', StringValue ''replace''), (''path'', StringValue path), (''value'', v)])"

definition patch_operations :: "bool \<Rightarrow> string gomap \<Rightarrow> go_value list" where
  "patch_operations enabled attributes =
     replace_operation ''active'' (BoolValue enabled) #
     map (\<lambda>(k, v). replace_operation k (StringValue v)) (sorted_list_of_fmap attributes)"

definition scim_patch ::
    "scim_runtime \<Rightarrow> server \<Rightarrow> scim_adapter \<Rightarrow> string \<Rightarrow> bool \<Rightarrow> string gomap \<Rightarrow> string
       \<Rightarrow> http_request list \<Rightarrow> scim_error option \<times> http_request list" where
  "scim_patch rt server a rid enabled attributes version h =
     (if rid = [] then (Some ResourceIdRequired, h)
      else case managed_desired_values rt a attributes of
        Inl err \<Rightarrow> (Some err, h)
      | Inr selected \<Rightarrow>
          (case send_request rt server a MethodPatch (user_url a rid)
                  (Some (MapValue (fmap_of_list
                     [(''schemas'', ListValue [StringValue patch_operation_schema]),
                      (''Operations'', ListValue (patch_operations enabled selected))])))
                  None () [version] h of
             (Inl err, h1) \<Rightarrow> (Some err, h1)
           | (Inr _, h1) \<Rightarrow> (None, h1)))"

definition scim_apply ::
    "scim_runtime \<Rightarrow> server \<Rightarrow> scim_adapter \<Rightarrow> desired_state \<Rightarrow> http_request list
       \<Rightarrow> scim_error option \<times> http_request list" where
  "scim_apply rt server a desired h =
     (case find_resource rt server a (ip_subject_id desired) h of
        (Inl err, h1) \<Rightarrow> (Some err, h1)
      | (Inr None, h1) \<Rightarrow> if ip_exists desired then scim_create rt server a desired h1 else (None, h1)
      | (Inr (Some resource), h1) \<Rightarrow>
          (case resource_id resource of
             Inl err \<Rightarrow> (Some err, h1)
           | Inr rid \<Rightarrow>
          (case resource_version resource of
             Inl err \<Rightarrow> (Some err, h1)
           | Inr version \<Rightarrow>
               if ip_exists desired then
                 scim_patch rt server a rid (ip_enabled desired) (ip_attributes desired) version h1
               else if sa_deprovision_mode a = DeprovisionDelete then
                 (case send_request rt server a MethodDelete (user_url a rid) None None () [version] h1 of
                    (Inl err, h2) \<Rightarrow> (Some err, h2)
                  | (Inr _, h2) \<Rightarrow> (None, h2))
               else scim_patch rt server a rid False fmempty version h1)))"

text \<open>The adapter as a \<open>TargetAdapter\<close> with its own comparator.\<close>

definition scim_target ::
    "scim_runtime \<Rightarrow> server \<Rightarrow> scim_adapter \<Rightarrow> (http_request list, scim_error) target_adapter" where
  "scim_target rt server a =
     \<lparr>ta_observe = scim_observe rt server a, ta_apply = scim_apply rt server a,
      ta_comparator = Some (scim_state_equivalent rt a)\<rparr>"

definition is_get :: "http_request \<Rightarrow> bool" where
  "is_get r \<longleftrightarrow> rq_method r = MethodGet"

end
