(* ===== verification/ScimLemmas.thy ===== *)
theory ScimLemmas
  imports Scim
begin

section \<open>Lemmas about the SCIM adapter\<close>

text \<open>
  The requests that each operation can send, the reading of attributes up to case, the entries
  that \<open>managedDesiredValues\<close> selects, percent encoding, and the interpretation of the
  adapter contract on the adapter.
\<close>

subsection \<open>Requests\<close>

definition if_match :: "string list \<Rightarrow> string option" where
  "if_match versions = (case versions of v # _ \<Rightarrow> if v \<noteq> [] then Some v else None | [] \<Rightarrow> None)"

lemma send_request_cases:
  obtains (unsent) "snd (send_request rt server a verb endpoint body decode zero versions h) = h"
      "\<not> ok (fst (send_request rt server a verb endpoint body decode zero versions h))"
  | (sent) req where "snd (send_request rt server a verb endpoint body decode zero versions h) = h @ [req]"
      "rq_method req = verb" "rq_url req = endpoint" "rq_if_match req = if_match versions"
      "case body of None \<Rightarrow> rq_body req = None | Some b \<Rightarrow> rq_body req = si_marshal rt b \<and> rq_body req \<noteq> None"
proof -
  let ?call = "send_request rt server a verb endpoint body decode zero versions h"
  obtain encoded where encoded:
    "(case body of None \<Rightarrow> Some None | Some b \<Rightarrow> map_option Some (si_marshal rt b)) = encoded" by blast
  show thesis
  proof (cases "encoded = None \<or> \<not> si_request_ok rt endpoint")
    case True
    then have "?call = (Inl EncodeFailed, h) \<or> ?call = (Inl BuildFailed, h)"
      by (auto simp: send_request_def encoded split: option.splits)
    then show thesis using unsent by auto
  next
    case False
    then obtain e where e: "encoded = Some e" by auto
    define req where "req = \<lparr>rq_method = verb, rq_url = endpoint, rq_if_match = if_match versions,
      rq_content_type = (body \<noteq> None),
      rq_authorization = (if sa_token a \<noteq> [] then Some (''Bearer '' @ sa_token a) else None), rq_body = e\<rparr>"
    have "snd ?call = h @ [req]"
      using False e by (auto simp: send_request_def encoded req_def if_match_def Let_def
          split: http_outcome.splits option.splits)
    moreover have "case body of None \<Rightarrow> rq_body req = None | Some b \<Rightarrow> rq_body req = si_marshal rt b \<and> rq_body req \<noteq> None"
      using encoded e by (auto simp: req_def split: option.splits)
    ultimately show thesis using sent [of req] by (simp add: req_def)
  qed
qed

lemma find_resource_history:
  obtains "snd (find_resource rt server a subject h) = h" "\<not> ok (fst (find_resource rt server a subject h))"
  | req where "snd (find_resource rt server a subject h) = h @ [req]" "is_get req" "rq_url req = find_url a subject"
proof (cases "trim_space subject = []")
  case True
  then show thesis using that(1) by (simp add: find_resource_def)
next
  case False
  let ?send = "send_request rt server a MethodGet (find_url a subject) None (Some (si_decode_list rt)) (None, []) [] h"
  have same: "snd (find_resource rt server a subject h) = snd ?send"
    using False by (auto simp: find_resource_def split: prod.splits sum.splits option.splits list.splits)
  have failed: "\<not> ok (fst ?send) \<Longrightarrow> \<not> ok (fst (find_resource rt server a subject h))"
    using False by (auto simp: find_resource_def split: prod.splits sum.splits)
  show thesis
    by (rule send_request_cases [of rt server a MethodGet "find_url a subject" None
          "Some (si_decode_list rt)" "(None, [])" "[]" h])
      (use that same failed in \<open>auto simp: is_get_def\<close>)
qed

lemma scim_observe_history: "snd (scim_observe rt server a subject h) = snd (find_resource rt server a subject h)"
  by (auto simp: scim_observe_def split: prod.splits sum.splits option.splits)

text \<open>What \<open>Apply\<close> may send after its lookup.\<close>

lemma scim_create_history:
  obtains "snd (scim_create rt server a d h) = h"
  | req attributes where "snd (scim_create rt server a d h) = h @ [req]" "rq_method req = MethodPost"
    "rq_url req = url_string (resource_url a ''Users'')"
    "managed_desired_values rt a (ip_attributes d) = Inr attributes"
    "rq_body req = si_marshal rt (MapValue (create_body a d attributes))"
proof (cases "managed_desired_values rt a (ip_attributes d)")
  case (Inr attributes)
  let ?send = "send_request rt server a MethodPost (url_string (resource_url a ''Users''))
      (Some (MapValue (create_body a d attributes))) None () [] h"
  have "snd (scim_create rt server a d h) = snd ?send"
    by (auto simp: scim_create_def Inr split: prod.splits sum.splits)
  then show thesis
    by (rule_tac send_request_cases [of rt server a MethodPost "url_string (resource_url a ''Users'')"
          "Some (MapValue (create_body a d attributes))" None "()" "[]" h])
      (use that Inr in auto)
qed (use that(1) in \<open>simp add: scim_create_def\<close>)

lemma scim_patch_history:
  obtains "snd (scim_patch rt server a rid enabled attributes version h) = h"
  | req selected where "snd (scim_patch rt server a rid enabled attributes version h) = h @ [req]"
    "rq_method req = MethodPatch" "rq_url req = user_url a rid" "rid \<noteq> []"
    "rq_if_match req = if_match [version]"
    "managed_desired_values rt a attributes = Inr selected"
    "rq_body req = si_marshal rt (MapValue (fmap_of_list
       [(''schemas'', ListValue [StringValue patch_operation_schema]),
        (''Operations'', ListValue (patch_operations enabled selected))]))"
proof (cases "rid = [] \<or> (\<exists>e. managed_desired_values rt a attributes = Inl e)")
  case True
  then show thesis using that(1) by (auto simp: scim_patch_def)
next
  case False
  then obtain selected where selected: "rid \<noteq> []" "managed_desired_values rt a attributes = Inr selected"
    by (cases "managed_desired_values rt a attributes") auto
  let ?body = "Some (MapValue (fmap_of_list
       [(''schemas'', ListValue [StringValue patch_operation_schema]),
        (''Operations'', ListValue (patch_operations enabled selected))]))"
  let ?send = "send_request rt server a MethodPatch (user_url a rid) ?body None () [version] h"
  have "snd (scim_patch rt server a rid enabled attributes version h) = snd ?send"
    using selected by (auto simp: scim_patch_def split: prod.splits sum.splits)
  then show thesis
    by (rule_tac send_request_cases [of rt server a MethodPatch "user_url a rid" ?body None "()" "[version]" h])
      (use that(1) that(2) [OF _ _ _ selected(1) _ selected(2)] in auto)
qed

text \<open>The conditions under which a request that is not a GET is sent, and what it then is.\<close>

definition justified_write ::
    "scim_runtime \<Rightarrow> scim_adapter \<Rightarrow> desired_state \<Rightarrow> go_value gomap option \<Rightarrow> http_request \<Rightarrow> bool" where
  "justified_write rt a d found w \<longleftrightarrow>
     (case found of
        None \<Rightarrow>
          ip_exists d \<and> rq_method w = MethodPost \<and> rq_url w = url_string (resource_url a ''Users'') \<and>
          (\<exists>attributes. managed_desired_values rt a (ip_attributes d) = Inr attributes \<and>
             rq_body w = si_marshal rt (MapValue (create_body a d attributes)))
      | Some resource \<Rightarrow>
          (\<exists>rid version. resource_id resource = Inr rid \<and> resource_version resource = Inr version \<and>
             rq_url w = user_url a rid \<and> rq_if_match w = if_match [version] \<and>
             (if \<not> ip_exists d \<and> sa_deprovision_mode a = DeprovisionDelete then rq_method w = MethodDelete
              else rid \<noteq> [] \<and> rq_method w = MethodPatch \<and>
                (\<exists>selected. managed_desired_values rt a
                      (if ip_exists d then ip_attributes d else fmempty) = Inr selected \<and>
                   rq_body w = si_marshal rt (MapValue (fmap_of_list
                     [(''schemas'', ListValue [StringValue patch_operation_schema]),
                      (''Operations'', ListValue (patch_operations (ip_exists d \<and> ip_enabled d) selected))]))))))"

lemma scim_apply_present:
  assumes "find_resource rt server a (ip_subject_id d) h = (Inr (Some resource), h1)"
  obtains (read) "snd (scim_apply rt server a d h) = h1"
  | (wrote) w where "snd (scim_apply rt server a d h) = h1 @ [w]"
    "justified_write rt a d (Some resource) w" "\<not> is_get w"
proof (cases "\<exists>rid version. resource_id resource = Inr rid \<and> resource_version resource = Inr version")
  case False
  then have "snd (scim_apply rt server a d h) = h1"
    by (auto simp: scim_apply_def assms split: sum.splits)
  then show thesis using read by simp
next
  case True
  then obtain rid version where rv: "resource_id resource = Inr rid" "resource_version resource = Inr version"
    by blast
  show thesis
  proof (cases "\<not> ip_exists d \<and> sa_deprovision_mode a = DeprovisionDelete")
    case True
    let ?send = "send_request rt server a MethodDelete (user_url a rid) None None () [version] h1"
    have "snd (scim_apply rt server a d h) = snd ?send"
      using True by (auto simp: scim_apply_def assms rv split: prod.splits sum.splits)
    then show thesis
      by (rule_tac send_request_cases [of rt server a MethodDelete "user_url a rid" None None "()" "[version]" h1])
        (use read wrote assms rv True in
          \<open>auto simp: justified_write_def is_get_def\<close>)
  next
    case False
    have "snd (scim_apply rt server a d h) = snd (scim_patch rt server a rid (ip_exists d \<and> ip_enabled d)
        (if ip_exists d then ip_attributes d else fmempty) version h1)"
      using False by (auto simp: scim_apply_def assms rv)
    then show thesis
      by (rule_tac scim_patch_history [of rt server a rid "ip_exists d \<and> ip_enabled d"
            "if ip_exists d then ip_attributes d else fmempty" version h1])
        (use read wrote assms rv False in
          \<open>auto simp: justified_write_def is_get_def\<close>)
  qed
qed

lemma scim_apply_history:
  obtains (read) "snd (scim_apply rt server a d h) = snd (find_resource rt server a (ip_subject_id d) h)"
  | (wrote) found w where "fst (find_resource rt server a (ip_subject_id d) h) = Inr found"
    "snd (scim_apply rt server a d h) = snd (find_resource rt server a (ip_subject_id d) h) @ [w]"
    "justified_write rt a d found w" "\<not> is_get w"
proof -
  obtain result h1 where find: "find_resource rt server a (ip_subject_id d) h = (result, h1)" by fastforce
  consider (error) e where "result = Inl e" | (absent) "result = Inr None"
    | (present) resource where "result = Inr (Some resource)"
    by (cases result) (auto split: option.splits)
  then show thesis
  proof cases
    case error
    then show thesis using read by (simp add: scim_apply_def find)
  next
    case absent
    show thesis
    proof (cases "ip_exists d")
      case True
      have "snd (scim_apply rt server a d h) = snd (scim_create rt server a d h1)"
        by (simp add: scim_apply_def find absent True)
      then show thesis
        by (rule_tac scim_create_history [of rt server a d h1])
          (use read wrote [of None] find absent True in \<open>auto simp: justified_write_def is_get_def\<close>)
    qed (use read in \<open>simp add: scim_apply_def find absent\<close>)
  next
    case present
    show thesis
      by (rule scim_apply_present [OF find [unfolded present]])
        (use read wrote [of "Some resource"] find present in simp_all)
  qed
qed

subsection \<open>The adapter contract\<close>

interpretation scim: reading_target "scim_target rt server a" is_get for rt server a
proof
  fix subject h
  show "\<exists>log. snd (ta_observe (scim_target rt server a) subject h) = h @ log \<and> writes is_get log = []"
    by (rule find_resource_history [of rt server a subject h])
      (auto simp: scim_target_def scim_observe_history writes_def)
next
  fix d h
  show "\<exists>log. snd (ta_apply (scim_target rt server a) d h) = h @ log \<and> length (writes is_get log) \<le> 1"
    by (rule scim_apply_history [of rt server a d h];
        rule find_resource_history [of rt server a "ip_subject_id d" h])
      (auto simp: scim_target_def writes_def)
qed

end
