(* ===== verification/ScimText.thy ===== *)
theory ScimText
  imports ScimLemmas
begin

section \<open>Texts, names and maps of the adapter\<close>

text \<open>
  Lemmas about percent encoding and the escaping of filter values, about attribute names up to
  case, and about the loops over maps: which response attribute is found, which desired
  attributes are selected, and what \<open>New\<close> guarantees of the managed attributes.
\<close>

subsection \<open>Percent encoding\<close>

lemma less_16_cases: "(n :: nat) < 16 \<longleftrightarrow> n \<in> {0, 1, 2, 3, 4, 5, 6, 7, 8, 9, 10, 11, 12, 13, 14, 15}"
  unfolding insert_iff empty_iff by presburger

lemma hex_value_upper_hex: "n < 16 \<Longrightarrow> hex_value (upper_hex n) = Some n"
  unfolding less_16_cases by (elim insertE emptyE; simp; code_simp)

lemma upper_hex_mod: "upper_hex (n mod 16) = upper_hex n"
  by (simp add: upper_hex_def)

lemma upper_hex_alphanumeric: "is_alphanumeric (upper_hex n)"
proof -
  have "is_alphanumeric (upper_hex m)" if "m < 16" for m
    using that unfolding less_16_cases by (elim insertE emptyE; simp; code_simp)
  from this [of "n mod 16"] show ?thesis by (simp add: upper_hex_mod)
qed

lemma percent_escaped: "should_escape mode (CHR ''%'')"
  by (cases mode; code_simp)

lemma unescape_escape_char:
  assumes "mode \<noteq> EncodeQueryComponent"
  shows "unescape (escape_char mode c @ s) = map_option (\<lambda>r. c # r) (unescape s)"
proof (cases "should_escape mode c")
  case True
  let ?n = "of_char c :: nat"
  have n: "?n < 256" by simp
  then have "hex_value (upper_hex (?n div 16)) = Some (?n div 16)"
    by (intro hex_value_upper_hex) (simp add: less_mult_imp_div_less)
  moreover have "hex_value (upper_hex ?n) = Some (?n mod 16)"
    using hex_value_upper_hex [of "?n mod 16"] by (simp add: upper_hex_mod)
  moreover have "char_of (16 * (?n div 16) + ?n mod 16) = c" by simp
  ultimately show ?thesis using True assms by (simp add: escape_char_def)
next
  case False
  then have "c \<noteq> CHR ''%''" using percent_escaped by blast
  then show ?thesis using False by (simp add: escape_char_def)
qed

lemma unescape_escape_append:
  "mode \<noteq> EncodeQueryComponent \<Longrightarrow> unescape (escape mode s @ t) = map_option (\<lambda>r. s @ r) (unescape t)"
  by (induction s) (cases "unescape t"; simp add: unescape_escape_char option.map_comp comp_def)+

lemma unescape_escape: "mode \<noteq> EncodeQueryComponent \<Longrightarrow> unescape (escape mode s) = Some s"
  using unescape_escape_append [of mode s "[]"] by simp

lemma escape_chars: "c \<in> set (escape mode s) \<Longrightarrow>
  c = CHR ''%'' \<or> c = CHR ''+'' \<or> is_alphanumeric c \<or> \<not> should_escape mode c"
  by (induction s) (auto simp: escape_char_def upper_hex_alphanumeric split: if_splits)

text \<open>One path segment: no slash, question mark or number sign gets through.\<close>

lemma escape_segment_clean:
  assumes "c \<in> set (escape EncodePathSegment s)"
  shows "c \<noteq> CHR ''/''" "c \<noteq> CHR ''?''" "c \<noteq> CHR ''#''"
proof -
  have "should_escape EncodePathSegment (CHR ''/'')" "should_escape EncodePathSegment (CHR ''?'')"
    "should_escape EncodePathSegment (CHR ''#'')" "\<not> is_alphanumeric (CHR ''/'')"
    "\<not> is_alphanumeric (CHR ''?'')" "\<not> is_alphanumeric (CHR ''#'')"
    by code_simp+
  then show "c \<noteq> CHR ''/''" "c \<noteq> CHR ''?''" "c \<noteq> CHR ''#''" using escape_chars [OF assms] by auto
qed

lemma valid_encoded_escape:
  assumes "mode \<noteq> EncodeQueryComponent"
  shows "valid_encoded (escape mode s)"
proof -
  have "c = CHR ''%'' \<or> c = CHR ''+'' \<or> \<not> should_escape EncodePath c" if "c \<in> set (escape mode s)" for c
    using escape_chars [OF that] assms
    by (cases mode) (auto simp: should_escape_def split: if_splits)
  then show ?thesis by (fastforce simp: valid_encoded_def list_all_iff)
qed

lemma valid_encoded_append: "valid_encoded (s @ t) \<longleftrightarrow> valid_encoded s \<and> valid_encoded t"
  by (simp add: valid_encoded_def)

lemma valid_encoded_slash: "valid_encoded (CHR ''/'' # t) \<longleftrightarrow> valid_encoded t"
proof -
  have "\<not> should_escape EncodePath (CHR ''/'')" by code_simp
  then show ?thesis by (simp add: valid_encoded_def)
qed

subsection \<open>Filter values\<close>

text \<open>
  The value of a filter string as the grammar of RFC 7644 reads it after the opening quotation
  mark: a backslash takes the next character, a quotation mark ends the string.
\<close>

fun read_quoted :: "string \<Rightarrow> (string \<times> string) option" where
  "read_quoted [] = None"
| "read_quoted (c # s) =
     (if c = quotation then Some ([], s)
      else if c = backslash then
        (case s of [] \<Rightarrow> None | d # rest \<Rightarrow> map_option (\<lambda>(v, r). (d # v, r)) (read_quoted rest))
      else map_option (\<lambda>(v, r). (c # v, r)) (read_quoted s))"

lemma escape_filter_value_simps:
  "escape_filter_value [] = []"
  "escape_filter_value (c # s) =
     (if c = quotation then [backslash, quotation]
      else if c = backslash then [backslash, backslash] else [c]) @ escape_filter_value s"
  by (simp_all add: escape_filter_value_def replace_char_def quotation_def backslash_def)

lemma read_quoted_escape: "read_quoted (escape_filter_value s @ quotation # rest) = Some (s, rest)"
  by (induction s) (simp_all add: escape_filter_value_simps quotation_def backslash_def)

subsection \<open>Names\<close>

lemma valid_name_ascii: "valid_attribute_name s \<Longrightarrow> list_all is_ascii s"
  by (auto simp: valid_attribute_name_def list_all_iff is_letter_def is_ascii_def less_eq_char_def)

lemma to_lower_valid: "valid_attribute_name s \<Longrightarrow> to_lower lu s = map lower_byte s"
  by (simp add: to_lower_def valid_name_ascii)

lemma equal_fold_valid:
  "valid_attribute_name s \<Longrightarrow> valid_attribute_name t \<Longrightarrow>
   equal_fold s t \<longleftrightarrow> map lower_byte s = map lower_byte t"
  by (simp add: equal_fold_def fold_case_ascii valid_name_ascii)

subsection \<open>Response attributes\<close>

text \<open>
  The scan in closed form: it depends on the matching entries only, and on whether there is
  more than one, so the order in which the runtime visits the map does not matter.
\<close>

lemma scan_attribute_eq:
  "scan_attribute attribute found kvs =
     (case filter (\<lambda>(k, v). equal_fold k attribute) kvs of
        [] \<Rightarrow> Inr found
      | (k, v) # matches \<Rightarrow>
          if found = None \<and> matches = [] then Inr (Some v) else Inl (AmbiguousAttribute attribute))"
proof (induction attribute found kvs rule: scan_attribute.induct)
  case (2 attribute found key candidate rest)
  then show ?case by (auto split: option.splits list.splits)
qed simp

lemma mset_eq_short: "mset xs = mset ys \<Longrightarrow> length xs \<le> 1 \<Longrightarrow> xs = ys"
  by (cases xs; cases ys) auto

lemma response_attribute_any_order:
  assumes "mset kvs = mset (sorted_list_of_fmap resource)"
  shows "scan_attribute attribute None kvs = response_attribute resource attribute"
proof -
  define xs where "xs = filter (\<lambda>(k, v). equal_fold k attribute) kvs"
  define ys where "ys = filter (\<lambda>(k, v). equal_fold k attribute) (sorted_list_of_fmap resource)"
  have m: "mset xs = mset ys" unfolding xs_def ys_def using assms by (metis mset_filter)
  have "(case xs of [] \<Rightarrow> Inr None | (k, v) # matches \<Rightarrow>
        if matches = [] then Inr (Some v) else Inl (AmbiguousAttribute attribute)) =
      (case ys of [] \<Rightarrow> Inr None | (k, v) # matches \<Rightarrow>
        if matches = [] then Inr (Some v) else Inl (AmbiguousAttribute attribute))"
  proof (cases "length xs \<le> 1")
    case True
    then show ?thesis using mset_eq_short [OF m] by simp
  next
    case False
    moreover have "length ys = length xs" using m by (metis mset_eq_length)
    ultimately show ?thesis by (cases xs; cases ys) auto
  qed
  then show ?thesis unfolding response_attribute_def scan_attribute_eq xs_def ys_def
    by (simp only: simp_thms)
qed

subsection \<open>Desired values\<close>

lemma select_desired_ok_iff:
  "ok (select_desired rt a seen vals kvs) \<longleftrightarrow>
     (let managed = filter (\<lambda>n. fmlookup (sa_managed_attributes a) n \<noteq> None)
            (map (to_lower (si_lower_unicode rt)) (map fst kvs))
      in distinct managed \<and> (\<forall>n\<in>set managed. fmlookup seen n = None))"
proof (induction kvs arbitrary: seen vals)
  case (Cons kv kvs)
  then show ?case by (cases kv) (auto simp: Let_def split: option.splits if_splits)
qed simp

lemma select_desired_dom:
  "select_desired rt a seen vals kvs = Inr m \<Longrightarrow>
   fmlookup m n \<noteq> None \<Longrightarrow>
   fmlookup vals n \<noteq> None \<or> (\<exists>k. fmlookup (sa_managed_attributes a) k = Some n)"
proof (induction kvs arbitrary: seen vals)
  case (Cons kv kvs)
  obtain k v where kv: "kv = (k, v)" by fastforce
  let ?n = "to_lower (si_lower_unicode rt) k"
  show ?case
  proof (cases "fmlookup (sa_managed_attributes a) ?n")
    case None
    then show ?thesis using Cons kv by simp
  next
    case (Some canonical)
    then have "select_desired rt a (fmupd ?n k seen) (fmupd canonical v vals) kvs = Inr m"
      using Cons.prems kv by (auto simp: Let_def split: option.splits)
    from Cons.IH [OF this Cons.prems(2)] show ?thesis using Some by (auto split: if_splits)
  qed
qed auto

lemma managed_desired_dom:
  assumes "managed_desired_values rt a attributes = Inr m" "fmlookup m n \<noteq> None"
  shows "\<exists>k. fmlookup (sa_managed_attributes a) k = Some n"
  using select_desired_dom [of rt a fmempty fmempty "sorted_list_of_fmap attributes" m n] assms
  by (simp add: managed_desired_values_def)

subsection \<open>What New guarantees\<close>

definition managed_ok :: "scim_runtime \<Rightarrow> string \<Rightarrow> string gomap \<Rightarrow> bool" where
  "managed_ok rt subject managed \<longleftrightarrow>
     (\<forall>n attribute. fmlookup managed n = Some attribute \<longrightarrow>
        valid_attribute_name attribute \<and> n = map lower_byte attribute \<and>
        \<not> equal_fold attribute subject \<and> \<not> adapter_owns_attribute rt attribute)"

lemma collect_managed_ok:
  "managed_ok rt subject managed \<Longrightarrow> collect_managed rt subject managed raw = Inr m \<Longrightarrow> managed_ok rt subject m"
proof (induction raw arbitrary: managed)
  case (Cons r raw)
  let ?attribute = "trim_space r"
  have valid: "valid_attribute_name ?attribute" and rest: "\<not> equal_fold ?attribute subject"
    "\<not> adapter_owns_attribute rt ?attribute"
    "collect_managed rt subject (fmupd (map lower_byte ?attribute) ?attribute managed) raw = Inr m"
    using Cons.prems(2) to_lower_valid [of ?attribute "si_lower_unicode rt"]
    by (auto simp: Let_def split: if_splits option.splits)
  have "managed_ok rt subject (fmupd (map lower_byte ?attribute) ?attribute managed)"
    using Cons.prems(1) valid rest(1,2) by (auto simp: managed_ok_def)
  then show ?case using Cons.IH rest(3) by blast
qed simp

definition adapter_ok :: "scim_runtime \<Rightarrow> scim_adapter \<Rightarrow> bool" where
  "adapter_ok rt a \<longleftrightarrow>
     url_scheme (sa_base_url a) \<in> {''http'', ''https''} \<and> url_host (sa_base_url a) \<noteq> [] \<and>
     url_raw_query (sa_base_url a) = [] \<and> url_fragment (sa_base_url a) = [] \<and>
     valid_attribute_name (sa_subject_attribute a) \<and>
     \<not> unsafe_subject_attribute rt (sa_subject_attribute a) \<and>
     managed_ok rt (sa_subject_attribute a) (sa_managed_attributes a)"

lemma new_adapter_ok: "new_adapter rt config = Inr a \<Longrightarrow> adapter_ok rt a"
  using collect_managed_ok [of rt _ fmempty]
  by (auto simp: new_adapter_def adapter_ok_def managed_ok_def [of rt _ fmempty] Let_def
      split: option.splits if_splits sum.splits)

subsection \<open>Reading the managed attributes\<close>

lemma read_managed_lookup:
  assumes "read_managed resource vals kvs = Inr m" "inj_on snd (set kvs)" "distinct kvs"
  shows "fmlookup m n =
    (if n \<in> snd ` set kvs then
       (case response_attribute resource n of
          Inr (Some v) \<Rightarrow> (case scalar_string v of Some s \<Rightarrow> Some s | None \<Rightarrow> fmlookup vals n)
        | _ \<Rightarrow> fmlookup vals n)
     else fmlookup vals n)"
  using assms
proof (induction kvs arbitrary: vals)
  case (Cons kv kvs)
  obtain k attribute where kv: "kv = (k, attribute)" by fastforce
  obtain candidate where c: "response_attribute resource attribute = Inr candidate"
    using Cons.prems(1) kv by (auto split: sum.splits)
  let ?vals = "case Option.bind candidate scalar_string of Some v \<Rightarrow> fmupd attribute v vals | None \<Rightarrow> vals"
  have rest: "read_managed resource ?vals kvs = Inr m" using Cons.prems(1) kv c by simp
  have new: "attribute \<notin> snd ` set kvs"
    using Cons.prems(2,3) kv by (auto simp: inj_on_def)
  have IH: "fmlookup m n = (if n \<in> snd ` set kvs then
       (case response_attribute resource n of
          Inr (Some v) \<Rightarrow> (case scalar_string v of Some s \<Rightarrow> Some s | None \<Rightarrow> fmlookup ?vals n)
        | _ \<Rightarrow> fmlookup ?vals n)
     else fmlookup ?vals n)"
    using Cons.IH [OF rest] Cons.prems(2,3) by simp
  show ?case
  proof (cases "n = attribute")
    case True
    then show ?thesis using IH new kv c by (auto split: option.splits simp: bind_eq_Some_conv)
  next
    case False
    then have other: "fmlookup ?vals n = fmlookup vals n" by (simp split: option.splits)
    show ?thesis using IH False unfolding other kv by simp
  qed
qed simp

end
