(* ===== verification/ScimContracts.thy ===== *)
theory ScimContracts
  imports ScimText
begin

section \<open>The contract of the SCIM adapter\<close>

text \<open>
  The properties of \<open>scim.go\<close> for any provider, with witnesses on a concrete adapter and on
  servers with fixed answers.
\<close>

subsection \<open>A concrete adapter\<close>

definition example_resource :: "go_value gomap" where
  "example_resource = fmap_of_list
     [(''id'', StringValue ''u/1''), (''active'', BoolValue True), (''Title'', StringValue ''engineer''),
      (''meta'', MapValue (fmap_of_list [(''version'', StringValue ''W1'')]))]"

definition example_url :: url where
  "example_url = \<lparr>url_scheme = ''https'', url_host = ''h'', url_authority = ''h'', url_path = ''/v2/'',
     url_raw_path = [], url_force_query = False, url_raw_query = [], url_fragment = []\<rparr>"

definition example_scim :: scim_runtime where
  "example_scim =
     \<lparr>si_parse_url = (\<lambda>s. Some example_url), si_lower_unicode = id, si_marshal = (\<lambda>v. Some ''json''),
      si_request_ok = (\<lambda>s. True),
      si_decode_list = (\<lambda>s. if s = ''none'' then Some (Some 0, [])
         else if s = ''one'' then Some (Some 1, [example_resource]) else None)\<rparr>"

definition example_config :: scim_config where
  "example_config = \<lparr>sc_base_url = ''https://h/v2/'', sc_token = [], sc_subject_attribute = [],
     sc_managed_attributes = [''title'', ''department''], sc_deprovision_mode = []\<rparr>"

definition example_adapter :: scim_adapter where
  "example_adapter = \<lparr>sa_base_url = example_url, sa_token = [], sa_subject_attribute = ''externalId'',
     sa_managed_attributes = fmap_of_list [(''title'', ''title''), (''department'', ''department'')],
     sa_deprovision_mode = DeprovisionDisable\<rparr>"

text \<open>Servers that know no account, and one account.\<close>

definition empty_server :: server where
  "empty_server h req = (if is_get req then Response 200 ''200 OK'' ''none'' else Response 201 ''201'' [])"

definition one_server :: server where
  "one_server h req = (if is_get req then Response 200 ''200 OK'' ''one'' else Response 200 ''200 OK'' [])"

definition example_desired :: "bool \<Rightarrow> (string \<times> string) list \<Rightarrow> desired_state" where
  "example_desired present attributes =
     \<lparr>ip_subject_id = ''p1'', ip_exists = present, ip_enabled = True, ip_lifecycle_state = StateActive,
      ip_attributes = fmap_of_list attributes, ip_source_fact_key = [], ip_source_event_key = [],
      ip_effective_time = zero_time,
      ip_freshness = \<lparr>ft_source_sequence = 0, ft_modification_time = zero_time, ft_revision_number = 0, ft_event_key = []\<rparr>,
      ip_row_version = 0\<rparr>"

lemma new_example_adapter: "new_adapter example_scim example_config = Inr example_adapter"
proof -
  have "(case new_adapter example_scim example_config of Inl _ \<Rightarrow> False
      | Inr a \<Rightarrow> (sa_token a, sa_subject_attribute a, sa_deprovision_mode a) =
          (sa_token example_adapter, sa_subject_attribute example_adapter, sa_deprovision_mode example_adapter) \<and>
          sa_managed_attributes a = sa_managed_attributes example_adapter)" by code_simp
  moreover have "sa_base_url a = example_url" if "new_adapter example_scim example_config = Inr a" for a
    using that by (auto simp: new_adapter_def example_scim_def Let_def split: option.splits if_splits sum.splits)
  ultimately show ?thesis by (auto simp: example_adapter_def split: sum.splits)
qed

subsection \<open>Reads and writes\<close>

text \<open>
  C24. A convergence that finds the target equivalent sends reads only, for any provider and any
  desired state.
\<close>

theorem unchanged_sends_reads_only:
  assumes "converge (Some (scim_target rt server a)) d h = (Inr r, h')"
    and "cr_action r = ConvergenceUnchanged"
  shows "filter (\<lambda>q. \<not> is_get q) h' = filter (\<lambda>q. \<not> is_get q) h"
  using scim.unchanged_writes_nothing [OF assms] by (simp add: writes_def)

theorem unchanged_sends_reads_only_witness:
  "\<exists>r h'. converge (Some (scim_target example_scim one_server example_adapter))
      (example_desired True [(''title'', ''engineer'')]) [] = (Inr r, h') \<and>
     length h' = 1 \<and> filter (\<lambda>q. \<not> is_get q) h' = []"
proof -
  let ?run = "converge (Some (scim_target example_scim one_server example_adapter))
      (example_desired True [(''title'', ''engineer'')]) []"
  have "(case fst ?run of Inl _ \<Rightarrow> False | Inr r \<Rightarrow> cr_action r = ConvergenceUnchanged) \<and> length (snd ?run) = 1"
    by code_simp
  then obtain r h' where run: "?run = (Inr r, h')" "cr_action r = ConvergenceUnchanged" "length h' = 1"
    by (cases ?run) (auto split: sum.splits)
  then show ?thesis using unchanged_sends_reads_only [OF run(1,2)] by auto
qed

text \<open>
  A convergence sends at most one request that is not a GET, and forgets none it has sent,
  whatever the provider answers and however requests fail.
\<close>

theorem converge_writes_at_most_once:
  "\<exists>log. snd (converge (Some (scim_target rt server a)) d h) = h @ log \<and>
     length (filter (\<lambda>q. \<not> is_get q) log) \<le> 1"
  using scim.converge_extends [of rt server a d h] by (simp add: writes_def)

text \<open>
  C10. Every write of \<open>Apply\<close> is justified by its own lookup: a POST only where the lookup
  confirmed absence, with the body for the desired state; a PATCH or DELETE only on the resource
  the lookup returned, at that resource's URL, conditional on its version where it has one; and a
  DELETE only for a desired absence in delete mode.
\<close>

theorem writes_are_justified:
  assumes "w \<in> set (drop (length h) (snd (scim_apply rt server a d h)))" "\<not> is_get w"
  shows "\<exists>found. fst (find_resource rt server a (ip_subject_id d) h) = Inr found \<and> justified_write rt a d found w"
proof (cases rule: scim_apply_history [of rt server a d h])
  case read
  then have False using assms
    by (cases rule: find_resource_history [of rt server a "ip_subject_id d" h]) auto
  then show ?thesis ..
next
  case (wrote found w')
  then have "w = w'" using assms
    by (cases rule: find_resource_history [of rt server a "ip_subject_id d" h]) auto
  then show ?thesis using wrote by blast
qed

theorem writes_are_justified_witness:
  "\<exists>w. rq_method w = MethodPatch \<and> rq_if_match w = Some ''W1'' \<and> rq_url w = ''https://h/v2/Users/u%2F1'' \<and>
     justified_write example_scim example_adapter (example_desired True []) (Some example_resource) w"
proof -
  let ?d = "example_desired True []"
  let ?log = "snd (scim_apply example_scim one_server example_adapter ?d [])"
  have "(case ?log of [q, w] \<Rightarrow> rq_method w = MethodPatch \<and> rq_if_match w = Some ''W1'' \<and>
      rq_url w = ''https://h/v2/Users/u%2F1'' | _ \<Rightarrow> False)" by code_simp
  then obtain q w where log: "?log = [q, w]" "rq_method w = MethodPatch" "rq_if_match w = Some ''W1''"
    "rq_url w = ''https://h/v2/Users/u%2F1''"
    by (auto split: list.splits)
  have "(case fst (find_resource example_scim one_server example_adapter (ip_subject_id ?d) []) of
      Inr (Some r) \<Rightarrow> r = example_resource | _ \<Rightarrow> False)"
    by (simp add: find_resource_def send_request_def one_server_def example_scim_def is_get_def
        example_desired_def example_resource_def Let_def) code_simp
  then have found: "fst (find_resource example_scim one_server example_adapter (ip_subject_id ?d) []) = Inr (Some example_resource)"
    by (auto split: sum.splits option.splits)
  have "\<not> is_get w" using log(2) by (simp add: is_get_def)
  then show ?thesis using writes_are_justified [of w "[]" example_scim one_server example_adapter ?d] log found
    by auto
qed

text \<open>
  C25. A lookup is conclusive or an error: a result means that a 2xx response to the one GET was
  decoded, that it carried a \<open>totalResults\<close> equal to the number of its resources and at most
  1, and that the result is exactly that resource, with an id, or the absence of one.
\<close>

theorem lookup_is_conclusive:
  assumes "find_resource rt server a subject h = (Inr found, h')"
  shows "\<exists>req code status content resources.
    h' = h @ [req] \<and> is_get req \<and> rq_url req = find_url a subject \<and>
    server h req = Response code status content \<and> 200 \<le> code \<and> code < 300 \<and> code \<noteq> 204 \<and>
    si_decode_list rt (limit_reader (4 * 1024 * 1024) content) = Some (Some (int (length resources)), resources) \<and>
    (case resources of
       [] \<Rightarrow> found = None
     | [r] \<Rightarrow> found = Some r \<and> (\<exists>rid. resource_id r = Inr rid \<and> rid \<noteq> [])
     | _ \<Rightarrow> False)"
proof -
  let ?send = "send_request rt server a MethodGet (find_url a subject) None (Some (si_decode_list rt)) (None, []) [] h"
  obtain results resources where send: "?send = (Inr (results, resources), h')"
    using assms by (auto simp: find_resource_def split: if_splits prod.splits sum.splits option.splits list.splits)
  then obtain req code status content where req: "h' = h @ [req]" "is_get req" "rq_url req = find_url a subject"
    "server h req = Response code status content" "200 \<le> code" "code < 300"
    "code = 204 \<and> results = None \<or>
     code \<noteq> 204 \<and> si_decode_list rt (limit_reader (4 * 1024 * 1024) content) = Some (results, resources)"
    by (fastforce simp: send_request_def is_get_def Let_def split: if_splits http_outcome.splits option.splits)
  have checks: "results = Some (int (length resources)) \<and> length resources \<le> 1 \<and>
      (case resources of [] \<Rightarrow> found = None
       | r # _ \<Rightarrow> found = Some r \<and> (\<exists>rid. resource_id r = Inr rid \<and> rid \<noteq> []))"
    using assms send by (auto simp: find_resource_def split: if_splits option.splits list.splits sum.splits)
  then have "case resources of [] \<Rightarrow> found = None
       | [r] \<Rightarrow> found = Some r \<and> (\<exists>rid. resource_id r = Inr rid \<and> rid \<noteq> []) | _ \<Rightarrow> False"
    by (cases resources; cases "tl resources") auto
  then show ?thesis using req checks by blast
qed

theorem lookup_is_conclusive_witness:
  "\<exists>h'. find_resource example_scim empty_server example_adapter ''p1'' [] = (Inr None, h') \<and> length h' = 1"
proof -
  have "(case fst (find_resource example_scim empty_server example_adapter ''p1'' []) of Inr None \<Rightarrow> True | _ \<Rightarrow> False)"
    by code_simp
  then obtain h' where run: "find_resource example_scim empty_server example_adapter ''p1'' [] = (Inr None, h')"
    by (cases "find_resource example_scim empty_server example_adapter ''p1'' []") (auto split: sum.splits option.splits)
  then show ?thesis using lookup_is_conclusive [OF run] by auto
qed

subsection \<open>Configuration\<close>

lemma new_adapter_managed:
  assumes "new_adapter rt config = Inr a" "fmlookup (sa_managed_attributes a) key = Some n"
  shows "valid_attribute_name n" "key = map lower_byte n"
    "map lower_byte n \<noteq> map lower_byte (sa_subject_attribute a)"
    "map lower_byte n \<notin> {''schemas'', ''username'', ''externalid'', ''active'', ''id'', ''meta''}"
proof -
  have ok: "managed_ok rt (sa_subject_attribute a) (sa_managed_attributes a)"
    and subject: "valid_attribute_name (sa_subject_attribute a)"
    using new_adapter_ok [OF assms(1)] by (simp_all add: adapter_ok_def)
  have n: "valid_attribute_name n \<and> key = map lower_byte n \<and>
      \<not> equal_fold n (sa_subject_attribute a) \<and> \<not> adapter_owns_attribute rt n"
    using ok assms(2) unfolding managed_ok_def by blast
  then show "valid_attribute_name n" "key = map lower_byte n" by simp_all
  show "map lower_byte n \<noteq> map lower_byte (sa_subject_attribute a)"
    using n subject equal_fold_valid by blast
  show "map lower_byte n \<notin> {''schemas'', ''username'', ''externalid'', ''active'', ''id'', ''meta''}"
    using n to_lower_valid [of n "si_lower_unicode rt"] by (simp add: adapter_owns_attribute_def)
qed

text \<open>
  C26. What \<open>New\<close> guarantees of an adapter: an absolute HTTP or HTTPS URL without query and
  fragment, a lookup attribute that the protocol does not own, and managed attributes that are
  valid names under their lower-case keys, none of them the lookup attribute or one of the
  fields the adapter writes itself, in any case variant.
\<close>

theorem new_adapter_guarantees:
  assumes "new_adapter rt config = Inr a"
  shows "url_scheme (sa_base_url a) \<in> {''http'', ''https''} \<and> url_host (sa_base_url a) \<noteq> [] \<and>
    url_raw_query (sa_base_url a) = [] \<and> url_fragment (sa_base_url a) = [] \<and>
    valid_attribute_name (sa_subject_attribute a) \<and>
    map lower_byte (sa_subject_attribute a) \<notin> {''schemas'', ''active'', ''id'', ''meta''} \<and>
    (\<forall>n attribute. fmlookup (sa_managed_attributes a) n = Some attribute \<longrightarrow>
       valid_attribute_name attribute \<and> n = map lower_byte attribute \<and>
       n \<noteq> map lower_byte (sa_subject_attribute a) \<and>
       n \<notin> {''schemas'', ''username'', ''externalid'', ''active'', ''id'', ''meta''})"
proof -
  have "adapter_ok rt a" using assms by (rule new_adapter_ok)
  then show ?thesis using new_adapter_managed [OF assms]
    by (auto simp: adapter_ok_def unsafe_subject_attribute_def to_lower_valid)
qed

theorem new_adapter_guarantees_witness:
  "fmlookup (sa_managed_attributes example_adapter) ''active'' = None \<and>
   valid_attribute_name (sa_subject_attribute example_adapter)"
  using new_adapter_guarantees [OF new_example_adapter] by (cases "fmlookup (sa_managed_attributes example_adapter) ''active''") auto

subsection \<open>Bodies\<close>

lemma write_values_lookup:
  "distinct (map fst kvs) \<Longrightarrow>
   fmlookup (write_values m kvs) k =
     (case map_of kvs k of None \<Rightarrow> fmlookup m k | Some v \<Rightarrow> Some (StringValue v))"
proof (induction m kvs rule: write_values.induct)
  case (2 m j v rest)
  then have "map_of rest j = None" by (simp add: map_of_eq_None_iff)
  then show ?case using 2 by (auto split: option.splits)
qed simp

lemma distinct_sorted_list_of_fmap: "distinct (map fst (sorted_list_of_fmap m))"
  by (simp add: sorted_list_of_fmap_def comp_def sorted_list_of_fset.rep_eq)

text \<open>
  The body of a create request: the lookup attribute holds the subject, \<open>active\<close> is the
  desired Boolean, the schema and the two identifiers are the adapter's own, the managed desired
  attributes follow, and no managed attribute can replace one of the others.
\<close>

theorem create_body_fields:
  assumes "new_adapter rt config = Inr a"
    and "managed_desired_values rt a (ip_attributes d) = Inr attributes"
  shows "fmlookup (create_body a d attributes) k =
    (if k = sa_subject_attribute a then Some (StringValue (ip_subject_id d))
     else if k = ''schemas'' then Some (ListValue [StringValue ''urn:ietf:params:scim:schemas:core:2.0:User''])
     else if k = ''userName'' then Some (StringValue (ip_subject_id d))
     else if k = ''externalId'' then Some (StringValue (ip_subject_id d))
     else if k = ''active'' then Some (BoolValue (ip_enabled d))
     else map_option StringValue (fmlookup attributes k))"
proof -
  have "fmlookup attributes n = None" if "n \<in> {sa_subject_attribute a, ''schemas'', ''userName'', ''externalId'', ''active''}" for n
  proof (rule ccontr)
    assume "fmlookup attributes n \<noteq> None"
    then obtain key where "fmlookup (sa_managed_attributes a) key = Some n"
      using managed_desired_dom [OF assms(2)] by blast
    note managed = new_adapter_managed(3,4) [OF assms(1) this]
    have "map lower_byte ''schemas'' = ''schemas''" "map lower_byte ''userName'' = ''username''"
      "map lower_byte ''externalId'' = ''externalid''" "map lower_byte ''active'' = ''active''"
      by code_simp+
    then show False using that managed by auto
  qed
  then show ?thesis
    by (auto simp: create_body_def write_values_lookup distinct_sorted_list_of_fmap core_user_schema_def
        split: option.splits)
qed

theorem create_body_fields_witness:
  "fmlookup (create_body example_adapter (example_desired True [(''title'', ''chief'')])
     (fmap_of_list [(''title'', ''chief'')])) ''title'' = Some (StringValue ''chief'')"
proof -
  have "(case managed_desired_values example_scim example_adapter
        (ip_attributes (example_desired True [(''title'', ''chief'')])) of
      Inl _ \<Rightarrow> False | Inr m \<Rightarrow> m = fmap_of_list [(''title'', ''chief'')])" by code_simp
  then have "managed_desired_values example_scim example_adapter
      (ip_attributes (example_desired True [(''title'', ''chief'')])) = Inr (fmap_of_list [(''title'', ''chief'')])"
    by (auto split: sum.splits)
  from create_body_fields [OF new_example_adapter this, of "''title''"]
  show ?thesis by (simp add: example_adapter_def)
qed

text \<open>
  C39. For a desired identity that exists: a managed attribute that the target has and the projection
  lacks is not removed. The comparison finds the states different for as long as it is there, and
  the patch names the active flag and the desired attributes only. (For a desired absence in
  disable mode the attributes do not count.)
\<close>

theorem unlisted_attribute_never_converges:
  assumes "ip_exists d" "managed_desired_values rt a (ip_attributes d) = Inr selected"
    and "fmlookup (os_attributes observed) n = Some v" "fmlookup selected n = None" "n \<noteq> ''active''"
  shows "\<not> scim_state_equivalent rt a observed d \<and>
    (\<forall>op\<in>set (patch_operations (ip_enabled d) selected). \<exists>m path.
       op = MapValue m \<and> fmlookup m ''path'' = Some (StringValue path) \<and> path \<noteq> n)"
proof
  have "os_attributes observed \<noteq> selected" using assms(3,4) by auto
  then show "\<not> scim_state_equivalent rt a observed d"
    using assms(1,2) by (auto simp: scim_state_equivalent_def state_equivalent_iff)
  have "k \<noteq> n" if "(k, w) \<in> set (sorted_list_of_fmap selected)" for k w
    using that assms(4) by (auto simp: sorted_list_of_fmap_set)
  then show "\<forall>op\<in>set (patch_operations (ip_enabled d) selected). \<exists>m path.
       op = MapValue m \<and> fmlookup m ''path'' = Some (StringValue path) \<and> path \<noteq> n"
    using assms(5) by (auto simp: patch_operations_def replace_operation_def)
qed

theorem unlisted_attribute_never_converges_witness:
  "\<not> scim_state_equivalent example_scim example_adapter
     \<lparr>os_exists = True, os_enabled = True, os_attributes = fmap_of_list [(''title'', ''engineer'')]\<rparr>
     (example_desired True [])"
proof -
  have "(case managed_desired_values example_scim example_adapter (ip_attributes (example_desired True [])) of
      Inl _ \<Rightarrow> False | Inr m \<Rightarrow> m = fmempty)" by code_simp
  then have "managed_desired_values example_scim example_adapter (ip_attributes (example_desired True [])) = Inr fmempty"
    by (auto split: sum.splits)
  then show ?thesis
    by (intro conjunct1 [OF unlisted_attribute_never_converges [where n = "''title''" and v = "''engineer''"]])
      (auto simp: example_desired_def)
qed

subsection \<open>Convergence with a provider that applies the patch\<close>

text \<open>A resource that shows a state: the active flag and the selected values, nothing else managed.\<close>

definition resource_shows :: "scim_adapter \<Rightarrow> bool \<Rightarrow> string gomap \<Rightarrow> go_value gomap \<Rightarrow> bool" where
  "resource_shows a enabled selected resource \<longleftrightarrow>
     response_attribute resource ''active'' = Inr (Some (BoolValue enabled)) \<and>
     (\<forall>key n. fmlookup (sa_managed_attributes a) key = Some n \<longrightarrow>
        response_attribute resource n = Inr (map_option StringValue (fmlookup selected n)))"

lemma read_managed_total:
  "\<forall>(key, n)\<in>set kvs. ok (response_attribute resource n) \<Longrightarrow> ok (read_managed resource vals kvs)"
proof (induction kvs arbitrary: vals)
  case (Cons kv kvs)
  then show ?case by (cases kv) (auto simp: ok_iff)
qed simp

lemma managed_values_shown:
  assumes "new_adapter rt config = Inr a" "managed_desired_values rt a attributes = Inr selected"
    and "resource_shows a enabled selected resource"
  shows "managed_values a resource = Inr selected"
proof -
  let ?kvs = "sorted_list_of_fmap (sa_managed_attributes a)"
  have shown: "response_attribute resource n = Inr (map_option StringValue (fmlookup selected n))"
    if "(key, n) \<in> set ?kvs" for key n
    using assms(3) that by (simp add: resource_shows_def sorted_list_of_fmap_set)
  then have "ok (read_managed resource fmempty ?kvs)" by (intro read_managed_total) auto
  then obtain m where m: "read_managed resource fmempty ?kvs = Inr m" by (auto simp: ok_iff)
  have inj: "inj_on snd (set ?kvs)"
  proof (rule inj_onI)
    fix x y assume xy: "x \<in> set ?kvs" "y \<in> set ?kvs" "snd x = snd y"
    then have "fmlookup (sa_managed_attributes a) (fst x) = Some (snd x)"
      "fmlookup (sa_managed_attributes a) (fst y) = Some (snd y)" by (auto simp: sorted_list_of_fmap_set)
    then have "fst x = fst y" using new_adapter_managed(2) [OF assms(1)] xy(3) by metis
    then show "x = y" using xy(3) by (simp add: prod_eq_iff)
  qed
  have "distinct ?kvs" using distinct_sorted_list_of_fmap distinct_map by blast
  note lookup = read_managed_lookup [OF m inj this]
  have "fmlookup m n = fmlookup selected n" for n
  proof (cases "n \<in> snd ` set ?kvs")
    case True
    then have "response_attribute resource n = Inr (map_option StringValue (fmlookup selected n))"
      using shown by fastforce
    then show ?thesis using lookup [of n] True
      by (cases "fmlookup selected n") (simp_all add: scalar_string_def)
  next
    case False
    then have "\<nexists>key. fmlookup (sa_managed_attributes a) key = Some n"
      by (force simp: sorted_list_of_fmap_set image_iff)
    then have "fmlookup selected n = None" using managed_desired_dom [OF assms(2), of n] by blast
    then show ?thesis using lookup [of n] False by simp
  qed
  then have "m = selected" by (rule fmap_ext)
  then show ?thesis using m by (simp add: managed_values_def)
qed

text \<open>
  C23. For a desired identity that exists: once the provider's resource shows the desired active flag
  and the managed desired attributes, and no other managed ones, a convergence reports unchanged
  and sends the lookup only: what a patch asks for is what the comparison accepts. (A desired
  absence is judged by the deprovision mode instead, see \<open>comparison_semantics\<close>.)
\<close>

theorem shown_state_is_converged:
  assumes "new_adapter rt config = Inr a" "ip_exists d"
    and "managed_desired_values rt a (ip_attributes d) = Inr selected"
    and "find_resource rt server a (ip_subject_id d) h = (Inr (Some resource), h1)"
    and "resource_shows a (ip_enabled d) selected resource"
  shows "converge (Some (scim_target rt server a)) d h =
    (Inr \<lparr>cr_action = ConvergenceUnchanged,
          cr_observed = \<lparr>os_exists = True, os_enabled = ip_enabled d, os_attributes = selected\<rparr>\<rparr>, h1)"
proof -
  have active: "scim_active resource = Inr (ip_enabled d)"
    using assms(5) by (simp add: scim_active_def resource_shows_def)
  have "scim_observe rt server a (ip_subject_id d) h =
      (Inr \<lparr>os_exists = True, os_enabled = ip_enabled d, os_attributes = selected\<rparr>, h1)"
    using managed_values_shown [OF assms(1,3,5)] by (simp add: scim_observe_def assms(4) active)
  moreover have "scim_state_equivalent rt a
      \<lparr>os_exists = True, os_enabled = ip_enabled d, os_attributes = selected\<rparr> d"
    using assms(2,3) by (simp add: scim_state_equivalent_def state_equivalent_iff)
  ultimately show ?thesis by (simp add: converge_def scim_target_def equivalent_for_def)
qed

theorem shown_state_is_converged_witness:
  "\<exists>r h'. converge (Some (scim_target example_scim one_server example_adapter))
      (example_desired True [(''title'', ''engineer'')]) [] = (Inr r, h') \<and> cr_action r = ConvergenceUnchanged"
proof -
  let ?d = "example_desired True [(''title'', ''engineer'')]" and ?m = "fmap_of_list [(''title'', ''engineer'')]"
  have "(case managed_desired_values example_scim example_adapter (ip_attributes ?d) of
      Inl _ \<Rightarrow> False | Inr m \<Rightarrow> m = ?m)" by code_simp
  then have selected: "managed_desired_values example_scim example_adapter (ip_attributes ?d) = Inr ?m"
    by (auto split: sum.splits)
  have "(case fst (find_resource example_scim one_server example_adapter (ip_subject_id ?d) []) of
      Inr (Some r) \<Rightarrow> r = example_resource | _ \<Rightarrow> False)"
    by (simp add: find_resource_def send_request_def one_server_def example_scim_def is_get_def
        example_desired_def example_resource_def Let_def) code_simp
  then obtain h1 where found: "find_resource example_scim one_server example_adapter (ip_subject_id ?d) [] =
      (Inr (Some example_resource), h1)"
    by (cases "find_resource example_scim one_server example_adapter (ip_subject_id ?d) []")
      (auto split: sum.splits option.splits)
  have "(case response_attribute example_resource ''active'' of Inr (Some (BoolValue b)) \<Rightarrow> b | _ \<Rightarrow> False)"
    "(case response_attribute example_resource ''title'' of Inr (Some (StringValue s)) \<Rightarrow> s = ''engineer'' | _ \<Rightarrow> False)"
    "(case response_attribute example_resource ''department'' of Inr None \<Rightarrow> True | _ \<Rightarrow> False)" by code_simp+
  then have "resource_shows example_adapter (ip_enabled ?d) ?m example_resource"
    by (auto simp: resource_shows_def example_desired_def example_adapter_def
        split: sum.splits option.splits go_value.splits if_splits)
  from shown_state_is_converged [OF new_example_adapter _ selected found this] show ?thesis
    by (simp add: example_desired_def)
qed

text \<open>
  The comparison, case by case: a desired absence is satisfied by an absent or a disabled
  account in disable mode, and in delete mode by an absent account where the desired attributes
  are unambiguous; a desired identity needs an existing account with the same active flag and
  exactly the managed desired attributes.
\<close>

theorem comparison_semantics:
  "scim_state_equivalent rt a observed d =
    (if ip_exists d then
       (case managed_desired_values rt a (ip_attributes d) of
          Inl _ \<Rightarrow> False
        | Inr selected \<Rightarrow> os_exists observed \<and> os_enabled observed = ip_enabled d \<and> os_attributes observed = selected)
     else if sa_deprovision_mode a = DeprovisionDisable then \<not> (os_exists observed \<and> os_enabled observed)
     else ok (managed_desired_values rt a (ip_attributes d)) \<and> \<not> os_exists observed)"
  by (auto simp: scim_state_equivalent_def state_equivalent_iff split: sum.splits)

text \<open>
  In delete mode a projection of an absent identity with two case variants of a managed
  attribute never converges: with no account on the target the run reports an update although
  \<open>Apply\<close> sends no write.
\<close>

theorem absent_ambiguous_reports_update:
  "let a = example_adapter\<lparr>sa_deprovision_mode := DeprovisionDelete\<rparr>;
       run = converge (Some (scim_target example_scim empty_server a))
               (example_desired False [(''title'', ''x''), (''Title'', ''y'')]) [] in
   (case fst run of Inl _ \<Rightarrow> False | Inr r \<Rightarrow> cr_action r = ConvergenceUpdated \<and> \<not> os_exists (cr_observed r)) \<and>
   list_all is_get (snd run)"
  by code_simp

subsection \<open>Texts\<close>

text \<open>
  C27. A subject cannot break out of the lookup filter: read back by the grammar of filter
  strings, the quoted value of the filter is the subject, and nothing of it is left over.
\<close>

theorem filter_value_round_trip:
  "read_quoted (escape_filter_value subject @ quotation # rest) = Some (subject, rest)"
  by (rule read_quoted_escape)

lemma unescape_append: "unescape s = Some p \<Longrightarrow> unescape (s @ t) = map_option (\<lambda>r. p @ r) (unescape t)"
proof (induction s arbitrary: p rule: unescape.induct)
  case (2 c s)
  show ?case
  proof (cases "c = CHR ''%''")
    case True
    then obtain x y rest where s: "s = x # y # rest" using 2(3) by (auto split: list.splits)
    then obtain m n q where mn: "hex_value x = Some m" "hex_value y = Some n" "unescape rest = Some q"
      "p = char_of (16 * m + n) # q"
      using 2(3) True by (auto split: option.splits)
    then show ?thesis using 2(1) [OF True s refl refl mn(1,2) mn(3)] True s
      by (simp add: option.map_comp comp_def)
  next
    case False
    then obtain q where "unescape s = Some q" "p = c # q" using 2(3) by auto
    then show ?thesis using 2(2) [OF False] False by (simp add: option.map_comp comp_def)
  qed
qed (cases "unescape t"; simp)

lemma unescape_last_slash: "unescape (s @ ''/'') = Some p \<Longrightarrow> p \<noteq> [] \<and> last p = CHR ''/''"
proof (induction s arbitrary: p rule: unescape.induct)
  case 1
  then show ?case by auto
next
  case (2 c s)
  have slash: "hex_value (CHR ''/'') = None" by code_simp
  show ?case
  proof (cases "c = CHR ''%''")
    case True
    then obtain x y rest where s: "s = x # y # rest" using 2(3) slash
      by (cases s; cases "tl s") (auto split: option.splits)
    then obtain m n q where "hex_value x = Some m" "hex_value y = Some n" "unescape (rest @ ''/'') = Some q"
      "p = char_of (16 * m + n) # q"
      using 2(3) True by (auto split: option.splits)
    then show ?thesis using 2(1) [OF True s refl refl] by auto
  next
    case False
    then obtain q where "unescape (s @ ''/'') = Some q" "p = c # q" using 2(3) by auto
    then show ?thesis using 2(2) [OF False] by auto
  qed
qed

lemma trim_right_slash_id: "s \<noteq> [] \<Longrightarrow> last s \<noteq> CHR ''/'' \<Longrightarrow> trim_right_slash s = s"
  by (cases s rule: rev_cases) (simp_all add: trim_right_slash_def)

text \<open>The part of a user's URL before its id.\<close>

definition users_prefix :: "scim_adapter \<Rightarrow> string" where
  "users_prefix a =
     (let path = escaped_path (resource_url a ''Users'') in
      url_scheme (sa_base_url a) @ ''://'' @ url_authority (sa_base_url a) @
      (if hd path \<noteq> CHR ''/'' then ''/'' else []) @ path)"

lemma escaped_users_path:
  fixes a :: scim_adapter
  defines "u \<equiv> resource_url a ''Users''"
  shows "unescape (escaped_path u) = Some (url_path u)" "valid_encoded (escaped_path u)"
    "escaped_path u \<noteq> []" "last (escaped_path u) \<noteq> CHR ''/''" "trim_right_slash (url_path u) = url_path u"
proof -
  have path: "url_path u = trim_right_slash (url_path (sa_base_url a)) @ ''/Users''"
    by (simp add: u_def resource_url_def trim_left_slash_def)
  then have star: "url_path u \<noteq> ''*''" by (metis append_is_Nil_conv butlast_append butlast.simps(2) list.distinct(1))
  show decode: "unescape (escaped_path u) = Some (url_path u)"
    using star by (simp add: escaped_path_def unescape_escape)
  show "valid_encoded (escaped_path u)"
    using star by (simp add: escaped_path_def valid_encoded_escape)
  show nonempty: "escaped_path u \<noteq> []" using decode path by auto
  show "last (escaped_path u) \<noteq> CHR ''/''"
  proof
    assume "last (escaped_path u) = CHR ''/''"
    then have "unescape (butlast (escaped_path u) @ ''/'') = Some (url_path u)"
      using decode nonempty by (metis append_butlast_last_id)
    then have "last (url_path u) = CHR ''/''" using unescape_last_slash by blast
    then show False by (simp add: path)
  qed
  show "trim_right_slash (url_path u) = url_path u" by (rule trim_right_slash_id) (simp_all add: path)
qed

text \<open>
  C28. The provider's resource id is one path segment of the URL that a PATCH or DELETE is sent
  to, whatever it contains: the URL is the collection's, a slash, and the encoded id, in which
  there is no slash, question mark or number sign and which decodes to the id.
\<close>

theorem user_url_one_segment:
  assumes "new_adapter rt config = Inr a"
  shows "user_url a rid = users_prefix a @ ''/'' @ escape EncodePathSegment rid @
      (if url_force_query (sa_base_url a) then ''?'' else []) \<and>
    unescape (escape EncodePathSegment rid) = Some rid \<and>
    set (escape EncodePathSegment rid) \<inter> set ''/?#'' = {}"
proof (intro conjI)
  let ?u = "resource_url a ''Users''" and ?id = "escape EncodePathSegment rid"
  note users = escaped_users_path [of a]
  let ?raw = "escaped_path ?u @ ''/'' @ ?id"
  let ?user = "?u\<lparr>url_path := url_path ?u @ ''/'' @ rid, url_raw_path := ?raw\<rparr>"
  have "unescape (''/'' @ ?id) = Some (''/'' @ rid)" by (simp add: unescape_escape)
  then have "unescape ?raw = Some (url_path ?u @ ''/'' @ rid)"
    using unescape_append [OF users(1), of "''/'' @ ?id"] by simp
  moreover have "valid_encoded ?raw"
    using users(2) by (simp add: valid_encoded_append valid_encoded_slash valid_encoded_escape)
  ultimately have "escaped_path ?user = ?raw" by (simp add: escaped_path_def)
  moreover have "user_url a rid = url_string ?user"
    using users(3-5) by (simp add: user_url_def Let_def trim_right_slash_id)
  moreover have "url_raw_query (sa_base_url a) = []"
    using new_adapter_ok [OF assms] by (simp add: adapter_ok_def)
  ultimately show "user_url a rid = users_prefix a @ ''/'' @ ?id @
      (if url_force_query (sa_base_url a) then ''?'' else [])"
    using users(3) by (simp add: url_string_def users_prefix_def Let_def resource_url_def hd_append2)
  show "unescape ?id = Some rid" by (simp add: unescape_escape)
  show "set ?id \<inter> set ''/?#'' = {}" using escape_segment_clean by fastforce
qed

theorem user_url_one_segment_witness:
  "user_url example_adapter ''u/1'' = ''https://h/v2/Users/u%2F1''"
proof -
  have "users_prefix example_adapter = ''https://h/v2/Users''" "escape EncodePathSegment ''u/1'' = ''u%2F1''"
    by code_simp+
  then show ?thesis using user_url_one_segment [OF new_example_adapter, of "''u/1''"]
    by (simp add: example_adapter_def example_url_def)
qed

text \<open>
  A response attribute is found up to case: absent where no name of the resource folds to
  it, its value where exactly one does, and an error where several do; in which order the
  runtime visits the response makes no difference.
\<close>

theorem response_attribute_cases:
  "(response_attribute resource attribute =
     (case filter (\<lambda>(k, v). equal_fold k attribute) (sorted_list_of_fmap resource) of
        [] \<Rightarrow> Inr None
      | [(k, v)] \<Rightarrow> Inr (Some v)
      | _ \<Rightarrow> Inl (AmbiguousAttribute attribute))) \<and>
   (mset kvs = mset (sorted_list_of_fmap resource) \<longrightarrow>
     scan_attribute attribute None kvs = response_attribute resource attribute)"
  by (auto simp: response_attribute_any_order) (auto simp: response_attribute_def scan_attribute_eq split: list.splits)

theorem response_attribute_cases_witness:
  "scan_attribute ''ID'' None (rev (sorted_list_of_fmap example_resource)) = response_attribute example_resource ''ID''"
  using response_attribute_cases [of example_resource "''ID''" "rev (sorted_list_of_fmap example_resource)"] by simp

text \<open>
  The managed desired attributes are refused exactly when two desired names are the same
  managed attribute up to case; otherwise every selected value belongs to a managed attribute.
\<close>

theorem desired_values_refused_iff:
  "(ok (managed_desired_values rt a attributes) \<longleftrightarrow>
     distinct (filter (\<lambda>n. fmlookup (sa_managed_attributes a) n \<noteq> None)
       (map (to_lower (si_lower_unicode rt)) (map fst (sorted_list_of_fmap attributes))))) \<and>
   (\<forall>selected n v. managed_desired_values rt a attributes = Inr selected \<longrightarrow> fmlookup selected n = Some v \<longrightarrow>
     (\<exists>key. fmlookup (sa_managed_attributes a) key = Some n))"
  using managed_desired_dom [of rt a attributes]
  by (auto simp: managed_desired_values_def select_desired_ok_iff Let_def)

theorem desired_values_refused_iff_witness:
  "\<not> ok (managed_desired_values example_scim example_adapter (fmap_of_list [(''title'', ''x''), (''Title'', ''y'')]))"
proof -
  have "\<not> distinct (filter (\<lambda>n. fmlookup (sa_managed_attributes example_adapter) n \<noteq> None)
       (map (to_lower (si_lower_unicode example_scim))
         (map fst (sorted_list_of_fmap (fmap_of_list [(''title'', ''x''), (''Title'', ''y'')])))))" by code_simp
  then show ?thesis using desired_values_refused_iff [THEN conjunct1] by blast
qed

end
