(* ===== verification/Commands.thy ===== *)
theory Commands
  imports Resolve Store Scim
begin

section \<open>The commands (cmd/converge/main.go, cmd/reconcile/main.go)\<close>

text \<open>
  \<open>run\<close> of the converge command composes the store, the adapter and \<open>Converge\<close>; the
  callback \<open>process\<close> updates the report it captures, so its world is the report with the
  requests sent. \<open>readEvents\<close> and \<open>main\<close> of the reconcile command read one JSON
  document and call \<open>ResolveBatch\<close>. Flag parsing, the environment, the file system, the
  clock, JSON decoding of events and RFC 3339 parsing are parameters; the deadline shows only as
  a failure of an operation.
\<close>

subsection \<open>strings.Split\<close>

fun split_on :: "char \<Rightarrow> string \<Rightarrow> string list" where
  "split_on c [] = [[]]"
| "split_on c (d # s) =
     (if d = c then [] # split_on c s
      else (case split_on c s of [] \<Rightarrow> [[d]] | w # ws \<Rightarrow> (d # w) # ws))"

subsection \<open>The converge command\<close>

record report =
  re_subject_id :: string
  re_row_version :: int
  re_mode :: string
  re_action :: string

record converge_flags =
  fl_subject :: string
  fl_subject_attribute :: string
  fl_apply :: bool
  fl_managed_attributes :: string
  fl_deprovision_mode :: string
  fl_timeout :: int
  fl_positional :: nat

datatype process_error =
    AttributeNotManaged string
  | ConvergeFailed "scim_error converge_error"
  | ObservationFailed scim_error

datatype command_error =
    FlagsRejected
  | SubjectRequired
  | TimeoutNotPositive
  | DatabaseUrlRequired
  | AdapterRejected scim_error
  | OpenFailed
  | NoPersistedProjection
  | ProjectionFailed "process_error locked_error"
  | OutputFailed

record converge_environment =
  ce_parse_flags :: "string list \<Rightarrow> converge_flags option"
  ce_getenv :: "string \<Rightarrow> string"
  ce_open :: "string \<Rightarrow> bool"
  ce_output_ok :: bool
  ce_scim :: scim_runtime
  ce_server :: server
  ce_store :: store_runtime
  ce_database :: database
  ce_begin_fails :: bool
  ce_load_fault :: fault
  ce_commit_fails :: bool

text \<open>The list of managed attributes; \<open>allowed\<close> holds the same names.\<close>

definition parse_managed :: "string \<Rightarrow> string list" where
  "parse_managed managed =
     (if trim_space managed = [] then [] else map trim_space (split_on (CHR '','') managed))"

text \<open>
  The loop over the attributes stops at one that is not managed; which one the error names, of
  several, is up to the runtime's map order, here the first.
\<close>

definition process_projection ::
    "scim_runtime \<Rightarrow> server \<Rightarrow> scim_adapter \<Rightarrow> string list \<Rightarrow> bool \<Rightarrow> identity_projection
       \<Rightarrow> report \<times> http_request list \<Rightarrow> process_error option \<times> report \<times> http_request list" where
  "process_projection rt server a allowed apply_changes desired world =
     (let (rep, h) = world; rep1 = rep\<lparr>re_row_version := ip_row_version desired\<rparr> in
      case find (\<lambda>k. k \<notin> set allowed) (sorted_list_of_fset (fmdom (ip_attributes desired))) of
        Some k \<Rightarrow> (Some (AttributeNotManaged k), rep1, h)
      | None \<Rightarrow>
          if apply_changes then
            (let rep2 = rep1\<lparr>re_mode := ''apply''\<rparr> in
             case converge (Some (scim_target rt server a)) desired h of
               (Inl err, h1) \<Rightarrow> (Some (ConvergeFailed err), rep2, h1)
             | (Inr r, h1) \<Rightarrow>
                 (None, rep2\<lparr>re_action :=
                    (case cr_action r of ConvergenceUnchanged \<Rightarrow> ''unchanged'' | ConvergenceUpdated \<Rightarrow> ''updated'')\<rparr>, h1))
          else
            (case scim_observe rt server a (ip_subject_id desired) h of
               (Inl err, h1) \<Rightarrow> (Some (ObservationFailed err), rep1, h1)
             | (Inr observed, h1) \<Rightarrow>
                 (None, rep1\<lparr>re_action :=
                    (if scim_state_equivalent rt a observed desired then ''unchanged'' else ''would_update'')\<rparr>, h1)))"

text \<open>The end of \<open>run\<close>: the projection is processed under its lock, or read and previewed.\<close>

definition run_projection ::
    "converge_environment \<Rightarrow> scim_adapter \<Rightarrow> string list \<Rightarrow> bool \<Rightarrow> string \<Rightarrow> http_request list
       \<Rightarrow> process_error locked_error option \<times> (report \<times> http_request list) \<times> tx_event list" where
  "run_projection env a allowed apply_changes subject h =
     (let rep = \<lparr>re_subject_id = subject, re_row_version = 0, re_mode = ''preview'', re_action = []\<rparr>;
          process = process_projection (ce_scim env) (ce_server env) a allowed apply_changes
      in if apply_changes then
           with_locked_projection (ce_store env) (ce_begin_fails env) (ce_load_fault env) (ce_commit_fails env)
             subject (Some process) (ce_database env) (rep, h)
         else case load_projection (ce_store env) (ce_load_fault env) subject (ce_database env) of
           Inl err \<Rightarrow> (Some (LoadFailed err), (rep, h), [])
         | Inr desired \<Rightarrow>
             (case process desired (rep, h) of
                (Some err, world) \<Rightarrow> (Some (CallbackFailed err), world, [])
              | (None, world) \<Rightarrow> (None, world, [])))"

definition run_converge ::
    "converge_environment \<Rightarrow> string list \<Rightarrow> http_request list
       \<Rightarrow> (command_error + report) \<times> http_request list \<times> tx_event list" where
  "run_converge env args h =
     (case ce_parse_flags env args of
        None \<Rightarrow> (Inl FlagsRejected, h, [])
      | Some flags \<Rightarrow>
      if trim_space (fl_subject flags) = [] \<or> fl_positional flags \<noteq> 0 then (Inl SubjectRequired, h, [])
      else if fl_timeout flags \<le> 0 then (Inl TimeoutNotPositive, h, [])
      else if ce_getenv env ''IDENTITY_DATABASE_URL'' = [] then (Inl DatabaseUrlRequired, h, [])
      else
      (let attributes = parse_managed (fl_managed_attributes flags) in
       case new_adapter (ce_scim env)
              \<lparr>sc_base_url = ce_getenv env ''IDENTITY_SCIM_URL'', sc_token = ce_getenv env ''IDENTITY_SCIM_TOKEN'',
               sc_subject_attribute = fl_subject_attribute flags, sc_managed_attributes = attributes,
               sc_deprovision_mode = fl_deprovision_mode flags\<rparr> of
         Inl err \<Rightarrow> (Inl (AdapterRejected err), h, [])
       | Inr a \<Rightarrow>
       if \<not> ce_open env (ce_getenv env ''IDENTITY_DATABASE_URL'') then (Inl OpenFailed, h, [])
       else
       (case run_projection env a attributes (fl_apply flags) (fl_subject flags) h of
          (Some (LoadFailed (StatementFailed NoRows)), (rep, h1), trace) \<Rightarrow> (Inl NoPersistedProjection, h1, trace)
        | (Some err, (rep, h1), trace) \<Rightarrow> (Inl (ProjectionFailed err), h1, trace)
        | (None, (rep, h1), trace) \<Rightarrow>
            (if ce_output_ok env then Inr rep else Inl OutputFailed, h1, trace))))"

subsection \<open>The reconcile command\<close>

text \<open>
  A JSON decoder over a byte sequence: the events of the first document with what follows it, and
  what a second call finds there.
\<close>

datatype next_document = EndOfInput | AnotherDocument | MalformedInput

record reconcile_environment =
  rc_read_file :: "string \<Rightarrow> string option"
  rc_decode_events :: "string \<Rightarrow> (physical_event list \<times> string) option"
  rc_decode_next :: "string \<Rightarrow> next_document"
  rc_clock :: go_time
  rc_parse_time :: "string \<Rightarrow> go_time option"
  rc_runtime :: go_runtime
  rc_output_ok :: bool

datatype reconcile_error =
    ReadFailed
  | DecodeEventsFailed
  | MoreThanOneDocument
  | TrailingGarbage
  | NowRejected
  | ResolveFailed resolve_error
  | EncodeResultFailed

definition read_events :: "reconcile_environment \<Rightarrow> string \<Rightarrow> reconcile_error + physical_event list" where
  "read_events env path =
     (case rc_read_file env path of
        None \<Rightarrow> Inl ReadFailed
      | Some bytes \<Rightarrow>
      (case rc_decode_events env bytes of
        None \<Rightarrow> Inl DecodeEventsFailed
      | Some (events, rest) \<Rightarrow>
      (case rc_decode_next env rest of
         EndOfInput \<Rightarrow> Inr events
       | AnotherDocument \<Rightarrow> Inl MoreThanOneDocument
       | MalformedInput \<Rightarrow> Inl TrailingGarbage)))"

definition reconcile_main ::
    "reconcile_environment \<Rightarrow> string \<Rightarrow> string \<Rightarrow> reconcile_error + batch_result" where
  "reconcile_main env path now_value =
     (case read_events env path of
        Inl err \<Rightarrow> Inl err
      | Inr events \<Rightarrow>
      (case (if now_value \<noteq> [] then rc_parse_time env now_value else Some (normalize_time (rc_clock env))) of
        None \<Rightarrow> Inl NowRejected
      | Some now \<Rightarrow>
      (case resolve_batch (rc_runtime env) events (default_policy now) of
         Inl err \<Rightarrow> Inl (ResolveFailed err)
       | Inr result \<Rightarrow> if rc_output_ok env then Inr result else Inl EncodeResultFailed)))"

end
