(* ===== verification/CommandContracts.thy ===== *)
theory CommandContracts
  imports Commands ScimContracts StoreContracts Engine
begin

section \<open>The contract of the commands\<close>

text \<open>
  What a run of the converge command can do to the target: nothing without a persisted
  projection whose attributes are all managed, reads only in a preview, and at most one write,
  under the row lock, in an apply; a preview reports what an apply would do. They compose the
  contracts of the store and of the adapter. The reconcile command composes its decoder with
  the contract of the engine.
\<close>

subsection \<open>A concrete environment\<close>

text \<open>The stored projection, the account of \<open>one_server\<close>, and one managed attribute.\<close>

definition example_flags :: "bool \<Rightarrow> converge_flags" where
  "example_flags apply_changes =
     \<lparr>fl_subject = ''person-001'', fl_subject_attribute = ''externalId'', fl_apply = apply_changes,
      fl_managed_attributes = ''title'', fl_deprovision_mode = ''disable'', fl_timeout = 30,
      fl_positional = 0\<rparr>"

definition example_environment :: converge_environment where
  "example_environment =
     \<lparr>ce_parse_flags = (\<lambda>args. Some (example_flags (args = [''-apply'']))),
      ce_getenv = (\<lambda>name. if name = ''IDENTITY_SCIM_TOKEN'' then [] else ''url''),
      ce_open = (\<lambda>url. True), ce_output_ok = True, ce_scim = example_scim, ce_server = one_server,
      ce_store = example_store, ce_database = example_state_database, ce_begin_fails = False,
      ce_load_fault = NoFault, ce_commit_fails = False\<rparr>"

subsection \<open>Helpers\<close>

lemma find_None_all: "find P xs = None \<longleftrightarrow> (\<forall>x\<in>set xs. \<not> P x)"
  by (induction xs) auto

text \<open>The requests that processing a projection sends.\<close>

lemma process_projection_requests:
  "\<exists>log. snd (snd (process_projection rt server a allowed apply_changes ip (rep, h))) = h @ log \<and>
     length (writes is_get log) \<le> 1 \<and> (\<not> apply_changes \<longrightarrow> writes is_get log = []) \<and>
     (log \<noteq> [] \<longrightarrow> fset (fmdom (ip_attributes ip)) \<subseteq> set allowed)"
proof (cases "find (\<lambda>k. k \<notin> set allowed) (sorted_list_of_fset (fmdom (ip_attributes ip)))")
  case (Some k)
  then show ?thesis by (simp add: process_projection_def writes_def)
next
  case None
  then have managed: "fset (fmdom (ip_attributes ip)) \<subseteq> set allowed"
    by (auto simp: find_None_all sorted_list_of_fset.rep_eq)
  show ?thesis
  proof (cases apply_changes)
    case True
    have "snd (snd (process_projection rt server a allowed apply_changes ip (rep, h))) =
        snd (converge (Some (scim_target rt server a)) ip h)"
      by (auto simp: process_projection_def None True Let_def split: prod.splits sum.splits)
    then show ?thesis using scim.converge_extends [of rt server a ip h] managed True by auto
  next
    case False
    have "snd (snd (process_projection rt server a allowed apply_changes ip (rep, h))) =
        snd (ta_observe (scim_target rt server a) (ip_subject_id ip) h)"
      by (auto simp: process_projection_def None False scim_target_def Let_def split: prod.splits sum.splits)
    then show ?thesis using scim.observe_reads [of rt server a "ip_subject_id ip" h] managed by auto
  qed
qed

text \<open>A run that sends requests has loaded the projection it is about.\<close>

lemma run_projection_requests:
  assumes "run_projection env a allowed apply_changes subject h = (r, (rep, h'), trace)"
  shows "\<exists>log. h' = h @ log \<and> length (writes is_get log) \<le> 1 \<and>
    (\<not> apply_changes \<longrightarrow> writes is_get log = []) \<and>
    (log \<noteq> [] \<longrightarrow> (\<exists>ip. load_projection (ce_store env) (ce_load_fault env) subject (ce_database env) = Inr ip \<and>
       fset (fmdom (ip_attributes ip)) \<subseteq> set allowed)) \<and>
    (log \<noteq> [] \<and> apply_changes \<longrightarrow>
       (\<exists>e. trace = [TxBegin, TxSelectForUpdate subject, TxCallback, e] \<and> e \<in> {TxCommit, TxRollback}))"
proof -
  let ?rep = "\<lparr>re_subject_id = subject, re_row_version = 0, re_mode = ''preview'', re_action = []\<rparr>"
  let ?process = "process_projection (ce_scim env) (ce_server env) a allowed apply_changes"
  show ?thesis
  proof (cases "load_projection (ce_store env) (ce_load_fault env) subject (ce_database env)")
    case (Inl err)
    then have "h' = h" using assms
      by (auto simp: run_projection_def with_locked_projection_def Let_def split: if_splits)
    then show ?thesis by (simp add: writes_def)
  next
    case (Inr ip)
    obtain log where log: "snd (snd (?process ip (?rep, h))) = h @ log" "length (writes is_get log) \<le> 1"
      "\<not> apply_changes \<longrightarrow> writes is_get log = []" "log \<noteq> [] \<longrightarrow> fset (fmdom (ip_attributes ip)) \<subseteq> set allowed"
      using process_projection_requests by blast
    have "h' = h \<or> h' = h @ log \<and>
        (apply_changes \<longrightarrow> (\<exists>e. trace = [TxBegin, TxSelectForUpdate subject, TxCallback, e] \<and> e \<in> {TxCommit, TxRollback}))"
      using assms log(1) Inr
      by (auto simp: run_projection_def with_locked_projection_def Let_def
          split: if_splits prod.splits option.splits)
    then show ?thesis
    proof
      assume "h' = h"
      then show ?thesis by (simp add: writes_def)
    next
      assume "h' = h @ log \<and>
        (apply_changes \<longrightarrow> (\<exists>e. trace = [TxBegin, TxSelectForUpdate subject, TxCallback, e] \<and> e \<in> {TxCommit, TxRollback}))"
      then show ?thesis using log(2-4) Inr by blast
    qed
  qed
qed

text \<open>A preview and an apply of the same projection on the same target.\<close>

lemma process_preview:
  assumes "process_projection rt server a allowed False ip (rep, h) = (None, rep1, h1)"
    and "process_projection rt server a allowed True ip (rep, h) = (None, rep2, h2)"
  shows "re_row_version rep2 = re_row_version rep1"
    and "re_action rep2 = (if re_action rep1 = ''unchanged'' then ''unchanged'' else ''updated'')"
    and "re_action rep1 = ''unchanged'' \<Longrightarrow> h2 = h1"
  using assms
  by (auto simp: process_projection_def converge_def scim_target_def equivalent_for_def Let_def
      split: option.splits prod.splits sum.splits if_splits)

text \<open>The configuration of the adapter that the command makes.\<close>

abbreviation command_config :: "converge_environment \<Rightarrow> converge_flags \<Rightarrow> scim_config" where
  "command_config env flags \<equiv>
     \<lparr>sc_base_url = ce_getenv env ''IDENTITY_SCIM_URL'', sc_token = ce_getenv env ''IDENTITY_SCIM_TOKEN'',
      sc_subject_attribute = fl_subject_attribute flags,
      sc_managed_attributes = parse_managed (fl_managed_attributes flags),
      sc_deprovision_mode = fl_deprovision_mode flags\<rparr>"

text \<open>A run of the command is a rejection before any request, or a run over the projection.\<close>

lemma run_converge_cases:
  assumes "run_converge env args h = (r, h', trace)"
  obtains (rejected) "h' = h" "trace = []" "\<not> ok r"
  | (ran) flags a outcome rep where "ce_parse_flags env args = Some flags"
      "new_adapter (ce_scim env) (command_config env flags) = Inr a"
      "run_projection env a (parse_managed (fl_managed_attributes flags)) (fl_apply flags) (fl_subject flags) h =
         (outcome, (rep, h'), trace)"
      "ok r \<Longrightarrow> r = Inr rep \<and> outcome = None"
proof (cases "ce_parse_flags env args")
  case None
  then show thesis using assms rejected by (auto simp: run_converge_def)
next
  case (Some flags)
  let ?url = "ce_getenv env ''IDENTITY_DATABASE_URL''"
  show thesis
  proof (cases "(trim_space (fl_subject flags) = [] \<or> fl_positional flags \<noteq> 0) \<or> fl_timeout flags \<le> 0 \<or>
      ?url = [] \<or> (\<exists>e. new_adapter (ce_scim env) (command_config env flags) = Inl e) \<or> \<not> ce_open env ?url")
    case True
    then show thesis using assms Some rejected
      by (auto simp: run_converge_def Let_def split: if_splits sum.splits)
  next
    case False
    then obtain a where a: "new_adapter (ce_scim env) (command_config env flags) = Inr a"
      by (cases "new_adapter (ce_scim env) (command_config env flags)") auto
    obtain outcome rep h1 trace1 where run: "run_projection env a (parse_managed (fl_managed_attributes flags))
        (fl_apply flags) (fl_subject flags) h = (outcome, (rep, h1), trace1)"
      by (metis surjective_pairing)
    have "h' = h1" "trace = trace1" "ok r \<Longrightarrow> r = Inr rep \<and> outcome = None"
      using assms False
      by (auto simp: run_converge_def Some a run Let_def
          split: option.splits locked_error.splits store_error.splits db_error.splits if_splits)
    then show thesis using ran [OF Some a, of outcome rep] run by blast
  qed
qed

subsection \<open>The converge command\<close>

text \<open>
  C4. A run sends at most one request that changes the target, whatever fails, and none without
  the apply flag; and it sends requests only after it has loaded a persisted projection all of
  whose attributes are on the command line, in an apply between taking and releasing the row
  lock.
\<close>

theorem converge_command_requests:
  assumes "run_converge env args h = (r, h', trace)"
  shows "\<exists>log. h' = h @ log \<and> length (filter (\<lambda>q. \<not> is_get q) log) \<le> 1 \<and>
    (log \<noteq> [] \<longrightarrow> (\<exists>flags ip. ce_parse_flags env args = Some flags \<and>
       load_projection (ce_store env) (ce_load_fault env) (fl_subject flags) (ce_database env) = Inr ip \<and>
       fset (fmdom (ip_attributes ip)) \<subseteq> set (parse_managed (fl_managed_attributes flags)) \<and>
       (\<not> fl_apply flags \<longrightarrow> filter (\<lambda>q. \<not> is_get q) log = []) \<and>
       (fl_apply flags \<longrightarrow> (\<exists>e. trace = [TxBegin, TxSelectForUpdate (fl_subject flags), TxCallback, e] \<and>
          e \<in> {TxCommit, TxRollback}))))"
  using assms
proof (cases rule: run_converge_cases)
  case rejected
  then show ?thesis by simp
next
  case (ran flags a outcome rep)
  obtain log where log: "h' = h @ log" "length (writes is_get log) \<le> 1"
    "\<not> fl_apply flags \<longrightarrow> writes is_get log = []"
    "log \<noteq> [] \<longrightarrow> (\<exists>ip. load_projection (ce_store env) (ce_load_fault env) (fl_subject flags) (ce_database env) = Inr ip \<and>
       fset (fmdom (ip_attributes ip)) \<subseteq> set (parse_managed (fl_managed_attributes flags)))"
    "log \<noteq> [] \<and> fl_apply flags \<longrightarrow>
       (\<exists>e. trace = [TxBegin, TxSelectForUpdate (fl_subject flags), TxCallback, e] \<and> e \<in> {TxCommit, TxRollback})"
    using run_projection_requests [OF ran(3)] by blast
  then show ?thesis using ran(1) by (auto simp: writes_def)
qed

theorem converge_command_requests_witness:
  "\<exists>h' trace e. snd (run_converge example_environment [''-apply''] []) = (h', trace) \<and> length h' = 3 \<and>
     length (filter (\<lambda>q. \<not> is_get q) h') \<le> 1 \<and>
     trace = [TxBegin, TxSelectForUpdate ''person-001'', TxCallback, e]"
proof -
  have check: "length (fst (snd (run_converge example_environment [''-apply''] []))) = 3" by code_simp
  obtain r h' trace where run: "run_converge example_environment [''-apply''] [] = (r, h', trace)"
    by (metis surjective_pairing)
  then have "h' \<noteq> []" using check by auto
  then show ?thesis using converge_command_requests [OF run] run check
    by (auto simp: example_environment_def example_flags_def)
qed

text \<open>
  C17. A preview tells what an apply would do: run on the same database and the same target, an
  apply that succeeds reports the same row version, and \<open>unchanged\<close> exactly where the preview
  did, in which case it has sent the same requests; otherwise \<open>updated\<close>.
\<close>

theorem preview_predicts_apply:
  assumes "ce_parse_flags env args = Some (f\<lparr>fl_apply := False\<rparr>)"
    and "ce_parse_flags env args' = Some (f\<lparr>fl_apply := True\<rparr>)"
    and "run_converge env args h = (Inr rep, h1, trace)"
    and "run_converge env args' h = (Inr rep', h2, trace')"
  shows "re_row_version rep' = re_row_version rep \<and>
    re_action rep' = (if re_action rep = ''unchanged'' then ''unchanged'' else ''updated'') \<and>
    (re_action rep = ''unchanged'' \<longrightarrow> h2 = h1)"
proof -
  obtain a where a: "new_adapter (ce_scim env) (command_config env f) = Inr a"
    and preview: "run_projection env a (parse_managed (fl_managed_attributes f)) False (fl_subject f) h =
        (None, (rep, h1), trace)"
    using assms(3) by (cases rule: run_converge_cases) (use assms(1) in auto)
  have apply_run: "run_projection env a (parse_managed (fl_managed_attributes f)) True (fl_subject f) h =
      (None, (rep', h2), trace')"
    using assms(4) by (cases rule: run_converge_cases) (use assms(2) a in auto)
  let ?rep = "\<lparr>re_subject_id = fl_subject f, re_row_version = 0, re_mode = ''preview'', re_action = []\<rparr>"
  let ?process = "process_projection (ce_scim env) (ce_server env) a (parse_managed (fl_managed_attributes f))"
  obtain ip where ip: "load_projection (ce_store env) (ce_load_fault env) (fl_subject f) (ce_database env) = Inr ip"
    and p1: "?process False ip (?rep, h) = (None, rep, h1)"
    using preview by (auto simp: run_projection_def Let_def split: sum.splits prod.splits option.splits)
  have p2: "?process True ip (?rep, h) = (None, rep', h2)"
    using apply_run ip by (auto simp: run_projection_def with_locked_projection_def Let_def
        split: if_splits prod.splits option.splits)
  show ?thesis using process_preview [OF p1 p2] by simp
qed

theorem preview_predicts_apply_witness:
  "\<exists>rep h2 trace. run_converge example_environment [''-apply''] [] = (Inr rep, h2, trace) \<and>
     re_action rep = ''updated'' \<and> re_row_version rep = 0"
proof -
  have "(case run_converge example_environment [] [] of
      (Inr rep, _) \<Rightarrow> re_action rep = ''would_update'' \<and> re_row_version rep = 0 | _ \<Rightarrow> False)"
    "ok (fst (run_converge example_environment [''-apply''] []))" by code_simp+
  then obtain rep h1 trace where run1: "run_converge example_environment [] [] = (Inr rep, h1, trace)"
    and report: "re_action rep = ''would_update''" "re_row_version rep = 0"
    and "\<exists>rep'. fst (run_converge example_environment [''-apply''] []) = Inr rep'"
    by (auto simp: ok_iff split: prod.splits sum.splits)
  then obtain rep' h2 trace' where
    run2: "run_converge example_environment [''-apply''] [] = (Inr rep', h2, trace')"
    by (metis surjective_pairing)
  have flags: "ce_parse_flags example_environment [] = Some ((example_flags True)\<lparr>fl_apply := False\<rparr>)"
    "ce_parse_flags example_environment [''-apply''] = Some ((example_flags True)\<lparr>fl_apply := True\<rparr>)"
    by (simp_all add: example_environment_def example_flags_def)
  show ?thesis using preview_predicts_apply [OF flags run1 run2] run2 report by simp
qed

subsection \<open>The reconcile command\<close>

lemma reconcile_main_Inr:
  "reconcile_main env path now_value = Inr r \<longleftrightarrow>
     (\<exists>events now. read_events env path = Inr events \<and>
        (if now_value \<noteq> [] then rc_parse_time env now_value else Some (normalize_time (rc_clock env))) = Some now \<and>
        resolve_batch (rc_runtime env) events (default_policy now) = Inr r \<and> rc_output_ok env)"
  by (auto simp: reconcile_main_def split: sum.splits option.splits if_splits)

text \<open>
  C34. The command is reproducible: with an evaluation time on its command line the whole result
  does not depend on the clock; and another file with the same set of events, in any order and
  any number of times, gives the same projections and the same decisions for the first delivery
  of each event, where the payload hashes of the events do not collide.
\<close>

theorem reconcile_command_reproducible:
  assumes "read_events env path = Inr es" "hash_injective_on (rc_runtime env) (set es)"
    and "read_events env path' = Inr es'" "set es' = set es"
    and "now_value \<noteq> []" "reconcile_main env path now_value = Inr r"
  shows "reconcile_main (env\<lparr>rc_clock := later\<rparr>) path now_value = Inr r \<and>
    (\<exists>r'. reconcile_main (env\<lparr>rc_clock := later\<rparr>) path' now_value = Inr r' \<and>
       br_projections r' = br_projections r \<and>
       mset (first_deliveries (br_decisions r')) = mset (first_deliveries (br_decisions r)))"
proof -
  obtain now where now: "rc_parse_time env now_value = Some now" "rc_output_ok env"
    and resolved: "resolve_batch (rc_runtime env) es (default_policy now) = Inr r"
    using assms(1,5,6) by (auto simp: reconcile_main_Inr)
  obtain r' where "resolve_batch (rc_runtime env) es' (default_policy now) = Inr r'"
    "br_projections r' = br_projections r"
    "mset (first_deliveries (br_decisions r')) = mset (first_deliveries (br_decisions r))"
    using resolve_same_events [OF assms(2,4) resolved] by metis
  moreover have "read_events (env\<lparr>rc_clock := later\<rparr>) path' = Inr es'"
    "read_events (env\<lparr>rc_clock := later\<rparr>) path = Inr es"
    using assms(1,3) by (auto simp: read_events_def split: option.splits next_document.splits)
  ultimately show ?thesis using now resolved assms(5) by (auto simp: reconcile_main_Inr)
qed

definition example_reconcile :: reconcile_environment where
  "example_reconcile =
     \<lparr>rc_read_file = Some,
      rc_decode_events = (\<lambda>s. Some (if s = ''a.json'' then example_events else rev example_events, [])),
      rc_decode_next = (\<lambda>s. EndOfInput), rc_clock = zero_time, rc_parse_time = (\<lambda>s. Some example_now),
      rc_runtime = example_runtime, rc_output_ok = True\<rparr>"

theorem reconcile_command_reproducible_witness:
  "\<exists>r r'. reconcile_main example_reconcile ''a.json'' ''now'' = Inr r \<and>
     reconcile_main (example_reconcile\<lparr>rc_clock := utc 5\<rparr>) ''a.json'' ''now'' = Inr r \<and>
     reconcile_main (example_reconcile\<lparr>rc_clock := utc 5\<rparr>) ''b.json'' ''now'' = Inr r' \<and>
     br_projections r' = br_projections r"
proof -
  obtain r where "resolve_batch example_runtime example_events (default_policy example_now) = Inr r"
    by (rule example_result)
  then have run: "reconcile_main example_reconcile ''a.json'' ''now'' = Inr r"
    by (simp add: reconcile_main_Inr read_events_def example_reconcile_def)
  have files: "read_events example_reconcile ''a.json'' = Inr example_events"
    "read_events example_reconcile ''b.json'' = Inr (rev example_events)"
    "hash_injective_on (rc_runtime example_reconcile) (set example_events)"
    using example_hashes by (simp_all add: read_events_def example_reconcile_def)
  show ?thesis
    using reconcile_command_reproducible [OF files(1,3,2) set_rev _ run, of "utc 5"] run by blast
qed

end
