(* ===== verification/Spec2Isabelle.thy ===== *)
theory Spec2Isabelle
  imports Contracts StoreContracts ScimContracts CommandContracts
begin

text \<open>
  A verification library for deterministic identity reconciliation: the engine in
  \<open>src/pkg/reconcile\<close>, the PostgreSQL store in \<open>src/pkg/store/postgres\<close> with
  the tables of \<open>src/schema/postgres.sql\<close>, the SCIM adapter in
  \<open>src/pkg/adapter/scim\<close>, and the two commands in \<open>src/cmd\<close>.

  \<^bold>\<open>The program.\<close> Source systems deliver physical events at least once and in any
  order. \<open>Canonicalize\<close> validates an event and turns it into a canonical fact;
  \<open>ResolveBatch\<close> drops replays, keeps the freshest revision of every fact key, lets the
  policy decide each fact, and folds the accepted facts of a subject, in effective order, into
  one projection. The store keeps events, facts and projections under SQL statements that
  advance a row only to a fresher tuple and, for projections, only from the row version the
  caller has read. \<open>Converge\<close> reads a target, compares, and writes where they differ; the
  SCIM adapter is such a target. The converge command loads a persisted projection, under a row
  lock when it applies, and runs a preview or \<open>Converge\<close>; the reconcile command evaluates a
  file of events.

  \<^bold>\<open>Which theory models what.\<close>

    \<^item> \<^verbatim>\<open>Prelude\<close>: results, Go maps, the first-occurrence scan, and the locales of
      a three-way comparison and of a \<open>less\<close> function for \<open>sort.Slice\<close>.
    \<^item> \<^verbatim>\<open>GoText\<close>, \<^verbatim>\<open>GoTime\<close>, \<^verbatim>\<open>GoUrl\<close>: what the
      program uses of \<open>strings\<close>, \<open>time\<close> (saturating \<open>Add\<close> and
      \<open>Sub\<close>, the RFC 3339 text) and \<open>net/url\<close> (escaping and the text of a URL).
    \<^item> \<^verbatim>\<open>Facts\<close>: the types of \<open>model.go\<close> and
      \<open>FreshnessTuple.Compare\<close>, which interprets the comparison locale.
    \<^item> \<^verbatim>\<open>Policies\<close> and \<^verbatim>\<open>Canonical\<close>: \<open>policy.go\<close> and
      \<open>canonicalize.go\<close>; \<^verbatim>\<open>Contracts\<close> has their properties.
    \<^item> \<^verbatim>\<open>Resolve\<close>: \<open>ResolveBatch\<close> and \<open>applyFact\<close> of
      \<open>resolve.go\<close>. \<^verbatim>\<open>Timeline\<close>, \<^verbatim>\<open>Projections\<close> and
      \<^verbatim>\<open>Batch\<close> describe a successful batch without its loops (an abstract
      result over the set of facts); \<^verbatim>\<open>Engine\<close>, \<^verbatim>\<open>Outcomes\<close> and
      \<^verbatim>\<open>Accounting\<close> have the properties: order and repetition of deliveries,
      what a projection says, decisions, isolation, refusal. \<^verbatim>\<open>Examples\<close> holds the
      fixture \<open>examples/events.json\<close> for the witnesses.
    \<^item> \<^verbatim>\<open>Converge\<close>: \<open>StateEquivalent\<close> and \<open>Converge\<close>, and the
      locale \<open>reading_target\<close>, the contract of a target adapter, in which the lemmas
      about \<open>Converge\<close> are proved once.
    \<^item> \<^verbatim>\<open>Store\<close>: \<open>postgres.go\<close>, one function per SQL statement over a record
      of three tables and one per method. \<^verbatim>\<open>StoreLemmas\<close> and
      \<^verbatim>\<open>Persistence\<close> have the outcomes of the methods and the store as a step relation
      over every interleaving of sessions, with the invariant of the direction in which rows
      change; \<^verbatim>\<open>Winners\<close> the refinement between upserting a batch and the
      engine's selection; \<^verbatim>\<open>StoreContracts\<close> the properties.
    \<^item> \<^verbatim>\<open>Scim\<close>: \<open>scim.go\<close>. \<^verbatim>\<open>ScimLemmas\<close> interprets
      \<open>reading_target\<close> on the adapter, \<^verbatim>\<open>ScimText\<close> has the lemmas on names
      and escaping, \<^verbatim>\<open>ScimContracts\<close> the properties.
    \<^item> \<^verbatim>\<open>Commands\<close>: \<open>run\<close> of \<open>src/cmd/converge/main.go\<close>,
      \<open>main\<close> and \<open>readEvents\<close> of \<open>src/cmd/reconcile/main.go\<close>;
      \<^verbatim>\<open>CommandContracts\<close> their properties, which compose those of the store, the
      adapter and the engine.
    \<^item> This theory: what happens between the engine and the store, where the effective order
      of the projections and the freshness order of the rows disagree.

  \<^bold>\<open>Representation.\<close> A Go string is a list of bytes, a Go map a finite map, a struct a
  record with a prefix per struct, an error a constructor of a sum. Where Go ranges over a map
  the model visits the keys in sorted order; the properties that could depend on it say so.
  Loops are structural recursions over lists, so every definition is total and executable and no
  fuel is needed. An \<open>int64\<close> that is only compared is an integer; the arithmetic of times
  and durations and the increment of \<open>row_version\<close> write out what happens at the limits.

  \<^bold>\<open>Parameters.\<close> Code outside the repository is an argument: \<open>go_runtime\<close>
  (Unicode lower-casing, \<open>FormatFloat\<close>, \<open>json.Marshal\<close> of the envelope, SHA-256),
  \<open>store_runtime\<close> (the server's time precision, collation, text encoding and jsonb, and
  the JSON of payloads and attributes), \<open>scim_runtime\<close> (URL parsing, JSON, acceptance of a
  URL), the \<open>server\<close> (any function of the requests so far) and the environments of the
  commands. Hypotheses on them are named in the theorems: \<open>hash_injective_on\<close> (no collision
  among the payloads of one batch); of the collation of the server, that it is transitive
  (\<open>store_history\<close>) and irreflexive (\<open>late_correction_not_persisted\<close>), or that it is
  bytewise, as Go compares strings (\<open>stored_facts_are_winners\<close>, \<open>sql_order_is_compare\<close>);
  times that the server stores exactly, in the same two theorems; and \<open>policy_in_range\<close>
  (windows below the greatest duration and instants far from the ends of the calendar). The
  witnesses instantiate them with concrete functions.

  \<^bold>\<open>Failures.\<close> A statement of the store can fail before or after it took effect, or
  lose its row count; between the two statements of \<open>InsertPhysicalEvent\<close> other sessions
  may do anything. A request to the provider may get no answer or any answer, whether or not it
  had an effect. Deadlines show only as such failures.

  \<^bold>\<open>Not modelled.\<close> \<open>Policy.String\<close> (a log format that no code depends on);
  JSON decoding of events and projections, parsing of URLs, times and flags (parameters); the
  texts of error messages; the \<open>main\<close> of the converge command and \<open>fail\<close> (print
  and exit); HTTP connection handling, redirects and cancellation; and the Python scripts,
  which only run tests.
\<close>

section \<open>From the engine to the store\<close>

text \<open>
  A projection carries the freshness of the accepted fact that was applied last in effective
  order, and the store advances a row only to a fresher one. The two orders are not the same:
  a projection whose last fact is not fresher than the stored row is refused, now and after
  anything that sessions may do to the store.
\<close>

subsection \<open>Refusal\<close>

lemma compare_and_set_refused:
  assumes "fmlookup (db_canonical_state db) (ip_subject_id ip) = Some row"
    and "\<And>m. sr_instant s (ft_modification_time (ip_freshness ip)) = Some m \<Longrightarrow>
      \<not> older_clause (sr_text_less s) (state_order_columns row)
        (ft_source_sequence (ip_freshness ip), m, ft_revision_number (ip_freshness ip), ft_event_key (ip_freshness ip))"
  shows "fst (compare_and_set_projection s fault expected ip db) \<noteq> Inr True \<and>
    snd (compare_and_set_projection s fault expected ip db) = db"
proof -
  have refused: "cas_outcome (sr_text_less s) expected (Some row) new \<noteq> Inr v"
    if "state_row_of s ip attributes = Some new" for attributes new v
    using assms(2) state_row_of_sel(9-12) [OF that]
    by (auto simp: cas_outcome_def state_order_columns_def)
  define db' where "db' = snd (compare_and_set_projection s fault expected ip db)"
  then have "db' = db"
    by (cases rule: compare_and_set_effect) (use refused assms(1) in auto)
  moreover have "fst (compare_and_set_projection s fault expected ip db) \<noteq> Inr True"
  proof
    assume "fst (compare_and_set_projection s fault expected ip db) = Inr True"
    then have "compare_and_set_projection s fault expected ip db = (Inr True, db')"
      by (simp add: db'_def prod_eq_iff)
    then show False by (rule compare_and_set_TrueD) (use refused assms(1) in auto)
  qed
  ultimately show ?thesis by (simp add: db'_def)
qed

lemma latest_suchI: "list_ex (\<lambda>c. latest_such P cs c \<and> Q c) cs \<Longrightarrow> \<exists>c. latest_such P cs c \<and> Q c"
  by (auto simp: list_ex_iff)

text \<open>
  C36. A termination can be refused by the store for ever: where the accepted fact that a batch
  applies last to a subject is a termination, the projection is terminated and disabled; but
  where the stored row of the subject carries a greater source sequence than the termination, no
  compare-and-set of this projection succeeds or changes anything, with any expected version,
  neither on that database nor on any that the store's operations can make of it.
\<close>

theorem late_termination_not_persisted:
  assumes "resolve_batch rt es p = Inr r"
    and "latest_such (\<lambda>d. True) (accepted_of r subject) c" "cf_event_type c = Termination"
    and "fmlookup (db_canonical_state db) subject = Some row"
    and "ft_source_sequence (cf_freshness c) < st_source_sequence row"
    and "(store_step s)\<^sup>*\<^sup>* db db'"
  shows "\<exists>ip. fmlookup (br_projections r) subject = Some ip \<and>
    ip_lifecycle_state ip = StateTerminated \<and> \<not> ip_enabled ip \<and>
    (\<forall>fault expected. fst (compare_and_set_projection s fault expected ip db') \<noteq> Inr True \<and>
       snd (compare_and_set_projection s fault expected ip db') = db')"
proof -
  obtain ip where ip: "fmlookup (br_projections r) subject = Some ip" "ip_subject_id ip = subject"
    "ip_freshness ip = cf_freshness c"
    using assms(1,2) by (rule latest_freshness)
  have "latest_such (\<lambda>c. sets_lifecycle (cf_event_type c)) (accepted_of r subject) c"
    using assms(2,3) by (simp add: latest_such_def list_all_iff)
  with assms(1) obtain ip' where "fmlookup (br_projections r) subject = Some ip'"
    "(ip_exists ip', ip_enabled ip', ip_lifecycle_state ip') = lifecycle_after (cf_event_type c)"
    by (rule latest_lifecycle)
  then have terminated: "ip_lifecycle_state ip = StateTerminated" "\<not> ip_enabled ip"
    using ip(1) assms(3) by simp_all
  obtain later where later: "fmlookup (db_canonical_state db') (ip_subject_id ip) = Some later"
    "st_source_sequence row \<le> st_source_sequence later"
    using reachable_sequence [OF assms(6,4)] ip(2) by auto
  then have "\<not> older_clause (sr_text_less s) (state_order_columns later)
      (ft_source_sequence (ip_freshness ip), m, ft_revision_number (ip_freshness ip), ft_event_key (ip_freshness ip))" for m
    using assms(5) ip(3) by (simp add: state_order_columns_def)
  then show ?thesis using compare_and_set_refused [OF later(1)] ip(1) terminated by blast
qed

text \<open>
  A hire and a data update are persisted with sequence 30; then the termination with sequence 20
  and a later effective time arrives.
\<close>

definition persisted :: "identity_projection \<Rightarrow> database" where
  "persisted ip = snd (compare_and_set_projection example_store NoFault 0 ip empty_database)"

definition successive_check ::
    "physical_event list \<Rightarrow> physical_event list
       \<Rightarrow> (batch_result \<Rightarrow> batch_result \<Rightarrow> identity_projection \<Rightarrow> identity_projection \<Rightarrow> bool) \<Rightarrow> bool" where
  "successive_check es1 es2 P =
     result_satisfies (\<lambda>r1. result_satisfies (\<lambda>r2.
       (case (fmlookup (br_projections r1) ''person-001'', fmlookup (br_projections r2) ''person-001'') of
          (Some ip1, Some ip2) \<Rightarrow>
            fst (compare_and_set_projection example_store NoFault 0 ip1 empty_database) = Inr True \<and> P r1 r2 ip1 ip2
        | _ \<Rightarrow> False)) es2) es1"

lemma successive_checkE:
  assumes "successive_check es1 es2 P"
  obtains r1 r2 ip1 ip2 where
    "resolve_batch example_runtime es1 (default_policy example_now) = Inr r1"
    "resolve_batch example_runtime es2 (default_policy example_now) = Inr r2"
    "fmlookup (br_projections r1) ''person-001'' = Some ip1"
    "fmlookup (br_projections r2) ''person-001'' = Some ip2"
    "compare_and_set_projection example_store NoFault 0 ip1 empty_database = (Inr True, persisted ip1)"
    "P r1 r2 ip1 ip2"
  using assms unfolding successive_check_def
  by (elim result_satisfiesE) (auto simp: persisted_def prod_eq_iff split: option.splits)

lemma late_termination_evaluates:
  "successive_check [hire_v2, late_update] late_events (\<lambda>r1 r2 ip1 ip2. ip_enabled ip1 \<and>
     list_ex (\<lambda>c. latest_such (\<lambda>d. True) (accepted_of r2 ''person-001'') c \<and>
       cf_event_type c = Termination \<and> ft_source_sequence (cf_freshness c) = 20) (accepted_of r2 ''person-001'') \<and>
     map_option st_source_sequence (fmlookup (db_canonical_state (persisted ip1)) ''person-001'') = Some 30)"
  by code_simp

theorem late_termination_not_persisted_witness:
  "\<exists>r1 r2 ip1 ip2.
     resolve_batch example_runtime [hire_v2, late_update] (default_policy example_now) = Inr r1 \<and>
     fmlookup (br_projections r1) ''person-001'' = Some ip1 \<and> ip_enabled ip1 \<and>
     resolve_batch example_runtime late_events (default_policy example_now) = Inr r2 \<and>
     fmlookup (br_projections r2) ''person-001'' = Some ip2 \<and> ip_lifecycle_state ip2 = StateTerminated \<and>
     fst (compare_and_set_projection example_store NoFault 0 ip2 (persisted ip1)) \<noteq> Inr True"
proof -
  from late_termination_evaluates obtain r1 r2 ip1 ip2 where
    r: "resolve_batch example_runtime [hire_v2, late_update] (default_policy example_now) = Inr r1"
      "resolve_batch example_runtime late_events (default_policy example_now) = Inr r2"
      "fmlookup (br_projections r1) ''person-001'' = Some ip1"
    and check: "ip_enabled ip1" "list_ex (\<lambda>c. latest_such (\<lambda>d. True) (accepted_of r2 ''person-001'') c \<and>
       cf_event_type c = Termination \<and> ft_source_sequence (cf_freshness c) = 20) (accepted_of r2 ''person-001'')"
      "map_option st_source_sequence (fmlookup (db_canonical_state (persisted ip1)) ''person-001'') = Some 30"
    by (rule successive_checkE) blast
  obtain c where c: "latest_such (\<lambda>d. True) (accepted_of r2 ''person-001'') c" "cf_event_type c = Termination"
    "ft_source_sequence (cf_freshness c) = 20" using latest_suchI [OF check(2)] by blast
  obtain row where row: "fmlookup (db_canonical_state (persisted ip1)) ''person-001'' = Some row"
    "st_source_sequence row = 30" using check(3) by auto
  have "ft_source_sequence (cf_freshness c) < st_source_sequence row" using c(3) row(2) by simp
  from late_termination_not_persisted [OF r(2) c(1,2) row(1) this rtranclp.rtrancl_refl, of example_store]
  show ?thesis using r check(1) by blast
qed

text \<open>
  A retroactive correction is refused likewise: two batches that apply the same fact last give
  projections with the same freshness, whatever else they apply before it, and once one of them
  is stored the other is refused for ever.
\<close>

theorem late_correction_not_persisted:
  assumes "resolve_batch rt es1 p1 = Inr r1" "latest_such (\<lambda>d. True) (accepted_of r1 subject) c"
    and "resolve_batch rt es2 p2 = Inr r2" "latest_such (\<lambda>d. True) (accepted_of r2 subject) c"
    and "fmlookup (br_projections r1) subject = Some ip1" "fmlookup (br_projections r2) subject = Some ip2"
    and "compare_and_set_projection s fault1 expected1 ip1 db = (Inr True, db1)"
    and "(store_step s)\<^sup>*\<^sup>* db1 db2" "transp (sr_text_less s)" "irreflp (sr_text_less s)"
  shows "fst (compare_and_set_projection s fault2 expected2 ip2 db2) \<noteq> Inr True \<and>
    snd (compare_and_set_projection s fault2 expected2 ip2 db2) = db2"
proof -
  have ips: "ip_subject_id ip1 = subject" "ip_subject_id ip2 = subject" "ip_freshness ip1 = ip_freshness ip2"
    using latest_freshness [OF assms(1,2)] latest_freshness [OF assms(3,4)] assms(5,6) by (metis option.inject)+
  obtain attributes row new where row: "state_row_of s ip1 attributes = Some row"
    "cas_outcome (sr_text_less s) expected1 (fmlookup (db_canonical_state db) (ip_subject_id ip1)) row = Inr new"
    "db1 = db\<lparr>db_canonical_state := fmupd (ip_subject_id ip1) new (db_canonical_state db)\<rparr>"
    using assms(7) by (rule compare_and_set_TrueD)
  have stored: "fmlookup (db_canonical_state db1) (ip_subject_id ip2) = Some new" using row(3) ips by simp
  from row(2) have "state_order_columns new = state_order_columns row"
    by (cases rule: cas_outcome_cases) simp_all
  moreover obtain later where later: "fmlookup (db_canonical_state db2) (ip_subject_id ip2) = Some later"
    "later = new \<or> older_clause (sr_text_less s) (state_order_columns new) (state_order_columns later)"
    using reachable_direction [OF assms(8,9)] stored unfolding states_advance_def by blast
  moreover have "\<not> older_clause (sr_text_less s) a a" for a
    using assms(10) older_clause_irrefl by (metis irreflpD)
  ultimately have stale: "\<not> older_clause (sr_text_less s) (state_order_columns later) (state_order_columns row)"
    using older_clause_trans [OF assms(9)] by metis
  have "\<not> older_clause (sr_text_less s) (state_order_columns later)
      (ft_source_sequence (ip_freshness ip2), m, ft_revision_number (ip_freshness ip2), ft_event_key (ip_freshness ip2))"
    if "sr_instant s (ft_modification_time (ip_freshness ip2)) = Some m" for m
    using stale state_row_of_sel(9-12) [OF row(1)] that ips(3) by (simp add: state_order_columns_def)
  then show ?thesis by (rule compare_and_set_refused [OF later(1)])
qed

text \<open>An update that is effective before a termination that is stored already.\<close>

lemma late_correction_evaluates:
  "successive_check [hire_v2, termination_today] late_events (\<lambda>r1 r2 ip1 ip2.
     ip_attributes ip1 \<noteq> ip_attributes ip2 \<and>
     list_ex (\<lambda>c. latest_such (\<lambda>d. True) (accepted_of r1 ''person-001'') c \<and>
       latest_such (\<lambda>d. True) (accepted_of r2 ''person-001'') c) (accepted_of r1 ''person-001''))"
  by code_simp

theorem late_correction_not_persisted_witness:
  "\<exists>r1 r2 ip1 ip2.
     resolve_batch example_runtime [hire_v2, termination_today] (default_policy example_now) = Inr r1 \<and>
     fmlookup (br_projections r1) ''person-001'' = Some ip1 \<and>
     resolve_batch example_runtime late_events (default_policy example_now) = Inr r2 \<and>
     fmlookup (br_projections r2) ''person-001'' = Some ip2 \<and> ip_attributes ip1 \<noteq> ip_attributes ip2 \<and>
     fst (compare_and_set_projection example_store NoFault 0 ip2 (persisted ip1)) \<noteq> Inr True"
proof -
  from late_correction_evaluates obtain r1 r2 ip1 ip2 where
    r: "resolve_batch example_runtime [hire_v2, termination_today] (default_policy example_now) = Inr r1"
      "resolve_batch example_runtime late_events (default_policy example_now) = Inr r2"
      "fmlookup (br_projections r1) ''person-001'' = Some ip1" "fmlookup (br_projections r2) ''person-001'' = Some ip2"
      "compare_and_set_projection example_store NoFault 0 ip1 empty_database = (Inr True, persisted ip1)"
    and check: "ip_attributes ip1 \<noteq> ip_attributes ip2"
      "list_ex (\<lambda>c. latest_such (\<lambda>d. True) (accepted_of r1 ''person-001'') c \<and>
         latest_such (\<lambda>d. True) (accepted_of r2 ''person-001'') c) (accepted_of r1 ''person-001'')"
    by (rule successive_checkE) blast
  obtain c where c: "latest_such (\<lambda>d. True) (accepted_of r1 ''person-001'') c"
    "latest_such (\<lambda>d. True) (accepted_of r2 ''person-001'') c" using latest_suchI [OF check(2)] by blast
  have "irreflp (sr_text_less example_store)" by (simp add: example_store_order(1))
  from late_correction_not_persisted [OF r(1) c(1) r(2) c(2) r(3-5) rtranclp.rtrancl_refl example_store_order(2) this]
  show ?thesis using r check(1) by blast
qed

end
